(* ===== verification/Prelude.thy ===== *)
theory Prelude
  imports
    Main
    "HOL-Library.Word"
    "HOL-Library.AList"
    "HOL-Library.Multiset"
begin

text \<open>
  Shared vocabulary of the development: the machine types of the Rust sources, the outcome of
  a computation that may panic, hash maps as association lists, and the lemma collections the
  component theories extend.

  A \<open>HashMap\<close> is an association list with distinct keys: \<open>insert\<close> is \<^const>\<open>AList.update\<close>,
  \<open>remove\<close> is \<^const>\<open>AList.delete\<close>, \<open>get\<close> is \<^const>\<open>map_of\<close>, \<open>retain\<close> is \<^const>\<open>filter\<close> and
  \<open>len\<close> is \<^const>\<open>length\<close>. The list order plays no part in any of these operations.
\<close>

section \<open>Machine types\<close>

type_synonym u8 = "8 word"
type_synonym u32 = "32 word"
type_synonym u64 = "64 word"
type_synonym bytes = "8 word list"

text \<open>The \<open>ULONG\<close> of the SKF C interface and the \<open>i32\<close> of a response share 32 bits:
  the cast \<open>code as i32\<close> keeps every bit.\<close>

type_synonym i32 = "32 word"

section \<open>Computations that may panic\<close>

text \<open>A handler either returns a value or unwinds. Guards are released on both paths.\<close>

datatype 'a outcome = Ret 'a | Panic

primrec map_outcome_val :: "('a \<Rightarrow> 'b) \<Rightarrow> 'a outcome \<Rightarrow> 'b outcome" where
  "map_outcome_val f (Ret x) = Ret (f x)"
| "map_outcome_val f Panic = Panic"

section \<open>Lemma collections\<close>

named_theorems str_simps \<open>facts about the string routines\<close>
named_theorems release_intros \<open>handlers and their parts that give back every guard they take\<close>
named_theorems agree_intros \<open>handlers that cannot tell two providers apart\<close>
named_theorems raw_intros \<open>parts of a branch that give back the native handles they open\<close>
named_theorems posts_intros \<open>what the parts of a handler answer\<close>

section \<open>Lists\<close>

lemma concat_map_Nil_iff: "concat (map f xs) = [] \<longleftrightarrow> (\<forall>x \<in> set xs. f x = [])"
  by simp

section \<open>Association lists as hash maps\<close>

abbreviation keys_of :: "('k \<times> 'v) list \<Rightarrow> 'k list" where
  "keys_of m \<equiv> map fst m"

abbreviation wf_table :: "('k \<times> 'v) list \<Rightarrow> bool" where
  "wf_table m \<equiv> distinct (keys_of m)"

lemma wf_table_update [simp]: "wf_table m \<Longrightarrow> wf_table (AList.update k v m)"
  by (rule distinct_update)

lemma wf_table_delete [simp]: "wf_table m \<Longrightarrow> wf_table (AList.delete k m)"
  by (rule distinct_delete)

lemma wf_table_filter [simp]: "wf_table m \<Longrightarrow> wf_table (filter P m)"
  by (rule distinct_map_filter)

lemma length_update_fresh:
  "map_of m k = None \<Longrightarrow> length (AList.update k v m) = Suc (length m)"
  by (induction m) (auto split: if_splits)

lemma length_update_present:
  "map_of m k = Some w \<Longrightarrow> length (AList.update k v m) = length m"
  by (induction m) (auto split: if_splits)

lemma length_delete_present:
  assumes "wf_table m" and "map_of m k = Some w"
  shows "Suc (length (AList.delete k m)) = length m"
  using assms
proof (induction m)
  case Nil
  then show ?case by simp
next
  case (Cons p m)
  obtain a b where p: "p = (a, b)" by (cases p)
  show ?case
  proof (cases "a = k")
    case True
    with Cons.prems p have "k \<notin> fst ` set m" by simp
    then have "AList.delete k m = m" by (rule delete_id)
    with True p show ?thesis by simp
  next
    case False
    with Cons p show ?thesis by simp
  qed
qed

lemma set_update_fresh:
  "map_of m k = None \<Longrightarrow> set (AList.update k v m) = insert (k, v) (set m)"
  by (induction m) (auto split: if_splits)

lemma set_delete: "set (AList.delete k m) = {p \<in> set m. fst p \<noteq> k}"
  by (induction m) auto

lemma map_of_filter_key:
  "map_of (filter (\<lambda>(k, v). P k) m) k = (if P k then map_of m k else None)"
  by (induction m) auto

text \<open>The values a table holds, with multiplicity: what a guard ledger counts.\<close>

lemma mset_values_update_fresh:
  "map_of m k = None \<Longrightarrow>
    mset (map snd (AList.update k v m)) = add_mset v (mset (map snd m))"
  by (induction m) (auto split: if_splits)

lemma mset_values_delete:
  assumes "wf_table m" and "map_of m k = Some v"
  shows "mset (map snd m) = add_mset v (mset (map snd (AList.delete k m)))"
  using assms
proof (induction m)
  case Nil
  then show ?case by simp
next
  case (Cons p m)
  obtain a b where p: "p = (a, b)" by (cases p)
  show ?case
  proof (cases "a = k")
    case True
    with Cons.prems p have "k \<notin> fst ` set m" by simp
    then have "AList.delete k m = m" by (rule delete_id)
    with True p Cons.prems show ?thesis by simp
  next
    case False
    with Cons p show ?thesis by simp
  qed
qed

end
