(* ===== verification/RustStr.thy ===== *)
theory RustStr
  imports Prelude "HOL-Library.Sublist"
begin

text \<open>
  The parts of Rust's \<open>str\<close> and formatting library that the sources use. A string is the list
  of its UTF-8 bytes, each an 8-bit \<^typ>\<open>char\<close>, so \<open>len\<close> is \<^const>\<open>length\<close> and a search for an
  ASCII separator is a search for one element. The Unicode case tables are not modelled: they
  are the parameter \<open>unicode_upper\<close> of \<open>to_uppercase\<close>.
\<close>

section \<open>Bytes, ASCII case, white space\<close>

definition as_bytes :: "string \<Rightarrow> bytes" where
  "as_bytes s = map of_char s"

definition utf8 :: "nat list \<Rightarrow> string" where
  "utf8 ns = map char_of ns"

definition is_ascii :: "string \<Rightarrow> bool" where
  "is_ascii s \<longleftrightarrow> list_all (\<lambda>c. of_char c < (128::nat)) s"

definition ascii_upper_char :: "char \<Rightarrow> char" where
  "ascii_upper_char c =
    (let n = of_char c :: nat in if 97 \<le> n \<and> n \<le> 122 then char_of (n - 32) else c)"

definition ascii_lower_char :: "char \<Rightarrow> char" where
  "ascii_lower_char c =
    (let n = of_char c :: nat in if 65 \<le> n \<and> n \<le> 90 then char_of (n + 32) else c)"

definition to_ascii_lowercase :: "string \<Rightarrow> string" where
  "to_ascii_lowercase s = map ascii_lower_char s"

definition eq_ignore_ascii_case :: "string \<Rightarrow> string \<Rightarrow> bool" where
  "eq_ignore_ascii_case s t \<longleftrightarrow> to_ascii_lowercase s = to_ascii_lowercase t"

text \<open>\<open>str::to_uppercase\<close> follows the Unicode tables; on ASCII text it is the ASCII map.\<close>

definition to_uppercase :: "(string \<Rightarrow> string) \<Rightarrow> string \<Rightarrow> string" where
  "to_uppercase unicode_upper s =
    (if is_ascii s then map ascii_upper_char s else unicode_upper s)"

text \<open>The UTF-8 encodings of the characters with the Unicode property \<open>White_Space\<close>.\<close>

definition white_space :: "string list" where
  "white_space =
    map utf8 ([[9], [10], [11], [12], [13], [32], [194, 133], [194, 160], [225, 154, 128],
      [226, 128, 168], [226, 128, 169], [226, 128, 175], [226, 129, 159], [227, 128, 128]]
      @ map (\<lambda>n. [226, 128, n]) [128..<139])"

fun drop_prefixes :: "string list \<Rightarrow> string \<Rightarrow> string" where
  "drop_prefixes ws [] = []"
| "drop_prefixes ws (c # s) =
    (case find (\<lambda>w. w \<noteq> [] \<and> prefix w (c # s)) ws of
      None \<Rightarrow> c # s
    | Some w \<Rightarrow> drop_prefixes ws (drop (length w - 1) s))"

definition trim_start :: "string \<Rightarrow> string" where
  "trim_start s = drop_prefixes white_space s"

definition trim_end :: "string \<Rightarrow> string" where
  "trim_end s = rev (drop_prefixes (map rev white_space) (rev s))"

definition trim :: "string \<Rightarrow> string" where
  "trim s = trim_end (trim_start s)"

section \<open>Searching and splitting\<close>

fun contains :: "string \<Rightarrow> string \<Rightarrow> bool" where
  "contains pat [] \<longleftrightarrow> pat = []"
| "contains pat (c # s) \<longleftrightarrow> prefix pat (c # s) \<or> contains pat s"

text \<open>\<open>s.replace(pat, "")\<close> for a non-empty pattern: matches are found left to right and do
  not overlap.\<close>

fun remove_all :: "string \<Rightarrow> string \<Rightarrow> string" where
  "remove_all pat [] = []"
| "remove_all pat (c # s) =
    (if pat \<noteq> [] \<and> prefix pat (c # s) then remove_all pat (drop (length pat - 1) s)
     else c # remove_all pat s)"

fun split_once :: "char \<Rightarrow> string \<Rightarrow> (string \<times> string) option" where
  "split_once c [] = None"
| "split_once c (x # xs) =
    (if x = c then Some ([], xs)
     else case split_once c xs of None \<Rightarrow> None | Some (a, b) \<Rightarrow> Some (x # a, b))"

fun splitn :: "nat \<Rightarrow> char \<Rightarrow> string \<Rightarrow> string list" where
  "splitn 0 c s = []"
| "splitn (Suc 0) c s = [s]"
| "splitn (Suc (Suc n)) c s =
    (case split_once c s of None \<Rightarrow> [s] | Some (a, b) \<Rightarrow> a # splitn (Suc n) c b)"

fun split :: "char \<Rightarrow> string \<Rightarrow> string list" where
  "split c [] = [[]]"
| "split c (x # xs) =
    (if x = c then [] # split c xs
     else case split c xs of [] \<Rightarrow> [[x]] | y # ys \<Rightarrow> (x # y) # ys)"

fun join :: "char \<Rightarrow> string list \<Rightarrow> string" where
  "join c [] = []"
| "join c [s] = s"
| "join c (s # t # ts) = s @ [c] @ join c (t # ts)"

section \<open>Numbers as text\<close>

definition digit_char :: "nat \<Rightarrow> char" where
  "digit_char n = ''0123456789abcdef'' ! n"

definition upper_digit_char :: "nat \<Rightarrow> char" where
  "upper_digit_char n = ''0123456789ABCDEF'' ! n"

text \<open>\<open>format!("{}", n)\<close> of an unsigned integer.\<close>

fun show_nat :: "nat \<Rightarrow> string" where
  "show_nat n =
    (if n < 10 then [digit_char n] else show_nat (n div 10) @ [digit_char (n mod 10)])"

declare show_nat.simps [simp del]

text \<open>\<open>{:08X}\<close> of a \<open>u32\<close>, \<open>{:02X}\<close> and \<open>{:02x}\<close> of a byte: the field is never too small.\<close>

definition fmt_08X :: "u32 \<Rightarrow> string" where
  "fmt_08X w = map (\<lambda>i. upper_digit_char (unat w div 16 ^ i mod 16)) (rev [0..<8])"

definition fmt_02X :: "u8 \<Rightarrow> string" where
  "fmt_02X b = [upper_digit_char (unat b div 16), upper_digit_char (unat b mod 16)]"

definition fmt_02x :: "u8 \<Rightarrow> string" where
  "fmt_02x b = [digit_char (unat b div 16), digit_char (unat b mod 16)]"

text \<open>\<open>char::to_digit\<close> and \<open>from_str_radix\<close> of an unsigned type with largest value \<open>max\<close>: a
  lone sign is an error, a leading \<open>+\<close> is skipped, overflow is an error.\<close>

definition digit_val :: "nat \<Rightarrow> char \<Rightarrow> nat option" where
  "digit_val radix c =
    (let n = of_char c :: nat;
         d = (if 48 \<le> n \<and> n \<le> 57 then n - 48
              else if 97 \<le> n \<and> n \<le> 122 then n - 87
              else if 65 \<le> n \<and> n \<le> 90 then n - 55 else radix)
     in if d < radix then Some d else None)"

fun parse_digits :: "nat \<Rightarrow> nat \<Rightarrow> nat \<Rightarrow> string \<Rightarrow> nat option" where
  "parse_digits radix maxv acc [] = Some acc"
| "parse_digits radix maxv acc (c # s) =
    (case digit_val radix c of
      None \<Rightarrow> None
    | Some d \<Rightarrow>
        (if maxv < acc * radix + d then None
         else parse_digits radix maxv (acc * radix + d) s))"

fun from_str_radix :: "nat \<Rightarrow> nat \<Rightarrow> string \<Rightarrow> nat option" where
  "from_str_radix radix maxv [] = None"
| "from_str_radix radix maxv (c # s) =
    (if c = CHR ''+'' \<or> c = CHR ''-'' then
       (if s = [] then None
        else if c = CHR ''+'' then parse_digits radix maxv 0 s
        else parse_digits radix maxv 0 (c # s))
     else parse_digits radix maxv 0 (c # s))"

definition parse_u64 :: "string \<Rightarrow> u64 option" where
  "parse_u64 s = map_option of_nat (from_str_radix 10 (2 ^ 64 - 1) s)"

section \<open>Facts\<close>

lemma as_bytes_simps [simp]:
  "length (as_bytes s) = length s"
  "as_bytes [] = []"
  "as_bytes (s @ t) = as_bytes s @ as_bytes t"
  by (simp_all add: as_bytes_def)

lemma eq_ignore_ascii_case_refl [simp]: "eq_ignore_ascii_case s s"
  by (simp add: eq_ignore_ascii_case_def)

lemma split_once_None_iff [str_simps]: "split_once c s = None \<longleftrightarrow> c \<notin> set s"
  by (induction s) (auto split: option.splits)

lemma split_once_append [str_simps]:
  "c \<notin> set a \<Longrightarrow> split_once c (a @ c # b) = Some (a, b)"
  by (induction a) auto

lemma split_once_SomeD:
  "split_once c s = Some (a, b) \<Longrightarrow> s = a @ c # b \<and> c \<notin> set a"
  by (induction s arbitrary: a b) (auto split: if_splits option.splits)

lemma split_ne [simp]: "split c s \<noteq> []"
  by (induction s) (auto split: list.splits)

lemma join_split [str_simps]: "join c (split c s) = s"
proof (induction s)
  case Nil
  then show ?case by simp
next
  case (Cons x xs)
  obtain y ys where "split c xs = y # ys"
    by (cases "split c xs") auto
  with Cons show ?case by (cases ys) auto
qed

lemma splitn_length: "length (splitn n c s) \<le> n"
  by (induction n c s rule: splitn.induct) (auto split: option.splits)

lemma splitn_ne: "0 < n \<Longrightarrow> splitn n c s \<noteq> []"
  by (induction n c s rule: splitn.induct) (auto split: option.splits)

lemma join_splitn [str_simps]: "0 < n \<Longrightarrow> join c (splitn n c s) = s"
proof (induction n c s rule: splitn.induct)
  case (3 n c s)
  show ?case
  proof (cases "split_once c s")
    case (Some p)
    obtain a b where p: "p = (a, b)" by (cases p)
    with Some have s: "s = a @ c # b" by (auto dest: split_once_SomeD)
    have IH: "join c (splitn (Suc n) c b) = b"
      using "3.IH" Some p by simp
    obtain y ys where "splitn (Suc n) c b = y # ys"
      using splitn_ne [of "Suc n" c b] by (cases "splitn (Suc n) c b") auto
    with IH Some p s show ?thesis by simp
  qed simp
qed auto

text \<open>All parts but the last are free of the separator.\<close>

lemma splitn_parts_free: "p \<in> set (butlast (splitn n c s)) \<Longrightarrow> c \<notin> set p"
proof (induction n c s rule: splitn.induct)
  case (3 n c s)
  show ?case
  proof (cases "split_once c s")
    case None
    with "3.prems" show ?thesis by simp
  next
    case (Some q)
    obtain a b where q: "q = (a, b)" by (cases q)
    with Some have "c \<notin> set a" by (auto dest: split_once_SomeD)
    moreover have "p = a \<or> p \<in> set (butlast (splitn (Suc n) c b))"
      using "3.prems" Some q by (auto split: if_splits)
    ultimately show ?thesis using "3.IH" Some q by auto
  qed
qed auto

lemma digit_val_digit_char: "n < 10 \<Longrightarrow> digit_val 10 (digit_char n) = Some n"
  by (auto simp: digit_val_def digit_char_def less_Suc_eq numeral_eq_Suc)

lemma show_nat_ne [simp]: "show_nat n \<noteq> []"
  by (subst show_nat.simps) simp

lemma digit_char_set: "n < 10 \<Longrightarrow> digit_char n \<in> set ''0123456789''"
  by (auto simp: digit_char_def less_Suc_eq numeral_eq_Suc)

lemma show_nat_digits: "set (show_nat n) \<subseteq> set ''0123456789''"
proof (induction n rule: show_nat.induct)
  case (1 n)
  have "digit_char (n mod 10) \<in> set ''0123456789''" by (rule digit_char_set) simp
  with 1 show ?case
    by (subst show_nat.simps) (auto dest: digit_char_set)
qed

text \<open>Reading back what was printed: the value, whatever was read before it.\<close>

lemma parse_digits_append:
  "parse_digits r m acc (s @ t) =
    (case parse_digits r m acc s of None \<Rightarrow> None | Some acc' \<Rightarrow> parse_digits r m acc' t)"
  by (induction s arbitrary: acc) (auto split: option.splits)

lemma parse_digits_show_nat: "n \<le> m \<Longrightarrow> parse_digits 10 m 0 (show_nat n) = Some n"
proof (induction n rule: show_nat.induct)
  case (1 n)
  show ?case
  proof (cases "n < 10")
    case True
    with "1.prems" show ?thesis
      by (subst show_nat.simps) (simp add: digit_val_digit_char)
  next
    case False
    have "n div 10 \<le> m" using "1.prems" by (meson div_le_dividend le_trans)
    with 1 False have IH: "parse_digits 10 m 0 (show_nat (n div 10)) = Some (n div 10)"
      by blast
    have "n div 10 * 10 + n mod 10 = n" by simp
    with False IH "1.prems" show ?thesis
      by (subst show_nat.simps) (simp add: parse_digits_append digit_val_digit_char)
  qed
qed

lemma show_nat_hd: "hd (show_nat n) \<in> set ''0123456789''"
  using show_nat_digits [of n] hd_in_set [OF show_nat_ne] by blast

lemma from_str_radix_show_nat:
  assumes "n \<le> m"
  shows "from_str_radix 10 m (show_nat n) = Some n"
proof -
  obtain c s where cs: "show_nat n = c # s" by (cases "show_nat n") auto
  then have "c \<in> set ''0123456789''" using show_nat_hd [of n] by simp
  then have "c \<noteq> CHR ''+'' \<and> c \<noteq> CHR ''-''" by auto
  with parse_digits_show_nat [OF assms] cs show ?thesis by simp
qed

lemma parse_u64_show_nat [str_simps]: "parse_u64 (show_nat (unat w)) = Some w"
proof -
  have "unat w < 2 ^ 64" using unsigned_less [of w] by simp
  then have "unat w \<le> 2 ^ 64 - 1" by simp
  from from_str_radix_show_nat [OF this] show ?thesis
    unfolding parse_u64_def by simp
qed

lemma show_nat_inj [simp]: "show_nat m = show_nat n \<longleftrightarrow> m = n"
proof
  assume eq: "show_nat m = show_nat n"
  have "Some m = parse_digits 10 (max m n) 0 (show_nat m)"
    by (rule parse_digits_show_nat [symmetric]) simp
  also have "\<dots> = parse_digits 10 (max m n) 0 (show_nat n)"
    by (simp only: eq)
  also have "\<dots> = Some n"
    by (rule parse_digits_show_nat) simp
  finally show "m = n" by simp
qed simp

lemma fmt_lengths [simp]:
  "length (fmt_08X w) = 8" "length (fmt_02X b) = 2" "length (fmt_02x b) = 2"
  by (simp_all add: fmt_08X_def fmt_02X_def fmt_02x_def)

text \<open>Trimming leaves a string alone that starts and ends with a printable ASCII character.\<close>

definition plain_char :: "char \<Rightarrow> bool" where
  "plain_char c \<longleftrightarrow> (let n = of_char c :: nat in 33 \<le> n \<and> n < 128)"

lemma drop_prefixes_id:
  "(\<forall>w \<in> set ws. w \<noteq> [] \<longrightarrow> hd w \<noteq> c) \<Longrightarrow> drop_prefixes ws (c # s) = c # s"
  by (auto simp: find_Some_iff neq_Nil_conv prefix_Cons split: option.splits
      dest!: nth_mem)

lemma white_space_ends:
  "list_all (\<lambda>w. w \<noteq> [] \<and> \<not> plain_char (hd w) \<and> \<not> plain_char (last w)) white_space"
  by code_simp

lemma trim_plain:
  assumes "s \<noteq> []" and "plain_char (hd s)" and "plain_char (last s)"
  shows "trim s = s"
proof -
  have ends: "w \<noteq> [] \<and> \<not> plain_char (hd w) \<and> \<not> plain_char (last w)" if "w \<in> set white_space" for w
    using white_space_ends that by (auto simp: list_all_iff)
  obtain c t where ct: "s = c # t" using assms(1) by (cases s) auto
  have "trim_start s = s"
    unfolding trim_start_def ct using ends assms(2) ct by (intro drop_prefixes_id) auto
  moreover obtain d u where du: "rev s = d # u" using assms(1) by (cases "rev s") auto
  have d: "d = last s" using du assms(1) by (metis hd_rev list.sel(1))
  have "drop_prefixes (map rev white_space) (rev s) = rev s"
    unfolding du
  proof (rule drop_prefixes_id, intro ballI impI)
    fix w
    assume "w \<in> set (map rev white_space)"
    then obtain v where v: "v \<in> set white_space" "w = rev v" by auto
    with ends [of v] have "\<not> plain_char (hd w)" by (simp add: hd_rev)
    with assms(3) d show "hd w \<noteq> d" by auto
  qed
  ultimately show ?thesis by (simp add: trim_def trim_end_def)
qed

lemma trim_Nil [simp]: "trim [] = []"
  by (simp add: trim_def trim_start_def trim_end_def)

lemma trim_single_plain: "plain_char c \<Longrightarrow> trim [c] = [c]"
  by (rule trim_plain) simp_all

end
