(* ===== verification/Protocol.thy ===== *)
theory Protocol
  imports RustStr
begin

text \<open>
  The wire types (\<open>src/protocol/mod.rs\<close>) and the typed reader of positional parameters
  (\<open>src/protocol/params.rs\<close>). JSON text is read and written by \<open>serde_json\<close> and base64 text by
  the \<open>base64\<close> crate; the model starts from parsed values, and the base64 engine is the
  record \<open>codec\<close> that the readers take as an argument.
\<close>

section \<open>JSON values\<close>

text \<open>\<open>serde_json::Value\<close>. A number is a non-negative integer that fits 64 bits, a negative
  one, or a float (kept as its IEEE bit pattern: no code here looks at it).\<close>

datatype json_number = PosInt u64 | NegInt int | Float u64

datatype json =
    Null
  | Boolean bool
  | Number json_number
  | String string
  | Array "json list"
  | Object "(string \<times> json) list"

fun as_str :: "json \<Rightarrow> string option" where
  "as_str (String s) = Some s"
| "as_str _ = None"

fun as_u64 :: "json \<Rightarrow> u64 option" where
  "as_u64 (Number (PosInt n)) = Some n"
| "as_u64 _ = None"

fun as_bool :: "json \<Rightarrow> bool option" where
  "as_bool (Boolean b) = Some b"
| "as_bool _ = None"

definition json_u32 :: "u32 \<Rightarrow> json" where
  "json_u32 n = Number (PosInt (ucast n))"

section \<open>Requests and responses\<close>

record rpc_request =
  req_method :: string
  req_params :: "json list"
  req_id :: "json option"
  req_api_version :: "u32 option"

record rpc_response =
  resp_error :: i32
  resp_result :: json
  resp_message :: "string option"
  resp_id :: "json option"

definition rpc_ok :: "json \<Rightarrow> json option \<Rightarrow> rpc_response" where
  "rpc_ok result ident =
    \<lparr>resp_error = 0, resp_result = result, resp_message = None, resp_id = ident\<rparr>"

definition rpc_err :: "i32 \<Rightarrow> string \<Rightarrow> json option \<Rightarrow> rpc_response" where
  "rpc_err code msg ident =
    \<lparr>resp_error = code, resp_result = Null, resp_message = Some msg, resp_id = ident\<rparr>"

datatype language = EN | CN

text \<open>The fields that reach the wire: \<open>skip_serializing_if\<close> drops a null result, an absent
  message and an absent id.\<close>

definition rpc_fields :: "rpc_response \<Rightarrow> (string \<times> json) list" where
  "rpc_fields r =
    [(''error'',
      if sint (resp_error r) < 0 then Number (NegInt (sint (resp_error r)))
      else Number (PosInt (ucast (resp_error r))))]
    @ (if resp_result r = Null then [] else [(''result'', resp_result r)])
    @ (case resp_message r of None \<Rightarrow> [] | Some m \<Rightarrow> [(''message'', String m)])
    @ (case resp_id r of None \<Rightarrow> [] | Some i \<Rightarrow> [(''id'', i)])"

section \<open>Positional parameters\<close>

text \<open>The base64 engine: \<open>Inl\<close> carries the text of its decode error.\<close>

record codec =
  b64_encode :: "bytes \<Rightarrow> string"
  b64_decode :: "string \<Rightarrow> string + bytes"

text \<open>What the process takes from its surroundings: the base64 engine, the environment
  variables, the Unicode upper-case tables, the text of a list of strings under \<open>{:?}\<close>, and
  the largest instant the platform's monotonic clock can represent (in nanoseconds).\<close>

record runtime =
  rt_codec :: codec
  env_var :: "string \<Rightarrow> string option"
  unicode_upper :: "string \<Rightarrow> string"
  debug_list :: "string list \<Rightarrow> string"
  instant_max :: nat

record params =
  param_values :: "json list"
  params_id :: "json option"

definition MAX_PAYLOAD_BYTES :: nat where
  "MAX_PAYLOAD_BYTES = 256 * 1024"

definition MAX_ENCODED_BYTES :: nat where
  "MAX_ENCODED_BYTES = MAX_PAYLOAD_BYTES div 3 * 4 + 4"

definition new_params :: "json list \<Rightarrow> json option \<Rightarrow> params" where
  "new_params vs ident = \<lparr>param_values = vs, params_id = ident\<rparr>"

definition params_len :: "params \<Rightarrow> nat" where
  "params_len p = length (param_values p)"

definition params_is_empty :: "params \<Rightarrow> bool" where
  "params_is_empty p \<longleftrightarrow> param_values p = []"

definition raw :: "params \<Rightarrow> nat \<Rightarrow> json option" where
  "raw p i = (if i < length (param_values p) then Some (param_values p ! i) else None)"

definition reject :: "params \<Rightarrow> string \<Rightarrow> rpc_response" where
  "reject p msg = rpc_err (- 2) msg (params_id p)"

definition required_str :: "params \<Rightarrow> nat \<Rightarrow> string \<Rightarrow> rpc_response + string" where
  "required_str p i msg =
    (case Option.bind (raw p i) as_str of Some s \<Rightarrow> Inr s | None \<Rightarrow> Inl (reject p msg))"

definition optional_str :: "params \<Rightarrow> nat \<Rightarrow> string \<Rightarrow> string" where
  "optional_str p i dflt = (case Option.bind (raw p i) as_str of Some s \<Rightarrow> s | None \<Rightarrow> dflt)"

definition required_u64 :: "params \<Rightarrow> nat \<Rightarrow> string \<Rightarrow> rpc_response + u64" where
  "required_u64 p i msg =
    (case Option.bind (raw p i) as_u64 of Some n \<Rightarrow> Inr n | None \<Rightarrow> Inl (reject p msg))"

definition optional_u64 :: "params \<Rightarrow> nat \<Rightarrow> u64 \<Rightarrow> u64" where
  "optional_u64 p i dflt = (case Option.bind (raw p i) as_u64 of Some n \<Rightarrow> n | None \<Rightarrow> dflt)"

definition optional_bool :: "params \<Rightarrow> nat \<Rightarrow> bool \<Rightarrow> bool" where
  "optional_bool p i dflt = (case Option.bind (raw p i) as_bool of Some b \<Rightarrow> b | None \<Rightarrow> dflt)"

definition check_payload_len :: "params \<Rightarrow> string \<Rightarrow> rpc_response + unit" where
  "check_payload_len p encoded =
    (if MAX_ENCODED_BYTES < length encoded then
       Inl (reject p (''Payload too large: '' @ show_nat (length encoded) @ '' bytes (limit ''
              @ show_nat MAX_PAYLOAD_BYTES @ '')''))
     else Inr ())"

definition decode_base64 :: "codec \<Rightarrow> params \<Rightarrow> string \<Rightarrow> string \<Rightarrow> rpc_response + bytes" where
  "decode_base64 C p encoded msg =
    (case check_payload_len p encoded of
      Inl e \<Rightarrow> Inl e
    | Inr _ \<Rightarrow>
        (case b64_decode C encoded of
          Inl e \<Rightarrow> Inl (reject p (msg @ '': '' @ e))
        | Inr b \<Rightarrow> Inr b))"

definition required_base64 :: "codec \<Rightarrow> params \<Rightarrow> nat \<Rightarrow> string \<Rightarrow> rpc_response + bytes" where
  "required_base64 C p i msg =
    (case required_str p i msg of Inl e \<Rightarrow> Inl e | Inr enc \<Rightarrow> decode_base64 C p enc msg)"

definition optional_base64 :: "codec \<Rightarrow> params \<Rightarrow> nat \<Rightarrow> bytes" where
  "optional_base64 C p i =
    (case Option.bind (raw p i) as_str of
      None \<Rightarrow> []
    | Some enc \<Rightarrow>
        (if enc = [] then []
         else case b64_decode C enc of Inl _ \<Rightarrow> [] | Inr b \<Rightarrow> b))"

lemmas params_defs =
  required_str_def optional_str_def required_u64_def optional_u64_def optional_bool_def
  check_payload_len_def decode_base64_def required_base64_def optional_base64_def

section \<open>Facts\<close>

lemma rpc_ok_simps [simp]:
  "resp_error (rpc_ok r i) = 0" "resp_result (rpc_ok r i) = r"
  "resp_message (rpc_ok r i) = None" "resp_id (rpc_ok r i) = i"
  by (simp_all add: rpc_ok_def)

lemma rpc_err_simps [simp]:
  "resp_error (rpc_err c m i) = c" "resp_result (rpc_err c m i) = Null"
  "resp_message (rpc_err c m i) = Some m" "resp_id (rpc_err c m i) = i"
  by (simp_all add: rpc_err_def)

lemma reject_simps [simp]:
  "resp_error (reject p m) = - 2" "resp_id (reject p m) = params_id p"
  "resp_message (reject p m) = Some m" "resp_result (reject p m) = Null"
  by (simp_all add: reject_def)

text \<open>Every reader answers a request it refuses with code \<open>-2\<close> and the request's own id.\<close>

definition rejects_with :: "params \<Rightarrow> rpc_response \<Rightarrow> bool" where
  "rejects_with p e \<longleftrightarrow>
    resp_error e = - 2 \<and> resp_id e = params_id p \<and> resp_result e = Null \<and> resp_message e \<noteq> None"

lemma rejects_with_reject [simp, intro]: "rejects_with p (reject p m)"
  by (simp add: rejects_with_def)

lemma required_str_rejects: "required_str p i m = Inl e \<Longrightarrow> rejects_with p e"
  by (auto simp: required_str_def split: option.splits)

lemma required_u64_rejects: "required_u64 p i m = Inl e \<Longrightarrow> rejects_with p e"
  by (auto simp: required_u64_def split: option.splits)

lemma check_payload_len_rejects: "check_payload_len p s = Inl e \<Longrightarrow> rejects_with p e"
  by (auto simp: check_payload_len_def split: if_splits)

lemma decode_base64_rejects: "decode_base64 C p s m = Inl e \<Longrightarrow> rejects_with p e"
  by (auto simp: decode_base64_def check_payload_len_rejects split: sum.splits)

lemma required_base64_rejects: "required_base64 C p i m = Inl e \<Longrightarrow> rejects_with p e"
  by (auto simp: required_base64_def required_str_rejects decode_base64_rejects split: sum.splits)

lemma max_encoded: "MAX_ENCODED_BYTES = 349528"
  by (simp add: MAX_ENCODED_BYTES_def MAX_PAYLOAD_BYTES_def)

lemma check_payload_len_ok_iff: "check_payload_len p s = Inr u \<longleftrightarrow> length s \<le> 349528"
  by (auto simp: check_payload_len_def max_encoded)

lemma decode_base64_ok_iff:
  "decode_base64 C p s m = Inr b \<longleftrightarrow> length s \<le> 349528 \<and> b64_decode C s = Inr b"
  by (auto simp: decode_base64_def check_payload_len_def max_encoded split: sum.splits)

end
