(* ===== verification/Handles.thy ===== *)
theory Handles
  imports Protocol
begin

text \<open>
  Opaque handles of one session (\<open>src/session/handles.rs\<close>): a counter shared by four tables, one
  per kind of resource, keyed by the handle text. The guard types are type variables: the
  table owns guards of whatever provider opened them. The counter is a 64-bit integer whose
  increment wraps in a release build.
\<close>

datatype handle_error = Unknown | WrongKind

datatype resource_kind = Device | Application | Container | Digest

primrec kind_prefix :: "resource_kind \<Rightarrow> string" where
  "kind_prefix Device = ''dev''"
| "kind_prefix Application = ''app''"
| "kind_prefix Container = ''cnt''"
| "kind_prefix Digest = ''hsh''"

definition prefix_of :: "string \<Rightarrow> string option" where
  "prefix_of h = map_option fst (split_once CHR ''-'' h)"

definition from_prefix :: "string \<Rightarrow> resource_kind option" where
  "from_prefix p =
    (if p = ''dev'' then Some Device
     else if p = ''app'' then Some Application
     else if p = ''cnt'' then Some Container
     else if p = ''hsh'' then Some Digest
     else None)"

record ('d, 'a, 'c, 'h) handle_table =
  next_id :: u64
  devices :: "(string \<times> 'd) list"
  applications :: "(string \<times> 'a) list"
  containers :: "(string \<times> 'c) list"
  digests :: "(string \<times> 'h) list"

definition new_handle_table :: "('d, 'a, 'c, 'h) handle_table" where
  "new_handle_table =
    \<lparr>next_id = 0, devices = [], applications = [], containers = [], digests = []\<rparr>"

definition mint ::
  "resource_kind \<Rightarrow> ('d, 'a, 'c, 'h) handle_table \<Rightarrow> string \<times> ('d, 'a, 'c, 'h) handle_table" where
  "mint k t =
    (let t' = t\<lparr>next_id := next_id t + 1\<rparr>
     in (kind_prefix k @ ''-'' @ show_nat (unat (next_id t')), t'))"

definition check_handle :: "string \<Rightarrow> resource_kind \<Rightarrow> handle_error + unit" where
  "check_handle h expected =
    (case prefix_of h of
      Some p \<Rightarrow>
        (case from_prefix p of
          Some k \<Rightarrow> if k = expected then Inr () else Inl WrongKind
        | None \<Rightarrow> Inl WrongKind)
    | None \<Rightarrow> Inl WrongKind)"

definition issue_device ::
  "'d \<Rightarrow> ('d, 'a, 'c, 'h) handle_table \<Rightarrow> string \<times> ('d, 'a, 'c, 'h) handle_table" where
  "issue_device g t =
    (case mint Device t of (h, t') \<Rightarrow> (h, t'\<lparr>devices := AList.update h g (devices t')\<rparr>))"

definition get_device :: "string \<Rightarrow> ('d, 'a, 'c, 'h) handle_table \<Rightarrow> handle_error + 'd" where
  "get_device h t =
    (case check_handle h Device of
      Inl e \<Rightarrow> Inl e
    | Inr _ \<Rightarrow> (case map_of (devices t) h of None \<Rightarrow> Inl Unknown | Some g \<Rightarrow> Inr g))"

definition remove_device ::
  "string \<Rightarrow> ('d, 'a, 'c, 'h) handle_table \<Rightarrow> (handle_error + 'd) \<times> ('d, 'a, 'c, 'h) handle_table" where
  "remove_device h t =
    (case check_handle h Device of
      Inl e \<Rightarrow> (Inl e, t)
    | Inr _ \<Rightarrow>
        (case map_of (devices t) h of
          None \<Rightarrow> (Inl Unknown, t)
        | Some g \<Rightarrow> (Inr g, t\<lparr>devices := AList.delete h (devices t)\<rparr>)))"

definition issue_application ::
  "'a \<Rightarrow> ('d, 'a, 'c, 'h) handle_table \<Rightarrow> string \<times> ('d, 'a, 'c, 'h) handle_table" where
  "issue_application g t =
    (case mint Application t of (h, t') \<Rightarrow> (h, t'\<lparr>applications := AList.update h g (applications t')\<rparr>))"

definition get_application :: "string \<Rightarrow> ('d, 'a, 'c, 'h) handle_table \<Rightarrow> handle_error + 'a" where
  "get_application h t =
    (case check_handle h Application of
      Inl e \<Rightarrow> Inl e
    | Inr _ \<Rightarrow> (case map_of (applications t) h of None \<Rightarrow> Inl Unknown | Some g \<Rightarrow> Inr g))"

definition remove_application ::
  "string \<Rightarrow> ('d, 'a, 'c, 'h) handle_table \<Rightarrow> (handle_error + 'a) \<times> ('d, 'a, 'c, 'h) handle_table" where
  "remove_application h t =
    (case check_handle h Application of
      Inl e \<Rightarrow> (Inl e, t)
    | Inr _ \<Rightarrow>
        (case map_of (applications t) h of
          None \<Rightarrow> (Inl Unknown, t)
        | Some g \<Rightarrow> (Inr g, t\<lparr>applications := AList.delete h (applications t)\<rparr>)))"

definition issue_container ::
  "'c \<Rightarrow> ('d, 'a, 'c, 'h) handle_table \<Rightarrow> string \<times> ('d, 'a, 'c, 'h) handle_table" where
  "issue_container g t =
    (case mint Container t of (h, t') \<Rightarrow> (h, t'\<lparr>containers := AList.update h g (containers t')\<rparr>))"

definition get_container :: "string \<Rightarrow> ('d, 'a, 'c, 'h) handle_table \<Rightarrow> handle_error + 'c" where
  "get_container h t =
    (case check_handle h Container of
      Inl e \<Rightarrow> Inl e
    | Inr _ \<Rightarrow> (case map_of (containers t) h of None \<Rightarrow> Inl Unknown | Some g \<Rightarrow> Inr g))"

definition remove_container ::
  "string \<Rightarrow> ('d, 'a, 'c, 'h) handle_table \<Rightarrow> (handle_error + 'c) \<times> ('d, 'a, 'c, 'h) handle_table" where
  "remove_container h t =
    (case check_handle h Container of
      Inl e \<Rightarrow> (Inl e, t)
    | Inr _ \<Rightarrow>
        (case map_of (containers t) h of
          None \<Rightarrow> (Inl Unknown, t)
        | Some g \<Rightarrow> (Inr g, t\<lparr>containers := AList.delete h (containers t)\<rparr>)))"

definition issue_digest ::
  "'h \<Rightarrow> ('d, 'a, 'c, 'h) handle_table \<Rightarrow> string \<times> ('d, 'a, 'c, 'h) handle_table" where
  "issue_digest g t =
    (case mint Digest t of (h, t') \<Rightarrow> (h, t'\<lparr>digests := AList.update h g (digests t')\<rparr>))"

definition get_digest :: "string \<Rightarrow> ('d, 'a, 'c, 'h) handle_table \<Rightarrow> handle_error + 'h" where
  "get_digest h t =
    (case check_handle h Digest of
      Inl e \<Rightarrow> Inl e
    | Inr _ \<Rightarrow> (case map_of (digests t) h of None \<Rightarrow> Inl Unknown | Some g \<Rightarrow> Inr g))"

definition remove_digest ::
  "string \<Rightarrow> ('d, 'a, 'c, 'h) handle_table \<Rightarrow> (handle_error + 'h) \<times> ('d, 'a, 'c, 'h) handle_table" where
  "remove_digest h t =
    (case check_handle h Digest of
      Inl e \<Rightarrow> (Inl e, t)
    | Inr _ \<Rightarrow>
        (case map_of (digests t) h of
          None \<Rightarrow> (Inl Unknown, t)
        | Some g \<Rightarrow> (Inr g, t\<lparr>digests := AList.delete h (digests t)\<rparr>)))"

definition handles_len :: "('d, 'a, 'c, 'h) handle_table \<Rightarrow> nat" where
  "handles_len t =
    length (devices t) + length (applications t) + length (containers t) + length (digests t)"

definition handles_is_empty :: "('d, 'a, 'c, 'h) handle_table \<Rightarrow> bool" where
  "handles_is_empty t \<longleftrightarrow> handles_len t = 0"

section \<open>Handle texts\<close>

abbreviation handle_text :: "resource_kind \<Rightarrow> nat \<Rightarrow> string" where
  "handle_text k n \<equiv> kind_prefix k @ ''-'' @ show_nat n"

lemma kind_prefix_plain: "CHR ''-'' \<notin> set (kind_prefix k)"
  by (cases k) simp_all

lemma from_prefix_kind_prefix [simp]: "from_prefix (kind_prefix k) = Some k"
  by (cases k) (simp_all add: from_prefix_def)

declare kind_prefix.simps [simp del]

lemma from_prefix_SomeD: "from_prefix p = Some k \<Longrightarrow> p = kind_prefix k"
  by (auto simp: from_prefix_def kind_prefix.simps split: if_splits)

lemma prefix_of_handle_text [simp]: "prefix_of (kind_prefix k @ CHR ''-'' # s) = Some (kind_prefix k)"
  using split_once_append [OF kind_prefix_plain, of k s] by (simp add: prefix_of_def)

lemma check_handle_ok_iff:
  "check_handle h k = Inr u \<longleftrightarrow> (\<exists>s. h = kind_prefix k @ CHR ''-'' # s)"
proof
  assume "check_handle h k = Inr u"
  then have "prefix_of h = Some (kind_prefix k)"
    by (auto simp: check_handle_def dest: from_prefix_SomeD split: option.splits if_splits)
  then show "\<exists>s. h = kind_prefix k @ CHR ''-'' # s"
    by (auto simp: prefix_of_def dest: split_once_SomeD)
qed (auto simp: check_handle_def)

lemma check_handle_cases: "check_handle h k = Inr () \<or> check_handle h k = Inl WrongKind"
  by (auto simp: check_handle_def split: option.splits)

lemma kind_prefix_inj [simp]: "kind_prefix k = kind_prefix k' \<longleftrightarrow> k = k'"
  by (metis from_prefix_kind_prefix option.inject)

lemma handle_text_inj [simp]:
  "kind_prefix k @ CHR ''-'' # show_nat m = kind_prefix k' @ CHR ''-'' # show_nat n
    \<longleftrightarrow> k = k' \<and> m = n"
proof
  assume eq: "kind_prefix k @ CHR ''-'' # show_nat m = kind_prefix k' @ CHR ''-'' # show_nat n"
  have "prefix_of (kind_prefix k @ CHR ''-'' # show_nat m) = Some (kind_prefix k')"
    unfolding eq by simp
  then have "k = k'" by simp
  with eq show "k = k' \<and> m = n" by simp
qed simp

lemma mint_eq:
  "mint k t = (handle_text k (unat (next_id t + 1)), t\<lparr>next_id := next_id t + 1\<rparr>)"
  by (simp add: mint_def Let_def)

section \<open>The invariant of the tables\<close>

text \<open>Every key was minted for its table, no later than the counter stands.\<close>

definition minted :: "resource_kind \<Rightarrow> u64 \<Rightarrow> string \<Rightarrow> bool" where
  "minted k n h \<longleftrightarrow> (\<exists>i. h = handle_text k i \<and> 0 < i \<and> i \<le> unat n)"

definition wf_kind :: "resource_kind \<Rightarrow> u64 \<Rightarrow> (string \<times> 'g) list \<Rightarrow> bool" where
  "wf_kind k n m \<longleftrightarrow> wf_table m \<and> (\<forall>h \<in> set (keys_of m). minted k n h)"

definition wf_handles :: "('d, 'a, 'c, 'h) handle_table \<Rightarrow> bool" where
  "wf_handles t \<longleftrightarrow>
    wf_kind Device (next_id t) (devices t)
    \<and> wf_kind Application (next_id t) (applications t)
    \<and> wf_kind Container (next_id t) (containers t)
    \<and> wf_kind Digest (next_id t) (digests t)"

text \<open>The counter has room for one more handle.\<close>

abbreviation can_mint :: "('d, 'a, 'c, 'h) handle_table \<Rightarrow> bool" where
  "can_mint t \<equiv> next_id t \<noteq> - 1"

lemma unat_succ: "(n::u64) \<noteq> - 1 \<Longrightarrow> unat (n + 1) = Suc (unat n)"
  by (metis Suc_eq_plus1 add.commute eq_neg_iff_add_eq_0 unatSuc)

lemma wf_kind_Nil [simp]: "wf_kind k n []"
  by (simp add: wf_kind_def)

lemma wf_kind_later:
  assumes "wf_kind k n m" and "n \<noteq> - 1"
  shows "wf_kind k (n + 1) m"
  using assms by (fastforce simp: wf_kind_def minted_def unat_succ)

lemma wf_kind_insert:
  assumes "wf_kind k n m" and "n \<noteq> - 1"
  shows "wf_kind k (n + 1) (AList.update (handle_text k (unat (n + 1))) g m)"
  using wf_kind_later [OF assms] assms(2)
  by (auto simp: wf_kind_def dom_update minted_def unat_succ)

lemma wf_kind_delete: "wf_kind k n m \<Longrightarrow> wf_kind k n (AList.delete h m)"
  by (auto simp: wf_kind_def delete_keys distinct_removeAll)

lemma wf_kind_fresh:
  assumes "wf_kind k n m" and "n \<noteq> - 1"
  shows "map_of m (handle_text k' (unat (n + 1))) = None"
proof -
  have "handle_text k' (unat (n + 1)) \<notin> fst ` set m"
    using assms by (fastforce simp: wf_kind_def minted_def unat_succ)
  then show ?thesis by (simp add: map_of_eq_None_iff)
qed

lemma wf_new_handle_table [simp]: "wf_handles new_handle_table"
  by (simp add: wf_handles_def new_handle_table_def)

section \<open>The contract of a resource table\<close>

text \<open>What a session relies on, for one kind of resource: a fresh handle finds its guard, a
  removed one is unknown, a handle of another kind is refused, and the number of guards held
  follows.\<close>

locale resource_table =
  fixes kind :: resource_kind
    and issue :: "'g \<Rightarrow> 't \<Rightarrow> string \<times> 't"
    and get :: "string \<Rightarrow> 't \<Rightarrow> handle_error + 'g"
    and remove :: "string \<Rightarrow> 't \<Rightarrow> (handle_error + 'g) \<times> 't"
    and wf :: "'t \<Rightarrow> bool"
    and room :: "'t \<Rightarrow> bool"
    and held :: "'t \<Rightarrow> nat"
  assumes issue_get: "issue g t = (h, t') \<Longrightarrow> get h' t' = (if h' = h then Inr g else get h' t)"
    and issue_fresh: "wf t \<Longrightarrow> room t \<Longrightarrow> issue g t = (h, t') \<Longrightarrow> get h t = Inl Unknown"
    and issue_wf: "wf t \<Longrightarrow> room t \<Longrightarrow> issue g t = (h, t') \<Longrightarrow> wf t'"
    and issue_held: "wf t \<Longrightarrow> room t \<Longrightarrow> issue g t = (h, t') \<Longrightarrow> held t' = Suc (held t)"
    and remove_result: "fst (remove h t) = get h t"
    and remove_get: "get h' (snd (remove h t)) =
          (if h' = h \<and> get h t \<noteq> Inl WrongKind then Inl Unknown else get h' t)"
    and remove_wf: "wf t \<Longrightarrow> wf (snd (remove h t))"
    and remove_held: "wf t \<Longrightarrow> get h t = Inr g \<Longrightarrow> Suc (held (snd (remove h t))) = held t"
    and remove_refused: "get h t = Inl e \<Longrightarrow> snd (remove h t) = t"
    and get_kind: "get h t = Inl WrongKind \<longleftrightarrow> check_handle h kind = Inl WrongKind"
begin

lemma issued_found: "issue g t = (h, t') \<Longrightarrow> get h t' = Inr g"
  by (simp add: issue_get)

lemma issued_kind: "issue g t = (h, t') \<Longrightarrow> check_handle h kind = Inr ()"
  using issued_found [of g t h t'] get_kind [of h t'] check_handle_cases [of h kind] by auto

lemma issues_differ:
  assumes "wf t" "room t" "issue g t = (h, t')" "room t'" "issue g' t' = (h', t'')"
  shows "h \<noteq> h'"
  using issue_fresh [OF issue_wf [OF assms(1-3)] assms(4,5)] issued_found [OF assms(3)] by auto

lemma removed_unknown: "remove h t = (Inr g, t') \<Longrightarrow> get h t' = Inl Unknown"
  using remove_get [of h h t] remove_result [of h t] by auto

lemma remove_once: "remove h t = (Inr g, t') \<Longrightarrow> remove h t' = (Inl Unknown, t')"
  using removed_unknown [of h t g t'] remove_result [of h t'] remove_refused [of h t' Unknown]
  by (simp add: prod_eq_iff)

lemma issue_remove_inverse:
  assumes "wf t" "room t" "issue g t = (h, t')"
  shows "remove h t' = (Inr g, snd (remove h t'))" "get h' (snd (remove h t')) = get h' t"
    "held (snd (remove h t')) = held t"
proof -
  have found: "get h t' = Inr g" by (rule issued_found [OF assms(3)])
  then show "remove h t' = (Inr g, snd (remove h t'))"
    using remove_result [of h t'] by (simp add: prod_eq_iff)
  show "get h' (snd (remove h t')) = get h' t"
    using found issue_fresh [OF assms] by (auto simp: remove_get issue_get [OF assms(3)])
  show "held (snd (remove h t')) = held t"
    using remove_held [OF issue_wf [OF assms] found] issue_held [OF assms] by simp
qed

end

subsection \<open>The four tables meet it\<close>

lemmas wf_kind_rules = wf_kind_later wf_kind_insert wf_kind_delete wf_kind_fresh

lemma get_kind_generic:
  "(case check_handle h k of Inl e \<Rightarrow> Inl e
     | Inr _ \<Rightarrow> (case map_of m h of None \<Rightarrow> Inl Unknown | Some g \<Rightarrow> Inr g)) = Inl WrongKind
    \<longleftrightarrow> check_handle h k = Inl WrongKind"
  using check_handle_cases [of h k] by (auto split: option.splits)

lemma check_handle_minted [simp]: "check_handle (kind_prefix k @ CHR ''-'' # s) k = Inr ()"
  by (simp add: check_handle_ok_iff)

lemma check_handle_minted_other:
  "k \<noteq> k' \<Longrightarrow> check_handle (kind_prefix k @ CHR ''-'' # s) k' = Inl WrongKind"
  by (simp add: check_handle_def)

lemma check_handle_Inl: "check_handle h k = Inl e \<longleftrightarrow> e = WrongKind \<and> check_handle h k \<noteq> Inr ()"
  using check_handle_cases [of h k] by auto

lemmas handle_table_simps =
  mint_eq update_conv' delete_conv wf_handles_def handles_len_def length_update_fresh
  length_delete_present check_handle_Inl

interpretation device_table: resource_table Device
  "issue_device :: 'd \<Rightarrow> ('d, 'a, 'c, 'h) handle_table \<Rightarrow> string \<times> ('d, 'a, 'c, 'h) handle_table"
  get_device remove_device wf_handles can_mint handles_len
proof
  fix g g' :: 'd and h h' e and t t' :: "('d, 'a, 'c, 'h) handle_table"
  show "get_device h' t' = (if h' = h then Inr g else get_device h' t)" if "issue_device g t = (h, t')"
    using that by (auto simp: issue_device_def get_device_def mint_eq update_conv' split: sum.splits)
  show "get_device h t = Inl WrongKind \<longleftrightarrow> check_handle h Device = Inl WrongKind"
    unfolding get_device_def by (rule get_kind_generic)
  show "fst (remove_device h t) = get_device h t"
    by (auto simp: remove_device_def get_device_def split: sum.splits option.splits)
  show "snd (remove_device h t) = t" if "get_device h t = Inl e"
    using that by (auto simp: remove_device_def get_device_def split: sum.splits option.splits)
  show "get_device h' (snd (remove_device h t)) =
      (if h' = h \<and> get_device h t \<noteq> Inl WrongKind then Inl Unknown else get_device h' t)"
    using check_handle_cases [of h Device]
    by (auto simp: remove_device_def get_device_def delete_conv split: sum.splits option.splits)
  show "wf_handles (snd (remove_device h t))" if "wf_handles t"
    using that by (auto simp: remove_device_def wf_handles_def wf_kind_delete split: sum.splits option.splits)
  show "Suc (handles_len (snd (remove_device h t))) = handles_len t"
    if "wf_handles t" "get_device h t = Inr g"
  proof -
    have "wf_table (devices t)" using that(1) by (simp add: wf_handles_def wf_kind_def)
    moreover have "map_of (devices t) h = Some g" "check_handle h Device = Inr ()"
      using that(2) by (auto simp: get_device_def split: sum.splits option.splits)
    ultimately show ?thesis
      using length_delete_present [of "devices t" h g] by (simp add: remove_device_def handles_len_def)
  qed
  show "get_device h t = Inl Unknown" if "wf_handles t" "can_mint t" "issue_device g t = (h, t')"
    using that wf_kind_fresh [of Device "next_id t" "devices t" Device]
    by (auto simp: issue_device_def get_device_def mint_eq wf_handles_def)
  show "wf_handles t'" if "wf_handles t" "can_mint t" "issue_device g t = (h, t')"
    using that wf_kind_insert [of Device "next_id t" "devices t" g]
    by (auto simp: issue_device_def mint_eq wf_handles_def wf_kind_later)
  show "handles_len t' = Suc (handles_len t)" if "wf_handles t" "can_mint t" "issue_device g t = (h, t')"
    using that wf_kind_fresh [of Device "next_id t" "devices t" Device]
    by (auto simp: issue_device_def mint_eq wf_handles_def handles_len_def length_update_fresh)
qed

interpretation application_table: resource_table Application
  "issue_application :: 'a \<Rightarrow> ('d, 'a, 'c, 'h) handle_table \<Rightarrow> string \<times> ('d, 'a, 'c, 'h) handle_table"
  get_application remove_application wf_handles can_mint handles_len
proof
  fix g g' :: 'a and h h' e and t t' :: "('d, 'a, 'c, 'h) handle_table"
  show "get_application h' t' = (if h' = h then Inr g else get_application h' t)" if "issue_application g t = (h, t')"
    using that by (auto simp: issue_application_def get_application_def mint_eq update_conv' split: sum.splits)
  show "get_application h t = Inl WrongKind \<longleftrightarrow> check_handle h Application = Inl WrongKind"
    unfolding get_application_def by (rule get_kind_generic)
  show "fst (remove_application h t) = get_application h t"
    by (auto simp: remove_application_def get_application_def split: sum.splits option.splits)
  show "snd (remove_application h t) = t" if "get_application h t = Inl e"
    using that by (auto simp: remove_application_def get_application_def split: sum.splits option.splits)
  show "get_application h' (snd (remove_application h t)) =
      (if h' = h \<and> get_application h t \<noteq> Inl WrongKind then Inl Unknown else get_application h' t)"
    using check_handle_cases [of h Application]
    by (auto simp: remove_application_def get_application_def delete_conv split: sum.splits option.splits)
  show "wf_handles (snd (remove_application h t))" if "wf_handles t"
    using that by (auto simp: remove_application_def wf_handles_def wf_kind_delete split: sum.splits option.splits)
  show "Suc (handles_len (snd (remove_application h t))) = handles_len t"
    if "wf_handles t" "get_application h t = Inr g"
  proof -
    have "wf_table (applications t)" using that(1) by (simp add: wf_handles_def wf_kind_def)
    moreover have "map_of (applications t) h = Some g" "check_handle h Application = Inr ()"
      using that(2) by (auto simp: get_application_def split: sum.splits option.splits)
    ultimately show ?thesis
      using length_delete_present [of "applications t" h g] by (simp add: remove_application_def handles_len_def)
  qed
  show "get_application h t = Inl Unknown" if "wf_handles t" "can_mint t" "issue_application g t = (h, t')"
    using that wf_kind_fresh [of Application "next_id t" "applications t" Application]
    by (auto simp: issue_application_def get_application_def mint_eq wf_handles_def)
  show "wf_handles t'" if "wf_handles t" "can_mint t" "issue_application g t = (h, t')"
    using that wf_kind_insert [of Application "next_id t" "applications t" g]
    by (auto simp: issue_application_def mint_eq wf_handles_def wf_kind_later)
  show "handles_len t' = Suc (handles_len t)" if "wf_handles t" "can_mint t" "issue_application g t = (h, t')"
    using that wf_kind_fresh [of Application "next_id t" "applications t" Application]
    by (auto simp: issue_application_def mint_eq wf_handles_def handles_len_def length_update_fresh)
qed

interpretation container_table: resource_table Container
  "issue_container :: 'c \<Rightarrow> ('d, 'a, 'c, 'h) handle_table \<Rightarrow> string \<times> ('d, 'a, 'c, 'h) handle_table"
  get_container remove_container wf_handles can_mint handles_len
proof
  fix g g' :: 'c and h h' e and t t' :: "('d, 'a, 'c, 'h) handle_table"
  show "get_container h' t' = (if h' = h then Inr g else get_container h' t)" if "issue_container g t = (h, t')"
    using that by (auto simp: issue_container_def get_container_def mint_eq update_conv' split: sum.splits)
  show "get_container h t = Inl WrongKind \<longleftrightarrow> check_handle h Container = Inl WrongKind"
    unfolding get_container_def by (rule get_kind_generic)
  show "fst (remove_container h t) = get_container h t"
    by (auto simp: remove_container_def get_container_def split: sum.splits option.splits)
  show "snd (remove_container h t) = t" if "get_container h t = Inl e"
    using that by (auto simp: remove_container_def get_container_def split: sum.splits option.splits)
  show "get_container h' (snd (remove_container h t)) =
      (if h' = h \<and> get_container h t \<noteq> Inl WrongKind then Inl Unknown else get_container h' t)"
    using check_handle_cases [of h Container]
    by (auto simp: remove_container_def get_container_def delete_conv split: sum.splits option.splits)
  show "wf_handles (snd (remove_container h t))" if "wf_handles t"
    using that by (auto simp: remove_container_def wf_handles_def wf_kind_delete split: sum.splits option.splits)
  show "Suc (handles_len (snd (remove_container h t))) = handles_len t"
    if "wf_handles t" "get_container h t = Inr g"
  proof -
    have "wf_table (containers t)" using that(1) by (simp add: wf_handles_def wf_kind_def)
    moreover have "map_of (containers t) h = Some g" "check_handle h Container = Inr ()"
      using that(2) by (auto simp: get_container_def split: sum.splits option.splits)
    ultimately show ?thesis
      using length_delete_present [of "containers t" h g] by (simp add: remove_container_def handles_len_def)
  qed
  show "get_container h t = Inl Unknown" if "wf_handles t" "can_mint t" "issue_container g t = (h, t')"
    using that wf_kind_fresh [of Container "next_id t" "containers t" Container]
    by (auto simp: issue_container_def get_container_def mint_eq wf_handles_def)
  show "wf_handles t'" if "wf_handles t" "can_mint t" "issue_container g t = (h, t')"
    using that wf_kind_insert [of Container "next_id t" "containers t" g]
    by (auto simp: issue_container_def mint_eq wf_handles_def wf_kind_later)
  show "handles_len t' = Suc (handles_len t)" if "wf_handles t" "can_mint t" "issue_container g t = (h, t')"
    using that wf_kind_fresh [of Container "next_id t" "containers t" Container]
    by (auto simp: issue_container_def mint_eq wf_handles_def handles_len_def length_update_fresh)
qed

interpretation digest_table: resource_table Digest
  "issue_digest :: 'h \<Rightarrow> ('d, 'a, 'c, 'h) handle_table \<Rightarrow> string \<times> ('d, 'a, 'c, 'h) handle_table"
  get_digest remove_digest wf_handles can_mint handles_len
proof
  fix g g' :: 'h and h h' e and t t' :: "('d, 'a, 'c, 'h) handle_table"
  show "get_digest h' t' = (if h' = h then Inr g else get_digest h' t)" if "issue_digest g t = (h, t')"
    using that by (auto simp: issue_digest_def get_digest_def mint_eq update_conv' split: sum.splits)
  show "get_digest h t = Inl WrongKind \<longleftrightarrow> check_handle h Digest = Inl WrongKind"
    unfolding get_digest_def by (rule get_kind_generic)
  show "fst (remove_digest h t) = get_digest h t"
    by (auto simp: remove_digest_def get_digest_def split: sum.splits option.splits)
  show "snd (remove_digest h t) = t" if "get_digest h t = Inl e"
    using that by (auto simp: remove_digest_def get_digest_def split: sum.splits option.splits)
  show "get_digest h' (snd (remove_digest h t)) =
      (if h' = h \<and> get_digest h t \<noteq> Inl WrongKind then Inl Unknown else get_digest h' t)"
    using check_handle_cases [of h Digest]
    by (auto simp: remove_digest_def get_digest_def delete_conv split: sum.splits option.splits)
  show "wf_handles (snd (remove_digest h t))" if "wf_handles t"
    using that by (auto simp: remove_digest_def wf_handles_def wf_kind_delete split: sum.splits option.splits)
  show "Suc (handles_len (snd (remove_digest h t))) = handles_len t"
    if "wf_handles t" "get_digest h t = Inr g"
  proof -
    have "wf_table (digests t)" using that(1) by (simp add: wf_handles_def wf_kind_def)
    moreover have "map_of (digests t) h = Some g" "check_handle h Digest = Inr ()"
      using that(2) by (auto simp: get_digest_def split: sum.splits option.splits)
    ultimately show ?thesis
      using length_delete_present [of "digests t" h g] by (simp add: remove_digest_def handles_len_def)
  qed
  show "get_digest h t = Inl Unknown" if "wf_handles t" "can_mint t" "issue_digest g t = (h, t')"
    using that wf_kind_fresh [of Digest "next_id t" "digests t" Digest]
    by (auto simp: issue_digest_def get_digest_def mint_eq wf_handles_def)
  show "wf_handles t'" if "wf_handles t" "can_mint t" "issue_digest g t = (h, t')"
    using that wf_kind_insert [of Digest "next_id t" "digests t" g]
    by (auto simp: issue_digest_def mint_eq wf_handles_def wf_kind_later)
  show "handles_len t' = Suc (handles_len t)" if "wf_handles t" "can_mint t" "issue_digest g t = (h, t')"
    using that wf_kind_fresh [of Digest "next_id t" "digests t" Digest]
    by (auto simp: issue_digest_def mint_eq wf_handles_def handles_len_def length_update_fresh)
qed

section \<open>Everything a session can do to its table\<close>

datatype ('d, 'a, 'c, 'h) handle_op =
    IssueDevice 'd | IssueApplication 'a | IssueContainer 'c | IssueDigest 'h
  | RemoveDevice string | RemoveApplication string | RemoveContainer string | RemoveDigest string

text \<open>One operation: the handle it hands out, if it does, and the table after it.\<close>

fun handle_step ::
  "('d, 'a, 'c, 'h) handle_op \<Rightarrow> ('d, 'a, 'c, 'h) handle_table
    \<Rightarrow> string option \<times> ('d, 'a, 'c, 'h) handle_table" where
  "handle_step (IssueDevice g) t = apfst Some (issue_device g t)"
| "handle_step (IssueApplication g) t = apfst Some (issue_application g t)"
| "handle_step (IssueContainer g) t = apfst Some (issue_container g t)"
| "handle_step (IssueDigest g) t = apfst Some (issue_digest g t)"
| "handle_step (RemoveDevice h) t = (None, snd (remove_device h t))"
| "handle_step (RemoveApplication h) t = (None, snd (remove_application h t))"
| "handle_step (RemoveContainer h) t = (None, snd (remove_container h t))"
| "handle_step (RemoveDigest h) t = (None, snd (remove_digest h t))"

fun handle_run ::
  "('d, 'a, 'c, 'h) handle_op list \<Rightarrow> ('d, 'a, 'c, 'h) handle_table
    \<Rightarrow> string list \<times> ('d, 'a, 'c, 'h) handle_table" where
  "handle_run [] t = ([], t)"
| "handle_run (op # ops) t =
    (case handle_step op t of
      (r, t') \<Rightarrow>
        (case handle_run ops t' of
          (hs, t'') \<Rightarrow> ((case r of None \<Rightarrow> hs | Some h \<Rightarrow> h # hs), t'')))"

lemma remove_next_id [simp]:
  "next_id (snd (remove_device h t)) = next_id t"
  "next_id (snd (remove_application h t)) = next_id t"
  "next_id (snd (remove_container h t)) = next_id t"
  "next_id (snd (remove_digest h t)) = next_id t"
  by (auto simp: remove_device_def remove_application_def remove_container_def remove_digest_def
      split: sum.splits option.splits)

lemma issue_shape:
  "fst (issue_device g t) = handle_text Device (unat (next_id t + 1))"
  "next_id (snd (issue_device g t)) = next_id t + 1"
  "fst (issue_application b t) = handle_text Application (unat (next_id t + 1))"
  "next_id (snd (issue_application b t)) = next_id t + 1"
  "fst (issue_container c t) = handle_text Container (unat (next_id t + 1))"
  "next_id (snd (issue_container c t)) = next_id t + 1"
  "fst (issue_digest d t) = handle_text Digest (unat (next_id t + 1))"
  "next_id (snd (issue_digest d t)) = next_id t + 1"
  by (simp_all add: issue_device_def issue_application_def issue_container_def issue_digest_def
      mint_eq)

lemma handle_step_shape:
  assumes "handle_step op t = (r, t')"
  shows "(r = None \<and> next_id t' = next_id t)
    \<or> (\<exists>k. r = Some (handle_text k (unat (next_id t + 1))) \<and> next_id t' = next_id t + 1)"
  using assms by (cases op) (auto simp: apfst_def map_prod_def split_beta issue_shape)

lemma handle_step_wf:
  assumes "handle_step op t = (r, t')" "wf_handles t" "can_mint t"
  shows "wf_handles t'"
  using assms
  by (cases op)
    (auto simp: apfst_def map_prod_def split_beta
      device_table.remove_wf application_table.remove_wf
      container_table.remove_wf digest_table.remove_wf
      intro: device_table.issue_wf [OF _ _ surjective_pairing]
        application_table.issue_wf [OF _ _ surjective_pairing]
        container_table.issue_wf [OF _ _ surjective_pairing]
        digest_table.issue_wf [OF _ _ surjective_pairing])

text \<open>The handles of a run carry numbers above the counter it starts from, in order.\<close>

lemma handle_run_numbers:
  assumes "handle_run ops t = (hs, t')" "wf_handles t" "unat (next_id t) + length ops < 2 ^ 64"
  shows "wf_handles t' \<and> distinct hs
    \<and> (\<forall>h \<in> set hs. \<exists>k i. h = handle_text k i \<and> unat (next_id t) < i)"
  using assms
proof (induction ops arbitrary: t hs t')
  case Nil
  then show ?case by simp
next
  case (Cons op ops)
  obtain r u where step: "handle_step op t = (r, u)" by (cases "handle_step op t")
  obtain gs where run: "handle_run ops u = (gs, t')"
    and hs: "hs = (case r of None \<Rightarrow> gs | Some h \<Rightarrow> h # gs)"
    using Cons.prems(1) step by (auto split: prod.splits)
  have room: "can_mint t"
  proof
    assume "next_id t = - 1"
    then have "unat (next_id t) = 2 ^ 64 - 1"
      by (simp add: unsigned_minus_1_eq_mask mask_eq_exp_minus_1)
    with Cons.prems(3) show False by simp
  qed
  have wf: "wf_handles u" using handle_step_wf [OF step Cons.prems(2) room] .
  from handle_step_shape [OF step] consider
      (keep) "r = None" "next_id u = next_id t"
    | (mint) k where "r = Some (handle_text k (Suc (unat (next_id t))))" "next_id u = next_id t + 1"
    using unat_succ [OF room] by auto
  then show ?case
  proof cases
    case keep
    then show ?thesis using Cons.IH [OF run wf] Cons.prems(3) hs by simp
  next
    case mint
    have IH: "wf_handles t' \<and> distinct gs
        \<and> (\<forall>h \<in> set gs. \<exists>k i. h = handle_text k i \<and> Suc (unat (next_id t)) < i)"
      using Cons.IH [OF run wf] Cons.prems(3) mint(2) unat_succ [OF room] by simp
    then have "handle_text k (Suc (unat (next_id t))) \<notin> set gs" by fastforce
    with IH mint(1) hs show ?thesis by (fastforce dest: Suc_lessD)
  qed
qed

section \<open>Properties\<close>

text \<open>C12: In one session no two handles are ever equal, whatever mixture of kinds is issued and
  removed in between, as long as the 64-bit counter has not gone round; and the tables stay
  well-formed.\<close>

theorem handles_never_repeat:
  assumes "length ops < 2 ^ 64" and "handle_run ops new_handle_table = (hs, t)"
  shows "distinct hs \<and> wf_handles t"
  using handle_run_numbers [OF assms(2)] assms(1) by (simp add: new_handle_table_def wf_handles_def)

theorem handles_never_repeat_witness:
  "distinct (fst (handle_run [IssueDevice (), RemoveDevice ''dev-1'', IssueDevice (),
      IssueDigest (), IssueApplication (), IssueContainer ()]
      (new_handle_table :: (unit, unit, unit, unit) handle_table)))"
  using handles_never_repeat [of "[IssueDevice (), RemoveDevice ''dev-1'', IssueDevice (),
      IssueDigest (), IssueApplication (), IssueContainer ()]"] by (simp add: prod_eq_iff)

text \<open>C32: A text is looked up in a table only when it starts with the prefix of that table's kind and
  a dash: a text that one table would look up is refused by the three others as the wrong kind,
  so a bare number or a handle of another kind never reaches a guard.\<close>

theorem handle_kinds_disjoint:
  "(get_device h t = Inl WrongKind \<longleftrightarrow> \<not> (\<exists>s. h = ''dev-'' @ s))
    \<and> (get_application h t = Inl WrongKind \<longleftrightarrow> \<not> (\<exists>s. h = ''app-'' @ s))
    \<and> (get_container h t = Inl WrongKind \<longleftrightarrow> \<not> (\<exists>s. h = ''cnt-'' @ s))
    \<and> (get_digest h t = Inl WrongKind \<longleftrightarrow> \<not> (\<exists>s. h = ''hsh-'' @ s))
    \<and> (\<exists>k. \<forall>k'. k' = k \<or> check_handle h k' = Inl WrongKind)"
proof -
  have shape: "check_handle h k = Inl WrongKind \<longleftrightarrow> \<not> (\<exists>s. h = kind_prefix k @ ''-'' @ s)" for k
    using check_handle_cases [of h k] check_handle_ok_iff [of h k "()"] by auto
  have "\<exists>k. \<forall>k'. k' = k \<or> check_handle h k' = Inl WrongKind"
  proof (cases "\<exists>k s. h = kind_prefix k @ ''-'' @ s")
    case True
    then obtain k s where "h = kind_prefix k @ ''-'' @ s" by blast
    then have "k' = k \<or> check_handle h k' = Inl WrongKind" for k'
      by (cases "k' = k") (simp_all add: check_handle_minted_other)
    then show ?thesis by blast
  qed (auto simp: shape)
  then show ?thesis
    by (simp add: device_table.get_kind application_table.get_kind container_table.get_kind
        digest_table.get_kind shape kind_prefix.simps)
qed

text \<open>Giving back a device returns the guard that was stored under its handle, lowers the number
  of held resources by one, and makes the handle unknown, so that a second removal releases
  nothing; no other handle of the session changes.\<close>

theorem remove_device_once:
  assumes "wf_handles t" and "get_device h t = Inr g"
  shows "fst (remove_device h t) = Inr g
    \<and> remove_device h (snd (remove_device h t)) = (Inl Unknown, snd (remove_device h t))
    \<and> Suc (handles_len (snd (remove_device h t))) = handles_len t
    \<and> (\<forall>h'. h' = h \<or> get_device h' (snd (remove_device h t)) = get_device h' t)
    \<and> get_digest h' (snd (remove_device h t)) = get_digest h' t"
proof -
  have r: "remove_device h t = (Inr g, snd (remove_device h t))"
    using assms(2) device_table.remove_result [of h t] by (simp add: prod_eq_iff)
  have "get_digest h' (snd (remove_device h t)) = get_digest h' t"
    by (auto simp: remove_device_def get_digest_def split: sum.splits option.splits)
  then show ?thesis
    using device_table.remove_once [OF r] device_table.remove_held [OF assms]
      device_table.remove_get [of _ h t] r by (metis fst_conv)
qed

theorem remove_device_once_witness:
  "fst (remove_device ''dev-1'' \<lparr>next_id = 1, devices = [(''dev-1'', True)], applications = [],
      containers = [], digests = []\<rparr>) = Inr True"
proof -
  let ?t = "\<lparr>next_id = 1, devices = [(''dev-1'', True)], applications = [],
      containers = [], digests = []\<rparr>"
  have "wf_handles ?t"
    by (auto simp: wf_handles_def wf_kind_def minted_def kind_prefix.simps intro!: exI [of _ 1])
       (simp add: show_nat.simps digit_char_def)
  moreover have "get_device ''dev-1'' ?t = Inr True"
    by (simp add: get_device_def check_handle_def prefix_of_def from_prefix_def)
  ultimately show ?thesis by (rule remove_device_once [THEN conjunct1])
qed

end
