(* ===== verification/Der.thy ===== *)
theory Der
  imports RustStr
begin

text \<open>
  The pure encoders of \<open>src/crypto/mod.rs\<close>: hexadecimal text, DER lengths, integers and
  strings, distinguished names and the two public-key structures of a certificate request.
  Slices and subtractions that panic are the outcome \<^const>\<open>Panic\<close>. The public-key blobs are
  those of \<open>src/skf/types.rs\<close>, with fixed-size arrays as lists of that length.

  The reference reader \<open>der_read\<close> is the specification: it reads one tag-length-value triple
  with a definite length of at most two length bytes, and the encoders are proved against it.
\<close>

section \<open>Key blobs\<close>

record ecc_public_key_blob =
  BitLen :: u32
  XCoordinate :: bytes
  YCoordinate :: bytes

record rsa_public_key_blob =
  AlgID :: u32
  RBitLen :: u32
  Modulus :: bytes
  PublicExponent :: bytes

definition wf_ecc_blob :: "ecc_public_key_blob \<Rightarrow> bool" where
  "wf_ecc_blob k \<longleftrightarrow> length (XCoordinate k) = 64 \<and> length (YCoordinate k) = 64"

definition wf_rsa_blob :: "rsa_public_key_blob \<Rightarrow> bool" where
  "wf_rsa_blob k \<longleftrightarrow> length (Modulus k) = 256 \<and> length (PublicExponent k) = 4"

section \<open>Hexadecimal text\<close>

definition utf8_continuation :: "char \<Rightarrow> bool" where
  "utf8_continuation c \<longleftrightarrow> (let n = of_char c :: nat in 128 \<le> n \<and> n < 192)"

text \<open>Slicing \<open>&hex[i..i + 2]\<close> panics unless both ends are character boundaries. A pair that
  does not parse is skipped; a trailing single byte forms no pair.\<close>

fun hex_pairs :: "string \<Rightarrow> bytes outcome" where
  "hex_pairs [] = Ret []"
| "hex_pairs [a] = Ret []"
| "hex_pairs (a # b # s) =
    (if utf8_continuation a \<or> (s \<noteq> [] \<and> utf8_continuation (hd s)) then Panic
     else case hex_pairs s of
       Panic \<Rightarrow> Panic
     | Ret bs \<Rightarrow>
         (case from_str_radix 16 255 [a, b] of
           None \<Rightarrow> Ret bs
         | Some n \<Rightarrow> Ret (of_nat n # bs)))"

definition hex_to_bytes :: "string \<Rightarrow> bytes outcome" where
  "hex_to_bytes hex = hex_pairs (trim hex)"

section \<open>DER primitives\<close>

definition der_encode_length :: "nat \<Rightarrow> bytes" where
  "der_encode_length len =
    (if len < 128 then [of_nat len]
     else if len < 256 then [0x81, of_nat len]
     else [0x82, of_nat (len div 256), of_nat len])"

text \<open>\<open>bytes.len() - 1\<close> is computed before the search: an empty slice panics.\<close>

definition der_encode_integer :: "bytes \<Rightarrow> bytes outcome" where
  "der_encode_integer bs =
    (if bs = [] then Panic
     else
       let trimmed = (case dropWhile (\<lambda>b. b = 0) bs of [] \<Rightarrow> [last bs] | t \<Rightarrow> t);
           needs_pad = trimmed \<noteq> [] \<and> 128 \<le> unat (hd trimmed);
           int_len = length trimmed + (if needs_pad then 1 else 0)
       in Ret (0x02 # der_encode_length int_len @ (if needs_pad then [0] else []) @ trimmed))"

definition der_wrap :: "u8 \<Rightarrow> bytes \<Rightarrow> bytes" where
  "der_wrap tag content = tag # der_encode_length (length content) @ content"

definition der_sequence :: "bytes list \<Rightarrow> bytes" where
  "der_sequence items = der_wrap 0x30 (concat items)"

definition der_set :: "bytes list \<Rightarrow> bytes" where
  "der_set items = der_wrap 0x31 (concat items)"

definition der_oid :: "bytes \<Rightarrow> bytes" where
  "der_oid oid = der_wrap 0x06 oid"

definition der_utf8_string :: "string \<Rightarrow> bytes" where
  "der_utf8_string s = der_wrap 0x0C (as_bytes s)"

definition der_printable_string :: "string \<Rightarrow> bytes" where
  "der_printable_string s = der_wrap 0x13 (as_bytes s)"

definition der_bit_string :: "bytes \<Rightarrow> bytes" where
  "der_bit_string content = der_wrap 0x03 (0x00 # content)"

definition der_small_integer :: "u8 \<Rightarrow> bytes" where
  "der_small_integer val = [0x02, 0x01, val]"

definition der_context_0 :: "bytes \<Rightarrow> bytes" where
  "der_context_0 content = der_wrap 0xA0 content"

section \<open>Object identifiers\<close>

definition OID_CN :: bytes where "OID_CN = [0x55, 0x04, 0x03]"
definition OID_O :: bytes where "OID_O = [0x55, 0x04, 0x0A]"
definition OID_OU :: bytes where "OID_OU = [0x55, 0x04, 0x0B]"
definition OID_C :: bytes where "OID_C = [0x55, 0x04, 0x06]"
definition OID_ST :: bytes where "OID_ST = [0x55, 0x04, 0x08]"
definition OID_L :: bytes where "OID_L = [0x55, 0x04, 0x07]"
definition OID_E :: bytes where
  "OID_E = [0x2A, 0x86, 0x48, 0x86, 0xF7, 0x0D, 0x01, 0x09, 0x01]"
definition OID_SM2 :: bytes where
  "OID_SM2 = [0x2A, 0x81, 0x1C, 0xCF, 0x55, 0x01, 0x82, 0x2D]"
definition OID_SM3_WITH_SM2 :: bytes where
  "OID_SM3_WITH_SM2 = [0x2A, 0x81, 0x1C, 0xCF, 0x55, 0x01, 0x83, 0x75]"
definition OID_EC_PUBLIC_KEY :: bytes where
  "OID_EC_PUBLIC_KEY = [0x2A, 0x86, 0x48, 0xCE, 0x3D, 0x02, 0x01]"
definition OID_RSA :: bytes where
  "OID_RSA = [0x2A, 0x86, 0x48, 0x86, 0xF7, 0x0D, 0x01, 0x01, 0x01]"
definition OID_SHA256_WITH_RSA :: bytes where
  "OID_SHA256_WITH_RSA = [0x2A, 0x86, 0x48, 0x86, 0xF7, 0x0D, 0x01, 0x01, 0x0B]"

section \<open>Distinguished names and public keys\<close>

definition dn_oid :: "string \<Rightarrow> bytes option" where
  "dn_oid key =
    (if key = ''CN'' then Some OID_CN
     else if key = ''O'' then Some OID_O
     else if key = ''OU'' then Some OID_OU
     else if key = ''C'' then Some OID_C
     else if key = ''ST'' then Some OID_ST
     else if key = ''L'' then Some OID_L
     else if key = ''E'' \<or> key = ''EMAIL'' \<or> key = ''EMAILADDRESS'' then Some OID_E
     else None)"

text \<open>One fragment of the subject: the attribute it denotes, if any.\<close>

definition dn_attribute ::
  "(string \<Rightarrow> string) \<Rightarrow> string \<Rightarrow> (bytes \<times> u8 \<times> string) option" where
  "dn_attribute upper fragment =
    (case split_once CHR ''='' (trim fragment) of
      None \<Rightarrow> None
    | Some (key0, val) \<Rightarrow>
        (let key = to_uppercase upper (trim key0) in
         case dn_oid key of
           None \<Rightarrow> None
         | Some oid \<Rightarrow> Some (oid, if key = ''C'' then 0x13 else 0x0C, trim val)))"

definition dn_rdn :: "bytes \<times> u8 \<times> string \<Rightarrow> bytes" where
  "dn_rdn a =
    (case a of (oid, tag, val) \<Rightarrow>
      der_set [der_sequence
        [der_oid oid, if tag = 0x13 then der_printable_string val else der_utf8_string val]])"

definition build_subject_dn :: "(string \<Rightarrow> string) \<Rightarrow> string \<Rightarrow> bytes" where
  "build_subject_dn upper subject =
    der_sequence (map dn_rdn (List.map_filter (dn_attribute upper) (split CHR '','' subject)))"

text \<open>The coordinate slices \<open>[32..64]\<close> are always in range: the arrays have 64 bytes.\<close>

definition build_sm2_spki :: "ecc_public_key_blob \<Rightarrow> bytes" where
  "build_sm2_spki k =
    (let alg = der_sequence [der_oid OID_EC_PUBLIC_KEY, der_oid OID_SM2];
         point = 0x04 # take 32 (drop 32 (XCoordinate k)) @ take 32 (drop 32 (YCoordinate k))
     in der_sequence [alg, der_bit_string point])"

text \<open>\<open>Modulus[..key_len]\<close> panics when the key is longer than the 256-byte array, and the
  integer encoder panics on an empty modulus.\<close>

definition build_rsa_spki :: "rsa_public_key_blob \<Rightarrow> bytes outcome" where
  "build_rsa_spki k =
    (let alg = der_sequence [der_oid OID_RSA, [0x05, 0x00]];
         key_len = unat (RBitLen k div 8)
     in if length (Modulus k) < key_len then Panic
        else case der_encode_integer (take key_len (Modulus k)) of
          Panic \<Rightarrow> Panic
        | Ret n \<Rightarrow>
            (case der_encode_integer (PublicExponent k) of
              Panic \<Rightarrow> Panic
            | Ret e \<Rightarrow>
                Ret (der_sequence [alg, der_bit_string (der_sequence [n, e])])))"

section \<open>The reference reader\<close>

definition be_val :: "bytes \<Rightarrow> nat" where
  "be_val bs = foldl (\<lambda>n b. n * 256 + unat b) 0 bs"

text \<open>Read a length: short form, or the long forms with one and two length bytes, rejecting
  the non-minimal ones that DER forbids.\<close>

fun der_read_length :: "bytes \<Rightarrow> (nat \<times> bytes) option" where
  "der_read_length [] = None"
| "der_read_length (b # bs) =
    (if unat b < 128 then Some (unat b, bs)
     else if b = 0x81 then
       (case bs of
         c # r \<Rightarrow> if 128 \<le> unat c then Some (unat c, r) else None
       | _ \<Rightarrow> None)
     else if b = 0x82 then
       (case bs of
         c # d # r \<Rightarrow> if 256 \<le> be_val [c, d] then Some (be_val [c, d], r) else None
       | _ \<Rightarrow> None)
     else None)"

definition der_read :: "bytes \<Rightarrow> (u8 \<times> bytes \<times> bytes) option" where
  "der_read bs =
    (case bs of
      [] \<Rightarrow> None
    | tag # r \<Rightarrow>
        (case der_read_length r of
          None \<Rightarrow> None
        | Some (n, r') \<Rightarrow>
            if n \<le> length r' then Some (tag, take n r', drop n r') else None))"

text \<open>Read a whole string of items, as the content of a SEQUENCE or SET is read.\<close>

fun der_items :: "nat \<Rightarrow> bytes \<Rightarrow> (u8 \<times> bytes) list option" where
  "der_items fuel [] = Some []"
| "der_items 0 (b # bs) = None"
| "der_items (Suc fuel) (b # bs) =
    (case der_read (b # bs) of
      None \<Rightarrow> None
    | Some (tag, c, r) \<Rightarrow> map_option (Cons (tag, c)) (der_items fuel r))"

text \<open>The content of an INTEGER read as two's complement, and DER's minimality rule for it.\<close>

definition der_int_val :: "bytes \<Rightarrow> int" where
  "der_int_val bs =
    (if bs \<noteq> [] \<and> 128 \<le> unat (hd bs) then int (be_val bs) - 256 ^ length bs
     else int (be_val bs))"

definition der_int_minimal :: "bytes \<Rightarrow> bool" where
  "der_int_minimal bs \<longleftrightarrow>
    (case bs of
      [] \<Rightarrow> False
    | [b] \<Rightarrow> True
    | b # c # r \<Rightarrow>
        \<not> (b = 0 \<and> unat c < 128) \<and> \<not> (b = 0xFF \<and> 128 \<le> unat c))"

section \<open>Lengths and wrapping\<close>

lemma unat_of_nat_byte: "n < 256 \<Longrightarrow> unat (of_nat n :: u8) = n"
  by (simp add: unat_of_nat)

lemma be_val_pair: "be_val [of_nat (n div 256), of_nat n] = n mod 65536"
proof -
  have "n mod 65536 = n div 256 mod 256 * 256 + n mod 256"
    using mod_mult2_eq [of n 256 256] by simp
  then show ?thesis by (simp add: be_val_def unat_of_nat)
qed

lemma der_read_length_encode:
  assumes "n < 65536"
  shows "der_read_length (der_encode_length n @ r) = Some (n, r)"
proof -
  consider "n < 128" | "128 \<le> n" "n < 256" | "256 \<le> n" by linarith
  then show ?thesis
  proof cases
    case 1
    then show ?thesis by (simp add: der_encode_length_def unat_of_nat_byte)
  next
    case 2
    then show ?thesis by (simp add: der_encode_length_def unat_of_nat_byte)
  next
    case 3
    with assms be_val_pair [of n] show ?thesis by (simp add: der_encode_length_def)
  qed
qed

lemma der_read_wrap:
  "length c < 65536 \<Longrightarrow> der_read (der_wrap tag c @ r) = Some (tag, c, r)"
  by (simp add: der_read_def der_wrap_def der_read_length_encode)

lemma der_read_wrap_only:
  "length c < 65536 \<Longrightarrow> der_read (der_wrap tag c) = Some (tag, c, [])"
  using der_read_wrap [of c tag "[]"] by simp

lemma der_encode_length_length: "length (der_encode_length n) \<le> 3"
  by (simp add: der_encode_length_def)

lemma der_wrap_length:
  "length (der_wrap tag c) =
    length c + (if length c < 128 then 2 else if length c < 256 then 3 else 4)"
  by (simp add: der_wrap_def der_encode_length_def)

lemma der_wrap_ne [simp]: "der_wrap tag c \<noteq> []"
  by (simp add: der_wrap_def)

text \<open>Beyond two length bytes the header no longer tells the truth: the high bits are cut.\<close>

lemma der_read_length_encode_long:
  assumes "65536 \<le> n" and "der_read_length (der_encode_length n @ r) = Some (m, r')"
  shows "m < n"
proof -
  have "be_val [of_nat (n div 256), of_nat n] < n"
    unfolding be_val_pair
    by (rule order_less_le_trans [OF mod_less_divisor assms(1)]) simp
  with assms show ?thesis by (auto simp: der_encode_length_def split: if_splits)
qed

lemma der_items_wraps:
  assumes "\<forall>(t, c) \<in> set xs. length c < 65536" and "length xs \<le> fuel"
  shows "der_items fuel (concat (map (\<lambda>(t, c). der_wrap t c) xs)) = Some xs"
  using assms
proof (induction xs arbitrary: fuel)
  case Nil
  then show ?case by simp
next
  case (Cons x xs)
  obtain t c where x: "x = (t, c)" by (cases x)
  obtain f where f: "fuel = Suc f" using Cons.prems(2) by (cases fuel) auto
  obtain b bs where w: "der_wrap t c = b # bs" by (cases "der_wrap t c") auto
  let ?rest = "concat (map (\<lambda>(t, c). der_wrap t c) xs)"
  have "der_items f ?rest = Some xs"
    using Cons.prems f by (intro Cons.IH) auto
  moreover have "der_read ((b # bs) @ ?rest) = Some (t, c, ?rest)"
    using Cons.prems x der_read_wrap [of c t ?rest] w by simp
  ultimately show ?case using x w f by simp
qed

section \<open>Integers\<close>

lemma be_val_Cons: "be_val (b # bs) = unat b * 256 ^ length bs + be_val bs"
proof -
  have "foldl (\<lambda>n b. n * 256 + unat b) a bs = a * 256 ^ length bs + be_val bs"
    for a :: nat and bs :: bytes
    by (induction bs rule: rev_induct) (simp_all add: be_val_def algebra_simps)
  from this [of "unat b" bs] show ?thesis by (simp add: be_val_def)
qed

lemma be_val_Nil [simp]: "be_val [] = 0"
  by (simp add: be_val_def)

lemma be_val_zeros: "be_val (dropWhile (\<lambda>b. b = 0) bs) = be_val bs"
  by (induction bs) (auto simp: be_val_Cons)

lemma be_val_lead_zero [simp]: "be_val (0 # bs) = be_val bs"
  by (simp add: be_val_Cons)

text \<open>The bytes between the header and the end of an encoded integer.\<close>

definition int_content :: "bytes \<Rightarrow> bytes" where
  "int_content bs =
    (let t = (case dropWhile (\<lambda>b. b = 0) bs of [] \<Rightarrow> [last bs] | t \<Rightarrow> t)
     in (if 128 \<le> unat (hd t) then [0] else []) @ t)"

lemma der_encode_integer_wrap:
  "bs \<noteq> [] \<Longrightarrow> der_encode_integer bs = Ret (der_wrap 0x02 (int_content bs))"
  by (auto simp: der_encode_integer_def der_wrap_def int_content_def Let_def
      split: list.splits)

lemma int_content_zero:
  assumes "dropWhile (\<lambda>b. b = 0) bs = []" and "bs \<noteq> []"
  shows "int_content bs = [0]"
proof -
  have "last bs = 0" using assms by (auto simp: dropWhile_eq_Nil_conv)
  then show ?thesis unfolding int_content_def assms(1) by simp
qed

lemma int_content_nonzero:
  assumes "dropWhile (\<lambda>b. b = 0) bs = t # ts"
  shows "int_content bs = (if 128 \<le> unat t then [0] else []) @ t # ts"
  unfolding int_content_def assms by simp

lemma int_content_val: "bs \<noteq> [] \<Longrightarrow> der_int_val (int_content bs) = int (be_val bs)"
proof (cases "dropWhile (\<lambda>b. b = 0) bs")
  case Nil
  assume "bs \<noteq> []"
  with Nil have "int_content bs = [0]" by (rule int_content_zero)
  moreover have "be_val bs = 0" using be_val_zeros [of bs] unfolding Nil by simp
  ultimately show ?thesis by (simp add: der_int_val_def)
next
  case (Cons t ts)
  have "be_val (t # ts) = be_val bs" using be_val_zeros [of bs] Cons by simp
  with int_content_nonzero [OF Cons] show ?thesis by (auto simp: der_int_val_def)
qed

lemma int_content_minimal: "bs \<noteq> [] \<Longrightarrow> der_int_minimal (int_content bs)"
proof (cases "dropWhile (\<lambda>b. b = 0) bs")
  case Nil
  assume "bs \<noteq> []"
  with Nil have "int_content bs = [0]" by (rule int_content_zero)
  then show ?thesis by (simp add: der_int_minimal_def)
next
  case (Cons t ts)
  then have "t \<noteq> 0" using hd_dropWhile [of "\<lambda>b. b = 0" bs] by auto
  moreover have "128 \<le> unat (0xFF :: u8)" by simp
  ultimately show ?thesis
    using int_content_nonzero [OF Cons] by (auto simp: der_int_minimal_def split: list.splits)
qed

lemma int_content_length: "bs \<noteq> [] \<Longrightarrow> length (int_content bs) \<le> Suc (length bs)"
proof (cases "dropWhile (\<lambda>b. b = 0) bs")
  case Nil
  assume "bs \<noteq> []"
  with Nil show ?thesis by (subst int_content_zero) (auto simp: Suc_le_eq)
next
  case (Cons t ts)
  have "length (t # ts) \<le> length bs"
    using length_dropWhile_le [of "\<lambda>b. b = 0" bs] unfolding Cons .
  with int_content_nonzero [OF Cons] show ?thesis by simp
qed

section \<open>Names and keys\<close>

lemma dn_rdn_wrap:
  "fst (snd a) \<in> {0x13, 0x0C} \<Longrightarrow>
    dn_rdn a = der_wrap 0x31 (der_sequence [der_oid (fst a), der_wrap (fst (snd a)) (as_bytes (snd (snd a)))])"
  by (cases a) (auto simp: dn_rdn_def der_set_def der_printable_string_def der_utf8_string_def)

lemma dn_attribute_tag: "dn_attribute up f = Some a \<Longrightarrow> fst (snd a) \<in> {0x13, 0x0C}"
  by (auto simp: dn_attribute_def Let_def split: option.splits if_splits)

lemma length_concat_member: "x \<in> set xs \<Longrightarrow> length x \<le> length (concat xs)"
  by (induction xs) auto

lemma map_filter_memberD: "x \<in> set (List.map_filter f xs) \<Longrightarrow> \<exists>y \<in> set xs. f y = Some x"
  by (auto simp: List.map_filter_def)

lemma der_encode_integer_Nil [simp]: "der_encode_integer [] = Panic"
  by (simp add: der_encode_integer_def)

lemma der_encode_integer_Panic_iff: "der_encode_integer bs = Panic \<longleftrightarrow> bs = []"
  by (cases "bs = []") (simp_all add: der_encode_integer_wrap)

lemma der_encode_integer_length:
  assumes "der_encode_integer bs = Ret d" and "length bs < 127"
  shows "length d \<le> length bs + 3"
proof -
  have "bs \<noteq> []" using assms(1) by auto
  with assms int_content_length [of bs] show ?thesis
    by (auto simp: der_encode_integer_wrap der_wrap_length)
qed

section \<open>Hexadecimal text\<close>

lemma digit_val_hex: "n < 16 \<Longrightarrow> digit_val 16 (digit_char n) = Some n"
  by (auto simp: digit_val_def digit_char_def less_Suc_eq numeral_eq_Suc)

lemma digit_char_plain:
  "n < 16 \<Longrightarrow> \<not> utf8_continuation (digit_char n)
    \<and> digit_char n \<noteq> CHR ''+'' \<and> digit_char n \<noteq> CHR ''-''"
  by (auto simp: utf8_continuation_def digit_char_def less_Suc_eq numeral_eq_Suc)

lemma unat_byte: "unat (b :: u8) < 256"
  using unsigned_less [where 'a = nat, of b] by simp

lemma unat_nibbles: "unat (b :: u8) div 16 < 16" "unat b mod 16 < 16"
  using unat_byte [of b] by simp_all

lemma from_str_radix_fmt_02x: "from_str_radix 16 255 (fmt_02x b) = Some (unat b)"
proof -
  have "unat b \<le> 255" using unat_byte [of b] by simp
  moreover have "unat b div 16 * 16 + unat b mod 16 = unat b" by simp
  moreover have "unat b div 16 \<le> 255" by (meson calculation(1) div_le_dividend le_trans)
  ultimately show ?thesis
    by (simp add: fmt_02x_def digit_char_plain digit_val_hex unat_nibbles)
qed

lemma hex_pairs_fmt: "hex_pairs (concat (map fmt_02x bs)) = Ret bs"
proof (induction bs)
  case Nil
  then show ?case by simp
next
  case (Cons b bs)
  let ?s = "concat (map fmt_02x bs)" and ?a = "digit_char (unat b div 16)"
    and ?b = "digit_char (unat b mod 16)"
  have "?s = [] \<or> \<not> utf8_continuation (hd ?s)"
    by (cases bs) (simp_all add: fmt_02x_def digit_char_plain unat_nibbles)
  moreover have "\<not> utf8_continuation ?a"
    by (simp add: digit_char_plain unat_nibbles)
  moreover have "from_str_radix 16 255 [?a, ?b] = Some (unat b)"
    using from_str_radix_fmt_02x [of b] by (simp only: fmt_02x_def)
  moreover have "concat (map fmt_02x (b # bs)) = ?a # ?b # ?s"
    by (simp add: fmt_02x_def)
  ultimately show ?case
    using Cons by (simp del: from_str_radix.simps)
qed

lemma digit_char_plain_char: "n < 16 \<Longrightarrow> plain_char (digit_char n)"
  by (auto simp: plain_char_def digit_char_def less_Suc_eq numeral_eq_Suc)

lemma trim_hex: "trim (concat (map fmt_02x bs)) = concat (map fmt_02x bs)"
proof (cases bs rule: rev_cases)
  case (snoc cs c)
  have "hd (concat (map fmt_02x (b # ds))) = digit_char (unat b div 16)" for b ds
    by (simp add: fmt_02x_def)
  moreover obtain b ds where "bs = b # ds"
    using snoc by (cases bs) (simp, blast)
  ultimately have "plain_char (hd (concat (map fmt_02x bs)))"
    by (simp add: digit_char_plain_char unat_nibbles)
  moreover have "last (concat (map fmt_02x bs)) = digit_char (unat c mod 16)"
    by (simp add: snoc fmt_02x_def)
  ultimately show ?thesis
    using snoc by (intro trim_plain) (simp_all add: fmt_02x_def digit_char_plain_char unat_nibbles)
qed simp

section \<open>Properties\<close>

text \<open>C34: A tag-length-value triple written by \<open>der_wrap\<close> is read back as the same tag and
  content, with nothing lost of what follows, exactly when the content is shorter than 65536
  bytes; beyond that the two length bytes no longer hold the length.\<close>

theorem der_wrap_roundtrip_iff:
  "der_read (der_wrap tag c @ r) = Some (tag, c, r) \<longleftrightarrow> length c < 65536"
proof
  assume rd: "der_read (der_wrap tag c @ r) = Some (tag, c, r)"
  show "length c < 65536"
  proof (rule ccontr)
    assume "\<not> length c < 65536"
    then have big: "65536 \<le> length c" by simp
    from rd obtain n r' where n: "der_read_length (der_encode_length (length c) @ c @ r) = Some (n, r')"
      and le: "n \<le> length r'" and tk: "take n r' = c"
      by (auto simp: der_read_def der_wrap_def split: option.splits if_splits)
    from der_read_length_encode_long [OF big n] have "n < length c" .
    moreover from le tk have "length c = n" by auto
    ultimately show False by simp
  qed
qed (rule der_read_wrap)

text \<open>C35: The integer encoder panics exactly on the empty slice. On any other big-endian byte
  string it writes an INTEGER whose two's-complement content has the same value and is
  minimal, as DER requires.\<close>

theorem der_encode_integer_correct:
  "(case der_encode_integer bs of
      Panic \<Rightarrow> bs = []
    | Ret d \<Rightarrow> bs \<noteq> [] \<and> (\<exists>c. d = der_wrap 0x02 c \<and> der_int_minimal c
               \<and> der_int_val c = int (be_val bs) \<and> length c \<le> Suc (length bs)))"
  by (cases "bs = []")
    (auto simp: der_encode_integer_wrap int_content_val int_content_minimal int_content_length)

text \<open>C36: As long as its content stays below the 65536 bytes that the length encoder can express, the
  distinguished name is one SEQUENCE holding, in order, one SET per fragment of
  the subject that names a known attribute, each a SEQUENCE of the attribute's identifier and
  its value as a PrintableString for the country and a UTF8String otherwise; all other
  fragments are skipped.\<close>

theorem build_subject_dn_reads_back:
  assumes "attrs = List.map_filter (dn_attribute up) (split CHR '','' subject)"
    and "length (concat (map dn_rdn attrs)) < 65536"
  shows "\<exists>c. der_read (build_subject_dn up subject) = Some (0x30, c, [])
      \<and> der_items (length attrs) c =
        Some (map (\<lambda>(oid, tag, v). (0x31, der_sequence [der_oid oid, der_wrap tag (as_bytes v)])) attrs)"
proof -
  let ?f = "\<lambda>(oid, tag, v). (0x31 :: u8, der_sequence [der_oid oid, der_wrap tag (as_bytes v)])"
  have tags: "fst (snd a) \<in> {0x13, 0x0C}" if "a \<in> set attrs" for a
    using that assms(1) map_filter_memberD dn_attribute_tag by metis
  have rdns: "map dn_rdn attrs = map (\<lambda>(t, c). der_wrap t c) (map ?f attrs)"
    using tags dn_rdn_wrap by (auto simp: split_beta)
  have "length c < 65536" if "(t, c) \<in> set (map ?f attrs)" for t c
  proof -
    have "der_wrap t c \<in> set (map dn_rdn attrs)" using that unfolding rdns by force
    then have "length (der_wrap t c) < 65536"
      using length_concat_member assms(2) le_less_trans by blast
    then show ?thesis by (simp add: der_wrap_length split: if_splits)
  qed
  then have "der_items (length attrs) (concat (map dn_rdn attrs)) = Some (map ?f attrs)"
    unfolding rdns by (intro der_items_wraps) (blast, simp)
  moreover have "der_read (build_subject_dn up subject) = Some (0x30, concat (map dn_rdn attrs), [])"
    using assms by (simp add: build_subject_dn_def der_sequence_def der_read_wrap_only)
  ultimately show ?thesis by blast
qed

theorem build_subject_dn_reads_back_witness:
  "\<exists>c. der_read (build_subject_dn (\<lambda>s. s) ''CN=Test,X=No,C=CN'') = Some (0x30, c, [])
     \<and> der_items 2 c = Some
        [(0x31, der_sequence [der_oid OID_CN, der_wrap 0x0C (as_bytes ''Test'')]),
         (0x31, der_sequence [der_oid OID_C, der_wrap 0x13 (as_bytes ''CN'')])]"
proof -
  have attrs: "[(OID_CN, 0x0C, ''Test''), (OID_C, 0x13, ''CN'')]
      = List.map_filter (dn_attribute (\<lambda>s. s)) (split CHR '','' ''CN=Test,X=No,C=CN'')"
    by (simp add: List.map_filter_def dn_attribute_def dn_oid_def trim_plain plain_char_def
        to_uppercase_def is_ascii_def ascii_upper_char_def)
  have "length (concat (map dn_rdn [(OID_CN, 0x0C, ''Test''), (OID_C, 0x13, ''CN'')])) < 65536"
    by (simp add: dn_rdn_def der_set_def der_sequence_def der_oid_def der_utf8_string_def
        der_printable_string_def der_wrap_length OID_CN_def OID_C_def)
  from build_subject_dn_reads_back [OF attrs this] show ?thesis
    by (simp add: numeral_2_eq_2)
qed

text \<open>The SM2 public-key structure of a 64-byte coordinate pair is always 91 bytes: a
  27-byte header naming \<open>ecPublicKey\<close> on the SM2 curve, then the low 32 bytes of each
  coordinate.\<close>

theorem build_sm2_spki_layout:
  assumes "wf_ecc_blob k"
  shows "build_sm2_spki k =
      [0x30, 0x59, 0x30, 0x13, 0x06, 0x07] @ OID_EC_PUBLIC_KEY @ [0x06, 0x08] @ OID_SM2
      @ [0x03, 0x42, 0x00, 0x04] @ drop 32 (XCoordinate k) @ drop 32 (YCoordinate k)
    \<and> length (build_sm2_spki k) = 91"
proof -
  have "take 32 (drop 32 (XCoordinate k)) = drop 32 (XCoordinate k)"
    and "take 32 (drop 32 (YCoordinate k)) = drop 32 (YCoordinate k)"
    using assms by (simp_all add: wf_ecc_blob_def)
  with assms show ?thesis
    by (simp add: build_sm2_spki_def der_sequence_def der_wrap_def der_oid_def der_bit_string_def
        der_encode_length_def OID_EC_PUBLIC_KEY_def OID_SM2_def wf_ecc_blob_def Let_def)
qed

theorem build_sm2_spki_layout_witness:
  "length (build_sm2_spki \<lparr>BitLen = 256, XCoordinate = replicate 64 1,
      YCoordinate = replicate 64 2\<rparr>) = 91"
proof -
  have "wf_ecc_blob \<lparr>BitLen = 256, XCoordinate = replicate 64 1, YCoordinate = replicate 64 2\<rparr>"
    by (simp add: wf_ecc_blob_def)
  from build_sm2_spki_layout [OF this] show ?thesis by blast
qed

text \<open>For a blob with the array sizes of the C structure, building the RSA public-key
  structure panics exactly when the claimed key length is under one byte or over 2048 bits.\<close>

theorem build_rsa_spki_panics_iff:
  assumes "wf_rsa_blob k"
  shows "build_rsa_spki k = Panic \<longleftrightarrow> unat (RBitLen k) < 8 \<or> 2056 \<le> unat (RBitLen k)"
proof -
  have kl: "unat (RBitLen k div 8) = unat (RBitLen k) div 8"
    by (simp add: unat_div)
  have "Modulus k \<noteq> []" "PublicExponent k \<noteq> []"
    using assms by (auto simp: wf_rsa_blob_def)
  moreover have "unat (RBitLen k) div 8 = 0 \<longleftrightarrow> unat (RBitLen k) < 8" by auto
  moreover have "256 < unat (RBitLen k) div 8 \<longleftrightarrow> 2056 \<le> unat (RBitLen k)" by auto
  ultimately show ?thesis
    using assms by (auto simp: build_rsa_spki_def wf_rsa_blob_def kl Let_def der_encode_integer_Panic_iff
        split: outcome.splits)
qed

theorem build_rsa_spki_panics_iff_witness:
  "build_rsa_spki \<lparr>AlgID = 0, RBitLen = 4096, Modulus = replicate 256 1,
      PublicExponent = [0, 1, 0, 1]\<rparr> = Panic"
proof -
  let ?k = "\<lparr>AlgID = 0, RBitLen = 4096, Modulus = replicate 256 1, PublicExponent = [0, 1, 0, 1]\<rparr>"
  have "wf_rsa_blob ?k" by (simp add: wf_rsa_blob_def)
  from build_rsa_spki_panics_iff [OF this] show ?thesis by simp
qed

text \<open>Reading back a byte string printed as lower-case hexadecimal pairs gives the byte
  string.\<close>

theorem hex_to_bytes_roundtrip: "hex_to_bytes (concat (map fmt_02x bs)) = Ret bs"
  by (simp add: hex_to_bytes_def trim_hex hex_pairs_fmt)

end
