(* ===== verification/Auth.thy ===== *)
theory Auth
  imports Protocol
begin

text \<open>
  The authorization grants of one session (\<open>src/session/auth.rs\<close>). A grant is a deadline on the
  monotonic clock and nothing else. Instants and durations are nanosecond counts; adding a
  lifetime to an instant panics when the sum is past what the platform clock can represent.
\<close>

type_synonym instant = nat
type_synonym duration = nat

definition from_secs :: "nat \<Rightarrow> duration" where
  "from_secs n = n * 1000000000"

definition DEFAULT_TTL_SECONDS :: nat where
  "DEFAULT_TTL_SECONDS = 600"

definition TTL_ENV_VAR :: string where
  "TTL_ENV_VAR = ''SKF_AUTH_TTL_SECONDS''"

datatype auth_rejection = NotAuthorized | Expired | DeviceUnavailable

record auth_key =
  ak_provider :: string
  ak_device :: string
  ak_application :: string

definition new_auth_key :: "string \<Rightarrow> string \<Rightarrow> string \<Rightarrow> auth_key" where
  "new_auth_key p d a = \<lparr>ak_provider = p, ak_device = d, ak_application = a\<rparr>"

record grant =
  expires_at :: instant

record auth_table =
  grants :: "(auth_key \<times> grant) list"
  ttl :: duration

definition new_auth_table :: "duration \<Rightarrow> auth_table" where
  "new_auth_table d = \<lparr>grants = [], ttl = d\<rparr>"

definition auth_grant :: "runtime \<Rightarrow> instant \<Rightarrow> auth_key \<Rightarrow> auth_table \<Rightarrow> auth_table outcome" where
  "auth_grant R now key t =
    (if instant_max R < now + ttl t then Panic
     else Ret (t\<lparr>grants := AList.update key \<lparr>expires_at = now + ttl t\<rparr> (grants t)\<rparr>))"

definition auth_check ::
  "instant \<Rightarrow> auth_key \<Rightarrow> auth_table \<Rightarrow> (auth_rejection + unit) \<times> auth_table" where
  "auth_check now key t =
    (case map_of (grants t) key of
      None \<Rightarrow> (Inl NotAuthorized, t)
    | Some g \<Rightarrow>
        if expires_at g \<le> now then
          (Inl Expired, t\<lparr>grants := AList.delete key (grants t)\<rparr>)
        else (Inr (), t))"

definition auth_invalidate_device :: "string \<Rightarrow> string \<Rightarrow> auth_table \<Rightarrow> nat \<times> auth_table" where
  "auth_invalidate_device prov dev t =
    (let before = length (grants t);
         kept = filter (\<lambda>(key, _). \<not> (ak_provider key = prov \<and> ak_device key = dev)) (grants t)
     in (before - length kept, t\<lparr>grants := kept\<rparr>))"

definition auth_len :: "auth_table \<Rightarrow> nat" where
  "auth_len t = length (grants t)"

definition auth_is_empty :: "auth_table \<Rightarrow> bool" where
  "auth_is_empty t \<longleftrightarrow> grants t = []"

definition ttl_from_env :: "runtime \<Rightarrow> duration" where
  "ttl_from_env R =
    (case env_var R TTL_ENV_VAR of
      None \<Rightarrow> from_secs DEFAULT_TTL_SECONDS
    | Some txt \<Rightarrow>
        (case parse_u64 (trim txt) of
          None \<Rightarrow> from_secs DEFAULT_TTL_SECONDS
        | Some n \<Rightarrow> if n = 0 then from_secs DEFAULT_TTL_SECONDS else from_secs (unat n)))"

section \<open>Facts\<close>

abbreviation auth_lookup :: "auth_table \<Rightarrow> auth_key \<Rightarrow> grant option" where
  "auth_lookup t \<equiv> map_of (grants t)"

abbreviation on_device :: "string \<Rightarrow> string \<Rightarrow> auth_key \<Rightarrow> bool" where
  "on_device p d k \<equiv> ak_provider k = p \<and> ak_device k = d"

definition wf_auth :: "auth_table \<Rightarrow> bool" where
  "wf_auth t \<longleftrightarrow> wf_table (grants t)"

lemma wf_new_auth_table [simp]: "wf_auth (new_auth_table d)"
  by (simp add: wf_auth_def new_auth_table_def)

lemma wf_auth_grant: "auth_grant R now k t = Ret t' \<Longrightarrow> wf_auth t \<Longrightarrow> wf_auth t'"
  by (auto simp: auth_grant_def wf_auth_def split: if_splits)

lemma wf_auth_check: "auth_check now k t = (r, t') \<Longrightarrow> wf_auth t \<Longrightarrow> wf_auth t'"
  by (auto simp: auth_check_def wf_auth_def split: option.splits if_splits)

lemma wf_auth_invalidate: "wf_auth t \<Longrightarrow> wf_auth (snd (auth_invalidate_device p d t))"
  by (simp add: auth_invalidate_device_def wf_auth_def Let_def)

lemma auth_invalidate_ttl [simp]: "ttl (snd (auth_invalidate_device p d t)) = ttl t"
  by (simp add: auth_invalidate_device_def Let_def)

lemma auth_invalidate_lookup [simp]:
  "auth_lookup (snd (auth_invalidate_device p d t)) k =
    (if on_device p d k then None else auth_lookup t k)"
  by (simp add: auth_invalidate_device_def Let_def map_of_filter_key)

lemma auth_check_result:
  "fst (auth_check now k t) =
    (case auth_lookup t k of
      None \<Rightarrow> Inl NotAuthorized
    | Some g \<Rightarrow> if expires_at g \<le> now then Inl Expired else Inr ())"
  by (simp add: auth_check_def split: option.splits)

lemma auth_check_table:
  "snd (auth_check now k t) =
    (if fst (auth_check now k t) = Inl Expired
     then t\<lparr>grants := AList.delete k (grants t)\<rparr> else t)"
  by (simp add: auth_check_def split: option.splits)

lemma auth_check_ttl [simp]: "ttl (snd (auth_check now k t)) = ttl t"
  by (simp add: auth_check_table)

lemma auth_check_lookup:
  "auth_lookup (snd (auth_check now k t)) k' =
    (if k' = k \<and> fst (auth_check now k t) = Inl Expired then None else auth_lookup t k')"
  by (auto simp: auth_check_table delete_conv)

lemma auth_grant_ttl: "auth_grant R now k t = Ret t' \<Longrightarrow> ttl t' = ttl t"
  by (auto simp: auth_grant_def split: if_splits)

lemma auth_grant_lookup:
  "auth_grant R now k t = Ret t' \<Longrightarrow>
    auth_lookup t' k' = (if k' = k then Some \<lparr>expires_at = now + ttl t\<rparr> else auth_lookup t k')"
  by (auto simp: auth_grant_def update_conv' split: if_splits)

text \<open>The live grants at an instant: what \<open>auth_check\<close> would accept.\<close>

definition authorized :: "instant \<Rightarrow> auth_table \<Rightarrow> auth_key \<Rightarrow> bool" where
  "authorized now t k \<longleftrightarrow> (\<exists>g. auth_lookup t k = Some g \<and> now < expires_at g)"

lemma auth_check_ok_iff: "fst (auth_check now k t) = Inr u \<longleftrightarrow> authorized now t k"
  by (auto simp: auth_check_result authorized_def split: option.splits)

section \<open>Refinement of a specification over the history\<close>

text \<open>The history of a session's authorization events. The specification keeps no table: an
  application is authorized when the last grant for it is younger than the lifetime and no
  later event reported its device missing.\<close>

datatype auth_event =
    EvGrant instant auth_key
  | EvCheck instant auth_key
  | EvInvalidate instant string string

primrec event_time :: "auth_event \<Rightarrow> instant" where
  "event_time (EvGrant t k) = t"
| "event_time (EvCheck t k) = t"
| "event_time (EvInvalidate t p d) = t"

primrec auth_step :: "runtime \<Rightarrow> auth_event \<Rightarrow> auth_table \<Rightarrow> auth_table outcome" where
  "auth_step R (EvGrant now k) t = auth_grant R now k t"
| "auth_step R (EvCheck now k) t = Ret (snd (auth_check now k t))"
| "auth_step R (EvInvalidate now p d) t = Ret (snd (auth_invalidate_device p d t))"

text \<open>Histories are kept newest first.\<close>

primrec auth_run :: "runtime \<Rightarrow> duration \<Rightarrow> auth_event list \<Rightarrow> auth_table outcome" where
  "auth_run R d [] = Ret (new_auth_table d)"
| "auth_run R d (e # es) =
    (case auth_run R d es of Panic \<Rightarrow> Panic | Ret t \<Rightarrow> auth_step R e t)"

primrec spec_deadline :: "duration \<Rightarrow> auth_event list \<Rightarrow> auth_key \<Rightarrow> instant option" where
  "spec_deadline d [] k = None"
| "spec_deadline d (e # es) k =
    (case e of
      EvGrant t k' \<Rightarrow> if k' = k then Some (t + d) else spec_deadline d es k
    | EvCheck t k' \<Rightarrow> spec_deadline d es k
    | EvInvalidate t p v \<Rightarrow> if on_device p v k then None else spec_deadline d es k)"

definition spec_authorized :: "duration \<Rightarrow> auth_event list \<Rightarrow> instant \<Rightarrow> auth_key \<Rightarrow> bool" where
  "spec_authorized d es now k \<longleftrightarrow>
    (case spec_deadline d es k of None \<Rightarrow> False | Some dl \<Rightarrow> now < dl)"

text \<open>The table may have forgotten a deadline the history still shows, but only a deadline
  that had passed by the last event.\<close>

definition agrees :: "duration \<Rightarrow> auth_event list \<Rightarrow> instant \<Rightarrow> auth_table \<Rightarrow> bool" where
  "agrees d es now t \<longleftrightarrow>
    ttl t = d \<and>
    (\<forall>k. map_option expires_at (auth_lookup t k) = spec_deadline d es k
       \<or> auth_lookup t k = None \<and> (\<exists>dl. spec_deadline d es k = Some dl \<and> dl \<le> now))"

lemma agrees_new: "agrees d [] now (new_auth_table d)"
  by (simp add: agrees_def new_auth_table_def)

lemma agrees_later: "agrees d es now t \<Longrightarrow> now \<le> now' \<Longrightarrow> agrees d es now' t"
  by (fastforce simp: agrees_def)

lemma agrees_check:
  assumes "agrees d es now t"
  shows "agrees d (EvCheck now k # es) now (snd (auth_check now k t))"
  using assms by (auto simp: agrees_def auth_check_lookup auth_check_result split: option.splits)
    (metis option.simps(9))

lemma agrees_invalidate:
  assumes "agrees d es now t"
  shows "agrees d (EvInvalidate now p v # es) now (snd (auth_invalidate_device p v t))"
  using assms by (auto simp: agrees_def)

lemma agrees_grant:
  assumes "agrees d es now t" and "auth_grant R now k t = Ret t'"
  shows "agrees d (EvGrant now k # es) now t'"
  using assms(1) auth_grant_ttl [OF assms(2)]
  by (auto simp: agrees_def auth_grant_lookup [OF assms(2)])

lemma agrees_step:
  assumes "agrees d es now t" and "now \<le> event_time e" and "auth_step R e t = Ret t'"
  shows "agrees d (e # es) (event_time e) t'"
  using agrees_later [OF assms(1,2)] assms(3)
  by (cases e) (auto simp: agrees_check agrees_invalidate agrees_grant)

lemma agrees_run:
  assumes "sorted_wrt (\<ge>) (map event_time es)" and "auth_run R d es = Ret t"
    and "\<forall>e \<in> set es. event_time e \<le> now"
  shows "agrees d es now t"
  using assms
proof (induction es arbitrary: t now)
  case Nil
  then show ?case using agrees_new by auto
next
  case (Cons e es)
  from Cons.prems(2) obtain u where u: "auth_run R d es = Ret u" "auth_step R e u = Ret t"
    by (auto split: outcome.splits)
  have "agrees d es (event_time e) u" using Cons.IH Cons.prems(1) u(1) by simp
  then have "agrees d (e # es) (event_time e) t" using u(2) by (auto intro: agrees_step)
  then show ?case using Cons.prems(3) agrees_later by fastforce
qed

lemma agrees_authorized:
  assumes "agrees d es now t"
  shows "authorized now t k \<longleftrightarrow> spec_authorized d es now k"
proof -
  from assms consider
      (same) "map_option expires_at (auth_lookup t k) = spec_deadline d es k"
    | (passed) dl where "auth_lookup t k = None" "spec_deadline d es k = Some dl" "dl \<le> now"
    by (auto simp: agrees_def)
  then show ?thesis
  proof cases
    case same
    then show ?thesis
      by (cases "auth_lookup t k") (auto simp: authorized_def spec_authorized_def split: option.splits)
  next
    case passed
    then show ?thesis by (simp add: authorized_def spec_authorized_def)
  qed
qed

lemma from_secs_pos: "0 < n \<Longrightarrow> 1000000000 \<le> from_secs n"
  by (simp add: from_secs_def)

section \<open>Properties\<close>

text \<open>C3: Whatever grants, checks and device invalidations a session has gone through, in the order
  of the clock, a check at a later instant succeeds exactly when the history says so: the last
  grant for that application is younger than the lifetime and no later event reported its device
  missing. That the table forgets expired entries on a check is not observable.\<close>

theorem auth_run_refines_history:
  assumes "sorted_wrt (\<ge>) (map event_time es)" and "\<forall>e \<in> set es. event_time e \<le> now"
    and "auth_run R d es = Ret t"
  shows "fst (auth_check now k t) = Inr () \<longleftrightarrow> spec_authorized d es now k"
  using agrees_authorized [OF agrees_run [OF assms(1,3,2)]] by (simp add: auth_check_ok_iff)

definition plain_runtime :: runtime where
  "plain_runtime =
    \<lparr>rt_codec = \<lparr>b64_encode = \<lambda>_. [], b64_decode = \<lambda>_. Inl ''invalid''\<rparr>,
     env_var = \<lambda>_. None, unicode_upper = \<lambda>s. s, debug_list = \<lambda>_. [], instant_max = 10 ^ 30\<rparr>"

theorem auth_run_refines_history_witness:
  "\<exists>t. auth_run plain_runtime 50
      [EvCheck 70 (new_auth_key ''GM'' ''d'' ''a''), EvInvalidate 30 ''GM'' ''e'',
       EvGrant 10 (new_auth_key ''GM'' ''d'' ''a'')] = Ret t
    \<and> fst (auth_check 70 (new_auth_key ''GM'' ''d'' ''a'') t) \<noteq> Inr ()"
proof -
  let ?k = "new_auth_key ''GM'' ''d'' ''a''"
  let ?es = "[EvCheck 70 ?k, EvInvalidate 30 ''GM'' ''e'', EvGrant 10 ?k]"
  obtain t where t: "auth_run plain_runtime 50 ?es = Ret t"
    by (simp add: auth_grant_def plain_runtime_def new_auth_table_def)
  have "\<not> spec_authorized 50 ?es 70 ?k"
    by (simp add: spec_authorized_def new_auth_key_def)
  then show ?thesis
    using auth_run_refines_history [OF _ _ t, of 70 ?k] t by auto
qed

text \<open>A check never succeeds at or after the deadline, the check that finds a grant expired
  removes exactly that grant, and every other check leaves the table as it was.\<close>

theorem auth_check_expiry:
  "(case auth_check now k t of
      (Inr _, t') \<Rightarrow> t' = t \<and> (\<exists>g. auth_lookup t k = Some g \<and> now < expires_at g)
    | (Inl Expired, t') \<Rightarrow>
        (\<exists>g. auth_lookup t k = Some g \<and> expires_at g \<le> now)
        \<and> auth_lookup t' = (auth_lookup t)(k := None) \<and> ttl t' = ttl t
    | (Inl NotAuthorized, t') \<Rightarrow> t' = t \<and> auth_lookup t k = None
    | (Inl DeviceUnavailable, t') \<Rightarrow> False)"
  by (auto simp: auth_check_def delete_conv fun_eq_iff split: option.splits)

text \<open>Reporting a device missing removes every grant on that device of that provider, keeps every
  other grant, and answers with the number removed.\<close>

theorem auth_invalidate_exact:
  "fst (auth_invalidate_device p d t) = length (filter (\<lambda>(k, _). on_device p d k) (grants t))
    \<and> auth_lookup (snd (auth_invalidate_device p d t)) =
        (\<lambda>k. if on_device p d k then None else auth_lookup t k)"
proof -
  have "length (grants t) =
      length (filter (\<lambda>(k, _). on_device p d k) (grants t))
      + length (filter (\<lambda>(k, _). \<not> on_device p d k) (grants t))"
    using sum_length_filter_compl [of "\<lambda>(k, _). on_device p d k" "grants t"]
    by (simp add: case_prod_unfold)
  then have "fst (auth_invalidate_device p d t) =
      length (filter (\<lambda>(k, _). on_device p d k) (grants t))"
    by (simp add: auth_invalidate_device_def Let_def)
  then show ?thesis by (simp add: fun_eq_iff)
qed

text \<open>The lifetime read from the environment is never shorter than one second: it is the number
  in the variable when that is a positive 64-bit decimal, and ten minutes otherwise, so no
  setting makes grants last forever or not at all.\<close>

theorem ttl_from_env_bounds:
  "from_secs 1 \<le> ttl_from_env R
    \<and> (ttl_from_env R = from_secs 600
       \<or> (\<exists>v n. env_var R TTL_ENV_VAR = Some v \<and> parse_u64 (trim v) = Some n \<and> n \<noteq> 0
            \<and> ttl_from_env R = from_secs (unat n)))"
  by (auto simp: ttl_from_env_def DEFAULT_TTL_SECONDS_def from_secs_def Suc_le_eq unat_gt_0
      split: option.splits)

end
