(* ===== verification/Provider.thy ===== *)
theory Provider
  imports Der Auth
begin

text \<open>
  The provider boundary (\<open>src/provider/mod.rs\<close>): the observable operations, the error values and
  their texts, and the trait \<open>SkfProvider\<close> with its four guard traits. A provider is a record of
  its operations over a state \<open>'w\<close> of everything behind the boundary; the guard types are type
  variables. Dropping a guard is an operation of its own.

  The second half states the implementation contract of the trait as a locale: a guard lives
  from the call that returns it until it is dropped, nothing else creates or ends one, and the
  clock never runs backwards.
\<close>

section \<open>Operations\<close>

datatype operation =
    OpEnumDevices | OpDeviceState | OpWaitForEvent | OpCancelWaitForEvent
  | OpOpenDevice | OpCloseDevice | OpLockDevice | OpUnlockDevice
  | OpTransmit | OpRandom | OpDeviceInfo | OpSetLabel
  | OpEnumApplications | OpOpenApplication | OpCloseApplication | OpVerifyPin
  | OpEnumContainers | OpOpenContainer | OpCloseContainer | OpCreateContainer
  | OpDeleteContainer | OpContainerType | OpExportCertificate | OpImportCertificate
  | OpSignEcc | OpSignRsa | OpEccVerify | OpRsaVerify
  | OpDigestBegin | OpDigestUpdate | OpDigestFinal | OpCloseDigest
  | OpGenEccKeyPair | OpGenRsaKeyPair | OpImportEccKeyPair | OpImportRsaKeyPair
  | OpSetSymmKey | OpEncryptData | OpDecryptData

text \<open>The derived order is the order of declaration.\<close>

definition ALL_OPERATIONS :: "operation list" where
  "ALL_OPERATIONS =
    [OpEnumDevices, OpDeviceState, OpWaitForEvent, OpCancelWaitForEvent,
     OpOpenDevice, OpCloseDevice, OpLockDevice, OpUnlockDevice,
     OpTransmit, OpRandom, OpDeviceInfo, OpSetLabel,
     OpEnumApplications, OpOpenApplication, OpCloseApplication, OpVerifyPin,
     OpEnumContainers, OpOpenContainer, OpCloseContainer, OpCreateContainer,
     OpDeleteContainer, OpContainerType, OpExportCertificate, OpImportCertificate,
     OpSignEcc, OpSignRsa, OpEccVerify, OpRsaVerify,
     OpDigestBegin, OpDigestUpdate, OpDigestFinal, OpCloseDigest,
     OpGenEccKeyPair, OpGenRsaKeyPair, OpImportEccKeyPair, OpImportRsaKeyPair,
     OpSetSymmKey, OpEncryptData, OpDecryptData]"

primrec op_index :: "operation \<Rightarrow> nat" where
  "op_index OpEnumDevices = 0"
| "op_index OpDeviceState = 1"
| "op_index OpWaitForEvent = 2"
| "op_index OpCancelWaitForEvent = 3"
| "op_index OpOpenDevice = 4"
| "op_index OpCloseDevice = 5"
| "op_index OpLockDevice = 6"
| "op_index OpUnlockDevice = 7"
| "op_index OpTransmit = 8"
| "op_index OpRandom = 9"
| "op_index OpDeviceInfo = 10"
| "op_index OpSetLabel = 11"
| "op_index OpEnumApplications = 12"
| "op_index OpOpenApplication = 13"
| "op_index OpCloseApplication = 14"
| "op_index OpVerifyPin = 15"
| "op_index OpEnumContainers = 16"
| "op_index OpOpenContainer = 17"
| "op_index OpCloseContainer = 18"
| "op_index OpCreateContainer = 19"
| "op_index OpDeleteContainer = 20"
| "op_index OpContainerType = 21"
| "op_index OpExportCertificate = 22"
| "op_index OpImportCertificate = 23"
| "op_index OpSignEcc = 24"
| "op_index OpSignRsa = 25"
| "op_index OpEccVerify = 26"
| "op_index OpRsaVerify = 27"
| "op_index OpDigestBegin = 28"
| "op_index OpDigestUpdate = 29"
| "op_index OpDigestFinal = 30"
| "op_index OpCloseDigest = 31"
| "op_index OpGenEccKeyPair = 32"
| "op_index OpGenRsaKeyPair = 33"
| "op_index OpImportEccKeyPair = 34"
| "op_index OpImportRsaKeyPair = 35"
| "op_index OpSetSymmKey = 36"
| "op_index OpEncryptData = 37"
| "op_index OpDecryptData = 38"

lemma op_index_nth: "ALL_OPERATIONS ! op_index x = x"
  by (cases x) (simp_all add: ALL_OPERATIONS_def)

lemma op_index_inj: "op_index x = op_index y \<longleftrightarrow> x = y"
  by (metis op_index_nth)

instantiation operation :: linorder
begin

definition less_eq_operation :: "operation \<Rightarrow> operation \<Rightarrow> bool" where
  "less_eq_operation x y \<longleftrightarrow> op_index x \<le> op_index y"

definition less_operation :: "operation \<Rightarrow> operation \<Rightarrow> bool" where
  "less_operation x y \<longleftrightarrow> op_index x < op_index y"

instance
  by standard (auto simp: less_eq_operation_def less_operation_def op_index_inj)

end

section \<open>Errors\<close>

datatype skf_error =
    PinIncorrect
  | PinLocked
  | ContainerMissing
  | SymbolUnavailable
  | DeviceRemoved
  | Blocking duration
  | Custom u32

datatype provider_error =
    Native u32 string
  | SymbolUnavailableErr string
  | LibraryLoadFailed string string string
  | ProviderNotConfigured string string
  | Injected skf_error
  | InvalidArgument string

definition SAR_COULDNOTGETFUNCADDR :: u32 where
  "SAR_COULDNOTGETFUNCADDR = 0x0A000005"

definition from_native :: "u32 \<Rightarrow> string \<Rightarrow> provider_error" where
  "from_native code ctxt =
    (if code = SAR_COULDNOTGETFUNCADDR then SymbolUnavailableErr ctxt else Native code ctxt)"

fun error_hex :: "provider_error \<Rightarrow> u32 option" where
  "error_hex (Native code _) = Some code"
| "error_hex (Injected (Custom code)) = Some code"
| "error_hex _ = None"

text \<open>\<open>Debug\<close> of a \<open>Duration\<close>: the largest unit of s, ms, us, ns with a non-zero integer part, the
  fraction without trailing zeros. The micro sign is two bytes.\<close>

definition frac_digits :: "nat \<Rightarrow> nat \<Rightarrow> string" where
  "frac_digits width n =
    rev (dropWhile (\<lambda>c. c = CHR ''0'')
      (rev (replicate (width - length (show_nat n)) CHR ''0'' @ show_nat n)))"

definition fmt_decimal :: "nat \<Rightarrow> nat \<Rightarrow> nat \<Rightarrow> string \<Rightarrow> string" where
  "fmt_decimal whole frac width unit_name =
    show_nat whole @ (if frac = 0 then [] else ''.'' @ frac_digits width frac) @ unit_name"

definition debug_duration :: "duration \<Rightarrow> string" where
  "debug_duration ns =
    (if 1000000000 \<le> ns then fmt_decimal (ns div 1000000000) (ns mod 1000000000) 9 ''s''
     else if 1000000 \<le> ns then fmt_decimal (ns div 1000000) (ns mod 1000000) 6 ''ms''
     else if 1000 \<le> ns then fmt_decimal (ns div 1000) (ns mod 1000) 3 (utf8 [0xC2, 0xB5] @ ''s'')
     else fmt_decimal ns 0 1 ''ns'')"

primrec debug_skf_error :: "skf_error \<Rightarrow> string" where
  "debug_skf_error PinIncorrect = ''PinIncorrect''"
| "debug_skf_error PinLocked = ''PinLocked''"
| "debug_skf_error ContainerMissing = ''ContainerMissing''"
| "debug_skf_error SymbolUnavailable = ''SymbolUnavailable''"
| "debug_skf_error DeviceRemoved = ''DeviceRemoved''"
| "debug_skf_error (Blocking d) = ''Blocking('' @ debug_duration d @ '')''"
| "debug_skf_error (Custom c) = ''Custom('' @ show_nat (unat c) @ '')''"

abbreviation quote_char :: char where
  "quote_char \<equiv> CHR 0x27"

primrec error_to_string :: "provider_error \<Rightarrow> string" where
  "error_to_string (Native code ctxt) = ctxt @ '' failed: 0x'' @ fmt_08X code"
| "error_to_string (SymbolUnavailableErr name) =
    ''symbol '' @ [quote_char] @ name @ [quote_char] @ '' is not available in the loaded library''"
| "error_to_string (LibraryLoadFailed path arch detail) =
    ''Failed to load library '' @ [quote_char] @ path @ [quote_char]
      @ '' (process architecture: '' @ arch @ ''): '' @ detail"
| "error_to_string (ProviderNotConfigured alias os) =
    ''Provider '' @ [quote_char] @ alias @ [quote_char] @ '' not configured for OS ''
      @ [quote_char] @ os @ [quote_char]"
| "error_to_string (Injected err) = ''injected failure: '' @ debug_skf_error err"
| "error_to_string (InvalidArgument ctxt) = ''invalid argument in '' @ ctxt"

section \<open>Values that cross the boundary\<close>

record ecc_public_key =
  ecc_bit_len :: u32
  ecc_x :: bytes
  ecc_y :: bytes

record rsa_public_key =
  rsa_alg_id :: u32
  rsa_bit_len :: u32
  rsa_modulus :: bytes
  rsa_exponent :: bytes

record pin_outcome =
  pin_success :: bool
  retry_count :: u32
  pin_code :: u32

record device_info =
  manufacturer :: string
  issuer :: string
  label :: string
  serial_number :: string
  total_space :: u32
  free_space :: u32
  max_ecc_buffer_size :: u32
  max_buffer_size :: u32

section \<open>The trait\<close>

text \<open>An operation reads and changes the state behind the boundary and either fails or answers.\<close>

type_synonym ('w, 'r) operation_fn = "'w \<Rightarrow> (provider_error + 'r) \<times> 'w"

record ('w, 'd, 'a, 'c, 'h) provider =
  provider_alias :: string
  enum_devices :: "bool \<Rightarrow> ('w, string list) operation_fn"
  device_state :: "string \<Rightarrow> ('w, u32) operation_fn"
  wait_for_event :: "nat \<Rightarrow> ('w, string \<times> u32) operation_fn"
  cancel_wait_for_event :: "('w, unit) operation_fn"
  open_device :: "string \<Rightarrow> ('w, 'd) operation_fn"
  dev_handle :: "'d \<Rightarrow> u64"
  dev_state :: "'d \<Rightarrow> ('w, u32) operation_fn"
  dev_lock :: "'d \<Rightarrow> duration \<Rightarrow> ('w, unit) operation_fn"
  dev_unlock :: "'d \<Rightarrow> ('w, unit) operation_fn"
  dev_transmit :: "'d \<Rightarrow> bytes \<Rightarrow> ('w, bytes) operation_fn"
  dev_random :: "'d \<Rightarrow> nat \<Rightarrow> ('w, bytes) operation_fn"
  dev_info :: "'d \<Rightarrow> ('w, device_info) operation_fn"
  dev_set_label :: "'d \<Rightarrow> string \<Rightarrow> ('w, unit) operation_fn"
  open_application :: "'d \<Rightarrow> string \<Rightarrow> ('w, 'a) operation_fn"
  begin_digest :: "'d \<Rightarrow> u32 \<Rightarrow> bytes \<Rightarrow> ('w, 'h) operation_fn"
  begin_digest_with_key :: "'d \<Rightarrow> u32 \<Rightarrow> bytes \<Rightarrow> ecc_public_key \<Rightarrow> ('w, 'h) operation_fn"
  app_handle :: "'a \<Rightarrow> u64"
  enum_containers :: "'a \<Rightarrow> ('w, string list) operation_fn"
  verify_pin :: "'a \<Rightarrow> string \<Rightarrow> ('w, pin_outcome) operation_fn"
  open_container :: "'a \<Rightarrow> string \<Rightarrow> ('w, 'c) operation_fn"
  delete_container :: "'a \<Rightarrow> string \<Rightarrow> ('w, unit) operation_fn"
  create_container :: "'a \<Rightarrow> string \<Rightarrow> ('w, 'c) operation_fn"
  cnt_handle :: "'c \<Rightarrow> u64"
  container_type :: "'c \<Rightarrow> ('w, u32) operation_fn"
  export_certificate :: "'c \<Rightarrow> bool \<Rightarrow> ('w, bytes) operation_fn"
  import_certificate :: "'c \<Rightarrow> bool \<Rightarrow> bytes \<Rightarrow> ('w, unit) operation_fn"
  sign_ecc :: "'c \<Rightarrow> bytes \<Rightarrow> ('w, bytes) operation_fn"
  sign_rsa :: "'c \<Rightarrow> bytes \<Rightarrow> ('w, bytes) operation_fn"
  gen_ecc_key_pair :: "'c \<Rightarrow> u32 \<Rightarrow> ('w, ecc_public_key) operation_fn"
  gen_rsa_key_pair :: "'c \<Rightarrow> u32 \<Rightarrow> ('w, rsa_public_key) operation_fn"
  set_symm_key :: "'c \<Rightarrow> u32 \<Rightarrow> bytes \<Rightarrow> ('w, unit) operation_fn"
  encrypt :: "'c \<Rightarrow> u32 \<Rightarrow> bytes \<Rightarrow> u32 \<Rightarrow> bytes \<Rightarrow> ('w, bytes) operation_fn"
  decrypt :: "'c \<Rightarrow> u32 \<Rightarrow> bytes \<Rightarrow> u32 \<Rightarrow> bytes \<Rightarrow> ('w, bytes) operation_fn"
  dig_handle :: "'h \<Rightarrow> u64"
  dig_update :: "'h \<Rightarrow> bytes \<Rightarrow> ('w, unit) operation_fn"
  dig_finalize :: "'h \<Rightarrow> ('w, bytes) operation_fn"
  drop_device :: "'d \<Rightarrow> 'w \<Rightarrow> 'w"
  drop_application :: "'a \<Rightarrow> 'w \<Rightarrow> 'w"
  drop_container :: "'c \<Rightarrow> 'w \<Rightarrow> 'w"
  drop_digest :: "'h \<Rightarrow> 'w \<Rightarrow> 'w"

section \<open>The contract\<close>

text \<open>The guards that exist, as a ledger with multiplicity.\<close>

datatype ('d, 'a, 'c, 'h) resource =
    ResDevice 'd
  | ResApplication 'a
  | ResContainer 'c
  | ResDigest 'h

definition keeps ::
  "('w \<Rightarrow> ('d, 'a, 'c, 'h) resource multiset) \<Rightarrow> ('w \<Rightarrow> instant) \<Rightarrow> ('w \<Rightarrow> 'r \<times> 'w) \<Rightarrow> bool" where
  "keeps live now f \<longleftrightarrow>
    (\<forall>w. live (snd (f w)) = live w \<and> now w \<le> now (snd (f w)))"

definition opens ::
  "('w \<Rightarrow> ('d, 'a, 'c, 'h) resource multiset) \<Rightarrow> ('w \<Rightarrow> instant)
    \<Rightarrow> ('g \<Rightarrow> ('d, 'a, 'c, 'h) resource) \<Rightarrow> ('w \<Rightarrow> ('e + 'g) \<times> 'w) \<Rightarrow> bool" where
  "opens live now res f \<longleftrightarrow>
    (\<forall>w. now w \<le> now (snd (f w))
       \<and> live (snd (f w)) =
           (case fst (f w) of Inl _ \<Rightarrow> live w | Inr g \<Rightarrow> add_mset (res g) (live w)))"

definition closes ::
  "('w \<Rightarrow> ('d, 'a, 'c, 'h) resource multiset) \<Rightarrow> ('w \<Rightarrow> instant)
    \<Rightarrow> ('g \<Rightarrow> ('d, 'a, 'c, 'h) resource) \<Rightarrow> ('g \<Rightarrow> 'w \<Rightarrow> 'w) \<Rightarrow> bool" where
  "closes live now res f \<longleftrightarrow>
    (\<forall>g w. live (f g w) = live w - {#res g#} \<and> now w \<le> now (f g w))"

locale provider_contract =
  fixes P :: "('w, 'd, 'a, 'c, 'h) provider"
    and live :: "'w \<Rightarrow> ('d, 'a, 'c, 'h) resource multiset"
    and now :: "'w \<Rightarrow> instant"
  assumes provider_keeps:
      "keeps live now (enum_devices P b)" "keeps live now (device_state P s)"
      "keeps live now (wait_for_event P n)" "keeps live now (cancel_wait_for_event P)"
    and device_keeps:
      "keeps live now (dev_state P d)" "keeps live now (dev_lock P d du)"
      "keeps live now (dev_unlock P d)" "keeps live now (dev_transmit P d bs)"
      "keeps live now (dev_random P d n)" "keeps live now (dev_info P d)"
      "keeps live now (dev_set_label P d s)"
    and application_keeps:
      "keeps live now (enum_containers P a)" "keeps live now (verify_pin P a s)"
      "keeps live now (delete_container P a s)"
    and container_keeps:
      "keeps live now (container_type P c)" "keeps live now (export_certificate P c b)"
      "keeps live now (import_certificate P c b bs)" "keeps live now (sign_ecc P c bs)"
      "keeps live now (sign_rsa P c bs)" "keeps live now (gen_ecc_key_pair P c n32)"
      "keeps live now (gen_rsa_key_pair P c n32)" "keeps live now (set_symm_key P c n32 bs)"
      "keeps live now (encrypt P c n32 iv pd bs)" "keeps live now (decrypt P c n32 iv pd bs)"
    and digest_keeps:
      "keeps live now (dig_update P h bs)" "keeps live now (dig_finalize P h)"
    and guard_opens:
      "opens live now ResDevice (open_device P s)"
      "opens live now ResApplication (open_application P d s)"
      "opens live now ResContainer (open_container P a s)"
      "opens live now ResContainer (create_container P a s)"
      "opens live now ResDigest (begin_digest P d n32 bs)"
      "opens live now ResDigest (begin_digest_with_key P d n32 bs k)"
    and guard_closes:
      "closes live now ResDevice (drop_device P)"
      "closes live now ResApplication (drop_application P)"
      "closes live now ResContainer (drop_container P)"
      "closes live now ResDigest (drop_digest P)"

lemma keepsD:
  "keeps live now f \<Longrightarrow> f w = (r, w') \<Longrightarrow> live w' = live w"
  "keeps live now f \<Longrightarrow> f w = (r, w') \<Longrightarrow> now w \<le> now w'"
  by (metis keeps_def snd_conv)+

lemma opensD:
  "opens live now res f \<Longrightarrow> f w = (Inl e, w') \<Longrightarrow> live w' = live w"
  "opens live now res f \<Longrightarrow> f w = (Inr g, w') \<Longrightarrow> live w' = add_mset (res g) (live w)"
  "opens live now res f \<Longrightarrow> f w = (r, w') \<Longrightarrow> now w \<le> now w'"
  by (metis (no_types, lifting) fst_conv opens_def snd_conv sum.case)+

lemma closesD:
  "closes live now res f \<Longrightarrow> live (f g w) = live w - {#res g#}"
  "closes live now res f \<Longrightarrow> now w \<le> now (f g w)"
  by (simp_all add: closes_def)

section \<open>Facts about errors\<close>

lemma from_native_hex:
  "error_hex (from_native code ctxt) =
    (if code = SAR_COULDNOTGETFUNCADDR then None else Some code)"
  by (simp add: from_native_def)

end
