(* ===== verification/Session.thy ===== *)
theory Session
  imports Handles Provider
begin

text \<open>
  Session identity, the state one connection owns, and the registry of live sessions
  (\<open>src/session/mod.rs\<close>, \<open>src/session/registry.rs\<close>). The operating system's random bytes are an
  argument. An \<open>Arc<SessionMarker>\<close> is an address with a strong count; the registry holds weak
  references, which do not count.
\<close>

section \<open>Identity\<close>

type_synonym session_id = string

definition generate_session_id :: "bytes \<Rightarrow> session_id" where
  "generate_session_id random16 = concat (map fmt_02x random16)"

definition len_bytes :: "session_id \<Rightarrow> nat" where
  "len_bytes i = 16"

record session_marker =
  marker_id :: session_id

section \<open>State of one session\<close>

record ('d, 'a, 'c, 'h) session_state =
  sess_id :: session_id
  auth :: auth_table
  handles :: "('d, 'a, 'c, 'h) handle_table"

definition new_session :: "bytes \<Rightarrow> duration \<Rightarrow> ('d, 'a, 'c, 'h) session_state" where
  "new_session random16 d =
    \<lparr>sess_id = generate_session_id random16, auth = new_auth_table d,
     handles = new_handle_table\<rparr>"

definition sess_grant ::
  "runtime \<Rightarrow> instant \<Rightarrow> auth_key \<Rightarrow> ('d, 'a, 'c, 'h) session_state
    \<Rightarrow> ('d, 'a, 'c, 'h) session_state outcome" where
  "sess_grant R now k s = map_outcome_val (\<lambda>t. s\<lparr>auth := t\<rparr>) (auth_grant R now k (auth s))"

definition sess_authorize ::
  "instant \<Rightarrow> auth_key \<Rightarrow> ('d, 'a, 'c, 'h) session_state
    \<Rightarrow> (auth_rejection + unit) \<times> ('d, 'a, 'c, 'h) session_state" where
  "sess_authorize now k s = apsnd (\<lambda>t. s\<lparr>auth := t\<rparr>) (auth_check now k (auth s))"

definition sess_invalidate_device ::
  "string \<Rightarrow> string \<Rightarrow> ('d, 'a, 'c, 'h) session_state
    \<Rightarrow> nat \<times> ('d, 'a, 'c, 'h) session_state" where
  "sess_invalidate_device prov dev s =
    apsnd (\<lambda>t. s\<lparr>auth := t\<rparr>) (auth_invalidate_device prov dev (auth s))"

text \<open>Dropping a table drops its guards; the fields go in the order of declaration.\<close>

definition drop_handles ::
  "('w, 'd, 'a, 'c, 'h) provider \<Rightarrow> ('d, 'a, 'c, 'h) handle_table \<Rightarrow> 'w \<Rightarrow> 'w" where
  "drop_handles P t =
    fold (drop_digest P) (map snd (digests t))
    \<circ> fold (drop_container P) (map snd (containers t))
    \<circ> fold (drop_application P) (map snd (applications t))
    \<circ> fold (drop_device P) (map snd (devices t))"

definition drop_session ::
  "('w, 'd, 'a, 'c, 'h) provider \<Rightarrow> ('d, 'a, 'c, 'h) session_state \<Rightarrow> 'w \<Rightarrow> 'w" where
  "drop_session P s = drop_handles P (handles s)"

section \<open>Registry\<close>

record registry =
  reg_sessions :: "(session_id \<times> nat) list"
  strong_count :: "nat \<Rightarrow> nat"

record 's session_guard =
  guard_marker :: session_marker
  guard_addr :: nat
  guard_state :: "'s option"

definition new_registry :: registry where
  "new_registry = \<lparr>reg_sessions = [], strong_count = \<lambda>_. 0\<rparr>"

definition register :: "session_marker \<Rightarrow> nat \<Rightarrow> registry \<Rightarrow> session_id \<times> registry" where
  "register m addr r =
    (marker_id m, r\<lparr>reg_sessions := AList.update (marker_id m) addr (reg_sessions r)\<rparr>)"

definition deregister :: "session_id \<Rightarrow> registry \<Rightarrow> registry" where
  "deregister i r = r\<lparr>reg_sessions := AList.delete i (reg_sessions r)\<rparr>"

definition session_count :: "registry \<Rightarrow> nat \<times> registry" where
  "session_count r =
    (let kept = filter (\<lambda>(_, addr). 0 < strong_count r addr) (reg_sessions r)
     in (length kept, r\<lparr>reg_sessions := kept\<rparr>))"

text \<open>\<open>SessionGuard::create\<close>: the marker is allocated at an address nobody else holds.\<close>

definition guard_create ::
  "nat \<Rightarrow> ('d, 'a, 'c, 'h) session_state \<Rightarrow> registry
    \<Rightarrow> ('d, 'a, 'c, 'h) session_state session_guard \<times> registry" where
  "guard_create addr s r =
    (let m = \<lparr>marker_id = sess_id s\<rparr>;
         r1 = r\<lparr>strong_count := (strong_count r)(addr := 1)\<rparr>;
         r2 = snd (register m addr r1)
     in (\<lparr>guard_marker = m, guard_addr = addr, guard_state = Some s\<rparr>, r2))"

text \<open>\<open>take_state\<close> and \<open>put_state\<close>: a second take is the panic of \<open>expect\<close>.\<close>

definition take_state :: "'s session_guard \<Rightarrow> ('s \<times> 's session_guard) outcome" where
  "take_state g =
    (case guard_state g of None \<Rightarrow> Panic | Some s \<Rightarrow> Ret (s, g\<lparr>guard_state := None\<rparr>))"

definition put_state :: "'s \<Rightarrow> 's session_guard \<Rightarrow> 's session_guard" where
  "put_state s g = g\<lparr>guard_state := Some s\<rparr>"

text \<open>Dropping the guard: \<open>Drop::drop\<close> deregisters, then the marker's count falls and the state is
  dropped with every guard it holds.\<close>

definition guard_drop ::
  "('w, 'd, 'a, 'c, 'h) provider \<Rightarrow> ('d, 'a, 'c, 'h) session_state session_guard
    \<Rightarrow> registry \<times> 'w \<Rightarrow> registry \<times> 'w" where
  "guard_drop P g rw =
    (let r1 = deregister (marker_id (guard_marker g)) (fst rw);
         r2 = r1\<lparr>strong_count :=
                (strong_count r1)(guard_addr g := strong_count r1 (guard_addr g) - 1)\<rparr>
     in (r2, case guard_state g of None \<Rightarrow> snd rw | Some s \<Rightarrow> drop_session P s (snd rw)))"

section \<open>Facts about identity\<close>

lemma session_id_inj: "generate_session_id a = generate_session_id b \<longleftrightarrow> a = b"
  unfolding generate_session_id_def
  using hex_pairs_fmt [of a] hex_pairs_fmt [of b] by (metis outcome.inject)

lemma fmt_02x_chars: "set (fmt_02x b) \<subseteq> set ''0123456789abcdef''"
proof -
  have "list_all (\<lambda>n. digit_char n \<in> set ''0123456789abcdef'') [0..<16]" by code_simp
  then have "digit_char n \<in> set ''0123456789abcdef''" if "n < 16" for n
    using that by (simp add: list_all_iff)
  moreover have "unat b div 16 < 16" using unsigned_less [of b, where 'a = nat] by simp
  ultimately show ?thesis by (auto simp: fmt_02x_def)
qed

section \<open>Facts about dropping\<close>

definition guards_of :: "('d, 'a, 'c, 'h) handle_table \<Rightarrow> ('d, 'a, 'c, 'h) resource multiset" where
  "guards_of t =
    image_mset ResDevice (mset (map snd (devices t)))
    + image_mset ResApplication (mset (map snd (applications t)))
    + image_mset ResContainer (mset (map snd (containers t)))
    + image_mset ResDigest (mset (map snd (digests t)))"

lemma guards_of_new [simp]: "guards_of new_handle_table = {#}"
  by (simp add: guards_of_def new_handle_table_def)

lemma size_guards_of: "size (guards_of t) = handles_len t"
  by (simp add: guards_of_def handles_len_def)

lemma closes_fold:
  assumes "closes live now res f"
  shows "live (fold f gs w) = live w - image_mset res (mset gs)"
proof (induction gs arbitrary: w)
  case (Cons g gs)
  then show ?case using closesD(1) [OF assms] by simp
qed simp

lemma closes_fold_now:
  assumes "closes live now res f"
  shows "now w \<le> now (fold f gs w)"
proof (induction gs arbitrary: w)
  case (Cons g gs)
  then show ?case using closesD(2) [OF assms, of w g] order_trans by fastforce
qed simp

context provider_contract
begin

text \<open>Ending a session gives back exactly the guards its table holds.\<close>

lemma live_drop_handles: "live (drop_handles P t w) = live w - guards_of t"
  by (simp add: drop_handles_def guards_of_def closes_fold [OF guard_closes(1)]
      closes_fold [OF guard_closes(2)] closes_fold [OF guard_closes(3)]
      closes_fold [OF guard_closes(4)])

lemma live_drop_session: "live (drop_session P s w) = live w - guards_of (handles s)"
  by (simp add: drop_session_def live_drop_handles)

end

section \<open>Facts about grants\<close>

lemma sess_authorize_result [simp]:
  "fst (sess_authorize now k s) = fst (auth_check now k (auth s))"
  by (simp add: sess_authorize_def)

lemma sess_authorize_frame [simp]:
  "handles (snd (sess_authorize now k s)) = handles s"
  "sess_id (snd (sess_authorize now k s)) = sess_id s"
  "auth (snd (sess_authorize now k s)) = snd (auth_check now k (auth s))"
  by (simp_all add: sess_authorize_def)

lemma sess_invalidate_frame [simp]:
  "handles (snd (sess_invalidate_device p d s)) = handles s"
  "sess_id (snd (sess_invalidate_device p d s)) = sess_id s"
  "auth (snd (sess_invalidate_device p d s)) = snd (auth_invalidate_device p d (auth s))"
  by (simp_all add: sess_invalidate_device_def)

lemma sess_grant_Ret_iff:
  "sess_grant R now k s = Ret s' \<longleftrightarrow> (\<exists>t. auth_grant R now k (auth s) = Ret t \<and> s' = s\<lparr>auth := t\<rparr>)"
  by (cases "auth_grant R now k (auth s)") (auto simp: sess_grant_def)

section \<open>The registry over connects and disconnects\<close>

text \<open>The process as the registry sees it: the registry, the guards of the open connections, and
  the state behind the provider. A connection takes an identifier that no open session has
  (16 bytes of the operating system's generator) and a fresh address; it may change its own
  state at will; it ends by dropping its guard.\<close>

inductive registry_step ::
  "('w, 'd, 'a, 'c, 'h) provider
    \<Rightarrow> registry \<times> ('d, 'a, 'c, 'h) session_state session_guard list \<times> 'w
    \<Rightarrow> registry \<times> ('d, 'a, 'c, 'h) session_state session_guard list \<times> 'w \<Rightarrow> bool"
  for P where
  Connect: "sess_id s \<notin> (\<lambda>g. marker_id (guard_marker g)) ` set gs \<Longrightarrow> addr \<notin> guard_addr ` set gs
    \<Longrightarrow> guard_create addr s r = (g, r')
    \<Longrightarrow> registry_step P (r, gs, w) (r', g # gs, w)"
| Count: "session_count r = (n, r') \<Longrightarrow> registry_step P (r, gs, w) (r', gs, w)"
| Work: "registry_step P (r, gs @ g # gs', w) (r, gs @ g\<lparr>guard_state := st\<rparr> # gs', w')"
| Disconnect: "guard_drop P g (r, w) = (r', w')
    \<Longrightarrow> registry_step P (r, gs @ g # gs', w) (r', gs @ gs', w')"

inductive_cases registry_stepE: "registry_step P st st'"

inductive registry_reachable ::
  "('w, 'd, 'a, 'c, 'h) provider
    \<Rightarrow> registry \<times> ('d, 'a, 'c, 'h) session_state session_guard list \<times> 'w \<Rightarrow> bool"
  for P where
  Start: "registry_reachable P (new_registry, [], w)"
| Step: "registry_reachable P st \<Longrightarrow> registry_step P st st' \<Longrightarrow> registry_reachable P st'"

abbreviation guard_id :: "'s session_guard \<Rightarrow> session_id" where
  "guard_id g \<equiv> marker_id (guard_marker g)"

text \<open>The registry lists exactly the open connections, each once, and each is alive.\<close>

definition registry_inv :: "registry \<Rightarrow> 's session_guard list \<Rightarrow> bool" where
  "registry_inv r gs \<longleftrightarrow>
    wf_table (reg_sessions r)
    \<and> distinct (map guard_id gs) \<and> distinct (map guard_addr gs)
    \<and> set (reg_sessions r) = (\<lambda>g. (guard_id g, guard_addr g)) ` set gs
    \<and> (\<forall>g \<in> set gs. strong_count r (guard_addr g) = 1)"

lemma registry_inv_count:
  assumes "registry_inv r gs"
  shows "session_count r = (length gs, r)"
proof -
  have "\<forall>p \<in> set (reg_sessions r). 0 < strong_count r (snd p)"
    using assms by (auto simp: registry_inv_def)
  then have keep: "filter (\<lambda>(_, addr). 0 < strong_count r addr) (reg_sessions r) = reg_sessions r"
    by (auto simp: filter_id_conv)
  have "length (reg_sessions r) = card (set (reg_sessions r))"
    using assms by (metis distinct_card distinct_map registry_inv_def)
  also have "\<dots> = card (set gs)"
  proof -
    have "inj_on (\<lambda>g. (guard_id g, guard_addr g)) (set gs)"
      using assms by (auto simp: registry_inv_def distinct_map inj_on_def)
    then show ?thesis using assms by (simp add: registry_inv_def card_image)
  qed
  also have "\<dots> = length gs"
    using assms by (metis distinct_card distinct_map registry_inv_def)
  finally show ?thesis using keep by (simp add: session_count_def Let_def)
qed

lemma registry_inv_connect:
  assumes "registry_inv r gs" "sess_id s \<notin> guard_id ` set gs" "addr \<notin> guard_addr ` set gs"
    and "guard_create addr s r = (g, r')"
  shows "registry_inv r' (g # gs)"
proof -
  have fresh: "map_of (reg_sessions r) (sess_id s) = None"
    using assms(1,2) by (auto simp: registry_inv_def map_of_eq_None_iff image_iff)
  then show ?thesis
    using assms
    by (auto simp: registry_inv_def guard_create_def register_def Let_def set_update_fresh)
qed

lemma registry_inv_drop:
  assumes inv: "registry_inv r (gs @ g # gs')" and drop: "guard_drop P g (r, w) = (r', w')"
  shows "registry_inv r' (gs @ gs')"
proof -
  have ids: "guard_id g \<notin> guard_id ` set (gs @ gs')" "guard_addr g \<notin> guard_addr ` set (gs @ gs')"
    using inv by (simp_all add: registry_inv_def image_Un)
  have other: "guard_id x \<noteq> guard_id g" "guard_addr x \<noteq> guard_addr g" if "x \<in> set (gs @ gs')" for x
    using ids imageI [OF that, of guard_id] imageI [OF that, of guard_addr] by metis+
  have r': "reg_sessions r' = AList.delete (guard_id g) (reg_sessions r)"
    "strong_count r' = (strong_count r)(guard_addr g := strong_count r (guard_addr g) - 1)"
    using drop by (auto simp: guard_drop_def deregister_def Let_def)
  have "set (reg_sessions r) =
      insert (guard_id g, guard_addr g) ((\<lambda>g. (guard_id g, guard_addr g)) ` set (gs @ gs'))"
    using inv by (simp add: registry_inv_def)
  then have "set (reg_sessions r') = (\<lambda>g. (guard_id g, guard_addr g)) ` set (gs @ gs')"
    using other(1) unfolding r'(1) set_delete by auto
  moreover have "\<forall>x \<in> set (gs @ gs'). strong_count r' (guard_addr x) = 1"
    using inv other(2) unfolding r'(2) by (simp add: registry_inv_def)
  moreover have "wf_table (reg_sessions r')"
    using inv unfolding r'(1) by (simp add: registry_inv_def)
  moreover have "distinct (map guard_id (gs @ gs'))" "distinct (map guard_addr (gs @ gs'))"
    using inv by (simp_all add: registry_inv_def)
  ultimately show ?thesis unfolding registry_inv_def by blast
qed

lemma registry_inv_work:
  "registry_inv r (gs @ g # gs') \<Longrightarrow> registry_inv r (gs @ g\<lparr>guard_state := st\<rparr> # gs')"
  by (simp add: registry_inv_def)

lemma registry_inv_step:
  assumes "registry_step P st st'" and "registry_inv (fst st) (fst (snd st))"
  shows "registry_inv (fst st') (fst (snd st'))"
  using assms
proof (cases rule: registry_step.cases)
  case (Connect s gs addr r g r' w)
  then show ?thesis using assms(2) registry_inv_connect [of r gs s addr g r'] by simp
next
  case (Count r n r' gs w)
  then show ?thesis using assms(2) registry_inv_count [of r gs] by simp
next
  case (Work r gs g gs' w st w')
  then show ?thesis using assms(2) registry_inv_work [of r gs g gs' st] by simp
next
  case (Disconnect g r w r' w' gs gs')
  then show ?thesis using assms(2) registry_inv_drop by fastforce
qed

lemma registry_inv_reachable:
  "registry_reachable P st \<Longrightarrow> registry_inv (fst st) (fst (snd st))"
proof (induction rule: registry_reachable.induct)
  case (Start w)
  then show ?case by (simp add: registry_inv_def new_registry_def)
next
  case (Step st st')
  then show ?case using registry_inv_step by blast
qed

section \<open>Properties\<close>

text \<open>C33: In every state the process can reach by connections opening, working and closing, the
  number of live sessions the registry reports is the number of open connections, and asking
  for it changes nothing.\<close>

theorem session_count_exact:
  assumes "registry_reachable P (r, gs, w)"
  shows "session_count r = (length gs, r)"
  using registry_inv_count registry_inv_reachable [OF assms] by simp

theorem session_count_exact_witness:
  "\<forall>P w. \<exists>r g. registry_reachable (P :: (unit, unit, unit, unit, unit) provider) (r, [g], w)
    \<and> session_count r = (1, r)"
proof (intro allI)
  fix P :: "(unit, unit, unit, unit, unit) provider" and w
  let ?s = "new_session [] 0 :: (unit, unit, unit, unit) session_state"
  obtain g r where gr: "guard_create 0 ?s new_registry = (g, r)"
    by (cases "guard_create 0 ?s new_registry")
  have "registry_reachable P (r, [g], w)"
    using registry_reachable.Step [OF registry_reachable.Start registry_step.Connect [OF _ _ gr]]
    by simp
  then show "\<exists>r g. registry_reachable P (r, [g], w) \<and> session_count r = (1, r)"
    using session_count_exact by fastforce
qed

text \<open>A session identifier is 32 lower-case hexadecimal digits when it is made of 16 random bytes,
  and different random bytes give different identifiers, so no entropy is lost.\<close>

theorem generate_session_id_faithful:
  "(generate_session_id a = generate_session_id b \<longleftrightarrow> a = b)
    \<and> length (generate_session_id a) = 2 * length a
    \<and> set (generate_session_id a) \<subseteq> set ''0123456789abcdef''"
proof -
  have "length (generate_session_id a) = 2 * length a"
    unfolding generate_session_id_def by (induction a) simp_all
  moreover have "set (generate_session_id a) \<subseteq> set ''0123456789abcdef''"
    using fmt_02x_chars by (fastforce simp: generate_session_id_def)
  ultimately show ?thesis by (simp add: session_id_inj)
qed

end
