(* ===== verification/Config.thy ===== *)
theory Config
  imports Protocol
begin

text \<open>
  Provider configuration (\<open>src/config/mod.rs\<close>): the parsed YAML document, the opt-in for
  remote binding, \<open>%VAR%\<close> expansion, the library path of a provider on an operating system,
  and the startup diagnostics. Reading the file and parsing YAML belong to the operating
  system and to \<open>serde_yaml\<close>. A map is an association list whose order stands for the
  iteration order of the hash map.
\<close>

record skf_config =
  cfg_default :: string
  vendor :: "(string \<times> string) list"
  allow_remote :: "bool option"
  libs :: "(string \<times> (string \<times> string) list) list"

definition REMOTE_ENV :: string where
  "REMOTE_ENV = ''SKF_ALLOW_REMOTE''"

text \<open>The reading of an on/off environment variable: \<open>1\<close> or \<open>true\<close>, trimmed, in any case.\<close>

definition env_flag :: "runtime \<Rightarrow> string \<Rightarrow> bool" where
  "env_flag R name =
    (case env_var R name of
      None \<Rightarrow> False
    | Some v \<Rightarrow> to_ascii_lowercase (trim v) \<in> {''1'', ''true''})"

definition allows_remote :: "runtime \<Rightarrow> skf_config \<Rightarrow> bool" where
  "allows_remote R cfg \<longleftrightarrow> allow_remote cfg = Some True \<or> env_flag R REMOTE_ENV"

function expand_env_vars :: "runtime \<Rightarrow> string \<Rightarrow> string" where
  "expand_env_vars R [] = []"
| "expand_env_vars R (c # cs) =
    (if c = CHR ''%'' then
       (case split_once CHR ''%'' cs of
         None \<Rightarrow> CHR ''%'' # cs
       | Some (var_name, rest) \<Rightarrow>
           (if var_name = [] then [CHR ''%'']
            else case env_var R var_name of
              Some val \<Rightarrow> val
            | None \<Rightarrow> CHR ''%'' # var_name @ [CHR ''%'']) @ expand_env_vars R rest)
     else c # expand_env_vars R cs)"
  by pat_completeness auto
termination
  by (relation "measure (\<lambda>(R, s). length s)") (auto dest!: split_once_SomeD)

definition os_lookup :: "(string \<times> string) list \<Rightarrow> string \<Rightarrow> string option" where
  "os_lookup m os =
    (case map_of m os of
      Some p \<Rightarrow> Some p
    | None \<Rightarrow> map_option snd (find (\<lambda>(k, v). eq_ignore_ascii_case k os) m))"

definition resolve_lib_path ::
  "runtime \<Rightarrow> (string \<times> (string \<times> string) list) list \<Rightarrow> string \<Rightarrow> string \<Rightarrow> string + string" where
  "resolve_lib_path R ls provider os =
    (case Option.bind (map_of ls provider) (\<lambda>m. os_lookup m os) of
      Some raw_path \<Rightarrow> Inr (expand_env_vars R raw_path)
    | None \<Rightarrow>
        Inl (''Provider '' @ [CHR 0x27] @ provider @ [CHR 0x27] @ '' not configured for OS ''
          @ [CHR 0x27] @ os @ [CHR 0x27] @ ''. Avail Provs: '' @ debug_list R (map fst ls)))"

definition quoted :: "string \<Rightarrow> string" where
  "quoted s = CHR 0x27 # s @ [CHR 0x27]"

definition validate_default :: "runtime \<Rightarrow> skf_config \<Rightarrow> string \<Rightarrow> string list" where
  "validate_default R cfg os =
    (if cfg_default cfg \<notin> set (map fst (libs cfg)) then
       [''default provider '' @ quoted (cfg_default cfg) @ '' is not defined in the provider map'']
     else case resolve_lib_path R (libs cfg) (cfg_default cfg) os of
       Inr path \<Rightarrow>
         (if trim path = [] then
            [''default provider '' @ quoted (cfg_default cfg) @ '' resolved to an empty path'']
          else [])
         @ (if CHR ''%'' \<in> set path then
            [''default provider '' @ quoted (cfg_default cfg)
              @ '' has an unresolved environment variable in path '' @ quoted path]
          else [])
     | Inl _ \<Rightarrow>
         [''default provider '' @ quoted (cfg_default cfg) @ '' has no path configured for OS ''
           @ quoted os])"

definition validate_others :: "runtime \<Rightarrow> skf_config \<Rightarrow> string \<Rightarrow> string list" where
  "validate_others R cfg os =
    concat (map (\<lambda>alias.
      if alias = cfg_default cfg then []
      else case resolve_lib_path R (libs cfg) alias os of
        Inr path \<Rightarrow>
          (if CHR ''%'' \<in> set path then
             [''provider '' @ quoted alias
               @ '' has an unresolved environment variable in path '' @ quoted path]
           else [])
      | Inl _ \<Rightarrow> []) (map fst (libs cfg)))"

definition validate_vendors :: "skf_config \<Rightarrow> string list" where
  "validate_vendors cfg =
    concat (map (\<lambda>(vpid, alias).
      if alias \<in> set (map fst (libs cfg)) then []
      else [''vendor mapping '' @ quoted vpid @ '' references unknown provider '' @ quoted alias])
      (vendor cfg))"

definition validate :: "runtime \<Rightarrow> skf_config \<Rightarrow> string \<Rightarrow> string list" where
  "validate R cfg os =
    validate_default R cfg os @ validate_others R cfg os @ validate_vendors cfg"

section \<open>Expansion against a reference\<close>

text \<open>The reference reads the text as the segments between percent signs: literal text and
  variable names alternate, and a last unpaired sign is literal.\<close>

definition subst_var :: "runtime \<Rightarrow> string \<Rightarrow> string" where
  "subst_var R name =
    (if name = [] then ''%''
     else case env_var R name of Some val \<Rightarrow> val | None \<Rightarrow> ''%'' @ name @ ''%'')"

fun expand_segments :: "runtime \<Rightarrow> string list \<Rightarrow> string" where
  "expand_segments R [] = []"
| "expand_segments R [lit] = lit"
| "expand_segments R [lit, tail] = lit @ ''%'' @ tail"
| "expand_segments R (lit # name # rest) = lit @ subst_var R name @ expand_segments R rest"

lemma split_split_once:
  "split c s = (case split_once c s of None \<Rightarrow> [s] | Some (a, b) \<Rightarrow> a # split c b)"
  by (induction s) (auto split: option.splits)

lemma expand_segments_literal:
  "expand_segments R ((c # lit) # ss) = c # expand_segments R (lit # ss)"
proof (cases ss)
  case (Cons x xs)
  then show ?thesis by (cases xs) simp_all
qed simp

lemma expand_env_vars_segments: "expand_env_vars R s = expand_segments R (split CHR ''%'' s)"
proof (induction R s rule: expand_env_vars.induct)
  case (1 R)
  then show ?case by simp
next
  case (2 R c cs)
  show ?case
  proof (cases "c = CHR ''%''")
    case True
    show ?thesis
    proof (cases "split_once CHR ''%'' cs")
      case None
      with True show ?thesis by (simp add: split_split_once [of _ cs])
    next
      case (Some p)
      obtain v r where p: "p = (v, r)" by (cases p)
      obtain y ys where ys: "split CHR ''%'' r = y # ys"
        by (cases "split CHR ''%'' r") auto
      have "expand_env_vars R r = expand_segments R (split CHR ''%'' r)"
        using "2.IH"(1) True Some p by blast
      with True Some p ys show ?thesis
        by (simp add: split_split_once [of _ cs] subst_var_def split: option.splits)
    qed
  next
    case False
    obtain y ys where "split CHR ''%'' cs = y # ys"
      by (cases "split CHR ''%'' cs") auto
    with 2 False show ?thesis by (simp add: expand_segments_literal)
  qed
qed

section \<open>Resolution\<close>

lemma os_lookup_None_iff:
  "os_lookup m os = None \<longleftrightarrow> (\<forall>k \<in> set (map fst m). \<not> eq_ignore_ascii_case k os)"
proof (cases "map_of m os")
  case None
  then show ?thesis by (auto simp: os_lookup_def find_None_iff split_beta)
next
  case (Some p)
  then have "(os, p) \<in> set m" by (rule map_of_SomeD)
  then have "os \<in> set (map fst m)" by force
  moreover have "eq_ignore_ascii_case os os" by (rule eq_ignore_ascii_case_refl)
  moreover have "os_lookup m os \<noteq> None" using Some by (simp add: os_lookup_def)
  ultimately show ?thesis by blast
qed

lemma os_lookup_exact: "map_of m os = Some p \<Longrightarrow> os_lookup m os = Some p"
  by (simp add: os_lookup_def)

lemma os_lookup_value:
  "os_lookup m os = Some p \<Longrightarrow> \<exists>k. (k, p) \<in> set m \<and> eq_ignore_ascii_case k os"
  by (auto simp: os_lookup_def find_Some_iff split: option.splits dest: map_of_SomeD)
     (metis nth_mem)

lemma resolve_lib_path_Inr_iff:
  "resolve_lib_path R ls prov os = Inr p \<longleftrightarrow>
    (\<exists>m q. map_of ls prov = Some m \<and> os_lookup m os = Some q \<and> p = expand_env_vars R q)"
  by (auto simp: resolve_lib_path_def split: option.splits bind_splits)

lemma resolve_lib_path_defined:
  "resolve_lib_path R ls a os = Inr p \<Longrightarrow> a \<in> fst ` set ls"
  by (auto simp: resolve_lib_path_Inr_iff dest: map_of_SomeD intro: rev_image_eqI)

lemma validate_others_Nil_iff:
  "validate_others R cfg os = [] \<longleftrightarrow>
    (\<forall>a p. a \<noteq> cfg_default cfg \<longrightarrow> resolve_lib_path R (libs cfg) a os = Inr p
      \<longrightarrow> CHR ''%'' \<notin> set p)" (is "_ = ?r")
proof -
  have "validate_others R cfg os = [] \<longleftrightarrow>
    (\<forall>a \<in> fst ` set (libs cfg). a \<noteq> cfg_default cfg \<longrightarrow>
      (\<forall>p. resolve_lib_path R (libs cfg) a os = Inr p \<longrightarrow> CHR ''%'' \<notin> set p))"
    unfolding validate_others_def concat_map_Nil_iff set_map
    by (intro ball_cong refl) (simp split: sum.splits)
  also have "\<dots> = ?r"
    by (meson resolve_lib_path_defined)
  finally show ?thesis .
qed

section \<open>Properties\<close>

text \<open>C40: Expanding \<open>%VAR%\<close> character by character agrees with the reference that splits the
  text at the percent signs: names between a pair of signs are replaced by their value or left
  as they are when unset, \<open>%%\<close> becomes one sign, and an unpaired sign is kept with the text
  after it.\<close>

theorem expand_env_vars_reference:
  "expand_env_vars R s = expand_segments R (split CHR ''%'' s)"
  by (rule expand_env_vars_segments)

text \<open>A provider path is resolved exactly when the provider is configured and some
  operating-system key of it equals the requested one up to ASCII case; the path is then the
  expansion of a value stored under such a key, and of the value under the exact key when that
  exists.\<close>

theorem resolve_lib_path_correct:
  "(case resolve_lib_path R ls prov os of
      Inl e \<Rightarrow>
        map_of ls prov = None
        \<or> (\<exists>m. map_of ls prov = Some m \<and> filter (\<lambda>(k, v). eq_ignore_ascii_case k os) m = [])
    | Inr p \<Rightarrow>
        (\<exists>m k q. map_of ls prov = Some m \<and> (k, q) \<in> set m \<and> eq_ignore_ascii_case k os
           \<and> p = expand_env_vars R q
           \<and> map_of m os \<in> {None, Some q}))"
proof (cases "Option.bind (map_of ls prov) (\<lambda>m. os_lookup m os)")
  case None
  have absent: "filter (\<lambda>(k, v). eq_ignore_ascii_case k os) m = []"
    if "map_of ls prov = Some m" for m
  proof -
    have "os_lookup m os = None" using None that by simp
    then show ?thesis by (auto simp: os_lookup_None_iff filter_empty_conv)
  qed
  show ?thesis using None absent
    by (cases "map_of ls prov") (simp_all add: resolve_lib_path_def)
next
  case (Some q)
  then obtain m where m: "map_of ls prov = Some m" and q: "os_lookup m os = Some q"
    by (auto simp: bind_eq_Some_conv)
  from os_lookup_value [OF q] obtain k where "(k, q) \<in> set m" "eq_ignore_ascii_case k os"
    by blast
  moreover have "map_of m os \<in> {None, Some q}"
    using q os_lookup_exact [of m os] by (cases "map_of m os") auto
  ultimately show ?thesis using m Some by (auto simp: resolve_lib_path_def)
qed

text \<open>The diagnostics are empty exactly when the default provider is defined and resolves
  for the system to a path that is not blank and holds no percent sign, no other provider that
  resolves has a percent sign in its path, and every vendor mapping names a defined provider.\<close>

theorem validate_empty_iff:
  "validate R cfg os = [] \<longleftrightarrow>
    (\<exists>p. resolve_lib_path R (libs cfg) (cfg_default cfg) os = Inr p \<and> trim p \<noteq> [])
    \<and> (\<forall>a p. resolve_lib_path R (libs cfg) a os = Inr p \<longrightarrow> CHR ''%'' \<notin> set p)
    \<and> snd ` set (vendor cfg) \<subseteq> fst ` set (libs cfg)"
proof -
  have d: "validate_default R cfg os = [] \<longleftrightarrow>
      (\<exists>p. resolve_lib_path R (libs cfg) (cfg_default cfg) os = Inr p \<and> trim p \<noteq> []
        \<and> CHR ''%'' \<notin> set p)"
    using resolve_lib_path_defined [of R "libs cfg" "cfg_default cfg" os]
    by (cases "resolve_lib_path R (libs cfg) (cfg_default cfg) os")
       (auto simp: validate_default_def)
  have o: "validate_others R cfg os = [] \<longleftrightarrow>
      (\<forall>a p. a \<noteq> cfg_default cfg \<longrightarrow> resolve_lib_path R (libs cfg) a os = Inr p
        \<longrightarrow> CHR ''%'' \<notin> set p)"
    by (rule validate_others_Nil_iff)
  have v: "validate_vendors cfg = [] \<longleftrightarrow> snd ` set (vendor cfg) \<subseteq> fst ` set (libs cfg)"
    by (force simp: validate_vendors_def split: if_splits)
  show ?thesis unfolding validate_def append_is_Nil_conv d o v
    by (cases "resolve_lib_path R (libs cfg) (cfg_default cfg) os") (auto, metis sum.inject(2))
qed

theorem validate_empty_iff_witness:
  "validate \<lparr>rt_codec = \<lparr>b64_encode = \<lambda>_. [], b64_decode = Inl\<rparr>, env_var = \<lambda>_. None,
       unicode_upper = \<lambda>s. s, debug_list = \<lambda>_. [], instant_max = 0\<rparr>
     \<lparr>cfg_default = ''GM'', vendor = [], allow_remote = None, libs = []\<rparr> ''linux'' \<noteq> []"
  by (subst validate_empty_iff) (simp add: resolve_lib_path_def)

end
