(* ===== verification/Domain.thy ===== *)
theory Domain
  imports Session Config
begin

text \<open>
  What the request handlers share (\<open>src/domain/mod.rs\<close>): the context that resolves a provider alias,
  the common responses, alias normalisation, the authorization check, the native key blobs and
  the split of a certificate key.

  A handler is a function on the session and the state behind the provider that returns a
  response or panics. The prefix that the Rust handlers repeat - resolve, open the device, open
  the application, check the grant, open the container - is written once here as combinators;
  \<open>with_guard\<close> is the scope of a local guard: the guard is dropped when the body ends, however it
  ends.

  The contract of the context is a locale. Inside it the combinators are shown to give back
  every guard, to leave the handle table alone and to add no grant.
\<close>

section \<open>Context\<close>

text \<open>The trait's default alias and resolution, and what a handler asks of the operating system: the
  monotonic clock, the microseconds since the epoch (none when the clock stands before it), and
  the debug copy of the last request that \<open>CreatePKCS10\<close> leaves in the temporary directory.\<close>

record ('w, 'd, 'a, 'c, 'h) server_context =
  default_alias :: string
  resolve :: "string \<Rightarrow> 'w \<Rightarrow> (string + ('w, 'd, 'a, 'c, 'h) provider) \<times> 'w"
  clock :: "'w \<Rightarrow> instant"
  unix_micros :: "'w \<Rightarrow> nat option"
  write_last_csr :: "string \<Rightarrow> 'w \<Rightarrow> 'w"

type_synonym ('w, 'd, 'a, 'c, 'h) handler_state = "('d, 'a, 'c, 'h) session_state \<times> 'w"

type_synonym ('w, 'd, 'a, 'c, 'h) handler =
  "('w, 'd, 'a, 'c, 'h) handler_state
    \<Rightarrow> rpc_response outcome \<times> ('w, 'd, 'a, 'c, 'h) handler_state"

section \<open>Shared responses\<close>

definition load_failed :: "string \<Rightarrow> json option \<Rightarrow> rpc_response" where
  "load_failed msg ident = rpc_err (- 5) (''Load Lib Failed: '' @ msg) ident"

definition load_failed_localized :: "string \<Rightarrow> language \<Rightarrow> json option \<Rightarrow> rpc_response" where
  "load_failed_localized msg lang ident =
    rpc_err (- 1)
      (case lang of
        CN \<Rightarrow> utf8 [0xE5, 0x8A, 0xA0, 0xE8, 0xBD, 0xBD, 0xE5, 0xBA, 0x93, 0xE5, 0xA4, 0xB1, 0xE8, 0xB4, 0xA5] @ '': '' @ msg
      | EN \<Rightarrow> ''Load Lib Failed: '' @ msg)
      ident"

definition normalize_alias :: "('w, 'd, 'a, 'c, 'h) server_context \<Rightarrow> string \<Rightarrow> string" where
  "normalize_alias ctx requested =
    (if requested = [] \<or> requested = ''default'' then default_alias ctx else requested)"

definition session_authorized ::
  "instant \<Rightarrow> string \<Rightarrow> string \<Rightarrow> string \<Rightarrow> ('d, 'a, 'c, 'h) session_state
    \<Rightarrow> (auth_rejection + unit) \<times> ('d, 'a, 'c, 'h) session_state" where
  "session_authorized now prov dev app s = sess_authorize now (new_auth_key prov dev app) s"

definition note_device_unavailable ::
  "string \<Rightarrow> string \<Rightarrow> ('d, 'a, 'c, 'h) session_state \<Rightarrow> ('d, 'a, 'c, 'h) session_state" where
  "note_device_unavailable prov dev s = snd (sess_invalidate_device prov dev s)"

fun native_code :: "provider_error \<Rightarrow> u32 option" where
  "native_code (Native code _) = Some code"
| "native_code (Injected (Custom code)) = Some code"
| "native_code _ = None"

text \<open>The answer to a failed provider call: the vendor's code when there is one.\<close>

definition provider_failure ::
  "(u32 \<Rightarrow> string) \<Rightarrow> provider_error \<Rightarrow> json option \<Rightarrow> rpc_response" where
  "provider_failure text e ident =
    (case native_code e of
      Some code \<Rightarrow> rpc_err code (text code) ident
    | None \<Rightarrow> load_failed (error_to_string e) ident)"

abbreviation failed_text :: "string \<Rightarrow> u32 \<Rightarrow> string" where
  "failed_text what code \<equiv> what @ '' failed: 0x'' @ fmt_08X code"

definition localized :: "language \<Rightarrow> string \<Rightarrow> string \<Rightarrow> u32 \<Rightarrow> string" where
  "localized lang cn en code = (case lang of CN \<Rightarrow> cn | EN \<Rightarrow> en) @ fmt_08X code"

section \<open>Native blobs\<close>

text \<open>Copying a slice into a zeroed array of fixed size.\<close>

definition copy_into :: "nat \<Rightarrow> bytes \<Rightarrow> bytes" where
  "copy_into n bs = take n bs @ replicate (n - length bs) 0"

definition ecc_blob :: "ecc_public_key \<Rightarrow> ecc_public_key_blob" where
  "ecc_blob k =
    \<lparr>BitLen = ecc_bit_len k, XCoordinate = copy_into 64 (ecc_x k),
     YCoordinate = copy_into 64 (ecc_y k)\<rparr>"

definition rsa_blob :: "rsa_public_key \<Rightarrow> rsa_public_key_blob" where
  "rsa_blob k =
    \<lparr>AlgID = rsa_alg_id k, RBitLen = rsa_bit_len k, Modulus = copy_into 256 (rsa_modulus k),
     PublicExponent = copy_into 4 (rsa_exponent k)\<rparr>"

text \<open>The memory of the two blobs on a little-endian machine; neither has padding.\<close>

definition le_bytes :: "u32 \<Rightarrow> bytes" where
  "le_bytes n = map (\<lambda>i. ucast (drop_bit (8 * i) n)) [0, 1, 2, 3]"

definition struct_bytes_ecc :: "ecc_public_key_blob \<Rightarrow> bytes" where
  "struct_bytes_ecc b = le_bytes (BitLen b) @ XCoordinate b @ YCoordinate b"

definition struct_bytes_rsa :: "rsa_public_key_blob \<Rightarrow> bytes" where
  "struct_bytes_rsa b = le_bytes (AlgID b) @ le_bytes (RBitLen b) @ Modulus b @ PublicExponent b"

definition split_cert_key :: "string \<Rightarrow> nat \<Rightarrow> string list option" where
  "split_cert_key cert_key n =
    (let parts = splitn 5 CHR ''/'' cert_key in if length parts < n then None else Some parts)"

section \<open>Combinators\<close>

definition reply :: "rpc_response \<Rightarrow> ('w, 'd, 'a, 'c, 'h) handler" where
  "reply r st = (Ret r, st)"

definition let_ok ::
  "(rpc_response + 'v) \<Rightarrow> ('v \<Rightarrow> ('w, 'd, 'a, 'c, 'h) handler) \<Rightarrow> ('w, 'd, 'a, 'c, 'h) handler" where
  "let_ok x body = (case x of Inl e \<Rightarrow> reply e | Inr v \<Rightarrow> body v)"

definition let_some ::
  "'v option \<Rightarrow> rpc_response \<Rightarrow> ('v \<Rightarrow> ('w, 'd, 'a, 'c, 'h) handler)
    \<Rightarrow> ('w, 'd, 'a, 'c, 'h) handler" where
  "let_some x refusal body = (case x of None \<Rightarrow> reply refusal | Some v \<Rightarrow> body v)"

text \<open>A computation that may panic: nothing after it runs.\<close>

definition let_ret ::
  "'v outcome \<Rightarrow> ('v \<Rightarrow> ('w, 'd, 'a, 'c, 'h) handler) \<Rightarrow> ('w, 'd, 'a, 'c, 'h) handler" where
  "let_ret x body st = (case x of Panic \<Rightarrow> (Panic, st) | Ret v \<Rightarrow> body v st)"

text \<open>The slice \<open>bs[i..j]\<close>.\<close>

definition slice :: "nat \<Rightarrow> nat \<Rightarrow> bytes \<Rightarrow> bytes outcome" where
  "slice i j bs = (if i \<le> j \<and> j \<le> length bs then Ret (take (j - i) (drop i bs)) else Panic)"

definition call ::
  "('w \<Rightarrow> 'r \<times> 'w) \<Rightarrow> ('r \<Rightarrow> ('w, 'd, 'a, 'c, 'h) handler) \<Rightarrow> ('w, 'd, 'a, 'c, 'h) handler" where
  "call f k st = (case f (snd st) of (r, w) \<Rightarrow> k r (fst st, w))"

definition answer ::
  "('r \<Rightarrow> rpc_response) \<Rightarrow> (provider_error \<Rightarrow> rpc_response) \<Rightarrow> provider_error + 'r
    \<Rightarrow> ('w, 'd, 'a, 'c, 'h) handler" where
  "answer ok err r = reply (case r of Inr v \<Rightarrow> ok v | Inl e \<Rightarrow> err e)"

text \<open>Using a provider call's value, or leaving with its failure.\<close>

definition let_call ::
  "('w, 'r) operation_fn \<Rightarrow> (provider_error \<Rightarrow> rpc_response)
    \<Rightarrow> ('r \<Rightarrow> ('w, 'd, 'a, 'c, 'h) handler) \<Rightarrow> ('w, 'd, 'a, 'c, 'h) handler" where
  "let_call f err body = call f (\<lambda>r. case r of Inl e \<Rightarrow> reply (err e) | Inr v \<Rightarrow> body v)"

definition with_guard ::
  "('w, 'g) operation_fn \<Rightarrow> ('g \<Rightarrow> 'w \<Rightarrow> 'w) \<Rightarrow> (provider_error \<Rightarrow> ('w, 'd, 'a, 'c, 'h) handler)
    \<Rightarrow> ('g \<Rightarrow> ('w, 'd, 'a, 'c, 'h) handler) \<Rightarrow> ('w, 'd, 'a, 'c, 'h) handler" where
  "with_guard open_g drop_g on_err body st =
    (case open_g (snd st) of
      (Inl e, w) \<Rightarrow> on_err e (fst st, w)
    | (Inr g, w) \<Rightarrow>
        (case body g (fst st, w) of (r, s', w') \<Rightarrow> (r, s', drop_g g w')))"

definition with_provider ::
  "('w, 'd, 'a, 'c, 'h) server_context \<Rightarrow> string \<Rightarrow> (string \<Rightarrow> rpc_response)
    \<Rightarrow> (('w, 'd, 'a, 'c, 'h) provider \<Rightarrow> ('w, 'd, 'a, 'c, 'h) handler)
    \<Rightarrow> ('w, 'd, 'a, 'c, 'h) handler" where
  "with_provider ctx name on_err body =
    call (resolve ctx name) (\<lambda>r. case r of Inl m \<Rightarrow> reply (on_err m) | Inr P \<Rightarrow> body P)"

text \<open>A device or application that cannot be opened costs the session its grants on the device.\<close>

definition lost_device ::
  "string \<Rightarrow> string \<Rightarrow> (provider_error \<Rightarrow> rpc_response) \<Rightarrow> provider_error
    \<Rightarrow> ('w, 'd, 'a, 'c, 'h) handler" where
  "lost_device prov dev err e st = (Ret (err e), note_device_unavailable prov dev (fst st), snd st)"

definition with_device ::
  "('w, 'd, 'a, 'c, 'h) provider \<Rightarrow> string \<Rightarrow> string \<Rightarrow> json option
    \<Rightarrow> ('d \<Rightarrow> ('w, 'd, 'a, 'c, 'h) handler) \<Rightarrow> ('w, 'd, 'a, 'c, 'h) handler" where
  "with_device P prov dev ident =
    with_guard (open_device P dev) (drop_device P)
      (lost_device prov dev (\<lambda>e. provider_failure (failed_text ''ConnectDev'') e ident))"

definition with_application ::
  "('w, 'd, 'a, 'c, 'h) provider \<Rightarrow> 'd \<Rightarrow> string \<Rightarrow> string \<Rightarrow> string \<Rightarrow> (u32 \<Rightarrow> string) \<Rightarrow> json option
    \<Rightarrow> ('a \<Rightarrow> ('w, 'd, 'a, 'c, 'h) handler) \<Rightarrow> ('w, 'd, 'a, 'c, 'h) handler" where
  "with_application P d prov dev app text ident =
    with_guard (open_application P d app) (drop_application P)
      (lost_device prov dev (\<lambda>e. provider_failure text e ident))"

definition not_logged_in :: "json option \<Rightarrow> rpc_response" where
  "not_logged_in ident = rpc_err (- 10) ''User not logged in. Call CheckPIN first.'' ident"

definition require_auth ::
  "('w, 'd, 'a, 'c, 'h) server_context \<Rightarrow> string \<Rightarrow> string \<Rightarrow> string \<Rightarrow> json option
    \<Rightarrow> ('w, 'd, 'a, 'c, 'h) handler \<Rightarrow> ('w, 'd, 'a, 'c, 'h) handler" where
  "require_auth ctx prov dev app ident body st =
    (case session_authorized (clock ctx (snd st)) prov dev app (fst st) of
      (Inl _, s) \<Rightarrow> reply (not_logged_in ident) (s, snd st)
    | (Inr _, s) \<Rightarrow> body (s, snd st))"

definition with_container ::
  "('w, 'd, 'a, 'c, 'h) provider \<Rightarrow> 'a \<Rightarrow> string \<Rightarrow> json option
    \<Rightarrow> ('c \<Rightarrow> ('w, 'd, 'a, 'c, 'h) handler) \<Rightarrow> ('w, 'd, 'a, 'c, 'h) handler" where
  "with_container P a cont ident =
    with_guard (open_container P a cont) (drop_container P)
      (\<lambda>e. reply (provider_failure (failed_text ''OpenContainer'') e ident))"

section \<open>What a handler leaves behind\<close>

text \<open>What a handler may do to the session, up to a set of keys: identity, handle table and lifetime
  are untouched, and a grant outside the set is either untouched or dropped.\<close>

definition sess_kept ::
  "auth_key set \<Rightarrow> ('d, 'a, 'c, 'h) session_state \<Rightarrow> ('d, 'a, 'c, 'h) session_state \<Rightarrow> bool" where
  "sess_kept K s s' \<longleftrightarrow>
    handles s' = handles s \<and> sess_id s' = sess_id s \<and> ttl (auth s') = ttl (auth s)
    \<and> (\<forall>k. k \<in> K \<or> auth_lookup (auth s') k = None
          \<or> auth_lookup (auth s') k = auth_lookup (auth s) k)"

text \<open>A handler is clean when, however it ends, the guards that exist are those that existed before
  it, the clock has not gone back, and the session is kept.\<close>

definition clean ::
  "('w \<Rightarrow> ('d, 'a, 'c, 'h) resource multiset) \<Rightarrow> ('w \<Rightarrow> instant) \<Rightarrow> auth_key set
    \<Rightarrow> ('w, 'd, 'a, 'c, 'h) handler \<Rightarrow> bool" where
  "clean live now K f \<longleftrightarrow>
    (\<forall>s w r s' w'. f (s, w) = (r, s', w') \<longrightarrow>
      live w' = live w \<and> now w \<le> now w' \<and> sess_kept K s s')"

lemma sess_kept_refl [simp]: "sess_kept K s s"
  by (simp add: sess_kept_def)

lemma sess_kept_trans: "sess_kept K s t \<Longrightarrow> sess_kept K t u \<Longrightarrow> sess_kept K s u"
  unfolding sess_kept_def by metis

lemma cleanD:
  assumes "clean live now K f" "f (s, w) = (r, s', w')"
  shows "live w' = live w" "now w \<le> now w'" "sess_kept K s s'"
  using assms by (simp_all add: clean_def)

lemma cleanI:
  "(\<And>s w r s' w'. f (s, w) = (r, s', w') \<Longrightarrow>
      live w' = live w \<and> now w \<le> now w' \<and> sess_kept K s s') \<Longrightarrow> clean live now K f"
  by (simp add: clean_def)

lemma clean_reply [release_intros]: "clean live now K (reply r)"
  by (simp add: clean_def reply_def)

lemma clean_answer [release_intros]: "clean live now K (answer f g r)"
  by (simp add: answer_def clean_reply)

lemma clean_let_ok [release_intros]:
  "(\<And>v. x = Inr v \<Longrightarrow> clean live now K (body v)) \<Longrightarrow> clean live now K (let_ok x body)"
  by (cases x) (simp_all add: let_ok_def clean_reply)

lemma clean_let_some [release_intros]:
  "(\<And>v. x = Some v \<Longrightarrow> clean live now K (body v)) \<Longrightarrow> clean live now K (let_some x e body)"
  by (cases x) (simp_all add: let_some_def clean_reply)

lemma clean_call [release_intros]:
  assumes f: "keeps live now f" and k: "\<And>r. clean live now K (k r)"
  shows "clean live now K (call f k)"
proof (rule cleanI)
  fix s w r s' w'
  assume "call f k (s, w) = (r, s', w')"
  then obtain x u where fx: "f w = (x, u)" and kx: "k x (s, u) = (r, s', w')"
    by (auto simp: call_def split: prod.splits)
  show "live w' = live w \<and> now w \<le> now w' \<and> sess_kept K s s'"
    using cleanD [OF k kx] keepsD(1) [OF f fx] order_trans [OF keepsD(2) [OF f fx]] by simp
qed

lemma clean_let_call [release_intros]:
  "keeps live now f \<Longrightarrow> (\<And>v. clean live now K (body v)) \<Longrightarrow> clean live now K (let_call f err body)"
  unfolding let_call_def by (rule clean_call) (auto simp: clean_reply split: sum.split)

lemma clean_let_ret [release_intros]:
  "(\<And>v. x = Ret v \<Longrightarrow> clean live now K (body v)) \<Longrightarrow> clean live now K (let_ret x body)"
  by (cases x) (auto simp: let_ret_def clean_def)

lemma clean_if [release_intros]:
  "(b \<Longrightarrow> clean live now K f) \<Longrightarrow> (\<not> b \<Longrightarrow> clean live now K g) \<Longrightarrow> clean live now K (if b then f else g)"
  by simp

lemma clean_with_guard:
  assumes og: "opens live now res open_g" and cg: "closes live now res drop_g"
    and err: "\<And>e. clean live now K (on_err e)" and body: "\<And>g. clean live now K (body g)"
  shows "clean live now K (with_guard open_g drop_g on_err body)"
proof (rule cleanI)
  fix s w r s' w'
  assume run: "with_guard open_g drop_g on_err body (s, w) = (r, s', w')"
  obtain x u where o: "open_g w = (x, u)" by (cases "open_g w")
  have u: "now w \<le> now u" using opensD(3) [OF og o] .
  show "live w' = live w \<and> now w \<le> now w' \<and> sess_kept K s s'"
  proof (cases x)
    case (Inl e)
    have run': "on_err e (s, u) = (r, s', w')" using run o Inl by (simp add: with_guard_def)
    have "live u = live w" using opensD(1) [OF og] o Inl by simp
    then show ?thesis using cleanD [OF err run'] order_trans [OF u] by simp
  next
    case (Inr g)
    obtain v where b: "body g (s, u) = (r, s', v)" and w': "w' = drop_g g v"
      using run o Inr by (auto simp: with_guard_def split: prod.splits)
    have "live v = add_mset (res g) (live w)"
      using cleanD(1) [OF body b] opensD(2) [OF og] o Inr by simp
    then have "live w' = live w" using w' closesD(1) [OF cg] by simp
    moreover have "now w \<le> now w'"
      using order_trans [OF u order_trans [OF cleanD(2) [OF body b] closesD(2) [OF cg]]] w' by simp
    ultimately show ?thesis using cleanD(3) [OF body b] by simp
  qed
qed

lemma note_device_unavailable_simps [simp]:
  "handles (note_device_unavailable p d s) = handles s"
  "sess_id (note_device_unavailable p d s) = sess_id s"
  "ttl (auth (note_device_unavailable p d s)) = ttl (auth s)"
  "auth_lookup (auth (note_device_unavailable p d s)) k =
    (if on_device p d k then None else auth_lookup (auth s) k)"
  by (simp_all add: note_device_unavailable_def)

lemma clean_lost_device [release_intros]: "clean live now K (lost_device prov dev err e)"
  by (simp add: clean_def lost_device_def sess_kept_def)

lemma session_authorized_kept:
  assumes "session_authorized t p d a s = (r, s')"
  shows "sess_kept K s s'"
proof -
  have s': "s' = snd (sess_authorize t (new_auth_key p d a) s)"
    using assms by (simp add: session_authorized_def)
  show ?thesis unfolding s' sess_kept_def by (simp add: auth_check_lookup)
qed

lemma clean_require_auth [release_intros]:
  assumes "clean live now K body"
  shows "clean live now K (require_auth ctx prov dev app ident body)"
proof (rule cleanI)
  fix s w r s' w'
  assume run: "require_auth ctx prov dev app ident body (s, w) = (r, s', w')"
  obtain x t where a: "session_authorized (clock ctx w) prov dev app s = (x, t)"
    by (cases "session_authorized (clock ctx w) prov dev app s")
  note t = session_authorized_kept [OF a, of K]
  show "live w' = live w \<and> now w \<le> now w' \<and> sess_kept K s s'"
  proof (cases x)
    case (Inl e)
    then show ?thesis using run a t by (auto simp: require_auth_def reply_def)
  next
    case (Inr u)
    then have b: "body (t, w) = (r, s', w')" using run a by (simp add: require_auth_def)
    show ?thesis using cleanD [OF assms b] sess_kept_trans [OF t] by simp
  qed
qed

context provider_contract
begin

lemma clean_with_device:
  "(\<And>d. clean live now K (body d)) \<Longrightarrow> clean live now K (with_device P prov dev ident body)"
  unfolding with_device_def
  by (rule clean_with_guard [OF guard_opens(1) guard_closes(1)]) (auto intro: release_intros)

lemma clean_with_application:
  "(\<And>a. clean live now K (body a))
    \<Longrightarrow> clean live now K (with_application P d prov dev app text ident body)"
  unfolding with_application_def
  by (rule clean_with_guard [OF guard_opens(2) guard_closes(2)]) (auto intro: release_intros)

lemma clean_with_container:
  "(\<And>c. clean live now K (body c)) \<Longrightarrow> clean live now K (with_container P a cont ident body)"
  unfolding with_container_def
  by (rule clean_with_guard [OF guard_opens(3) guard_closes(3)]) (auto intro: release_intros)

lemmas clean_create_container = clean_with_guard [OF guard_opens(4) guard_closes(3)]
lemmas clean_begin_digest = clean_with_guard [OF guard_opens(5) guard_closes(4)]
lemmas clean_begin_digest_with_key = clean_with_guard [OF guard_opens(6) guard_closes(4)]

end

lemmas provider_contract_rules [release_intros] =
  provider_contract.clean_with_device provider_contract.clean_with_application
  provider_contract.clean_with_container provider_contract.clean_create_container
  provider_contract.clean_begin_digest provider_contract.clean_begin_digest_with_key
  provider_contract.provider_keeps provider_contract.device_keeps
  provider_contract.application_keeps provider_contract.container_keeps
  provider_contract.digest_keeps

section \<open>The contract of the context\<close>

locale server_contract =
  fixes ctx :: "('w, 'd, 'a, 'c, 'h) server_context"
    and live :: "'w \<Rightarrow> ('d, 'a, 'c, 'h) resource multiset"
  assumes csr_keeps: "keeps live (clock ctx) (\<lambda>w. ((), write_last_csr ctx pem w))"
    and resolve_keeps: "keeps live (clock ctx) (resolve ctx name)"
    and resolve_contract:
      "fst (resolve ctx name w) = Inr P \<Longrightarrow> provider_contract P live (clock ctx)"
begin

lemma clean_with_provider [release_intros]:
  assumes "\<And>P. provider_contract P live (clock ctx) \<Longrightarrow> clean live (clock ctx) K (body P)"
  shows "clean live (clock ctx) K (with_provider ctx name on_err body)"
proof (rule cleanI)
  fix s w r s' w'
  assume run: "with_provider ctx name on_err body (s, w) = (r, s', w')"
  obtain x u where res: "resolve ctx name w = (x, u)" by (cases "resolve ctx name w")
  define k where "k = (case x of Inl m \<Rightarrow> reply (on_err m) | Inr P \<Rightarrow> body P)"
  have k: "clean live (clock ctx) K k"
    using assms resolve_contract [of name w] res
    by (auto simp: k_def clean_reply split: sum.splits)
  have run': "k (s, u) = (r, s', w')"
    using run res by (simp add: with_provider_def call_def k_def)
  show "live w' = live w \<and> clock ctx w \<le> clock ctx w' \<and> sess_kept K s s'"
    using cleanD [OF k run'] keepsD(1) [OF resolve_keeps res]
      order_trans [OF keepsD(2) [OF resolve_keeps res]] by simp
qed

end

section \<open>What an unauthorized session cannot reach\<close>

text \<open>Two providers with the same front open and close devices and applications alike; what they do
  beyond that may differ.\<close>

definition same_front ::
  "('w, 'd, 'a, 'c, 'h) provider \<Rightarrow> ('w, 'd, 'a, 'c, 'h) provider \<Rightarrow> bool" where
  "same_front P P' \<longleftrightarrow>
    open_device P = open_device P' \<and> drop_device P = drop_device P'
    \<and> open_application P = open_application P' \<and> drop_application P = drop_application P'"

definition front_equal ::
  "('w, 'd, 'a, 'c, 'h) server_context \<Rightarrow> ('w, 'd, 'a, 'c, 'h) server_context \<Rightarrow> bool" where
  "front_equal ctx ctx' \<longleftrightarrow>
    default_alias ctx = default_alias ctx' \<and> clock ctx = clock ctx'
    \<and> unix_micros ctx = unix_micros ctx' \<and> write_last_csr ctx = write_last_csr ctx'
    \<and> (\<forall>name w. snd (resolve ctx name w) = snd (resolve ctx' name w)
        \<and> (case (fst (resolve ctx name w), fst (resolve ctx' name w)) of
            (Inl m, Inl m') \<Rightarrow> m = m'
          | (Inr P, Inr P') \<Rightarrow> same_front P P'
          | _ \<Rightarrow> False))"

text \<open>Two handlers agree when a session without a live grant for a key cannot tell them apart.\<close>

definition agree ::
  "('w \<Rightarrow> instant) \<Rightarrow> auth_key \<Rightarrow> ('w, 'd, 'a, 'c, 'h) handler \<Rightarrow> ('w, 'd, 'a, 'c, 'h) handler \<Rightarrow> bool" where
  "agree now key f f' \<longleftrightarrow>
    (\<forall>s w. \<not> authorized (now w) (auth s) key \<longrightarrow> f (s, w) = f' (s, w))"

lemma agreeD:
  "agree now key f f' \<Longrightarrow> \<not> authorized (now w) (auth s) key \<Longrightarrow> f (s, w) = f' (s, w)"
  by (simp add: agree_def)

lemma agree_refl: "agree now key f f"
  by (simp add: agree_def)

lemma authorized_earlier: "authorized t' a key \<Longrightarrow> t \<le> t' \<Longrightarrow> authorized t a key"
  by (auto simp: authorized_def)

lemma agree_let_ok [agree_intros]:
  "(\<And>v. x = Inr v \<Longrightarrow> agree now key (b v) (b' v)) \<Longrightarrow> agree now key (let_ok x b) (let_ok x b')"
  by (cases x) (simp_all add: let_ok_def agree_refl)

lemma agree_let_some [agree_intros]:
  "(\<And>v. x = Some v \<Longrightarrow> agree now key (b v) (b' v)) \<Longrightarrow>
    agree now key (let_some x e b) (let_some x e b')"
  by (cases x) (simp_all add: let_some_def agree_refl)

lemma agree_with_guard:
  fixes b :: "'g \<Rightarrow> ('w, 'd, 'a, 'c, 'h) handler"
  assumes o: "opens live now res open_g" and b: "\<And>g. agree now key (b g) (b' g)"
  shows "agree now key (with_guard open_g drop_g err b) (with_guard open_g drop_g err b')"
  unfolding agree_def
proof (intro allI impI)
  fix s :: "('d, 'a, 'c, 'h) session_state" and w
  assume na: "\<not> authorized (now w) (auth s) key"
  obtain x u where x: "open_g w = (x, u)" by (cases "open_g w")
  have "\<not> authorized (now u) (auth s) key"
    using na authorized_earlier opensD(3) [OF o x] by blast
  then have "b g (s, u) = b' g (s, u)" for g by (rule agreeD [OF b])
  then show "with_guard open_g drop_g err b (s, w) = with_guard open_g drop_g err b' (s, w)"
    using x by (simp add: with_guard_def split: sum.splits)
qed

lemma agree_with_device [agree_intros]:
  assumes "provider_contract P live now" "same_front P P'" "\<And>d. agree now key (b d) (b' d)"
  shows "agree now key (with_device P prov dev ident b) (with_device P' prov dev ident b')"
  using agree_with_guard [OF provider_contract.guard_opens(1) [OF assms(1)] assms(3)] assms(2)
  by (simp add: with_device_def same_front_def)

lemma agree_with_application [agree_intros]:
  assumes "provider_contract P live now" "same_front P P'" "\<And>a. agree now key (b a) (b' a)"
  shows "agree now key (with_application P d prov dev app text ident b)
    (with_application P' d prov dev app text ident b')"
  using agree_with_guard [OF provider_contract.guard_opens(2) [OF assms(1)] assms(3)] assms(2)
  by (simp add: with_application_def same_front_def)

lemma agree_with_provider [agree_intros]:
  fixes ctx :: "('w, 'd, 'a, 'c, 'h) server_context"
  assumes c: "server_contract ctx live" and fe: "front_equal ctx ctx'"
    and b: "\<And>P P'. provider_contract P live (clock ctx) \<Longrightarrow> same_front P P'
      \<Longrightarrow> agree (clock ctx) key (b P) (b' P')"
  shows "agree (clock ctx) key (with_provider ctx name err b) (with_provider ctx' name err b')"
  unfolding agree_def
proof (intro allI impI)
  fix s :: "('d, 'a, 'c, 'h) session_state" and w
  assume na: "\<not> authorized (clock ctx w) (auth s) key"
  obtain x u x' u' where r: "resolve ctx name w = (x, u)" "resolve ctx' name w = (x', u')"
    by (metis surj_pair)
  have "snd (resolve ctx name w) = snd (resolve ctx' name w)"
    "case (fst (resolve ctx name w), fst (resolve ctx' name w)) of
      (Inl m, Inl m') \<Rightarrow> m = m' | (Inr P, Inr P') \<Rightarrow> same_front P P' | _ \<Rightarrow> False"
    using fe unfolding front_equal_def by blast+
  then have u: "u = u'" and x: "case (x, x') of (Inl m, Inl m') \<Rightarrow> m = m'
      | (Inr P, Inr P') \<Rightarrow> same_front P P' | _ \<Rightarrow> False"
    using r by simp_all
  have na': "\<not> authorized (clock ctx u) (auth s) key"
    using na authorized_earlier keepsD(2) [OF server_contract.resolve_keeps [OF c] r(1)] by blast
  show "with_provider ctx name err b (s, w) = with_provider ctx' name err b' (s, w)"
  proof (cases x)
    case (Inl m)
    then show ?thesis using r u x by (auto simp: with_provider_def call_def split: sum.splits)
  next
    case (Inr P)
    then obtain P' where P': "x' = Inr P'" "same_front P P'" using x by (auto split: sum.splits)
    have "provider_contract P live (clock ctx)"
      using server_contract.resolve_contract [OF c] r(1) Inr by (metis fst_conv)
    then have "b P (s, u) = b' P' (s, u)" using agreeD [OF b na'] P'(2) by blast
    then show ?thesis using r u Inr P'(1) by (simp add: with_provider_def call_def)
  qed
qed

lemma normalize_alias_front: "front_equal ctx ctx' \<Longrightarrow> normalize_alias ctx' = normalize_alias ctx"
  by (simp add: front_equal_def normalize_alias_def fun_eq_iff)

lemma require_auth_refuses:
  assumes "\<not> authorized (clock ctx w) (auth s) (new_auth_key prov dev app)"
  shows "require_auth ctx prov dev app ident body (s, w) =
    (Ret (not_logged_in ident),
     snd (sess_authorize (clock ctx w) (new_auth_key prov dev app) s), w)"
proof -
  obtain x t where xt: "sess_authorize (clock ctx w) (new_auth_key prov dev app) s = (x, t)"
    by (cases "sess_authorize (clock ctx w) (new_auth_key prov dev app) s")
  have "x \<noteq> Inr ()"
    using assms auth_check_ok_iff sess_authorize_result xt by (metis fst_conv)
  then show ?thesis
    using xt by (simp add: require_auth_def session_authorized_def reply_def split: sum.split)
qed

lemma agree_require_auth [agree_intros]:
  "key = new_auth_key prov dev app \<Longrightarrow> front_equal ctx ctx' \<Longrightarrow>
    agree (clock ctx) key (require_auth ctx prov dev app ident b)
      (require_auth ctx' prov dev app ident b')"
  by (simp add: agree_def front_equal_def require_auth_refuses)

text \<open>Changing what a context's providers do beyond their front.\<close>

definition alter_providers ::
  "(('w, 'd, 'a, 'c, 'h) provider \<Rightarrow> ('w, 'd, 'a, 'c, 'h) provider)
    \<Rightarrow> ('w, 'd, 'a, 'c, 'h) server_context \<Rightarrow> ('w, 'd, 'a, 'c, 'h) server_context" where
  "alter_providers f ctx =
    ctx\<lparr>resolve := \<lambda>name w. apfst (map_sum id f) (resolve ctx name w)\<rparr>"

lemma front_equal_alter:
  assumes "\<And>P. same_front P (f P)"
  shows "front_equal ctx (alter_providers f ctx)"
  using assms by (auto simp: front_equal_def alter_providers_def apfst_def map_prod_def split_beta
      split: sum.splits)

section \<open>What a handler answers\<close>

text \<open>A relation between the session before a handler, its answer and the session after it, carried
  through the combinators.\<close>

definition posts ::
  "(('d, 'a, 'c, 'h) session_state \<Rightarrow> rpc_response outcome \<Rightarrow> ('d, 'a, 'c, 'h) session_state \<Rightarrow> bool)
    \<Rightarrow> ('w, 'd, 'a, 'c, 'h) handler \<Rightarrow> bool" where
  "posts Q f \<longleftrightarrow> (\<forall>s w r s' w'. f (s, w) = (r, s', w') \<longrightarrow> Q s r s')"

lemma postsD: "posts Q f \<Longrightarrow> f (s, w) = (r, s', w') \<Longrightarrow> Q s r s'"
  unfolding posts_def by blast

lemma posts_reply [posts_intros]: "(\<And>s. Q s (Ret r) s) \<Longrightarrow> posts Q (reply r)"
  by (simp add: posts_def reply_def)

lemma posts_answer [posts_intros]:
  "(\<And>s v. Q s (Ret (ok v)) s) \<Longrightarrow> (\<And>s e. Q s (Ret (err e)) s) \<Longrightarrow> posts Q (answer ok err r)"
  by (cases r) (simp_all add: answer_def posts_reply)

lemma posts_let_ok [posts_intros]:
  "(\<And>e s. x = Inl e \<Longrightarrow> Q s (Ret e) s) \<Longrightarrow> (\<And>v. x = Inr v \<Longrightarrow> posts Q (body v))
    \<Longrightarrow> posts Q (let_ok x body)"
  by (cases x) (simp_all add: let_ok_def posts_reply)

lemma posts_let_some [posts_intros]:
  "(\<And>s. Q s (Ret e) s) \<Longrightarrow> (\<And>v. x = Some v \<Longrightarrow> posts Q (body v)) \<Longrightarrow> posts Q (let_some x e body)"
  by (cases x) (simp_all add: let_some_def posts_reply)

lemma posts_let_ret [posts_intros]:
  "(\<And>s. Q s Panic s) \<Longrightarrow> (\<And>v. x = Ret v \<Longrightarrow> posts Q (body v)) \<Longrightarrow> posts Q (let_ret x body)"
  by (cases x) (auto simp: let_ret_def posts_def)

lemma posts_call [posts_intros]: "(\<And>r. posts Q (k r)) \<Longrightarrow> posts Q (call f k)"
  by (simp add: posts_def call_def split: prod.splits)

lemma posts_let_call [posts_intros]:
  "(\<And>s e. Q s (Ret (err e)) s) \<Longrightarrow> (\<And>v. posts Q (body v)) \<Longrightarrow> posts Q (let_call f err body)"
  unfolding let_call_def by (rule posts_call) (auto simp: posts_reply split: sum.split)

lemma posts_if [posts_intros]:
  "(b \<Longrightarrow> posts Q f) \<Longrightarrow> (\<not> b \<Longrightarrow> posts Q g) \<Longrightarrow> posts Q (if b then f else g)"
  by simp

lemma posts_with_guard [posts_intros]:
  assumes "\<And>e. posts Q (err e)" and "\<And>g. posts Q (body g)"
  shows "posts Q (with_guard open_g drop_g err body)"
  using assms by (force simp: posts_def with_guard_def split: prod.splits sum.splits)

lemma posts_lost_device [posts_intros]:
  "(\<And>s. Q s (Ret (err e)) (note_device_unavailable prov dev s)) \<Longrightarrow> posts Q (lost_device prov dev err e)"
  by (simp add: posts_def lost_device_def)

lemma posts_with_device [posts_intros]:
  assumes "\<And>s e. Q s (Ret (provider_failure (failed_text ''ConnectDev'') e ident))
      (note_device_unavailable prov dev s)"
    and "\<And>d. posts Q (body d)"
  shows "posts Q (with_device P prov dev ident body)"
  unfolding with_device_def using assms by (intro posts_intros)

lemma posts_with_application [posts_intros]:
  assumes "\<And>s e. Q s (Ret (provider_failure text e ident)) (note_device_unavailable prov dev s)"
    and "\<And>a. posts Q (body a)"
  shows "posts Q (with_application P d prov dev app text ident body)"
  unfolding with_application_def using assms by (intro posts_intros)

lemma posts_with_container [posts_intros]:
  assumes "\<And>s e. Q s (Ret (provider_failure (failed_text ''OpenContainer'') e ident)) s"
    and "\<And>c. posts Q (body c)"
  shows "posts Q (with_container P a cont ident body)"
  unfolding with_container_def using assms by (intro posts_intros)

lemma posts_with_provider [posts_intros]:
  "(\<And>s m. Q s (Ret (err m)) s) \<Longrightarrow> (\<And>P. posts Q (body P)) \<Longrightarrow> posts Q (with_provider ctx name err body)"
  unfolding with_provider_def by (rule posts_call) (auto simp: posts_reply split: sum.split)

lemma provider_failure_result [simp]:
  "resp_result (provider_failure text e ident) = Null" "resp_id (provider_failure text e ident) = ident"
  by (simp_all add: provider_failure_def load_failed_def split: option.splits)

lemma load_failed_result [simp]:
  "resp_result (load_failed m ident) = Null" "resp_id (load_failed m ident) = ident"
  "resp_result (load_failed_localized m lang ident) = Null"
  "resp_id (load_failed_localized m lang ident) = ident"
  by (simp_all add: load_failed_def load_failed_localized_def)

lemma not_logged_in_result [simp]:
  "resp_result (not_logged_in ident) = Null" "resp_id (not_logged_in ident) = ident"
  "resp_error (not_logged_in ident) = - 10"
  by (simp_all add: not_logged_in_def)

section \<open>The application a request is about\<close>

text \<open>Named by positions one and two, or by the second and third segment of a certificate key.\<close>

definition named_key :: "string \<Rightarrow> params \<Rightarrow> auth_key" where
  "named_key prov p = new_auth_key prov (optional_str p 1 []) (optional_str p 2 [])"

definition cert_key_target :: "('w, 'd, 'a, 'c, 'h) server_context \<Rightarrow> params \<Rightarrow> auth_key" where
  "cert_key_target ctx p =
    (let parts = splitn 5 CHR ''/'' (optional_str p 0 [])
     in new_auth_key (normalize_alias ctx (parts ! 0)) (parts ! 1) (parts ! 2))"

section \<open>Facts about the helpers\<close>

lemma required_str_optional: "required_str p i m = Inr v \<Longrightarrow> optional_str p i d = v"
  by (auto simp: required_str_def optional_str_def split: option.splits)

lemma length_copy_into [simp]: "length (copy_into n bs) = n"
  by (simp add: copy_into_def)

lemma copy_into_exact: "length bs = n \<Longrightarrow> copy_into n bs = bs"
  by (simp add: copy_into_def)

lemma wf_ecc_blob_of [simp]: "wf_ecc_blob (ecc_blob k)"
  by (simp add: wf_ecc_blob_def ecc_blob_def)

lemma wf_rsa_blob_of [simp]: "wf_rsa_blob (rsa_blob k)"
  by (simp add: wf_rsa_blob_def rsa_blob_def)

lemma length_le_bytes [simp]: "length (le_bytes n) = 4"
  by (simp add: le_bytes_def)

lemma struct_bytes_lengths:
  "length (struct_bytes_ecc (ecc_blob k)) = 132" "length (struct_bytes_rsa (rsa_blob k')) = 268"
  by (simp_all add: struct_bytes_ecc_def struct_bytes_rsa_def ecc_blob_def rsa_blob_def)

lemma split_cert_key_SomeD:
  assumes "split_cert_key k n = Some ps"
  shows "ps = splitn 5 CHR ''/'' k" "n \<le> length ps" "length ps \<le> 5" "join CHR ''/'' ps = k"
  using assms splitn_length [of 5 "CHR ''/''" k] join_splitn [of 5 "CHR ''/''" k]
  by (auto simp: split_cert_key_def Let_def split: if_splits)

lemma native_code_hex: "native_code e = error_hex e"
  by (cases e rule: error_hex.cases) simp_all

section \<open>Properties\<close>

text \<open>Splitting a certificate key loses nothing: the segments joined by slashes are the key again,
  there are between one and five, and none but the fifth contains a slash, so a serial number
  with slashes cannot shift the provider, device, application or container; it fails exactly
  when there are fewer segments than the method needs.\<close>

theorem split_cert_key_faithful:
  "(case split_cert_key key n of
      Some ps \<Rightarrow>
        join CHR ''/'' ps = key \<and> n \<le> length ps \<and> ps \<noteq> [] \<and> length ps \<le> 5
        \<and> CHR ''/'' \<notin> \<Union> (set ` set (butlast ps))
    | None \<Rightarrow> length (splitn 5 CHR ''/'' key) < n)"
proof (cases "split_cert_key key n")
  case None
  then show ?thesis by (simp add: split_cert_key_def Let_def split: if_splits)
next
  case (Some ps)
  note ps = split_cert_key_SomeD [OF Some]
  have "ps \<noteq> []" unfolding ps(1) by (rule splitn_ne) simp
  moreover have "CHR ''/'' \<notin> \<Union> (set ` set (butlast ps))"
    using splitn_parts_free [of _ 5 "CHR ''/''" key] unfolding ps(1) by auto
  ultimately show ?thesis using Some ps by simp
qed

text \<open>The key blobs a response carries have the size of the C structures and read back: the first
  four bytes are the bit length in little-endian order, and coordinates that the provider
  delivers at full width are copied unchanged.\<close>

theorem key_blobs_layout:
  "length (struct_bytes_ecc (ecc_blob k)) = 132 \<and> length (struct_bytes_rsa (rsa_blob k')) = 268
    \<and> rev (take 4 (struct_bytes_ecc (ecc_blob k))) =
        map (\<lambda>i. ucast (drop_bit (8 * i) (ecc_bit_len k))) [3, 2, 1, 0]
    \<and> take 64 (drop 4 (struct_bytes_ecc (ecc_blob k))) = take 64 (ecc_x k) @ replicate (64 - length (ecc_x k)) 0
    \<and> drop 68 (struct_bytes_ecc (ecc_blob k)) = take 64 (ecc_y k) @ replicate (64 - length (ecc_y k)) 0"
  using struct_bytes_lengths
  by (simp add: struct_bytes_ecc_def ecc_blob_def copy_into_def le_bytes_def)

end
