(* ===== verification/Fake.thy ===== *)
theory Fake
  imports Domain
begin

text \<open>
  The deterministic in-memory provider (\<open>src/provider/fake.rs\<close>), the provider that stands in when
  the vendor library cannot be prepared (\<open>UnavailableProvider\<close> of \<open>src/server/mod.rs\<close>), and the
  context that resolves every alias to one provider (\<open>TestContext\<close> of \<open>src/domain/mod.rs\<close>). Both
  providers are shown to meet the contract of the trait.

  The shared state behind the fake's guards is a record with the fields of \<open>FakeInner\<close>, the clock
  that an injected delay advances, and the boxes on the heap: the guards that were returned and
  not yet dropped.
\<close>

definition FIRST_HANDLE :: u64 where
  "FIRST_HANDLE = 1000"

record fake_event =
  event_device :: string
  event_code :: u32

record fake_device =
  fd_name :: string
  fd_exposed :: u64

record fake_application =
  fa_exposed :: u64

record fake_container =
  fc_exposed :: u64

record fake_digest =
  fh_exposed :: u64

type_synonym fake_resource =
  "(fake_device, fake_application, fake_container, fake_digest) resource"

record fake_inner =
  fi_alias :: string
  failures :: "(operation \<times> skf_error list) list"
  calls :: "operation list"
  fi_next_handle :: u64
  fi_devices :: "string list"
  fi_device_state :: u32
  fi_containers :: "string list"
  digest_output :: bytes
  pending_event :: "fake_event option"
  fi_clock :: instant
  boxes :: "fake_resource multiset"

section \<open>Construction and test controls\<close>

definition with_devices :: "string \<Rightarrow> string list \<Rightarrow> fake_inner" where
  "with_devices alias devs =
    \<lparr>fi_alias = alias, failures = [], calls = [], fi_next_handle = FIRST_HANDLE,
     fi_devices = devs, fi_device_state = 0, fi_containers = [],
     digest_output = replicate 32 0xAB, pending_event = None, fi_clock = 0, boxes = {#}\<rparr>"

definition new_fake :: "string \<Rightarrow> fake_inner" where
  "new_fake alias = with_devices alias []"

definition fail_next :: "operation \<Rightarrow> skf_error \<Rightarrow> fake_inner \<Rightarrow> fake_inner" where
  "fail_next op err w =
    w\<lparr>failures :=
        AList.update op
          ((case map_of (failures w) op of None \<Rightarrow> [] | Some q \<Rightarrow> q) @ [err]) (failures w)\<rparr>"

definition call_count :: "operation \<Rightarrow> fake_inner \<Rightarrow> nat" where
  "call_count op w = length (filter (\<lambda>c. c = op) (calls w))"

definition clear_failures :: "fake_inner \<Rightarrow> fake_inner" where
  "clear_failures w = w\<lparr>failures := []\<rparr>"

definition set_device_state :: "u32 \<Rightarrow> fake_inner \<Rightarrow> fake_inner" where
  "set_device_state n w = w\<lparr>fi_device_state := n\<rparr>"

definition set_containers :: "string list \<Rightarrow> fake_inner \<Rightarrow> fake_inner" where
  "set_containers cs w = w\<lparr>fi_containers := cs\<rparr>"

definition set_digest_output :: "bytes \<Rightarrow> fake_inner \<Rightarrow> fake_inner" where
  "set_digest_output bs w = w\<lparr>digest_output := bs\<rparr>"

definition arm_event :: "string \<Rightarrow> u32 \<Rightarrow> fake_inner \<Rightarrow> fake_inner" where
  "arm_event dev code w = w\<lparr>pending_event := Some \<lparr>event_device = dev, event_code = code\<rparr>\<rparr>"

section \<open>The common start of every operation\<close>

definition record_op :: "operation \<Rightarrow> fake_inner \<Rightarrow> fake_inner" where
  "record_op op w = w\<lparr>calls := calls w @ [op]\<rparr>"

definition begin_op :: "operation \<Rightarrow> (fake_inner, unit) operation_fn" where
  "begin_op op w0 =
    (let w = record_op op w0
     in case map_of (failures w) op of
          None \<Rightarrow> (Inr (), w)
        | Some [] \<Rightarrow> (Inr (), w)
        | Some (err # q) \<Rightarrow>
            (let w' = w\<lparr>failures := AList.update op q (failures w)\<rparr>
             in case err of
                  Blocking delay \<Rightarrow> (Inr (), w'\<lparr>fi_clock := fi_clock w' + delay\<rparr>)
                | _ \<Rightarrow> (Inl (Injected err), w')))"

definition take_handle :: "fake_inner \<Rightarrow> u64 \<times> fake_inner" where
  "take_handle w = (fi_next_handle w, w\<lparr>fi_next_handle := fi_next_handle w + 1\<rparr>)"

text \<open>The two shapes of an operation after \<open>begin\<close>: compute a value, or box a guard around a fresh
  handle.\<close>

definition after_begin ::
  "operation \<Rightarrow> (fake_inner \<Rightarrow> 'r) \<Rightarrow> (fake_inner, 'r) operation_fn" where
  "after_begin op f w =
    (case begin_op op w of (Inl e, w') \<Rightarrow> (Inl e, w') | (Inr _, w') \<Rightarrow> (Inr (f w'), w'))"

definition box_guard ::
  "operation \<Rightarrow> (u64 \<Rightarrow> 'g) \<Rightarrow> ('g \<Rightarrow> fake_resource) \<Rightarrow> (fake_inner, 'g) operation_fn" where
  "box_guard op mk res w =
    (case begin_op op w of
      (Inl e, w') \<Rightarrow> (Inl e, w')
    | (Inr _, w') \<Rightarrow>
        (case take_handle w' of
          (n, w'') \<Rightarrow> (Inr (mk n), w''\<lparr>boxes := add_mset (res (mk n)) (boxes w'')\<rparr>)))"

definition unbox_guard :: "operation \<Rightarrow> ('g \<Rightarrow> fake_resource) \<Rightarrow> 'g \<Rightarrow> fake_inner \<Rightarrow> fake_inner" where
  "unbox_guard op res g w = (record_op op w)\<lparr>boxes := boxes w - {#res g#}\<rparr>"

section \<open>The operations\<close>

definition fake_wait_for_event :: "nat \<Rightarrow> (fake_inner, string \<times> u32) operation_fn" where
  "fake_wait_for_event buf_len w =
    (case begin_op OpWaitForEvent w of
      (Inl e, w') \<Rightarrow> (Inl e, w')
    | (Inr _, w') \<Rightarrow>
        (let w'' = w'\<lparr>pending_event := None\<rparr>
         in case pending_event w' of
              Some e \<Rightarrow> (Inr (event_device e, event_code e), w'')
            | None \<Rightarrow> (Inl (Native 0x0A000022 ''WaitForDevEvent''), w'')))"

definition fake_info :: "fake_device \<Rightarrow> device_info" where
  "fake_info d =
    \<lparr>manufacturer = ''Fake Manufacturer'', issuer = ''Fake Issuer'', label = fd_name d,
     serial_number = ''FAKE0001'', total_space = 65536, free_space = 32768,
     max_ecc_buffer_size = 256, max_buffer_size = 4096\<rparr>"

definition fake_verify_pin :: "fake_application \<Rightarrow> string \<Rightarrow> (fake_inner, pin_outcome) operation_fn" where
  "fake_verify_pin a pin w =
    (case begin_op OpVerifyPin w of
      (Inr _, w') \<Rightarrow> (Inr \<lparr>pin_success = True, retry_count = 3, pin_code = 0\<rparr>, w')
    | (Inl (Injected PinIncorrect), w') \<Rightarrow>
        (Inr \<lparr>pin_success = False, retry_count = 2, pin_code = 0x0A00002F\<rparr>, w')
    | (Inl (Injected PinLocked), w') \<Rightarrow>
        (Inr \<lparr>pin_success = False, retry_count = 0, pin_code = 0x0A000030\<rparr>, w')
    | (Inl other, w') \<Rightarrow> (Inl other, w'))"

definition fake_begin_digest :: "(fake_inner, fake_digest) operation_fn" where
  "fake_begin_digest = box_guard OpDigestBegin (\<lambda>n. \<lparr>fh_exposed = n\<rparr>) ResDigest"

definition fake_encrypt :: "bytes \<Rightarrow> bytes" where
  "fake_encrypt data = 0xEE # data"

definition fake_decrypt :: "bytes \<Rightarrow> bytes" where
  "fake_decrypt data = (case data of [] \<Rightarrow> [] | b # bs \<Rightarrow> if b = 0xEE then bs else b # bs)"

abbreviation fake_enum_containers :: "fake_application \<Rightarrow> (fake_inner, string list) operation_fn" where
  "fake_enum_containers a \<equiv> after_begin OpEnumContainers fi_containers"

abbreviation fake_open_container :: "fake_application \<Rightarrow> string \<Rightarrow> (fake_inner, fake_container) operation_fn" where
  "fake_open_container a nm \<equiv> box_guard OpOpenContainer (\<lambda>n. \<lparr>fc_exposed = n\<rparr>) ResContainer"

abbreviation fake_delete_container :: "fake_application \<Rightarrow> string \<Rightarrow> (fake_inner, unit) operation_fn" where
  "fake_delete_container a nm \<equiv> begin_op OpDeleteContainer"

abbreviation fake_create_container :: "fake_application \<Rightarrow> string \<Rightarrow> (fake_inner, fake_container) operation_fn" where
  "fake_create_container a nm \<equiv> box_guard OpCreateContainer (\<lambda>n. \<lparr>fc_exposed = n\<rparr>) ResContainer"

abbreviation fake_container_type :: "fake_container \<Rightarrow> (fake_inner, u32) operation_fn" where
  "fake_container_type c \<equiv> after_begin OpContainerType (\<lambda>_. 1)"

abbreviation fake_export_certificate :: "fake_container \<Rightarrow> bool \<Rightarrow> (fake_inner, bytes) operation_fn" where
  "fake_export_certificate c sign_flag \<equiv> after_begin OpExportCertificate (\<lambda>_. [0x30, 0x00])"

abbreviation fake_import_certificate :: "fake_container \<Rightarrow> bool \<Rightarrow> bytes \<Rightarrow> (fake_inner, unit) operation_fn" where
  "fake_import_certificate c sign_flag cert \<equiv> begin_op OpImportCertificate"

abbreviation fake_sign_ecc :: "fake_container \<Rightarrow> bytes \<Rightarrow> (fake_inner, bytes) operation_fn" where
  "fake_sign_ecc c digest \<equiv> after_begin OpSignEcc (\<lambda>_. replicate 128 0x11)"

abbreviation fake_sign_rsa :: "fake_container \<Rightarrow> bytes \<Rightarrow> (fake_inner, bytes) operation_fn" where
  "fake_sign_rsa c data \<equiv> after_begin OpSignRsa (\<lambda>_. replicate 256 0x22)"

abbreviation fake_gen_ecc_key_pair :: "fake_container \<Rightarrow> u32 \<Rightarrow> (fake_inner, ecc_public_key) operation_fn" where
  "fake_gen_ecc_key_pair c alg_id \<equiv> after_begin OpGenEccKeyPair
    (\<lambda>_. \<lparr>ecc_bit_len = 256, ecc_x = replicate 64 0x11, ecc_y = replicate 64 0x22\<rparr>)"

abbreviation fake_gen_rsa_key_pair :: "fake_container \<Rightarrow> u32 \<Rightarrow> (fake_inner, rsa_public_key) operation_fn" where
  "fake_gen_rsa_key_pair c bits \<equiv> after_begin OpGenRsaKeyPair
    (\<lambda>_. \<lparr>rsa_alg_id = 0, rsa_bit_len = bits, rsa_modulus = replicate 256 0x33,
      rsa_exponent = [0x01, 0x00, 0x01, 0x00]\<rparr>)"

abbreviation fake_set_symm_key :: "fake_container \<Rightarrow> u32 \<Rightarrow> bytes \<Rightarrow> (fake_inner, unit) operation_fn" where
  "fake_set_symm_key c alg_id key \<equiv> begin_op OpSetSymmKey"

abbreviation fake_update :: "fake_digest \<Rightarrow> bytes \<Rightarrow> (fake_inner, unit) operation_fn" where
  "fake_update h data \<equiv> begin_op OpDigestUpdate"

abbreviation fake_finalize :: "fake_digest \<Rightarrow> (fake_inner, bytes) operation_fn" where
  "fake_finalize h \<equiv> after_begin OpDigestFinal digest_output"

definition fake_provider ::
  "string \<Rightarrow> (fake_inner, fake_device, fake_application, fake_container, fake_digest) provider" where
  "fake_provider alias =
    \<lparr>provider_alias = alias,
     enum_devices = \<lambda>_. after_begin OpEnumDevices fi_devices,
     device_state = \<lambda>_. after_begin OpDeviceState fi_device_state,
     wait_for_event = fake_wait_for_event,
     cancel_wait_for_event = begin_op OpCancelWaitForEvent,
     open_device = \<lambda>name.
       box_guard OpOpenDevice (\<lambda>n. \<lparr>fd_name = name, fd_exposed = n\<rparr>) ResDevice,
     dev_handle = fd_exposed,
     dev_state = \<lambda>_. after_begin OpDeviceState fi_device_state,
     dev_lock = \<lambda>_ _. begin_op OpLockDevice,
     dev_unlock = \<lambda>_. begin_op OpUnlockDevice,
     dev_transmit = \<lambda>_ command. after_begin OpTransmit (\<lambda>_. command),
     dev_random = \<lambda>_ len. after_begin OpRandom (\<lambda>_. replicate len 0x5A),
     dev_info = \<lambda>d. after_begin OpDeviceInfo (\<lambda>_. fake_info d),
     dev_set_label = \<lambda>_ _. begin_op OpSetLabel,
     open_application = \<lambda>_ _.
       box_guard OpOpenApplication (\<lambda>n. \<lparr>fa_exposed = n\<rparr>) ResApplication,
     begin_digest = \<lambda>_ _ _. fake_begin_digest,
     begin_digest_with_key = \<lambda>_ _ _ _. fake_begin_digest,
     app_handle = fa_exposed,
     enum_containers = fake_enum_containers,
     verify_pin = fake_verify_pin,
     open_container = fake_open_container,
     delete_container = fake_delete_container,
     create_container = fake_create_container,
     cnt_handle = fc_exposed,
     container_type = fake_container_type,
     export_certificate = fake_export_certificate,
     import_certificate = fake_import_certificate,
     sign_ecc = fake_sign_ecc,
     sign_rsa = fake_sign_rsa,
     gen_ecc_key_pair = fake_gen_ecc_key_pair,
     gen_rsa_key_pair = fake_gen_rsa_key_pair,
     set_symm_key = fake_set_symm_key,
     encrypt = \<lambda>_ _ _ _ data. after_begin OpEncryptData (\<lambda>_. fake_encrypt data),
     decrypt = \<lambda>_ _ _ _ data. after_begin OpDecryptData (\<lambda>_. fake_decrypt data),
     dig_handle = fh_exposed,
     dig_update = fake_update,
     dig_finalize = fake_finalize,
     drop_device = unbox_guard OpCloseDevice ResDevice,
     drop_application = unbox_guard OpCloseApplication ResApplication,
     drop_container = unbox_guard OpCloseContainer ResContainer,
     drop_digest = unbox_guard OpCloseDigest ResDigest\<rparr>"

text \<open>\<open>TestContext\<close>: the alias is the provider's own, every name resolves to it. The epoch is taken
  to be where the clock starts, and the debug copy is not kept.\<close>

definition test_context ::
  "('w, 'd, 'a, 'c, 'h) provider \<Rightarrow> ('w \<Rightarrow> instant) \<Rightarrow> ('w, 'd, 'a, 'c, 'h) server_context" where
  "test_context P now =
    \<lparr>default_alias = provider_alias P, resolve = \<lambda>_ w. (Inr P, w), clock = now,
     unix_micros = \<lambda>w. Some (now w div 1000), write_last_csr = \<lambda>_ w. w\<rparr>"

abbreviation fake_context ::
  "string \<Rightarrow> (fake_inner, fake_device, fake_application, fake_container, fake_digest) server_context" where
  "fake_context alias \<equiv> test_context (fake_provider alias) fi_clock"

text \<open>\<open>UnavailableProvider\<close>: every operation of the provider reports the same failure. It never hands
  out a guard, so what its guard operations would do is not observable; they report it too.\<close>

definition unavailable_error :: "string \<Rightarrow> string \<Rightarrow> provider_error" where
  "unavailable_error arch detail = LibraryLoadFailed detail arch detail"

definition unavailable_provider ::
  "string \<Rightarrow> string \<Rightarrow> string \<Rightarrow> ('w, 'd, 'a, 'c, 'h) provider" where
  "unavailable_provider arch alias detail =
    (let err = unavailable_error arch detail
     in \<lparr>provider_alias = alias,
         enum_devices = \<lambda>_ w. (Inl err, w), device_state = \<lambda>_ w. (Inl err, w),
         wait_for_event = \<lambda>_ w. (Inl err, w), cancel_wait_for_event = \<lambda>w. (Inl err, w),
         open_device = \<lambda>_ w. (Inl err, w),
         dev_handle = \<lambda>_. 0, dev_state = \<lambda>_ w. (Inl err, w), dev_lock = \<lambda>_ _ w. (Inl err, w),
         dev_unlock = \<lambda>_ w. (Inl err, w), dev_transmit = \<lambda>_ _ w. (Inl err, w),
         dev_random = \<lambda>_ _ w. (Inl err, w), dev_info = \<lambda>_ w. (Inl err, w),
         dev_set_label = \<lambda>_ _ w. (Inl err, w), open_application = \<lambda>_ _ w. (Inl err, w),
         begin_digest = \<lambda>_ _ _ w. (Inl err, w),
         begin_digest_with_key = \<lambda>_ _ _ _ w. (Inl err, w),
         app_handle = \<lambda>_. 0, enum_containers = \<lambda>_ w. (Inl err, w),
         verify_pin = \<lambda>_ _ w. (Inl err, w), open_container = \<lambda>_ _ w. (Inl err, w),
         delete_container = \<lambda>_ _ w. (Inl err, w), create_container = \<lambda>_ _ w. (Inl err, w),
         cnt_handle = \<lambda>_. 0, container_type = \<lambda>_ w. (Inl err, w),
         export_certificate = \<lambda>_ _ w. (Inl err, w),
         import_certificate = \<lambda>_ _ _ w. (Inl err, w), sign_ecc = \<lambda>_ _ w. (Inl err, w),
         sign_rsa = \<lambda>_ _ w. (Inl err, w), gen_ecc_key_pair = \<lambda>_ _ w. (Inl err, w),
         gen_rsa_key_pair = \<lambda>_ _ w. (Inl err, w), set_symm_key = \<lambda>_ _ _ w. (Inl err, w),
         encrypt = \<lambda>_ _ _ _ _ w. (Inl err, w), decrypt = \<lambda>_ _ _ _ _ w. (Inl err, w),
         dig_handle = \<lambda>_. 0, dig_update = \<lambda>_ _ w. (Inl err, w),
         dig_finalize = \<lambda>_ w. (Inl err, w),
         drop_device = \<lambda>_ w. w, drop_application = \<lambda>_ w. w,
         drop_container = \<lambda>_ w. w, drop_digest = \<lambda>_ w. w\<rparr>)"

section \<open>Facts about one operation\<close>

lemma begin_op_frame:
  assumes "begin_op op w = (r, w')"
  shows "boxes w' = boxes w" "fi_clock w \<le> fi_clock w'" "calls w' = calls w @ [op]"
    "fi_next_handle w' = fi_next_handle w" "fi_devices w' = fi_devices w"
  using assms
  by (auto simp: begin_op_def record_op_def Let_def split: option.splits list.splits skf_error.splits)

lemma keeps_begin_op: "keeps boxes fi_clock (begin_op op)"
  unfolding keeps_def using begin_op_frame by (metis surjective_pairing)

lemma keeps_after_begin: "keeps boxes fi_clock (after_begin op f)"
  unfolding keeps_def after_begin_def using begin_op_frame
  by (auto split: prod.splits sum.splits)

lemma keeps_wait_for_event: "keeps boxes fi_clock (fake_wait_for_event n)"
  unfolding keeps_def fake_wait_for_event_def Let_def using begin_op_frame
  by (fastforce split: prod.splits sum.splits option.splits)

lemma keeps_verify_pin: "keeps boxes fi_clock (fake_verify_pin a s)"
  unfolding keeps_def fake_verify_pin_def using begin_op_frame
  by (fastforce split: prod.splits sum.splits provider_error.splits skf_error.splits)

lemma opens_box_guard: "opens boxes fi_clock res (box_guard op mk res)"
  unfolding opens_def box_guard_def take_handle_def
  using begin_op_frame(1,2) by (fastforce split: prod.splits sum.splits)

lemma closes_unbox_guard: "closes boxes fi_clock res (unbox_guard op res)"
  by (simp add: closes_def unbox_guard_def record_op_def)

lemmas fake_keeps =
  keeps_begin_op keeps_after_begin keeps_wait_for_event keeps_verify_pin
  opens_box_guard closes_unbox_guard

interpretation fake_contract: provider_contract "fake_provider nm" boxes fi_clock for nm
  by unfold_locales (simp_all add: fake_provider_def fake_begin_digest_def fake_keeps)

interpretation unavailable_contract:
  provider_contract "unavailable_provider arch nm detail" "\<lambda>_. {#}" now for arch nm detail now
  by unfold_locales
    (simp_all add: unavailable_provider_def Let_def keeps_def opens_def closes_def)

lemma test_context_contract:
  "provider_contract P live now \<Longrightarrow> server_contract (test_context P now) live"
  by (rule server_contract.intro) (auto simp: test_context_def keeps_def)

interpretation fake_server: server_contract "fake_context nm" boxes for nm
  by (rule test_context_contract) unfold_locales

interpretation unavailable_server:
  server_contract "test_context (unavailable_provider arch nm detail) now" "\<lambda>_. {#}"
  for arch nm detail now
  by (rule test_context_contract) unfold_locales

section \<open>Injected failures as a queue\<close>

abbreviation queue_of :: "operation \<Rightarrow> fake_inner \<Rightarrow> skf_error list" where
  "queue_of op w \<equiv> (case map_of (failures w) op of None \<Rightarrow> [] | Some q \<Rightarrow> q)"

primrec injected_result :: "skf_error \<Rightarrow> provider_error + unit" where
  "injected_result PinIncorrect = Inl (Injected PinIncorrect)"
| "injected_result PinLocked = Inl (Injected PinLocked)"
| "injected_result ContainerMissing = Inl (Injected ContainerMissing)"
| "injected_result SymbolUnavailable = Inl (Injected SymbolUnavailable)"
| "injected_result DeviceRemoved = Inl (Injected DeviceRemoved)"
| "injected_result (Blocking d) = Inr ()"
| "injected_result (Custom c) = Inl (Injected (Custom c))"

fun injected_delay :: "skf_error \<Rightarrow> duration" where
  "injected_delay (Blocking d) = d"
| "injected_delay _ = 0"

fun run_begin :: "operation \<Rightarrow> nat \<Rightarrow> fake_inner \<Rightarrow> (provider_error + unit) list \<times> fake_inner" where
  "run_begin op 0 w = ([], w)"
| "run_begin op (Suc n) w =
    (case begin_op op w of (r, w') \<Rightarrow> apfst ((#) r) (run_begin op n w'))"

lemma queue_fail_next:
  "queue_of op' (fail_next op e w) = (if op' = op then queue_of op w @ [e] else queue_of op' w)"
  by (simp add: fail_next_def update_conv' split: option.splits)

lemma fold_fail_next:
  "queue_of op' (fold (fail_next op) es w) =
    (if op' = op then queue_of op w @ es else queue_of op' w)"
proof (induction es arbitrary: w)
  case (Cons e es)
  then show ?case by (simp add: queue_fail_next)
qed simp

lemma fold_fail_next_clock [simp]: "fi_clock (fold (fail_next op) es w) = fi_clock w"
  by (induction es arbitrary: w) (simp_all add: fail_next_def)

lemma begin_op_queue:
  assumes "begin_op op w = (r, w')"
  shows "queue_of op' w' = (if op' = op then tl (queue_of op w) else queue_of op' w)"
    "r = (case queue_of op w of [] \<Rightarrow> Inr () | e # _ \<Rightarrow> injected_result e)"
    "fi_clock w' = fi_clock w + (case queue_of op w of [] \<Rightarrow> 0 | e # _ \<Rightarrow> injected_delay e)"
  using assms
  by (auto simp: begin_op_def record_op_def Let_def update_conv'
      split: option.splits list.splits skf_error.splits)

lemma run_begin_queue:
  assumes "run_begin op n w = (rs, w')"
  shows "rs = map injected_result (take n (queue_of op w))
      @ replicate (n - length (queue_of op w)) (Inr ())
    \<and> fi_clock w' = fi_clock w + sum_list (map injected_delay (take n (queue_of op w)))
    \<and> (\<forall>op'. queue_of op' w' = (if op' = op then drop n (queue_of op w) else queue_of op' w))"
  using assms
proof (induction n arbitrary: w rs w')
  case 0
  then show ?case by simp
next
  case (Suc n)
  obtain r u where b: "begin_op op w = (r, u)" by (cases "begin_op op w")
  obtain rs' where rs': "run_begin op n u = (rs', w')" "rs = r # rs'"
    using Suc.prems b by (cases "run_begin op n u") auto
  note IH = Suc.IH [OF rs'(1)]
  note q = begin_op_queue [OF b]
  show ?case
  proof (cases "queue_of op w")
    case Nil
    then show ?thesis using IH q rs'(2) by simp
  next
    case (Cons e es)
    then show ?thesis using IH q rs'(2) by (simp add: drop_Suc)
  qed
qed

section \<open>A fake with nothing queued\<close>

lemma begin_op_quiet: "failures w = [] \<Longrightarrow> begin_op op w = (Inr (), record_op op w)"
  by (simp add: begin_op_def record_op_def Let_def)

lemma record_op_quiet [simp]:
  "failures (record_op op w) = failures w" "fi_clock (record_op op w) = fi_clock w"
  by (simp_all add: record_op_def)

lemma fake_quiet:
  assumes "failures w = []"
  obtains g w' where "box_guard op mk res w = (Inr g, w')" "failures w' = []" "fi_clock w' = fi_clock w"
  using assms by (simp add: box_guard_def begin_op_quiet take_handle_def)

lemma fake_quiet_value:
  assumes "failures w = []"
  shows "after_begin op f w = (Inr (f (record_op op w)), record_op op w)"
    "fake_verify_pin a pin w =
      (Inr \<lparr>pin_success = True, retry_count = 3, pin_code = 0\<rparr>, record_op OpVerifyPin w)"
  using assms by (simp_all add: after_begin_def fake_verify_pin_def begin_op_quiet)

lemma fake_context_simps [simp]:
  "default_alias (fake_context nm) = nm"
  "resolve (fake_context nm) other w = (Inr (fake_provider nm), w)"
  "clock (fake_context nm) = fi_clock"
  by (simp_all add: test_context_def fake_provider_def)

lemma fake_provider_guards:
  "open_device (fake_provider nm) name =
    box_guard OpOpenDevice (\<lambda>n. \<lparr>fd_name = name, fd_exposed = n\<rparr>) ResDevice"
  "open_application (fake_provider nm) d app =
    box_guard OpOpenApplication (\<lambda>n. \<lparr>fa_exposed = n\<rparr>) ResApplication"
  "open_container (fake_provider nm) a cont =
    box_guard OpOpenContainer (\<lambda>n. \<lparr>fc_exposed = n\<rparr>) ResContainer"
  "create_container (fake_provider nm) a cont =
    box_guard OpCreateContainer (\<lambda>n. \<lparr>fc_exposed = n\<rparr>) ResContainer"
  "verify_pin (fake_provider nm) = fake_verify_pin"
  by (simp_all add: fake_provider_def)

section \<open>Properties\<close>

text \<open>Failures are injected first in, first out, one per call: of any number of calls of an
  operation after queueing errors for it, the first ones report those errors in order, an
  injected delay counts as success and advances the clock by its length, later calls succeed,
  and the queues of other operations are untouched.\<close>

theorem fail_next_fifo:
  assumes "map_of (failures w) op = None"
    and "run_begin op n (fold (fail_next op) es w) = (rs, w')"
  shows "rs = map injected_result (take n es) @ replicate (n - length es) (Inr ())
    \<and> fi_clock w' = fi_clock w + sum_list (map injected_delay (take n es))
    \<and> (\<forall>op'. op' = op \<or> queue_of op' w' = queue_of op' w)"
proof -
  have "queue_of op (fold (fail_next op) es w) = es"
    using assms(1) by (simp add: fold_fail_next)
  then show ?thesis using run_begin_queue [OF assms(2)] by (simp add: fold_fail_next)
qed

theorem fail_next_fifo_witness:
  "fst (run_begin OpVerifyPin 3
      (fold (fail_next OpVerifyPin) [Blocking 50, PinIncorrect] (new_fake ''FAKE''))) =
    [Inr (), Inl (Injected PinIncorrect), Inr ()]"
proof -
  let ?w = "fold (fail_next OpVerifyPin) [Blocking 50, PinIncorrect] (new_fake ''FAKE'')"
  obtain rs w' where run: "run_begin OpVerifyPin 3 ?w = (rs, w')"
    by (cases "run_begin OpVerifyPin 3 ?w")
  have "map_of (failures (new_fake ''FAKE'')) OpVerifyPin = None"
    by (simp add: new_fake_def with_devices_def)
  from fail_next_fifo [OF this run] run show ?thesis by (simp add: numeral_3_eq_3)
qed

end
