(* ===== verification/Keys.thy ===== *)
theory Keys
  imports Fake
begin

text \<open>
  The key-pair handlers (\<open>src/domain/keys.rs\<close>). Unlike the container handlers they need an explicit
  provider alias and answer a failed resolution in the client's language with code -1.
\<close>

definition SGD_SM2_1 :: u32 where
  "SGD_SM2_1 = 0x00020100"

definition GenECCKeyPair_handle ::
  "codec \<Rightarrow> ('w, 'd, 'a, 'c, 'h) server_context \<Rightarrow> params \<Rightarrow> language \<Rightarrow> ('w, 'd, 'a, 'c, 'h) handler" where
  "GenECCKeyPair_handle C ctx p lang =
    (let ident = params_id p in
     let_ok (required_str p 0 ''Missing providerName param'') (\<lambda>prov.
     let_ok (required_str p 1 ''Missing deviceName param'') (\<lambda>dev.
     let_ok (required_str p 2 ''Missing appName param'') (\<lambda>app.
     let_ok (required_str p 3 ''Missing containerName param'') (\<lambda>cont.
     let alg_id = ucast (optional_u64 p 4 (ucast SGD_SM2_1)) :: u32 in
     with_provider ctx prov (\<lambda>m. load_failed_localized m lang ident) (\<lambda>P.
     with_device P prov dev ident (\<lambda>d.
     with_application P d prov dev app (failed_text ''OpenApplication'') ident (\<lambda>a.
     require_auth ctx prov dev app ident (
     with_container P a cont ident (\<lambda>c.
     call (gen_ecc_key_pair P c alg_id) (answer
       (\<lambda>key. rpc_ok (Object
          [(''bitLen'', json_u32 (ecc_bit_len key)),
           (''publicKeyBase64'', String (b64_encode C (struct_bytes_ecc (ecc_blob key))))]) ident)
       (\<lambda>e. provider_failure (localized lang
         (utf8 [0xE7, 0x94, 0x9F, 0xE6, 0x88, 0x90] @ ''ECC'' @ utf8 [0xE5, 0xAF, 0x86, 0xE9, 0x92, 0xA5, 0xE5, 0xAF, 0xB9, 0xE5, 0xA4, 0xB1, 0xE8, 0xB4, 0xA5] @ '': 0x'')
         ''GenECCKeyPair failed: 0x'') e ident))))))))))))"

definition GenRSAKeyPair_handle ::
  "codec \<Rightarrow> ('w, 'd, 'a, 'c, 'h) server_context \<Rightarrow> params \<Rightarrow> language \<Rightarrow> ('w, 'd, 'a, 'c, 'h) handler" where
  "GenRSAKeyPair_handle C ctx p lang =
    (let ident = params_id p in
     let_ok (required_str p 0 ''Missing providerName param'') (\<lambda>prov.
     let_ok (required_str p 1 ''Missing deviceName param'') (\<lambda>dev.
     let_ok (required_str p 2 ''Missing appName param'') (\<lambda>app.
     let_ok (required_str p 3 ''Missing containerName param'') (\<lambda>cont.
     let bits_len = ucast (optional_u64 p 4 2048) :: u32 in
     with_provider ctx prov (\<lambda>m. load_failed_localized m lang ident) (\<lambda>P.
     with_device P prov dev ident (\<lambda>d.
     with_application P d prov dev app (failed_text ''OpenApplication'') ident (\<lambda>a.
     require_auth ctx prov dev app ident (
     with_container P a cont ident (\<lambda>c.
     call (gen_rsa_key_pair P c bits_len) (answer
       (\<lambda>key. rpc_ok (Object
          [(''bitLen'', json_u32 (rsa_bit_len key)),
           (''publicKeyBase64'', String (b64_encode C (struct_bytes_rsa (rsa_blob key))))]) ident)
       (\<lambda>e. provider_failure (localized lang
         (utf8 [0xE7, 0x94, 0x9F, 0xE6, 0x88, 0x90] @ ''RSA'' @ utf8 [0xE5, 0xAF, 0x86, 0xE9, 0x92, 0xA5, 0xE5, 0xAF, 0xB9, 0xE5, 0xA4, 0xB1, 0xE8, 0xB4, 0xA5] @ '': 0x'')
         ''GenRSAKeyPair failed: 0x'') e ident))))))))))))"

lemmas key_handler_defs = GenECCKeyPair_handle_def GenRSAKeyPair_handle_def

context server_contract
begin

lemma clean_keys:
  "clean live (clock ctx) {} (GenECCKeyPair_handle C ctx p lang)"
  "clean live (clock ctx) {} (GenRSAKeyPair_handle C ctx p lang)"
  unfolding key_handler_defs Let_def
  by (intro release_intros; assumption?)+

end

lemma agree_keys:
  assumes "server_contract ctx live" "front_equal ctx ctx'"
  shows "agree (clock ctx) (named_key (optional_str p 0 []) p)
      (GenECCKeyPair_handle C ctx p lang) (GenECCKeyPair_handle C ctx' p lang)"
    "agree (clock ctx) (named_key (optional_str p 0 []) p)
      (GenRSAKeyPair_handle C ctx p lang) (GenRSAKeyPair_handle C ctx' p lang)"
  unfolding key_handler_defs Let_def named_key_def
  using assms by (intro agree_intros; (assumption | simp add: required_str_optional))+

end
