(* ===== verification/Signing.thy ===== *)
theory Signing
  imports Keys
begin

text \<open>
  The signing, encryption and certificate-request handlers (\<open>src/domain/crypto.rs\<close>).
\<close>

definition SGD_SM3 :: u32 where "SGD_SM3 = 0x00000001"
definition SGD_SM4_CBC :: u32 where "SGD_SM4_CBC = 0x00000402"

section \<open>Signing\<close>

text \<open>The DER signature \<open>SignData\<close> builds by hand from the two 64-byte halves.\<close>

definition ecc_signature_der :: "bytes \<Rightarrow> bytes outcome" where
  "ecc_signature_der sig =
    (case slice 0 64 sig of
      Panic \<Rightarrow> Panic
    | Ret r \<Rightarrow>
      (case der_encode_integer r of
        Panic \<Rightarrow> Panic
      | Ret r_der \<Rightarrow>
        (case slice 64 128 sig of
          Panic \<Rightarrow> Panic
        | Ret t \<Rightarrow>
          (case der_encode_integer t of
            Panic \<Rightarrow> Panic
          | Ret s_der \<Rightarrow>
              let seq_len = length r_der + length s_der
              in Ret (0x30 # (if seq_len < 128 then [of_nat seq_len] else [0x81, of_nat seq_len])
                   @ r_der @ s_der)))))"

definition SignData_handle ::
  "codec \<Rightarrow> ('w, 'd, 'a, 'c, 'h) server_context \<Rightarrow> params \<Rightarrow> language \<Rightarrow> ('w, 'd, 'a, 'c, 'h) handler" where
  "SignData_handle C ctx p lang =
    (let ident = params_id p in
     let_ok (required_str p 0 ''Missing certKey param'') (\<lambda>cert_key.
     let_ok (required_str p 1 ''Missing data param'') (\<lambda>data_b64.
     let_some (split_cert_key cert_key 4) (rpc_err (- 2) ''Invalid certKey format, expected: provider/device/app/container[/serial]'' ident) (\<lambda>parts.
     let prov = normalize_alias ctx (parts ! 0); dev = parts ! 1; app = parts ! 2; cont = parts ! 3 in
     let_ok (decode_base64 C p data_b64 ''Invalid base64 data'') (\<lambda>data.
     with_provider ctx prov (\<lambda>m. load_failed m ident) (\<lambda>P.
     with_device P prov dev ident (\<lambda>d.
     with_application P d prov dev app (failed_text ''OpenApplication'') ident (\<lambda>a.
     require_auth ctx prov dev app ident (
     with_container P a cont ident (\<lambda>c.
     call (container_type P c) (\<lambda>ct.
     let cont_type = (case ct of Inr t \<Rightarrow> t | Inl _ \<Rightarrow> 1) in
     if cont_type = 2 then
       let_call (sign_ecc P c data)
         (\<lambda>e. provider_failure (localized lang
         (utf8 [0xE7, 0xAD, 0xBE, 0xE5, 0x90, 0x8D, 0xE5, 0xA4, 0xB1, 0xE8, 0xB4, 0xA5] @ '': 0x'')
         ''SignData failed: 0x'') e ident) (\<lambda>sig.
       let_ret (ecc_signature_der sig) (\<lambda>der.
       reply (rpc_ok (String (b64_encode C der)) ident)))
     else
       let_call (sign_rsa P c data)
         (\<lambda>e. provider_failure (localized lang
         (utf8 [0xE7, 0xAD, 0xBE, 0xE5, 0x90, 0x8D, 0xE5, 0xA4, 0xB1, 0xE8, 0xB4, 0xA5] @ '': 0x'')
         ''SignData failed: 0x'') e ident) (\<lambda>sig.
       reply (rpc_ok (String (b64_encode C sig)) ident)))))))))))))"

definition RSASignData_handle ::
  "codec \<Rightarrow> ('w, 'd, 'a, 'c, 'h) server_context \<Rightarrow> params \<Rightarrow> language \<Rightarrow> ('w, 'd, 'a, 'c, 'h) handler" where
  "RSASignData_handle C ctx p lang =
    (let ident = params_id p in
     let_ok (required_str p 0 ''Missing certKey param'') (\<lambda>cert_key.
     let_ok (required_str p 1 ''Missing data param'') (\<lambda>data_b64.
     let_some (split_cert_key cert_key 4) (rpc_err (- 2) ''Invalid certKey format, expected: provider/device/app/container[/serial]'' ident) (\<lambda>parts.
     let prov = normalize_alias ctx (parts ! 0); dev = parts ! 1; app = parts ! 2; cont = parts ! 3 in
     let_ok (decode_base64 C p data_b64 ''Invalid base64 data'') (\<lambda>data.
     with_provider ctx prov (\<lambda>m. load_failed m ident) (\<lambda>P.
     with_device P prov dev ident (\<lambda>d.
     with_application P d prov dev app (failed_text ''OpenApplication'') ident (\<lambda>a.
     require_auth ctx prov dev app ident (
     with_container P a cont ident (\<lambda>c.
     call (sign_rsa P c data) (answer (\<lambda>sig. rpc_ok (String (b64_encode C sig)) ident)
       (\<lambda>e. provider_failure (localized lang
         (''RSA'' @ utf8 [0xE7, 0xAD, 0xBE, 0xE5, 0x90, 0x8D, 0xE5, 0xA4, 0xB1, 0xE8, 0xB4, 0xA5] @ '': 0x'')
         ''RSASignData failed: 0x'') e ident))))))))))))"

section \<open>Encryption\<close>

text \<open>The optional session key: absent, or present and decoded.\<close>

definition sym_key_param :: "codec \<Rightarrow> params \<Rightarrow> rpc_response + bytes option" where
  "sym_key_param C p =
    (case Option.bind (raw p 4) as_str of
      Some encoded \<Rightarrow>
        (case decode_base64 C p encoded ''Invalid base64 symKey'' of
          Inr b \<Rightarrow> Inr (Some b)
        | Inl e \<Rightarrow> Inl e)
    | None \<Rightarrow> Inr None)"

definition with_symm_key ::
  "('w, 'd, 'a, 'c, 'h) provider \<Rightarrow> 'c \<Rightarrow> language \<Rightarrow> json option \<Rightarrow> bytes option
    \<Rightarrow> ('w, 'd, 'a, 'c, 'h) handler \<Rightarrow> ('w, 'd, 'a, 'c, 'h) handler" where
  "with_symm_key P c lang ident key body =
    (case key of
      None \<Rightarrow> body
    | Some k \<Rightarrow>
        if length k \<noteq> 16 then reply (rpc_err (- 2) ''SM4 key must be 16 bytes'' ident)
        else let_call (set_symm_key P c SGD_SM4_CBC k)
          (\<lambda>e. provider_failure (localized lang
         (utf8 [0xE8, 0xAE, 0xBE, 0xE7, 0xBD, 0xAE, 0xE5, 0xAF, 0xB9, 0xE7, 0xA7, 0xB0, 0xE5, 0xAF, 0x86, 0xE9, 0x92, 0xA5, 0xE5, 0xA4, 0xB1, 0xE8, 0xB4, 0xA5] @ '': 0x'')
         ''SetSymmKey failed: 0x'') e ident) (\<lambda>_. body))"

definition EncryptData_handle ::
  "codec \<Rightarrow> ('w, 'd, 'a, 'c, 'h) server_context \<Rightarrow> params \<Rightarrow> language \<Rightarrow> ('w, 'd, 'a, 'c, 'h) handler" where
  "EncryptData_handle C ctx p lang =
    (let ident = params_id p in
     let_ok (required_str p 0 ''Missing certKey param'') (\<lambda>cert_key.
     let_ok (required_str p 1 ''Missing data param'') (\<lambda>data_b64.
     let_ok (required_str p 2 ''Missing IV param'') (\<lambda>iv_b64.
     let padding = ucast (optional_u64 p 3 1) :: u32 in
     let_ok (sym_key_param C p) (\<lambda>sym_key.
     let_some (split_cert_key cert_key 4) (rpc_err (- 2) ''Invalid certKey format, expected: provider/device/app/container[/serial]'' ident) (\<lambda>parts.
     let prov = normalize_alias ctx (parts ! 0); dev = parts ! 1; app = parts ! 2; cont = parts ! 3 in
     let_ok (decode_base64 C p data_b64 ''Invalid base64 data'') (\<lambda>data.
     let_ok (decode_base64 C p iv_b64 ''Invalid base64 IV'') (\<lambda>iv.
     with_provider ctx prov (\<lambda>m. load_failed m ident) (\<lambda>P.
     with_device P prov dev ident (\<lambda>d.
     with_application P d prov dev app (failed_text ''OpenApplication'') ident (\<lambda>a.
     require_auth ctx prov dev app ident (
     with_container P a cont ident (\<lambda>c.
     with_symm_key P c lang ident sym_key (
     call (encrypt P c SGD_SM4_CBC iv padding data) (answer
       (\<lambda>res. rpc_ok (Object
          [(''algorithm'', String ''SM4-CBC''), (''encryptedData'', String (b64_encode C res))]) ident)
       (\<lambda>e. provider_failure (localized lang
         (''EncryptData'' @ utf8 [0xE5, 0xA4, 0xB1, 0xE8, 0xB4, 0xA5] @ '': 0x'')
         ''EncryptData failed: 0x'') e ident))))))))))))))))"

definition DecryptData_handle ::
  "codec \<Rightarrow> ('w, 'd, 'a, 'c, 'h) server_context \<Rightarrow> params \<Rightarrow> language \<Rightarrow> ('w, 'd, 'a, 'c, 'h) handler" where
  "DecryptData_handle C ctx p lang =
    (let ident = params_id p in
     let_ok (required_str p 0 ''Missing certKey param'') (\<lambda>cert_key.
     let_ok (required_str p 1 ''Missing encryptedData param'') (\<lambda>data_b64.
     let_ok (required_str p 2 ''Missing IV param'') (\<lambda>iv_b64.
     let padding = ucast (optional_u64 p 3 1) :: u32 in
     let_ok (sym_key_param C p) (\<lambda>sym_key.
     let_some (split_cert_key cert_key 4) (rpc_err (- 2) ''Invalid certKey format, expected: provider/device/app/container[/serial]'' ident) (\<lambda>parts.
     let prov = normalize_alias ctx (parts ! 0); dev = parts ! 1; app = parts ! 2; cont = parts ! 3 in
     let_ok (decode_base64 C p data_b64 ''Invalid base64 encrypted data'') (\<lambda>data.
     let_ok (decode_base64 C p iv_b64 ''Invalid base64 IV'') (\<lambda>iv.
     with_provider ctx prov (\<lambda>m. load_failed m ident) (\<lambda>P.
     with_device P prov dev ident (\<lambda>d.
     with_application P d prov dev app (failed_text ''OpenApplication'') ident (\<lambda>a.
     require_auth ctx prov dev app ident (
     with_container P a cont ident (\<lambda>c.
     with_symm_key P c lang ident sym_key (
     call (decrypt P c SGD_SM4_CBC iv padding data) (answer
       (\<lambda>res. rpc_ok (Object
          [(''algorithm'', String ''SM4-CBC''), (''data'', String (b64_encode C res))]) ident)
       (\<lambda>e. provider_failure (localized lang
         (''DecryptData'' @ utf8 [0xE5, 0xA4, 0xB1, 0xE8, 0xB4, 0xA5] @ '': 0x'')
         ''DecryptData failed: 0x'') e ident))))))))))))))))"

section \<open>Certificate requests\<close>

text \<open>\<open>30 31 30 0d ... 04 20\<close> in decimal.\<close>

definition SHA256_DIGEST_INFO_PREFIX :: bytes where
  "SHA256_DIGEST_INFO_PREFIX =
    [48, 49, 48, 13, 6, 9, 96, 134, 72, 1, 101, 3, 4, 2, 1, 5, 0, 4, 32]"

text \<open>The container name: the one supplied, else eight random bytes in hexadecimal, else the clock.\<close>

definition with_container_name ::
  "('w, 'd, 'a, 'c, 'h) server_context \<Rightarrow> ('w, 'd, 'a, 'c, 'h) provider \<Rightarrow> 'd \<Rightarrow> string
    \<Rightarrow> (string \<Rightarrow> ('w, 'd, 'a, 'c, 'h) handler) \<Rightarrow> ('w, 'd, 'a, 'c, 'h) handler" where
  "with_container_name ctx P d supplied k =
    (if supplied \<noteq> [] then k supplied
     else call (dev_random P d 8) (\<lambda>r. case r of
       Inr bs \<Rightarrow> let_ret (if length bs < 8 then Panic else Ret (concat (map fmt_02X (take 8 bs)))) k
     | Inl _ \<Rightarrow> call (\<lambda>w. (unix_micros ctx w, w)) (\<lambda>us.
         let_ret (case us of None \<Rightarrow> Panic | Some n \<Rightarrow> Ret (''CSR'' @ show_nat (n mod 100000000))) k)))"

text \<open>Create the container; when that fails and a name was supplied, open it instead.\<close>

definition create_or_open ::
  "('w, 'd, 'a, 'c, 'h) provider \<Rightarrow> 'a \<Rightarrow> string \<Rightarrow> bool \<Rightarrow> ('w, 'c) operation_fn" where
  "create_or_open P a name supplied w =
    (case create_container P a name w of
      (Inr c, w') \<Rightarrow> (Inr c, w')
    | (Inl e, w') \<Rightarrow> if supplied then open_container P a name w' else (Inl e, w'))"

definition with_key_pair ::
  "('w, 'd, 'a, 'c, 'h) provider \<Rightarrow> 'c \<Rightarrow> bool \<Rightarrow> u32 \<Rightarrow> json option
    \<Rightarrow> (bytes \<Rightarrow> bytes \<Rightarrow> u32 \<Rightarrow> ecc_public_key option \<Rightarrow> ('w, 'd, 'a, 'c, 'h) handler)
    \<Rightarrow> ('w, 'd, 'a, 'c, 'h) handler" where
  "with_key_pair P c is_ecc key_length ident k =
    (if is_ecc then
       let_call (gen_ecc_key_pair P c SGD_SM2_1)
         (\<lambda>e. provider_failure (failed_text ''GenECCKeyPair'') e ident) (\<lambda>key.
       k (build_sm2_spki (ecc_blob key)) OID_SM3_WITH_SM2 SGD_SM3 (Some key))
     else
       let_call (gen_rsa_key_pair P c key_length)
         (\<lambda>e. provider_failure (failed_text ''GenRSAKeyPair'') e ident) (\<lambda>key.
       let_ret (build_rsa_spki (rsa_blob key)) (\<lambda>spki.
       k spki OID_SHA256_WITH_RSA 0x00000004 None)))"

definition csr_tbs :: "(string \<Rightarrow> string) \<Rightarrow> string \<Rightarrow> bytes \<Rightarrow> bytes" where
  "csr_tbs up subject spki =
    der_sequence [der_small_integer 0, build_subject_dn up subject, spki, der_context_0 []]"

definition begin_csr_digest ::
  "('w, 'd, 'a, 'c, 'h) provider \<Rightarrow> 'd \<Rightarrow> u32 \<Rightarrow> ecc_public_key option \<Rightarrow> ('w, 'h) operation_fn" where
  "begin_csr_digest P d alg key =
    (case key of
      Some k \<Rightarrow> begin_digest_with_key P d alg (as_bytes ''1234567812345678'') k
    | None \<Rightarrow> begin_digest P d alg [])"

definition with_csr_digest ::
  "('w, 'd, 'a, 'c, 'h) provider \<Rightarrow> 'd \<Rightarrow> u32 \<Rightarrow> ecc_public_key option \<Rightarrow> bytes \<Rightarrow> json option
    \<Rightarrow> (bytes \<Rightarrow> ('w, 'd, 'a, 'c, 'h) handler) \<Rightarrow> ('w, 'd, 'a, 'c, 'h) handler" where
  "with_csr_digest P d alg key tbs ident k =
    with_guard (begin_csr_digest P d alg key) (drop_digest P)
      (\<lambda>e. reply (provider_failure (failed_text ''DigestInit'') e ident)) (\<lambda>h.
    let_call (dig_update P h tbs) (\<lambda>e. provider_failure (failed_text ''Digest'') e ident) (\<lambda>_.
    let_call (dig_finalize P h) (\<lambda>e. provider_failure (failed_text ''Digest'') e ident) k))"

definition with_csr_signature ::
  "('w, 'd, 'a, 'c, 'h) provider \<Rightarrow> 'c \<Rightarrow> bool \<Rightarrow> bytes \<Rightarrow> json option
    \<Rightarrow> (bytes \<Rightarrow> ('w, 'd, 'a, 'c, 'h) handler) \<Rightarrow> ('w, 'd, 'a, 'c, 'h) handler" where
  "with_csr_signature P c is_ecc hash ident k =
    (if is_ecc then
       let_call (sign_ecc P c hash)
         (\<lambda>e. provider_failure (failed_text ''ECCSignData'') e ident) (\<lambda>sig.
       let_ret (slice 32 64 sig) (\<lambda>r.
       let_ret (der_encode_integer r) (\<lambda>r_der.
       let_ret (slice 96 128 sig) (\<lambda>t.
       let_ret (der_encode_integer t) (\<lambda>s_der.
       k (der_sequence [r_der, s_der]))))))
     else
       let_call (sign_rsa P c (SHA256_DIGEST_INFO_PREFIX @ hash))
         (\<lambda>e. provider_failure (failed_text ''RSASignData'') e ident) k)"

definition csr_der :: "bool \<Rightarrow> bytes \<Rightarrow> bytes \<Rightarrow> bytes \<Rightarrow> bytes" where
  "csr_der is_ecc tbs oid sig_bits =
    (let sig_alg = (if is_ecc then der_sequence [der_oid oid]
                    else der_sequence [der_oid oid, [0x05, 0x00]])
     in der_sequence [tbs, sig_alg, der_bit_string sig_bits])"

abbreviation newline :: char where
  "newline \<equiv> CHR 0x0A"

text \<open>The loop over the characters: \<open>i\<close> counts those already written.\<close>

fun pem_lines :: "nat \<Rightarrow> string \<Rightarrow> string" where
  "pem_lines i [] = []"
| "pem_lines i (c # cs) = c # (if (i + 1) mod 64 = 0 then [newline] else []) @ pem_lines (i + 1) cs"

definition csr_pem :: "string \<Rightarrow> string" where
  "csr_pem b64 =
    (let pem = ''-----BEGIN CERTIFICATE REQUEST-----'' @ [newline] @ pem_lines 0 b64
     in pem @ (if last pem = newline then [] else [newline]) @ ''-----END CERTIFICATE REQUEST-----'')"

definition csr_answer :: "string \<Rightarrow> u32 \<Rightarrow> string \<Rightarrow> string \<Rightarrow> json option \<Rightarrow> rpc_response" where
  "csr_answer cont_name key_length key_type pem ident =
    rpc_ok (Object
      [(''container'', String cont_name), (''keyLength'', json_u32 key_length),
       (''keyType'', String key_type), (''pem'', String pem)]) ident"

definition CreatePKCS10_handle ::
  "runtime \<Rightarrow> ('w, 'd, 'a, 'c, 'h) server_context \<Rightarrow> params \<Rightarrow> language \<Rightarrow> ('w, 'd, 'a, 'c, 'h) handler" where
  "CreatePKCS10_handle R ctx p lang =
    (let ident = params_id p; prov = normalize_alias ctx (optional_str p 0 []) in
     let_ok (required_str p 1 ''Missing deviceName'') (\<lambda>dev.
     let_ok (required_str p 2 ''Missing appName'') (\<lambda>app.
     let_ok (required_str p 3 ''Missing subject'') (\<lambda>subject.
     let key_type = to_uppercase (unicode_upper R) (optional_str p 4 ''SM2'');
         key_length = ucast (optional_u64 p 5 256) :: u32;
         supplied = optional_str p 6 [];
         is_ecc = (key_type = ''SM2'' \<or> key_type = ''ECC'') in
     with_provider ctx prov (\<lambda>m. load_failed m ident) (\<lambda>P.
     with_device P prov dev ident (\<lambda>d.
     with_guard (open_application P d app) (drop_application P)
       (\<lambda>e. reply (provider_failure (failed_text ''OpenApp'') e ident)) (\<lambda>a.
     require_auth ctx prov dev app ident (
     with_container_name ctx P d supplied (\<lambda>cont_name.
     with_guard (create_or_open P a cont_name (supplied \<noteq> [])) (drop_container P)
       (\<lambda>e. reply (provider_failure (failed_text ''Create/OpenContainer'') e ident)) (\<lambda>c.
     with_key_pair P c is_ecc key_length ident (\<lambda>spki oid hash_alg ecc_key.
     let tbs = csr_tbs (unicode_upper R) subject spki in
     with_csr_digest P d hash_alg ecc_key tbs ident (\<lambda>hash.
     with_csr_signature P c is_ecc hash ident (\<lambda>sig_bits.
     let pem = csr_pem (b64_encode (rt_codec R) (csr_der is_ecc tbs oid sig_bits)) in
     call (\<lambda>w. ((), write_last_csr ctx pem w)) (\<lambda>_.
     reply (csr_answer cont_name key_length key_type pem ident)))))))))))))))"

lemmas signing_handler_defs =
  SignData_handle_def RSASignData_handle_def EncryptData_handle_def DecryptData_handle_def
  CreatePKCS10_handle_def with_csr_digest_def csr_answer_def

section \<open>Every path gives back what it took\<close>

lemma clean_with_symm_key [release_intros]:
  assumes "provider_contract P live now" and "clean live now K body"
  shows "clean live now K (with_symm_key P c lang ident key body)"
  unfolding with_symm_key_def
  using assms by (auto intro: release_intros split: option.split)

lemma clean_with_key_pair [release_intros]:
  assumes "provider_contract P live now" and "\<And>s t u v. clean live now K (k s t u v)"
  shows "clean live now K (with_key_pair P c is_ecc n ident k)"
  unfolding with_key_pair_def
  using assms by (intro release_intros; assumption?)

lemma clean_with_csr_signature [release_intros]:
  assumes "provider_contract P live now" and "\<And>b. clean live now K (k b)"
  shows "clean live now K (with_csr_signature P c is_ecc hash ident k)"
  unfolding with_csr_signature_def
  using assms by (intro release_intros; assumption?)

lemma clean_with_container_name [release_intros]:
  assumes "provider_contract P live now" and "\<And>n. clean live now K (k n)"
  shows "clean live now K (with_container_name ctx P d supplied k)"
proof -
  have micros: "keeps live now (\<lambda>w. (unix_micros ctx w, w))" by (simp add: keeps_def)
  have cases: "clean live now K
      (case r of
        Inr bs \<Rightarrow> let_ret (if length bs < 8 then Panic else Ret (concat (map fmt_02X (take 8 bs)))) k
      | Inl _ \<Rightarrow> call (\<lambda>w. (unix_micros ctx w, w)) (\<lambda>us.
          let_ret (case us of None \<Rightarrow> Panic | Some n \<Rightarrow> Ret (''CSR'' @ show_nat (n mod 100000000))) k))"
    for r :: "provider_error + bytes"
    using assms(2) micros by (cases r) (auto intro: release_intros)
  show ?thesis
    unfolding with_container_name_def
    using assms cases by (auto intro!: clean_call provider_contract.device_keeps)
qed

lemma opens_create_or_open:
  assumes "provider_contract P live now"
  shows "opens live now ResContainer (create_or_open P a name supplied)"
proof -
  note c = provider_contract.guard_opens(4) [OF assms, of a name]
    and o = provider_contract.guard_opens(3) [OF assms, of a name]
  show ?thesis
    unfolding opens_def
  proof (intro allI)
    fix w
    obtain x u where x: "create_container P a name w = (x, u)" by (cases "create_container P a name w")
    obtain y v where y: "open_container P a name u = (y, v)" by (cases "open_container P a name u")
    show "now w \<le> now (snd (create_or_open P a name supplied w))
        \<and> live (snd (create_or_open P a name supplied w)) =
            (case fst (create_or_open P a name supplied w) of
              Inl _ \<Rightarrow> live w | Inr g \<Rightarrow> add_mset (ResContainer g) (live w))"
      using opensD [OF c] opensD [OF o] x y order_trans [OF opensD(3) [OF c x] opensD(3) [OF o y]]
      by (cases x; cases y) (auto simp: create_or_open_def)
  qed
qed

lemma opens_begin_csr_digest:
  "provider_contract P live now \<Longrightarrow> opens live now ResDigest (begin_csr_digest P d alg key)"
  by (cases key) (simp_all add: begin_csr_digest_def provider_contract.guard_opens)

lemma clean_csr_container [release_intros]:
  assumes "provider_contract P live now" and "\<And>e. clean live now K (err e)"
    and "\<And>c. clean live now K (body c)"
  shows "clean live now K
    (with_guard (create_or_open P a name supplied) (drop_container P) err body)"
  by (rule clean_with_guard [OF opens_create_or_open [OF assms(1)]
        provider_contract.guard_closes(3) [OF assms(1)] assms(2,3)])

lemma clean_csr_digest [release_intros]:
  assumes "provider_contract P live now" and "\<And>e. clean live now K (err e)"
    and "\<And>h. clean live now K (body h)"
  shows "clean live now K
    (with_guard (begin_csr_digest P d alg key) (drop_digest P) err body)"
  by (rule clean_with_guard [OF opens_begin_csr_digest [OF assms(1)]
        provider_contract.guard_closes(4) [OF assms(1)] assms(2,3)])

lemma clean_csr_application [release_intros]:
  assumes "provider_contract P live now" and "\<And>e. clean live now K (err e)"
    and "\<And>a. clean live now K (body a)"
  shows "clean live now K (with_guard (open_application P d app) (drop_application P) err body)"
  by (rule clean_with_guard [OF provider_contract.guard_opens(2) [OF assms(1)]
        provider_contract.guard_closes(2) [OF assms(1)] assms(2,3)])

context server_contract
begin

lemma clean_signing:
  "clean live (clock ctx) {} (SignData_handle C ctx p lang)"
  "clean live (clock ctx) {} (RSASignData_handle C ctx p lang)"
  "clean live (clock ctx) {} (EncryptData_handle C ctx p lang)"
  "clean live (clock ctx) {} (DecryptData_handle C ctx p lang)"
  "clean live (clock ctx) {} (CreatePKCS10_handle R ctx p lang)"
  unfolding signing_handler_defs Let_def
  by (intro release_intros csr_keeps; assumption?)+

end

section \<open>What a session without a grant can reach\<close>

lemma agree_csr_application:
  assumes "provider_contract P live now" "same_front P P'" "\<And>a. agree now key (b a) (b' a)"
  shows "agree now key (with_guard (open_application P d app) (drop_application P) err b)
    (with_guard (open_application P' d app) (drop_application P') err b')"
  using agree_with_guard [OF provider_contract.guard_opens(2) [OF assms(1)] assms(3)] assms(2)
  by (simp add: same_front_def)

lemma agree_signing:
  assumes "server_contract ctx live" "front_equal ctx ctx'"
  shows "agree (clock ctx) (cert_key_target ctx p)
      (SignData_handle C ctx p lang) (SignData_handle C ctx' p lang)"
    "agree (clock ctx) (cert_key_target ctx p)
      (RSASignData_handle C ctx p lang) (RSASignData_handle C ctx' p lang)"
    "agree (clock ctx) (cert_key_target ctx p)
      (EncryptData_handle C ctx p lang) (EncryptData_handle C ctx' p lang)"
    "agree (clock ctx) (cert_key_target ctx p)
      (DecryptData_handle C ctx p lang) (DecryptData_handle C ctx' p lang)"
    "agree (clock ctx) (named_key (normalize_alias ctx (optional_str p 0 [])) p)
      (CreatePKCS10_handle R ctx p lang) (CreatePKCS10_handle R ctx' p lang)"
  unfolding signing_handler_defs Let_def named_key_def cert_key_target_def
    normalize_alias_front [OF assms(2)]
  using assms
  by (intro agree_intros agree_csr_application;
      (assumption | force simp: required_str_optional dest!: split_cert_key_SomeD(1)))+

section \<open>Signatures, requests and PEM\<close>

lemma slice_Ret: "i \<le> j \<Longrightarrow> j \<le> length bs \<Longrightarrow> slice i j bs = Ret (take (j - i) (drop i bs))"
  by (simp add: slice_def)

lemma der_wrap_int_content_length:
  "bs \<noteq> [] \<Longrightarrow> length bs \<le> 64 \<Longrightarrow> length (der_wrap 0x02 (int_content bs)) \<le> 67"
  using int_content_length [of bs] by (simp add: der_wrap_length)

lemma ecc_signature_der_eq:
  assumes "128 \<le> length sig"
  shows "ecc_signature_der sig =
    Ret (der_sequence [der_wrap 0x02 (int_content (take 64 sig)),
      der_wrap 0x02 (int_content (take 64 (drop 64 sig)))])"
proof -
  let ?r = "take 64 sig" and ?t = "take 64 (drop 64 sig)"
  have ne: "?r \<noteq> []" "?t \<noteq> []" using assms by (simp_all flip: length_0_conv)
  let ?n = "length (der_wrap 0x02 (int_content ?r)) + length (der_wrap 0x02 (int_content ?t))"
  have "?n < 256"
    using der_wrap_int_content_length [OF ne(1)] der_wrap_int_content_length [OF ne(2)] by simp
  then have "der_encode_length ?n = (if ?n < 128 then [of_nat ?n] else [0x81, of_nat ?n])"
    by (simp add: der_encode_length_def)
  moreover have "slice 0 64 sig = Ret ?r" "slice 64 128 sig = Ret ?t"
    using assms by (simp_all add: slice_Ret)
  ultimately show ?thesis
    using ne by (simp add: ecc_signature_der_def der_encode_integer_wrap Let_def der_sequence_def
        der_wrap_def [of "0x30"])
qed

lemma ecc_signature_der_short: "length sig < 128 \<Longrightarrow> ecc_signature_der sig = Panic"
  by (auto simp: ecc_signature_der_def slice_def split: outcome.splits)

lemma split_append_sep: "split c (a @ c # b) = split c a @ split c b"
proof (induction a)
  case (Cons x a)
  then show ?case by (cases "split c a") auto
qed simp

lemma split_free: "c \<notin> set a \<Longrightarrow> split c a = [a]"
  by (induction a) auto

lemma pem_lines_split:
  assumes "newline \<notin> set cs" and "split newline (pem_lines i cs) = l # ls"
  shows "length l \<le> 64 - i mod 64 \<and> (\<forall>x \<in> set ls. length x \<le> 64)"
  using assms
proof (induction cs arbitrary: i l ls)
  case Nil
  then show ?case by simp
next
  case (Cons c cs)
  obtain y ys where y: "split newline (pem_lines (Suc i) cs) = y # ys"
    by (cases "split newline (pem_lines (Suc i) cs)") auto
  have IH: "length y \<le> 64 - Suc i mod 64 \<and> (\<forall>x \<in> set ys. length x \<le> 64)"
    using Cons.IH [OF _ y] Cons.prems(1) by simp
  show ?case
  proof (cases "Suc i mod 64 = 0")
    case True
    have "i mod 64 = 63" using True by presburger
    moreover have "split newline (pem_lines i (c # cs)) = [c] # y # ys"
      using True y Cons.prems(1) by auto
    then have "l = [c]" "ls = y # ys" using Cons.prems(2) by auto
    ultimately show ?thesis using True IH by simp
  next
    case False
    then have "Suc i mod 64 = Suc (i mod 64)" by (simp add: mod_Suc split: if_splits)
    then show ?thesis using False IH y Cons.prems by auto
  qed
qed

lemma pem_lines_filter: "newline \<notin> set cs \<Longrightarrow> filter (\<lambda>c. c \<noteq> newline) (pem_lines i cs) = cs"
  by (induction cs arbitrary: i) auto

lemma pem_lines_short:
  "newline \<notin> set cs \<Longrightarrow> l \<in> set (split newline (pem_lines i cs)) \<Longrightarrow> length l \<le> 64"
  using pem_lines_split [of cs i] by (cases "split newline (pem_lines i cs)") fastforce+

definition csr_header :: string where "csr_header = ''-----BEGIN CERTIFICATE REQUEST-----''"
definition csr_footer :: string where "csr_footer = ''-----END CERTIFICATE REQUEST-----''"

lemma csr_markers:
  "newline \<notin> set csr_header" "newline \<notin> set csr_footer" "length csr_header = 35"
  "length csr_footer = 33" "csr_header \<noteq> []"
  by (simp_all add: csr_header_def csr_footer_def)

lemma csr_pem_shape:
  "csr_pem b64 =
    csr_header @ newline # pem_lines 0 b64
    @ (if b64 = [] \<or> last (pem_lines 0 b64) = newline then [] else [newline]) @ csr_footer"
proof -
  have "pem_lines 0 b64 = [] \<longleftrightarrow> b64 = []" by (cases b64) simp_all
  then show ?thesis by (simp add: csr_pem_def Let_def csr_header_def csr_footer_def)
qed

lemma csr_pem_lines:
  assumes free: "newline \<notin> set b64" and l: "l \<in> set (split newline (csr_pem b64))"
  shows "length l \<le> 64"
proof -
  let ?L = "pem_lines 0 b64"
  consider (empty) "csr_pem b64 = csr_header @ newline # csr_footer"
    | (ended) L' where "?L = L' @ newline # []"
        "csr_pem b64 = csr_header @ newline # L' @ newline # csr_footer"
    | (added) "csr_pem b64 = csr_header @ newline # ?L @ newline # csr_footer"
  proof (cases "b64 = []")
    case True
    then show ?thesis using that(1) by (simp add: csr_pem_shape)
  next
    case False
    then have ne: "?L \<noteq> []" by (cases b64) simp_all
    show ?thesis
    proof (cases "last ?L = newline")
      case True
      then have "?L = butlast ?L @ newline # []" using ne by (metis append_butlast_last_id)
      then show ?thesis using that(2) [of "butlast ?L"] True by (simp add: csr_pem_shape)
    next
      case False
      then show ?thesis using that(3) \<open>b64 \<noteq> []\<close> by (simp add: csr_pem_shape)
    qed
  qed
  then show ?thesis
  proof cases
    case empty
    then show ?thesis using l csr_markers by (auto simp: split_append_sep split_free)
  next
    case (ended L')
    have "set (split newline L') \<subseteq> set (split newline ?L)"
      unfolding ended(1) split_append_sep by auto
    then show ?thesis
      using l ended(2) csr_markers pem_lines_short [OF free, of _ 0]
      by (auto simp: split_append_sep split_free)
  next
    case added
    then show ?thesis
      using l csr_markers pem_lines_short [OF free, of _ 0] by (auto simp: split_append_sep split_free)
  qed
qed

section \<open>Properties\<close>

text \<open>The signature bytes that \<open>SignData\<close> assembles by hand are the DER SEQUENCE of the two halves
  as non-negative integers, exactly as the shared encoder would build it; a conforming reader
  gets both values back. It panics exactly when the device delivers fewer than 128 bytes.\<close>

theorem ecc_signature_der_reads_back:
  "(case ecc_signature_der sig of
      Panic \<Rightarrow> length sig < 128
    | Ret d \<Rightarrow> 128 \<le> length sig
        \<and> (\<exists>r t. d = der_sequence [der_wrap 0x02 r, der_wrap 0x02 t]
             \<and> der_read d = Some (0x30, der_wrap 0x02 r @ der_wrap 0x02 t, [])
             \<and> der_int_val r = int (be_val (take 64 sig))
             \<and> der_int_val t = int (be_val (take 64 (drop 64 sig)))))"
proof (cases "length sig < 128")
  case True
  then show ?thesis by (simp add: ecc_signature_der_short)
next
  case False
  let ?r = "take 64 sig" and ?t = "take 64 (drop 64 sig)"
  have ne: "?r \<noteq> []" "?t \<noteq> []" using False by (simp_all flip: length_0_conv)
  have "length (der_wrap 0x02 (int_content ?r) @ der_wrap 0x02 (int_content ?t)) < 65536"
    using der_wrap_int_content_length [OF ne(1)] der_wrap_int_content_length [OF ne(2)] by simp
  then have "der_read (der_sequence [der_wrap 0x02 (int_content ?r), der_wrap 0x02 (int_content ?t)])
      = Some (0x30, der_wrap 0x02 (int_content ?r) @ der_wrap 0x02 (int_content ?t), [])"
    by (simp add: der_sequence_def der_read_wrap_only)
  then show ?thesis
    using False int_content_val [OF ne(1)] int_content_val [OF ne(2)]
    by (simp add: ecc_signature_der_eq)
      (intro exI [of _ "int_content ?r"] exI [of _ "int_content ?t"], simp)
qed

text \<open>C37: A certificate request reads back as its three parts, and its first part as version 0, the
  subject, the public key and an empty attribute set, as long as the whole stays below the
  65536 bytes that the length encoder can express.\<close>

theorem csr_der_reads_back:
  assumes "tbs = csr_tbs up subject (der_wrap 0x30 key)" and "length (csr_der is_ecc tbs oid sig) < 65536"
  shows "\<exists>body tbs_body dn.
      der_read (csr_der is_ecc tbs oid sig) = Some (0x30, body, [])
      \<and> der_items 3 body = Some
          [(0x30, tbs_body),
           (0x30, if is_ecc then der_oid oid else der_oid oid @ [0x05, 0x00]), (0x03, 0x00 # sig)]
      \<and> der_items 4 tbs_body = Some [(0x02, [0]), (0x30, dn), (0x30, key), (0xA0, [])]
      \<and> der_wrap 0x30 dn = build_subject_dn up subject"
proof -
  obtain dn where dn: "build_subject_dn up subject = der_wrap 0x30 dn"
    by (auto simp: build_subject_dn_def der_sequence_def Let_def)
  define alg where "alg = (if is_ecc then der_oid oid else der_oid oid @ [0x05, 0x00])"
  let ?items = "[(0x02, [0]), (0x30, dn), (0x30, key), (0xA0, [])] :: (u8 \<times> bytes) list"
  define tb where "tb = concat (map (\<lambda>(t, c). der_wrap t c) ?items)"
  let ?parts = "[(0x30, tb), (0x30, alg), (0x03, 0x00 # sig)] :: (u8 \<times> bytes) list"
  define body where "body = concat (map (\<lambda>(t, c). der_wrap t c) ?parts)"
  have len: "length c \<le> length (der_wrap t c)" for t :: u8 and c by (simp add: der_wrap_def)
  have ver: "der_small_integer 0 = der_wrap 0x02 [0]"
    by (simp add: der_small_integer_def der_wrap_def der_encode_length_def)
  have tbs: "tbs = der_wrap 0x30 tb"
    unfolding assms(1) by (simp add: csr_tbs_def der_sequence_def der_context_0_def dn ver tb_def)
  have csr: "csr_der is_ecc tbs oid sig = der_wrap 0x30 body"
    unfolding tbs by (simp add: csr_der_def Let_def der_sequence_def der_bit_string_def body_def alg_def)
  have b: "length body < 65536"
    using assms(2) unfolding csr by (rule le_less_trans [OF len])
  have "length tb < 65536" "length alg < 65536" "length (0x00 # sig) < 65536"
    using b len [of tb "0x30"] len [of alg "0x30"] len [of "0x00 # sig" "0x03"]
    by (simp_all add: body_def)
  then have parts: "\<forall>(t, c) \<in> set ?parts. length c < 65536" by simp
  have "length dn \<le> length tb" "length key \<le> length tb"
    using len [of dn "0x30"] len [of key "0x30"] by (simp_all add: tb_def)
  then have items: "\<forall>(t, c) \<in> set ?items. length c < 65536" using \<open>length tb < 65536\<close> by simp
  have "der_items 3 body = Some ?parts" unfolding body_def by (rule der_items_wraps [OF parts]) simp
  moreover have "der_items 4 tb = Some ?items"
    unfolding tb_def by (rule der_items_wraps [OF items]) simp
  moreover have "der_read (csr_der is_ecc tbs oid sig) = Some (0x30, body, [])"
    unfolding csr by (rule der_read_wrap_only [OF b])
  ultimately show ?thesis using dn alg_def by auto
qed

theorem csr_der_reads_back_witness:
  "\<exists>body. der_read (csr_der True (csr_tbs (\<lambda>s. s) [] (der_wrap 0x30 [1])) [3] [2]) =
      Some (0x30, body, [])"
proof -
  have "length (csr_der True (csr_tbs (\<lambda>s. s) [] (der_wrap 0x30 [1])) [3] [2]) < 65536"
    by (simp add: csr_der_def csr_tbs_def Let_def build_subject_dn_def dn_attribute_def
        List.map_filter_def der_sequence_def der_context_0_def der_small_integer_def der_oid_def
        der_bit_string_def der_wrap_length)
  from csr_der_reads_back [OF refl this] show ?thesis by blast
qed

text \<open>C38: Wrapping a request for transport loses nothing: without line breaks the text is the header,
  the base64 text and the footer, and no line is longer than 64 characters, whatever the length.\<close>

theorem csr_pem_faithful:
  assumes "newline \<notin> set b64"
  shows "filter (\<lambda>c. c \<noteq> newline) (csr_pem b64) =
      ''-----BEGIN CERTIFICATE REQUEST-----'' @ b64 @ ''-----END CERTIFICATE REQUEST-----''
    \<and> list_all (\<lambda>l. length l \<le> 64) (split newline (csr_pem b64))"
proof
  show "filter (\<lambda>c. c \<noteq> newline) (csr_pem b64) =
      ''-----BEGIN CERTIFICATE REQUEST-----'' @ b64 @ ''-----END CERTIFICATE REQUEST-----''"
    using assms by (simp add: csr_pem_shape csr_header_def csr_footer_def pem_lines_filter)
  show "list_all (\<lambda>l. length l \<le> 64) (split newline (csr_pem b64))"
    using csr_pem_lines [OF assms] by (simp add: list_all_iff)
qed

theorem csr_pem_faithful_witness:
  "list_all (\<lambda>l. length l \<le> 64) (split newline (csr_pem (replicate 200 CHR ''A'')))"
  using csr_pem_faithful [of "replicate 200 CHR ''A''"] by simp

end
