(* ===== verification/Ffi.thy ===== *)
theory Ffi
  imports Domain
begin

text \<open>
  The wrapper around the vendor's C library (\<open>src/skf/api.rs\<close>, with the structures of
  \<open>src/skf/types.rs\<close>): every method looks its symbol up and calls it, or answers
  \<open>SAR_COULDNOTGETFUNCADDR\<close> when the library does not export it.

  The library itself is an argument: a record with the set of exported symbols and, per symbol, a
  function of the arguments and of the state outside the process. An argument the C function
  writes through a pointer appears on both sides: its value before the call and, in the
  result, its value after it. A null pointer is \<open>None\<close>.
\<close>

section \<open>Structures\<close>

definition SAR_OK :: u32 where
  "SAR_OK = 0"

record devinfo =
  Version :: "u8 \<times> u8"
  Manufacturer :: bytes
  Issuer :: bytes
  Label :: bytes
  SerialNumber :: bytes
  HWVersion :: "u8 \<times> u8"
  FirmwareVersion :: "u8 \<times> u8"
  AlgSymCap :: u32
  AlgAsymCap :: u32
  AlgHashCap :: u32
  DevAuthAlgId :: u32
  TotalSpace :: u32
  FreeSpace :: u32
  MaxECCBufferSize :: u32
  MaxBufferSize :: u32

record eccsignatureblob =
  sig_r :: bytes
  sig_s :: bytes

record blockcipherparam =
  IV :: bytes
  IVLen :: u32
  PaddingType :: u32
  FeedBitLen :: u32

text \<open>\<open>std::mem::zeroed\<close> of the structures.\<close>

definition zeroed_devinfo :: devinfo where
  "zeroed_devinfo =
    \<lparr>Version = (0, 0), Manufacturer = replicate 64 0, Issuer = replicate 64 0,
     Label = replicate 32 0, SerialNumber = replicate 32 0, HWVersion = (0, 0),
     FirmwareVersion = (0, 0), AlgSymCap = 0, AlgAsymCap = 0, AlgHashCap = 0, DevAuthAlgId = 0,
     TotalSpace = 0, FreeSpace = 0, MaxECCBufferSize = 0, MaxBufferSize = 0\<rparr>"

section \<open>The library\<close>

record 'w skf_lib =
  exports :: "string \<Rightarrow> bool"
  SKF_WaitForDevEvent :: "bytes \<Rightarrow> u32 \<Rightarrow> u32 \<Rightarrow> 'w \<Rightarrow> (u32 \<times> bytes \<times> u32 \<times> u32) \<times> 'w"
  SKF_CancelWaitForDevEvent :: "'w \<Rightarrow> u32 \<times> 'w"
  SKF_EnumDev :: "u8 \<Rightarrow> (bytes option) \<Rightarrow> u32 \<Rightarrow> 'w \<Rightarrow> (u32 \<times> (bytes option) \<times> u32) \<times> 'w"
  SKF_ConnectDev :: "string \<Rightarrow> u64 \<Rightarrow> 'w \<Rightarrow> (u32 \<times> u64) \<times> 'w"
  SKF_DisConnectDev :: "u64 \<Rightarrow> 'w \<Rightarrow> u32 \<times> 'w"
  SKF_GenRandom :: "u64 \<Rightarrow> bytes \<Rightarrow> u32 \<Rightarrow> 'w \<Rightarrow> (u32 \<times> bytes) \<times> 'w"
  SKF_EnumApplication :: "u64 \<Rightarrow> (bytes option) \<Rightarrow> u32 \<Rightarrow> 'w \<Rightarrow> (u32 \<times> (bytes option) \<times> u32) \<times> 'w"
  SKF_OpenApplication :: "u64 \<Rightarrow> string \<Rightarrow> u64 \<Rightarrow> 'w \<Rightarrow> (u32 \<times> u64) \<times> 'w"
  SKF_CloseApplication :: "u64 \<Rightarrow> 'w \<Rightarrow> u32 \<times> 'w"
  SKF_EnumContainer :: "u64 \<Rightarrow> (bytes option) \<Rightarrow> u32 \<Rightarrow> 'w \<Rightarrow> (u32 \<times> (bytes option) \<times> u32) \<times> 'w"
  SKF_OpenContainer :: "u64 \<Rightarrow> string \<Rightarrow> u64 \<Rightarrow> 'w \<Rightarrow> (u32 \<times> u64) \<times> 'w"
  SKF_CloseContainer :: "u64 \<Rightarrow> 'w \<Rightarrow> u32 \<times> 'w"
  SKF_ExportCertificate :: "u64 \<Rightarrow> u8 \<Rightarrow> (bytes option) \<Rightarrow> u32 \<Rightarrow> 'w \<Rightarrow> (u32 \<times> (bytes option) \<times> u32) \<times> 'w"
  SKF_VerifyPIN :: "u64 \<Rightarrow> u32 \<Rightarrow> string \<Rightarrow> u32 \<Rightarrow> 'w \<Rightarrow> (u32 \<times> u32) \<times> 'w"
  SKF_ECCSignData :: "u64 \<Rightarrow> bytes \<Rightarrow> u32 \<Rightarrow> eccsignatureblob \<Rightarrow> 'w \<Rightarrow> (u32 \<times> eccsignatureblob) \<times> 'w"
  SKF_GetContainerType :: "u64 \<Rightarrow> u32 \<Rightarrow> 'w \<Rightarrow> (u32 \<times> u32) \<times> 'w"
  SKF_RSASignData :: "u64 \<Rightarrow> bytes \<Rightarrow> u32 \<Rightarrow> bytes \<Rightarrow> u32 \<Rightarrow> 'w \<Rightarrow> (u32 \<times> bytes \<times> u32) \<times> 'w"
  SKF_DigestInit :: "u64 \<Rightarrow> u32 \<Rightarrow> (ecc_public_key_blob option) \<Rightarrow> (bytes option) \<Rightarrow> u32 \<Rightarrow> u64 \<Rightarrow> 'w \<Rightarrow> (u32 \<times> u64) \<times> 'w"
  SKF_Digest :: "u64 \<Rightarrow> bytes \<Rightarrow> u32 \<Rightarrow> bytes \<Rightarrow> u32 \<Rightarrow> 'w \<Rightarrow> (u32 \<times> bytes \<times> u32) \<times> 'w"
  SKF_CreateContainer :: "u64 \<Rightarrow> string \<Rightarrow> u64 \<Rightarrow> 'w \<Rightarrow> (u32 \<times> u64) \<times> 'w"
  SKF_GenECCKeyPair :: "u64 \<Rightarrow> u32 \<Rightarrow> ecc_public_key_blob \<Rightarrow> 'w \<Rightarrow> (u32 \<times> ecc_public_key_blob) \<times> 'w"
  SKF_GenRSAKeyPair :: "u64 \<Rightarrow> u32 \<Rightarrow> rsa_public_key_blob \<Rightarrow> 'w \<Rightarrow> (u32 \<times> rsa_public_key_blob) \<times> 'w"
  SKF_DeleteContainer :: "u64 \<Rightarrow> string \<Rightarrow> 'w \<Rightarrow> u32 \<times> 'w"
  SKF_ImportCertificate :: "u64 \<Rightarrow> u8 \<Rightarrow> bytes \<Rightarrow> u32 \<Rightarrow> 'w \<Rightarrow> u32 \<times> 'w"
  SKF_ImportECCKeyPair :: "u64 \<Rightarrow> bytes \<Rightarrow> 'w \<Rightarrow> u32 \<times> 'w"
  SKF_ImportRSAKeyPair :: "u64 \<Rightarrow> u32 \<Rightarrow> bytes \<Rightarrow> u32 \<Rightarrow> bytes \<Rightarrow> u32 \<Rightarrow> 'w \<Rightarrow> u32 \<times> 'w"
  SKF_EncryptData :: "u64 \<Rightarrow> u32 \<Rightarrow> bytes \<Rightarrow> u32 \<Rightarrow> blockcipherparam \<Rightarrow> bytes \<Rightarrow> u32 \<Rightarrow> 'w \<Rightarrow> (u32 \<times> bytes \<times> u32) \<times> 'w"
  SKF_DecryptData :: "u64 \<Rightarrow> u32 \<Rightarrow> bytes \<Rightarrow> u32 \<Rightarrow> blockcipherparam \<Rightarrow> bytes \<Rightarrow> u32 \<Rightarrow> 'w \<Rightarrow> (u32 \<times> bytes \<times> u32) \<times> 'w"
  SKF_DigestUpdate :: "u64 \<Rightarrow> bytes \<Rightarrow> u32 \<Rightarrow> 'w \<Rightarrow> u32 \<times> 'w"
  SKF_DigestFinal :: "u64 \<Rightarrow> bytes \<Rightarrow> u32 \<Rightarrow> 'w \<Rightarrow> (u32 \<times> bytes \<times> u32) \<times> 'w"
  SKF_RSAVerify :: "u64 \<Rightarrow> rsa_public_key_blob \<Rightarrow> bytes \<Rightarrow> u32 \<Rightarrow> bytes \<Rightarrow> u32 \<Rightarrow> 'w \<Rightarrow> u32 \<times> 'w"
  SKF_SetSymmKey :: "u64 \<Rightarrow> u32 \<Rightarrow> bytes \<Rightarrow> u32 \<Rightarrow> 'w \<Rightarrow> u32 \<times> 'w"
  SKF_GetDevInfo :: "u64 \<Rightarrow> devinfo \<Rightarrow> 'w \<Rightarrow> (u32 \<times> devinfo) \<times> 'w"
  SKF_GetDevState :: "string \<Rightarrow> u32 \<Rightarrow> 'w \<Rightarrow> (u32 \<times> u32) \<times> 'w"
  SKF_SetLabel :: "u64 \<Rightarrow> string \<Rightarrow> 'w \<Rightarrow> u32 \<times> 'w"
  SKF_ECCVerify :: "u64 \<Rightarrow> ecc_public_key_blob \<Rightarrow> bytes \<Rightarrow> u32 \<Rightarrow> eccsignatureblob \<Rightarrow> 'w \<Rightarrow> u32 \<times> 'w"
  SKF_LockDev :: "u64 \<Rightarrow> u32 \<Rightarrow> 'w \<Rightarrow> u32 \<times> 'w"
  SKF_UnlockDev :: "u64 \<Rightarrow> 'w \<Rightarrow> u32 \<times> 'w"
  SKF_Transmit :: "u64 \<Rightarrow> bytes \<Rightarrow> u32 \<Rightarrow> bytes \<Rightarrow> u32 \<Rightarrow> 'w \<Rightarrow> (u32 \<times> bytes \<times> u32) \<times> 'w"
  SKF_CloseHash :: "u64 \<Rightarrow> 'w \<Rightarrow> u32 \<times> 'w"

section \<open>The wrapper\<close>

definition ffi ::
  "('w, 'm) skf_lib_scheme \<Rightarrow> string \<Rightarrow> 'r \<Rightarrow> ('w \<Rightarrow> 'r \<times> 'w) \<Rightarrow> 'w \<Rightarrow> 'r \<times> 'w" where
  "ffi L symbol absent f w = (if exports L symbol then f w else (absent, w))"

definition api_wait_for_dev_event ::
  "'w skf_lib \<Rightarrow> bytes \<Rightarrow> u32 \<Rightarrow> u32 \<Rightarrow> 'w \<Rightarrow> (u32 \<times> bytes \<times> u32 \<times> u32) \<times> 'w" where
  "api_wait_for_dev_event L dev_name dev_name_len event =
    ffi L ''SKF_WaitForDevEvent'' (SAR_COULDNOTGETFUNCADDR, dev_name, dev_name_len, event) (SKF_WaitForDevEvent L dev_name dev_name_len event)"

definition api_cancel_wait_for_dev_event ::
  "'w skf_lib \<Rightarrow> 'w \<Rightarrow> u32 \<times> 'w" where
  "api_cancel_wait_for_dev_event L =
    ffi L ''SKF_CancelWaitForDevEvent'' SAR_COULDNOTGETFUNCADDR (SKF_CancelWaitForDevEvent L)"

definition api_enum_dev ::
  "'w skf_lib \<Rightarrow> u8 \<Rightarrow> (bytes option) \<Rightarrow> u32 \<Rightarrow> 'w \<Rightarrow> (u32 \<times> (bytes option) \<times> u32) \<times> 'w" where
  "api_enum_dev L pres name_list sz =
    ffi L ''SKF_EnumDev'' (SAR_COULDNOTGETFUNCADDR, name_list, sz) (SKF_EnumDev L pres name_list sz)"

definition api_connect_dev ::
  "'w skf_lib \<Rightarrow> string \<Rightarrow> u64 \<Rightarrow> 'w \<Rightarrow> (u32 \<times> u64) \<times> 'w" where
  "api_connect_dev L name h_dev =
    ffi L ''SKF_ConnectDev'' (SAR_COULDNOTGETFUNCADDR, h_dev) (SKF_ConnectDev L name h_dev)"

definition api_dis_connect_dev ::
  "'w skf_lib \<Rightarrow> u64 \<Rightarrow> 'w \<Rightarrow> u32 \<times> 'w" where
  "api_dis_connect_dev L h_dev =
    ffi L ''SKF_DisConnectDev'' SAR_COULDNOTGETFUNCADDR (SKF_DisConnectDev L h_dev)"

definition api_gen_random ::
  "'w skf_lib \<Rightarrow> u64 \<Rightarrow> bytes \<Rightarrow> u32 \<Rightarrow> 'w \<Rightarrow> (u32 \<times> bytes) \<times> 'w" where
  "api_gen_random L h_dev rnd len =
    ffi L ''SKF_GenRandom'' (SAR_COULDNOTGETFUNCADDR, rnd) (SKF_GenRandom L h_dev rnd len)"

definition api_enum_application ::
  "'w skf_lib \<Rightarrow> u64 \<Rightarrow> (bytes option) \<Rightarrow> u32 \<Rightarrow> 'w \<Rightarrow> (u32 \<times> (bytes option) \<times> u32) \<times> 'w" where
  "api_enum_application L h_dev app_name sz =
    ffi L ''SKF_EnumApplication'' (SAR_COULDNOTGETFUNCADDR, app_name, sz) (SKF_EnumApplication L h_dev app_name sz)"

definition api_open_application ::
  "'w skf_lib \<Rightarrow> u64 \<Rightarrow> string \<Rightarrow> u64 \<Rightarrow> 'w \<Rightarrow> (u32 \<times> u64) \<times> 'w" where
  "api_open_application L h_dev app_name h_app =
    ffi L ''SKF_OpenApplication'' (SAR_COULDNOTGETFUNCADDR, h_app) (SKF_OpenApplication L h_dev app_name h_app)"

definition api_close_application ::
  "'w skf_lib \<Rightarrow> u64 \<Rightarrow> 'w \<Rightarrow> u32 \<times> 'w" where
  "api_close_application L h_app =
    ffi L ''SKF_CloseApplication'' SAR_COULDNOTGETFUNCADDR (SKF_CloseApplication L h_app)"

definition api_enum_container ::
  "'w skf_lib \<Rightarrow> u64 \<Rightarrow> (bytes option) \<Rightarrow> u32 \<Rightarrow> 'w \<Rightarrow> (u32 \<times> (bytes option) \<times> u32) \<times> 'w" where
  "api_enum_container L h_app container_name sz =
    ffi L ''SKF_EnumContainer'' (SAR_COULDNOTGETFUNCADDR, container_name, sz) (SKF_EnumContainer L h_app container_name sz)"

definition api_open_container ::
  "'w skf_lib \<Rightarrow> u64 \<Rightarrow> string \<Rightarrow> u64 \<Rightarrow> 'w \<Rightarrow> (u32 \<times> u64) \<times> 'w" where
  "api_open_container L h_app container_name h_cont =
    ffi L ''SKF_OpenContainer'' (SAR_COULDNOTGETFUNCADDR, h_cont) (SKF_OpenContainer L h_app container_name h_cont)"

definition api_close_container ::
  "'w skf_lib \<Rightarrow> u64 \<Rightarrow> 'w \<Rightarrow> u32 \<times> 'w" where
  "api_close_container L h_cont =
    ffi L ''SKF_CloseContainer'' SAR_COULDNOTGETFUNCADDR (SKF_CloseContainer L h_cont)"

definition api_export_certificate ::
  "'w skf_lib \<Rightarrow> u64 \<Rightarrow> u8 \<Rightarrow> (bytes option) \<Rightarrow> u32 \<Rightarrow> 'w \<Rightarrow> (u32 \<times> (bytes option) \<times> u32) \<times> 'w" where
  "api_export_certificate L h_cont sign_flag crt sz =
    ffi L ''SKF_ExportCertificate'' (SAR_COULDNOTGETFUNCADDR, crt, sz) (SKF_ExportCertificate L h_cont sign_flag crt sz)"

definition api_verify_pin ::
  "'w skf_lib \<Rightarrow> u64 \<Rightarrow> u32 \<Rightarrow> string \<Rightarrow> u32 \<Rightarrow> 'w \<Rightarrow> (u32 \<times> u32) \<times> 'w" where
  "api_verify_pin L h_app pin_type pin retries =
    ffi L ''SKF_VerifyPIN'' (SAR_COULDNOTGETFUNCADDR, retries) (SKF_VerifyPIN L h_app pin_type pin retries)"

definition api_ecc_sign_data ::
  "'w skf_lib \<Rightarrow> u64 \<Rightarrow> bytes \<Rightarrow> u32 \<Rightarrow> eccsignatureblob \<Rightarrow> 'w \<Rightarrow> (u32 \<times> eccsignatureblob) \<times> 'w" where
  "api_ecc_sign_data L h_cont dat data_len sign =
    ffi L ''SKF_ECCSignData'' (SAR_COULDNOTGETFUNCADDR, sign) (SKF_ECCSignData L h_cont dat data_len sign)"

definition api_get_container_type ::
  "'w skf_lib \<Rightarrow> u64 \<Rightarrow> u32 \<Rightarrow> 'w \<Rightarrow> (u32 \<times> u32) \<times> 'w" where
  "api_get_container_type L h_cont ctype =
    ffi L ''SKF_GetContainerType'' (SAR_COULDNOTGETFUNCADDR, ctype) (SKF_GetContainerType L h_cont ctype)"

definition api_rsa_sign_data ::
  "'w skf_lib \<Rightarrow> u64 \<Rightarrow> bytes \<Rightarrow> u32 \<Rightarrow> bytes \<Rightarrow> u32 \<Rightarrow> 'w \<Rightarrow> (u32 \<times> bytes \<times> u32) \<times> 'w" where
  "api_rsa_sign_data L h_cont dat data_len sign sig_len =
    ffi L ''SKF_RSASignData'' (SAR_COULDNOTGETFUNCADDR, sign, sig_len) (SKF_RSASignData L h_cont dat data_len sign sig_len)"

definition api_digest_init ::
  "'w skf_lib \<Rightarrow> u64 \<Rightarrow> u32 \<Rightarrow> (ecc_public_key_blob option) \<Rightarrow> (bytes option) \<Rightarrow> u32 \<Rightarrow> u64 \<Rightarrow> 'w \<Rightarrow> (u32 \<times> u64) \<times> 'w" where
  "api_digest_init L h_dev alg_id pub_key ident id_len h_hash =
    ffi L ''SKF_DigestInit'' (SAR_COULDNOTGETFUNCADDR, h_hash) (SKF_DigestInit L h_dev alg_id pub_key ident id_len h_hash)"

definition api_digest ::
  "'w skf_lib \<Rightarrow> u64 \<Rightarrow> bytes \<Rightarrow> u32 \<Rightarrow> bytes \<Rightarrow> u32 \<Rightarrow> 'w \<Rightarrow> (u32 \<times> bytes \<times> u32) \<times> 'w" where
  "api_digest L h_hash dat data_len hash_data hash_len =
    ffi L ''SKF_Digest'' (SAR_COULDNOTGETFUNCADDR, hash_data, hash_len) (SKF_Digest L h_hash dat data_len hash_data hash_len)"

definition api_create_container ::
  "'w skf_lib \<Rightarrow> u64 \<Rightarrow> string \<Rightarrow> u64 \<Rightarrow> 'w \<Rightarrow> (u32 \<times> u64) \<times> 'w" where
  "api_create_container L h_app name h_cont =
    ffi L ''SKF_CreateContainer'' (SAR_COULDNOTGETFUNCADDR, h_cont) (SKF_CreateContainer L h_app name h_cont)"

definition api_gen_ecc_key_pair ::
  "'w skf_lib \<Rightarrow> u64 \<Rightarrow> u32 \<Rightarrow> ecc_public_key_blob \<Rightarrow> 'w \<Rightarrow> (u32 \<times> ecc_public_key_blob) \<times> 'w" where
  "api_gen_ecc_key_pair L h_cont alg_id pub_key =
    ffi L ''SKF_GenECCKeyPair'' (SAR_COULDNOTGETFUNCADDR, pub_key) (SKF_GenECCKeyPair L h_cont alg_id pub_key)"

definition api_gen_rsa_key_pair ::
  "'w skf_lib \<Rightarrow> u64 \<Rightarrow> u32 \<Rightarrow> rsa_public_key_blob \<Rightarrow> 'w \<Rightarrow> (u32 \<times> rsa_public_key_blob) \<times> 'w" where
  "api_gen_rsa_key_pair L h_cont bits_len pub_key =
    ffi L ''SKF_GenRSAKeyPair'' (SAR_COULDNOTGETFUNCADDR, pub_key) (SKF_GenRSAKeyPair L h_cont bits_len pub_key)"

definition api_delete_container ::
  "'w skf_lib \<Rightarrow> u64 \<Rightarrow> string \<Rightarrow> 'w \<Rightarrow> u32 \<times> 'w" where
  "api_delete_container L h_app name =
    ffi L ''SKF_DeleteContainer'' SAR_COULDNOTGETFUNCADDR (SKF_DeleteContainer L h_app name)"

definition api_import_certificate ::
  "'w skf_lib \<Rightarrow> u64 \<Rightarrow> u8 \<Rightarrow> bytes \<Rightarrow> u32 \<Rightarrow> 'w \<Rightarrow> u32 \<times> 'w" where
  "api_import_certificate L h_cont sign_flag crt cert_len =
    ffi L ''SKF_ImportCertificate'' SAR_COULDNOTGETFUNCADDR (SKF_ImportCertificate L h_cont sign_flag crt cert_len)"

definition api_import_ecc_key_pair ::
  "'w skf_lib \<Rightarrow> u64 \<Rightarrow> bytes \<Rightarrow> 'w \<Rightarrow> u32 \<times> 'w" where
  "api_import_ecc_key_pair L h_cont enveloped_key_blob =
    ffi L ''SKF_ImportECCKeyPair'' SAR_COULDNOTGETFUNCADDR (SKF_ImportECCKeyPair L h_cont enveloped_key_blob)"

definition api_import_rsa_key_pair ::
  "'w skf_lib \<Rightarrow> u64 \<Rightarrow> u32 \<Rightarrow> bytes \<Rightarrow> u32 \<Rightarrow> bytes \<Rightarrow> u32 \<Rightarrow> 'w \<Rightarrow> u32 \<times> 'w" where
  "api_import_rsa_key_pair L h_cont sym_alg_id wrapped_key wrapped_key_len encrypted_data encrypted_data_len =
    ffi L ''SKF_ImportRSAKeyPair'' SAR_COULDNOTGETFUNCADDR (SKF_ImportRSAKeyPair L h_cont sym_alg_id wrapped_key wrapped_key_len encrypted_data encrypted_data_len)"

definition api_encrypt_data ::
  "'w skf_lib \<Rightarrow> u64 \<Rightarrow> u32 \<Rightarrow> bytes \<Rightarrow> u32 \<Rightarrow> blockcipherparam \<Rightarrow> bytes \<Rightarrow> u32 \<Rightarrow> 'w \<Rightarrow> (u32 \<times> bytes \<times> u32) \<times> 'w" where
  "api_encrypt_data L h_cont alg_id dat data_len block_cipher_param encrypted_data encrypted_data_len =
    ffi L ''SKF_EncryptData'' (SAR_COULDNOTGETFUNCADDR, encrypted_data, encrypted_data_len) (SKF_EncryptData L h_cont alg_id dat data_len block_cipher_param encrypted_data encrypted_data_len)"

definition api_decrypt_data ::
  "'w skf_lib \<Rightarrow> u64 \<Rightarrow> u32 \<Rightarrow> bytes \<Rightarrow> u32 \<Rightarrow> blockcipherparam \<Rightarrow> bytes \<Rightarrow> u32 \<Rightarrow> 'w \<Rightarrow> (u32 \<times> bytes \<times> u32) \<times> 'w" where
  "api_decrypt_data L h_cont alg_id encrypted_data encrypted_data_len block_cipher_param dat data_len =
    ffi L ''SKF_DecryptData'' (SAR_COULDNOTGETFUNCADDR, dat, data_len) (SKF_DecryptData L h_cont alg_id encrypted_data encrypted_data_len block_cipher_param dat data_len)"

definition api_digest_update ::
  "'w skf_lib \<Rightarrow> u64 \<Rightarrow> bytes \<Rightarrow> u32 \<Rightarrow> 'w \<Rightarrow> u32 \<times> 'w" where
  "api_digest_update L h_hash dat data_len =
    ffi L ''SKF_DigestUpdate'' SAR_COULDNOTGETFUNCADDR (SKF_DigestUpdate L h_hash dat data_len)"

definition api_digest_final ::
  "'w skf_lib \<Rightarrow> u64 \<Rightarrow> bytes \<Rightarrow> u32 \<Rightarrow> 'w \<Rightarrow> (u32 \<times> bytes \<times> u32) \<times> 'w" where
  "api_digest_final L h_hash hash_data hash_len =
    ffi L ''SKF_DigestFinal'' (SAR_COULDNOTGETFUNCADDR, hash_data, hash_len) (SKF_DigestFinal L h_hash hash_data hash_len)"

definition api_rsa_verify ::
  "'w skf_lib \<Rightarrow> u64 \<Rightarrow> rsa_public_key_blob \<Rightarrow> bytes \<Rightarrow> u32 \<Rightarrow> bytes \<Rightarrow> u32 \<Rightarrow> 'w \<Rightarrow> u32 \<times> 'w" where
  "api_rsa_verify L h_dev rsa_pub_key_blob dat data_len sign sig_len =
    ffi L ''SKF_RSAVerify'' SAR_COULDNOTGETFUNCADDR (SKF_RSAVerify L h_dev rsa_pub_key_blob dat data_len sign sig_len)"

definition api_set_symm_key ::
  "'w skf_lib \<Rightarrow> u64 \<Rightarrow> u32 \<Rightarrow> bytes \<Rightarrow> u32 \<Rightarrow> 'w \<Rightarrow> u32 \<times> 'w" where
  "api_set_symm_key L h_cont alg_id sym_key sym_key_len =
    ffi L ''SKF_SetSymmKey'' SAR_COULDNOTGETFUNCADDR (SKF_SetSymmKey L h_cont alg_id sym_key sym_key_len)"

definition api_get_dev_info ::
  "'w skf_lib \<Rightarrow> u64 \<Rightarrow> devinfo \<Rightarrow> 'w \<Rightarrow> (u32 \<times> devinfo) \<times> 'w" where
  "api_get_dev_info L h_dev dinfo =
    ffi L ''SKF_GetDevInfo'' (SAR_COULDNOTGETFUNCADDR, dinfo) (SKF_GetDevInfo L h_dev dinfo)"

definition api_get_dev_state ::
  "'w skf_lib \<Rightarrow> string \<Rightarrow> u32 \<Rightarrow> 'w \<Rightarrow> (u32 \<times> u32) \<times> 'w" where
  "api_get_dev_state L dev_name dstate =
    ffi L ''SKF_GetDevState'' (SAR_COULDNOTGETFUNCADDR, dstate) (SKF_GetDevState L dev_name dstate)"

definition api_set_label ::
  "'w skf_lib \<Rightarrow> u64 \<Rightarrow> string \<Rightarrow> 'w \<Rightarrow> u32 \<times> 'w" where
  "api_set_label L h_dev lbl =
    ffi L ''SKF_SetLabel'' SAR_COULDNOTGETFUNCADDR (SKF_SetLabel L h_dev lbl)"

definition api_ecc_verify ::
  "'w skf_lib \<Rightarrow> u64 \<Rightarrow> ecc_public_key_blob \<Rightarrow> bytes \<Rightarrow> u32 \<Rightarrow> eccsignatureblob \<Rightarrow> 'w \<Rightarrow> u32 \<times> 'w" where
  "api_ecc_verify L h_dev ecc_pub_key dat data_len sign =
    ffi L ''SKF_ECCVerify'' SAR_COULDNOTGETFUNCADDR (SKF_ECCVerify L h_dev ecc_pub_key dat data_len sign)"

definition api_lock_dev ::
  "'w skf_lib \<Rightarrow> u64 \<Rightarrow> u32 \<Rightarrow> 'w \<Rightarrow> u32 \<times> 'w" where
  "api_lock_dev L h_dev tmo =
    ffi L ''SKF_LockDev'' SAR_COULDNOTGETFUNCADDR (SKF_LockDev L h_dev tmo)"

definition api_unlock_dev ::
  "'w skf_lib \<Rightarrow> u64 \<Rightarrow> 'w \<Rightarrow> u32 \<times> 'w" where
  "api_unlock_dev L h_dev =
    ffi L ''SKF_UnlockDev'' SAR_COULDNOTGETFUNCADDR (SKF_UnlockDev L h_dev)"

definition api_transmit ::
  "'w skf_lib \<Rightarrow> u64 \<Rightarrow> bytes \<Rightarrow> u32 \<Rightarrow> bytes \<Rightarrow> u32 \<Rightarrow> 'w \<Rightarrow> (u32 \<times> bytes \<times> u32) \<times> 'w" where
  "api_transmit L h_dev cmd command_len resp response_len =
    ffi L ''SKF_Transmit'' (SAR_COULDNOTGETFUNCADDR, resp, response_len) (SKF_Transmit L h_dev cmd command_len resp response_len)"

definition api_close_hash ::
  "'w skf_lib \<Rightarrow> u64 \<Rightarrow> 'w \<Rightarrow> u32 \<times> 'w" where
  "api_close_hash L h_hash =
    ffi L ''SKF_CloseHash'' SAR_COULDNOTGETFUNCADDR (SKF_CloseHash L h_hash)"

section \<open>Text that crosses the interface\<close>

definition of_bytes :: "bytes \<Rightarrow> string" where
  "of_bytes bs = map (\<lambda>b. char_of (unat b)) bs"

text \<open>\<open>CString::new\<close>: a string with a NUL inside is refused.\<close>

definition cstring :: "string \<Rightarrow> string option" where
  "cstring s = (if CHR 0x00 \<in> set s then None else Some s)"

text \<open>\<open>String::from_utf8_lossy\<close>: the number of bytes of the next chunk and whether it is well formed.
  Bytes past the end read as zero, which continues no sequence.\<close>

definition utf8_cont :: "u8 \<Rightarrow> bool" where
  "utf8_cont b \<longleftrightarrow> 0x80 \<le> b \<and> b \<le> 0xBF"

definition utf8_second :: "u8 \<Rightarrow> u8 \<Rightarrow> bool" where
  "utf8_second b c \<longleftrightarrow>
    (if b = 0xE0 then 0xA0 \<le> c \<and> c \<le> 0xBF
     else if b = 0xED then 0x80 \<le> c \<and> c \<le> 0x9F
     else if b = 0xF0 then 0x90 \<le> c \<and> c \<le> 0xBF
     else if b = 0xF4 then 0x80 \<le> c \<and> c \<le> 0x8F
     else utf8_cont c)"

definition utf8_chunk :: "u8 \<Rightarrow> bytes \<Rightarrow> nat \<times> bool" where
  "utf8_chunk b r =
    (let at = (\<lambda>i. if i < length r then r ! i else 0)
     in if b < 0x80 then (1, True)
        else if b < 0xC2 \<or> 0xF4 < b \<or> \<not> utf8_second b (at 0) then (1, False)
        else if b < 0xE0 then (2, True)
        else if \<not> utf8_cont (at 1) then (2, False)
        else if b < 0xF0 then (3, True)
        else if \<not> utf8_cont (at 2) then (3, False)
        else (4, True))"

definition replacement_character :: string where
  "replacement_character = utf8 [0xEF, 0xBF, 0xBD]"

lemma utf8_chunk_pos: "0 < fst (utf8_chunk b r)"
  by (simp add: utf8_chunk_def Let_def)

function from_utf8_lossy :: "bytes \<Rightarrow> string" where
  "from_utf8_lossy [] = []"
| "from_utf8_lossy (b # r) =
    (case utf8_chunk b r of
      (n, ok) \<Rightarrow>
        (if ok then of_bytes (take n (b # r)) else replacement_character)
        @ from_utf8_lossy (drop n (b # r)))"
  by pat_completeness auto
termination
proof (relation "measure length")
  fix b r n ok
  assume "(n, ok) = utf8_chunk b r"
  then have "0 < n" using utf8_chunk_pos [of b r] by (metis fst_conv)
  then show "(drop n (b # r), b # r) \<in> measure length" by simp
qed simp

text \<open>A list of names, each ended by a NUL, with the empty ones left out.\<close>

definition split_names :: "bytes \<Rightarrow> string list" where
  "split_names bs =
    map (\<lambda>s. from_utf8_lossy (as_bytes s)) (filter (\<lambda>s. s \<noteq> []) (split CHR 0x00 (of_bytes bs)))"

text \<open>The C string in a character array.\<close>

definition fixed_cstr :: "bytes \<Rightarrow> string" where
  "fixed_cstr buf = from_utf8_lossy (takeWhile (\<lambda>c. c \<noteq> 0) buf)"

text \<open>\<open>trim_end_matches(char::from(0))\<close>.\<close>

definition trim_end_nul :: "string \<Rightarrow> string" where
  "trim_end_nul s = rev (dropWhile (\<lambda>c. c = CHR 0x00) (rev s))"

text \<open>\<open>{:#X}\<close> without its prefix: no padding.\<close>

fun hex_digits :: "nat \<Rightarrow> string" where
  "hex_digits n =
    (if n < 16 then [upper_digit_char n] else hex_digits (n div 16) @ [upper_digit_char (n mod 16)])"

declare hex_digits.simps [simp del]

section \<open>Facts\<close>

lemma from_utf8_lossy_ascii: "\<forall>b \<in> set bs. b < 0x80 \<Longrightarrow> from_utf8_lossy bs = of_bytes bs"
  by (induction bs) (simp_all add: utf8_chunk_def of_bytes_def)

lemma ffi_absent: "\<not> exports L symbol \<Longrightarrow> ffi L symbol absent f w = (absent, w)"
  by (simp add: ffi_def)

section \<open>A library that refuses\<close>

text \<open>A library whose functions all fail and leave their buffers and the token alone. It serves as the
  starting point of example libraries.\<close>

definition SAR_FAIL :: u32 where
  "SAR_FAIL = 0x0A000001"

definition refusing_library :: "(string \<Rightarrow> bool) \<Rightarrow> 'w skf_lib" where
  "refusing_library present =
    \<lparr>exports = present,
     SKF_WaitForDevEvent = \<lambda>a0 a1 a2 w. ((SAR_FAIL, a0, a1, a2), w),
     SKF_CancelWaitForDevEvent = \<lambda>w. (SAR_FAIL, w),
     SKF_EnumDev = \<lambda>_ a1 a2 w. ((SAR_FAIL, a1, a2), w),
     SKF_ConnectDev = \<lambda>_ a1 w. ((SAR_FAIL, a1), w),
     SKF_DisConnectDev = \<lambda>_ w. (SAR_FAIL, w),
     SKF_GenRandom = \<lambda>_ a1 _ w. ((SAR_FAIL, a1), w),
     SKF_EnumApplication = \<lambda>_ a1 a2 w. ((SAR_FAIL, a1, a2), w),
     SKF_OpenApplication = \<lambda>_ _ a2 w. ((SAR_FAIL, a2), w),
     SKF_CloseApplication = \<lambda>_ w. (SAR_FAIL, w),
     SKF_EnumContainer = \<lambda>_ a1 a2 w. ((SAR_FAIL, a1, a2), w),
     SKF_OpenContainer = \<lambda>_ _ a2 w. ((SAR_FAIL, a2), w),
     SKF_CloseContainer = \<lambda>_ w. (SAR_FAIL, w),
     SKF_ExportCertificate = \<lambda>_ _ a2 a3 w. ((SAR_FAIL, a2, a3), w),
     SKF_VerifyPIN = \<lambda>_ _ _ a3 w. ((SAR_FAIL, a3), w),
     SKF_ECCSignData = \<lambda>_ _ _ a3 w. ((SAR_FAIL, a3), w),
     SKF_GetContainerType = \<lambda>_ a1 w. ((SAR_FAIL, a1), w),
     SKF_RSASignData = \<lambda>_ _ _ a3 a4 w. ((SAR_FAIL, a3, a4), w),
     SKF_DigestInit = \<lambda>_ _ _ _ _ a5 w. ((SAR_FAIL, a5), w),
     SKF_Digest = \<lambda>_ _ _ a3 a4 w. ((SAR_FAIL, a3, a4), w),
     SKF_CreateContainer = \<lambda>_ _ a2 w. ((SAR_FAIL, a2), w),
     SKF_GenECCKeyPair = \<lambda>_ _ a2 w. ((SAR_FAIL, a2), w),
     SKF_GenRSAKeyPair = \<lambda>_ _ a2 w. ((SAR_FAIL, a2), w),
     SKF_DeleteContainer = \<lambda>_ _ w. (SAR_FAIL, w),
     SKF_ImportCertificate = \<lambda>_ _ _ _ w. (SAR_FAIL, w),
     SKF_ImportECCKeyPair = \<lambda>_ _ w. (SAR_FAIL, w),
     SKF_ImportRSAKeyPair = \<lambda>_ _ _ _ _ _ w. (SAR_FAIL, w),
     SKF_EncryptData = \<lambda>_ _ _ _ _ a5 a6 w. ((SAR_FAIL, a5, a6), w),
     SKF_DecryptData = \<lambda>_ _ _ _ _ a5 a6 w. ((SAR_FAIL, a5, a6), w),
     SKF_DigestUpdate = \<lambda>_ _ _ w. (SAR_FAIL, w),
     SKF_DigestFinal = \<lambda>_ a1 a2 w. ((SAR_FAIL, a1, a2), w),
     SKF_RSAVerify = \<lambda>_ _ _ _ _ _ w. (SAR_FAIL, w),
     SKF_SetSymmKey = \<lambda>_ _ _ _ w. (SAR_FAIL, w),
     SKF_GetDevInfo = \<lambda>_ a1 w. ((SAR_FAIL, a1), w),
     SKF_GetDevState = \<lambda>_ a1 w. ((SAR_FAIL, a1), w),
     SKF_SetLabel = \<lambda>_ _ w. (SAR_FAIL, w),
     SKF_ECCVerify = \<lambda>_ _ _ _ _ w. (SAR_FAIL, w),
     SKF_LockDev = \<lambda>_ _ w. (SAR_FAIL, w),
     SKF_UnlockDev = \<lambda>_ w. (SAR_FAIL, w),
     SKF_Transmit = \<lambda>_ _ _ a3 a4 w. ((SAR_FAIL, a3, a4), w),
     SKF_CloseHash = \<lambda>_ w. (SAR_FAIL, w)\<rparr>"

section \<open>Functions the service binds and does not call\<close>

text \<open>The wrapper covers thirteen further functions of the interface. They extend the record, so that a library
  without them is enough for everything else.\<close>

record 'w skf_lib_more = "'w skf_lib" +
  SKF_ChangePIN :: "u64 \<Rightarrow> u32 \<Rightarrow> string \<Rightarrow> u32 \<Rightarrow> string \<Rightarrow> 'w \<Rightarrow> u32 \<times> 'w"
  SKF_UnblockPIN :: "u64 \<Rightarrow> u32 \<Rightarrow> string \<Rightarrow> u32 \<Rightarrow> string \<Rightarrow> 'w \<Rightarrow> u32 \<times> 'w"
  SKF_GetPINInfo :: "u64 \<Rightarrow> u32 \<Rightarrow> u32 \<Rightarrow> u32 \<Rightarrow> u32 \<Rightarrow> 'w \<Rightarrow> (u32 \<times> u32 \<times> u32 \<times> u32) \<times> 'w"
  SKF_CreateApplication :: "u64 \<Rightarrow> string \<Rightarrow> 'w \<Rightarrow> u32 \<times> 'w"
  SKF_DeleteApplication :: "u64 \<Rightarrow> string \<Rightarrow> 'w \<Rightarrow> u32 \<times> 'w"
  SKF_EncryptInit :: "u64 \<Rightarrow> u32 \<Rightarrow> blockcipherparam \<Rightarrow> u64 \<Rightarrow> 'w \<Rightarrow> (u32 \<times> u64) \<times> 'w"
  SKF_EncryptUpdate :: "u64 \<Rightarrow> bytes \<Rightarrow> u32 \<Rightarrow> bytes \<Rightarrow> u32 \<Rightarrow> 'w \<Rightarrow> (u32 \<times> bytes \<times> u32) \<times> 'w"
  SKF_EncryptFinal :: "u64 \<Rightarrow> 'w \<Rightarrow> u32 \<times> 'w"
  SKF_DecryptInit :: "u64 \<Rightarrow> u32 \<Rightarrow> blockcipherparam \<Rightarrow> u64 \<Rightarrow> 'w \<Rightarrow> (u32 \<times> u64) \<times> 'w"
  SKF_DecryptUpdate :: "u64 \<Rightarrow> bytes \<Rightarrow> u32 \<Rightarrow> bytes \<Rightarrow> u32 \<Rightarrow> 'w \<Rightarrow> (u32 \<times> bytes \<times> u32) \<times> 'w"
  SKF_DecryptFinal :: "u64 \<Rightarrow> 'w \<Rightarrow> u32 \<times> 'w"
  SKF_ExportPublicKey :: "u64 \<Rightarrow> u32 \<Rightarrow> bytes \<Rightarrow> u32 \<Rightarrow> 'w \<Rightarrow> (u32 \<times> bytes \<times> u32) \<times> 'w"
  SKF_RNGSeed :: "bytes \<Rightarrow> u32 \<Rightarrow> 'w \<Rightarrow> u32 \<times> 'w"

definition api_change_pin ::
  "('w, 'm) skf_lib_more_scheme \<Rightarrow> u64 \<Rightarrow> u32 \<Rightarrow> string \<Rightarrow> u32 \<Rightarrow> string \<Rightarrow> 'w \<Rightarrow> u32 \<times> 'w" where
  "api_change_pin L h_app old_pin_type old_pin new_pin_type new_pin =
    ffi L ''SKF_ChangePIN'' SAR_COULDNOTGETFUNCADDR (SKF_ChangePIN L h_app old_pin_type old_pin new_pin_type new_pin)"

definition api_unblock_pin ::
  "('w, 'm) skf_lib_more_scheme \<Rightarrow> u64 \<Rightarrow> u32 \<Rightarrow> string \<Rightarrow> u32 \<Rightarrow> string \<Rightarrow> 'w \<Rightarrow> u32 \<times> 'w" where
  "api_unblock_pin L h_app puk_type puk new_pin_type new_pin =
    ffi L ''SKF_UnblockPIN'' SAR_COULDNOTGETFUNCADDR (SKF_UnblockPIN L h_app puk_type puk new_pin_type new_pin)"

definition api_get_pin_info ::
  "('w, 'm) skf_lib_more_scheme \<Rightarrow> u64 \<Rightarrow> u32 \<Rightarrow> u32 \<Rightarrow> u32 \<Rightarrow> u32 \<Rightarrow> 'w \<Rightarrow> (u32 \<times> u32 \<times> u32 \<times> u32) \<times> 'w" where
  "api_get_pin_info L h_app pin_type max_len min_len retries =
    ffi L ''SKF_GetPINInfo'' (SAR_COULDNOTGETFUNCADDR, max_len, min_len, retries) (SKF_GetPINInfo L h_app pin_type max_len min_len retries)"

definition api_create_application ::
  "('w, 'm) skf_lib_more_scheme \<Rightarrow> u64 \<Rightarrow> string \<Rightarrow> 'w \<Rightarrow> u32 \<times> 'w" where
  "api_create_application L h_dev app_name =
    ffi L ''SKF_CreateApplication'' SAR_COULDNOTGETFUNCADDR (SKF_CreateApplication L h_dev app_name)"

definition api_delete_application ::
  "('w, 'm) skf_lib_more_scheme \<Rightarrow> u64 \<Rightarrow> string \<Rightarrow> 'w \<Rightarrow> u32 \<times> 'w" where
  "api_delete_application L h_dev app_name =
    ffi L ''SKF_DeleteApplication'' SAR_COULDNOTGETFUNCADDR (SKF_DeleteApplication L h_dev app_name)"

definition api_encrypt_init ::
  "('w, 'm) skf_lib_more_scheme \<Rightarrow> u64 \<Rightarrow> u32 \<Rightarrow> blockcipherparam \<Rightarrow> u64 \<Rightarrow> 'w \<Rightarrow> (u32 \<times> u64) \<times> 'w" where
  "api_encrypt_init L h_cont alg_id block_cipher_param h_cipher =
    ffi L ''SKF_EncryptInit'' (SAR_COULDNOTGETFUNCADDR, h_cipher) (SKF_EncryptInit L h_cont alg_id block_cipher_param h_cipher)"

definition api_encrypt_update ::
  "('w, 'm) skf_lib_more_scheme \<Rightarrow> u64 \<Rightarrow> bytes \<Rightarrow> u32 \<Rightarrow> bytes \<Rightarrow> u32 \<Rightarrow> 'w \<Rightarrow> (u32 \<times> bytes \<times> u32) \<times> 'w" where
  "api_encrypt_update L h_cipher dat data_len encrypted_data encrypted_data_len =
    ffi L ''SKF_EncryptUpdate'' (SAR_COULDNOTGETFUNCADDR, encrypted_data, encrypted_data_len) (SKF_EncryptUpdate L h_cipher dat data_len encrypted_data encrypted_data_len)"

definition api_encrypt_final ::
  "('w, 'm) skf_lib_more_scheme \<Rightarrow> u64 \<Rightarrow> 'w \<Rightarrow> u32 \<times> 'w" where
  "api_encrypt_final L h_cipher =
    ffi L ''SKF_EncryptFinal'' SAR_COULDNOTGETFUNCADDR (SKF_EncryptFinal L h_cipher)"

definition api_decrypt_init ::
  "('w, 'm) skf_lib_more_scheme \<Rightarrow> u64 \<Rightarrow> u32 \<Rightarrow> blockcipherparam \<Rightarrow> u64 \<Rightarrow> 'w \<Rightarrow> (u32 \<times> u64) \<times> 'w" where
  "api_decrypt_init L h_cont alg_id block_cipher_param h_cipher =
    ffi L ''SKF_DecryptInit'' (SAR_COULDNOTGETFUNCADDR, h_cipher) (SKF_DecryptInit L h_cont alg_id block_cipher_param h_cipher)"

definition api_decrypt_update ::
  "('w, 'm) skf_lib_more_scheme \<Rightarrow> u64 \<Rightarrow> bytes \<Rightarrow> u32 \<Rightarrow> bytes \<Rightarrow> u32 \<Rightarrow> 'w \<Rightarrow> (u32 \<times> bytes \<times> u32) \<times> 'w" where
  "api_decrypt_update L h_cipher encrypted_data encrypted_data_len dat data_len =
    ffi L ''SKF_DecryptUpdate'' (SAR_COULDNOTGETFUNCADDR, dat, data_len) (SKF_DecryptUpdate L h_cipher encrypted_data encrypted_data_len dat data_len)"

definition api_decrypt_final ::
  "('w, 'm) skf_lib_more_scheme \<Rightarrow> u64 \<Rightarrow> 'w \<Rightarrow> u32 \<times> 'w" where
  "api_decrypt_final L h_cipher =
    ffi L ''SKF_DecryptFinal'' SAR_COULDNOTGETFUNCADDR (SKF_DecryptFinal L h_cipher)"

definition api_export_public_key ::
  "('w, 'm) skf_lib_more_scheme \<Rightarrow> u64 \<Rightarrow> u32 \<Rightarrow> bytes \<Rightarrow> u32 \<Rightarrow> 'w \<Rightarrow> (u32 \<times> bytes \<times> u32) \<times> 'w" where
  "api_export_public_key L h_cont alg_id public_key public_key_len =
    ffi L ''SKF_ExportPublicKey'' (SAR_COULDNOTGETFUNCADDR, public_key, public_key_len) (SKF_ExportPublicKey L h_cont alg_id public_key public_key_len)"

definition api_rng_seed ::
  "('w, 'm) skf_lib_more_scheme \<Rightarrow> bytes \<Rightarrow> u32 \<Rightarrow> 'w \<Rightarrow> u32 \<times> 'w" where
  "api_rng_seed L seed seed_len =
    ffi L ''SKF_RNGSeed'' SAR_COULDNOTGETFUNCADDR (SKF_RNGSeed L seed seed_len)"

text \<open>A library that lacks the symbol is not entered: the code says so and the outputs keep what they held.\<close>

lemma absent_more:
  "\<not> exports L ''SKF_GetPINInfo'' \<Longrightarrow>
    api_get_pin_info L h ty m n r w = ((SAR_COULDNOTGETFUNCADDR, m, n, r), w)"
  "\<not> exports L ''SKF_EncryptUpdate'' \<Longrightarrow>
    api_encrypt_update L hc d dl e el w = ((SAR_COULDNOTGETFUNCADDR, e, el), w)"
  "\<not> exports L ''SKF_DecryptUpdate'' \<Longrightarrow>
    api_decrypt_update L hc e el d dl w = ((SAR_COULDNOTGETFUNCADDR, d, dl), w)"
  "\<not> exports L ''SKF_ExportPublicKey'' \<Longrightarrow>
    api_export_public_key L h alg k kl w = ((SAR_COULDNOTGETFUNCADDR, k, kl), w)"
  by (simp_all add: api_get_pin_info_def api_encrypt_update_def api_decrypt_update_def api_export_public_key_def ffi_def)

end
