(* ===== verification/Base64.thy ===== *)
theory Base64
  imports Protocol
begin

text \<open>
  What the code relies on of the \<open>base64\<close> crate, as the locale \<open>codec_contract\<close>, and an engine that
  meets it: the standard alphabet of RFC 4648 with mandatory canonical padding. The theorems take
  any engine that meets the contract; the engine here shows that the contract can be met, and
  it runs the examples.
\<close>

definition base64_alphabet :: string where
  "base64_alphabet = ''ABCDEFGHIJKLMNOPQRSTUVWXYZabcdefghijklmnopqrstuvwxyz0123456789+/''"

locale codec_contract =
  fixes C :: codec
  assumes decode_encode: "b64_decode C (b64_encode C b) = Inr b"
    and encode_length: "length (b64_encode C b) = 4 * ((length b + 2) div 3)"
    and decode_length: "b64_decode C s = Inr b \<Longrightarrow> 4 * length b \<le> 3 * length s"
    and encode_alphabet: "set (b64_encode C b) \<subseteq> insert CHR ''='' (set base64_alphabet)"
begin

lemma payload_accepted_iff:
  "decode_base64 C p (b64_encode C b) m = Inr b \<longleftrightarrow> length b \<le> 262146"
proof -
  have "4 * q \<le> 349528 \<longleftrightarrow> q < 87383" for q :: nat by arith
  moreover have "(length b + 2) div 3 < 87383 \<longleftrightarrow> length b \<le> 262146"
    by (subst div_less_iff_less_mult) auto
  ultimately have "4 * ((length b + 2) div 3) \<le> 349528 \<longleftrightarrow> length b \<le> 262146" by simp
  then show ?thesis by (simp add: decode_base64_ok_iff decode_encode encode_length)
qed

lemma payload_decoded_bound: "decode_base64 C p s m = Inr b \<Longrightarrow> length b \<le> 262146"
  using decode_length [of s b] by (simp add: decode_base64_ok_iff)

lemma encode_no_dash: "CHR ''-'' \<notin> set (b64_encode C b)"
  using encode_alphabet [of b] by (auto simp: base64_alphabet_def)

end

section \<open>An engine\<close>

definition sextet_char :: "nat \<Rightarrow> char" where
  "sextet_char n = base64_alphabet ! n"

definition char_sextet :: "char \<Rightarrow> nat option" where
  "char_sextet c = find (\<lambda>n. base64_alphabet ! n = c) [0..<64]"

fun encode_groups :: "nat list \<Rightarrow> string" where
  "encode_groups (a # b # c # r) =
    [sextet_char (a div 4), sextet_char (a mod 4 * 16 + b div 16),
     sextet_char (b mod 16 * 4 + c div 64), sextet_char (c mod 64)] @ encode_groups r"
| "encode_groups [a, b] =
    [sextet_char (a div 4), sextet_char (a mod 4 * 16 + b div 16), sextet_char (b mod 16 * 4),
     CHR ''='']"
| "encode_groups [a] = [sextet_char (a div 4), sextet_char (a mod 4 * 16), CHR ''='', CHR ''='']"
| "encode_groups [] = []"

definition decode_two :: "char \<Rightarrow> char \<Rightarrow> nat list option" where
  "decode_two w x =
    (case (char_sextet w, char_sextet x) of
      (Some i, Some j) \<Rightarrow> if j mod 16 = 0 then Some [i * 4 + j div 16] else None
    | _ \<Rightarrow> None)"

definition decode_three :: "char \<Rightarrow> char \<Rightarrow> char \<Rightarrow> nat list option" where
  "decode_three w x y =
    (case (char_sextet w, char_sextet x, char_sextet y) of
      (Some i, Some j, Some k) \<Rightarrow>
        if k mod 4 = 0 then Some [i * 4 + j div 16, j mod 16 * 16 + k div 4] else None
    | _ \<Rightarrow> None)"

definition decode_four :: "char \<Rightarrow> char \<Rightarrow> char \<Rightarrow> char \<Rightarrow> nat list option" where
  "decode_four w x y z =
    (case (char_sextet w, char_sextet x, char_sextet y, char_sextet z) of
      (Some i, Some j, Some k, Some l) \<Rightarrow>
        Some [i * 4 + j div 16, j mod 16 * 16 + k div 4, k mod 4 * 64 + l]
    | _ \<Rightarrow> None)"

fun decode_groups :: "string \<Rightarrow> nat list option" where
  "decode_groups [] = Some []"
| "decode_groups (w # x # y # z # r) =
    (if r = [] \<and> y = CHR ''='' \<and> z = CHR ''='' then decode_two w x
     else if r = [] \<and> z = CHR ''='' then decode_three w x y
     else case (decode_four w x y z, decode_groups r) of
       (Some bs, Some bs') \<Rightarrow> Some (bs @ bs')
     | _ \<Rightarrow> None)"
| "decode_groups _ = None"

definition std_codec :: codec where
  "std_codec =
    \<lparr>b64_encode = \<lambda>bs. encode_groups (map unat bs),
     b64_decode = \<lambda>s. (case decode_groups s of
        None \<Rightarrow> Inl ''invalid base64'' | Some ns \<Rightarrow> Inr (map of_nat ns))\<rparr>"

section \<open>It meets the contract\<close>

lemma sextets:
  "list_all (\<lambda>n. char_sextet (base64_alphabet ! n) = Some n \<and> base64_alphabet ! n \<noteq> CHR ''=''
    \<and> base64_alphabet ! n \<in> set base64_alphabet) [0..<64]"
  by code_simp

lemma char_sextet_char [simp]: "n < 64 \<Longrightarrow> char_sextet (sextet_char n) = Some n"
  using sextets by (simp add: list_all_iff sextet_char_def)

lemma sextet_char_not_pad [simp]: "n < 64 \<Longrightarrow> sextet_char n \<noteq> CHR ''=''"
  using sextets by (simp add: list_all_iff sextet_char_def)

lemma sextet_char_alphabet: "n < 64 \<Longrightarrow> sextet_char n \<in> set base64_alphabet"
  using sextets by (simp add: list_all_iff sextet_char_def)

lemma decode_encode_groups:
  "\<forall>n \<in> set ns. n < 256 \<Longrightarrow> decode_groups (encode_groups ns) = Some ns"
proof (induction ns rule: encode_groups.induct)
  case (1 a b c r)
  have "a div 4 < 64" "a mod 4 * 16 + b div 16 < 64" "b mod 16 * 4 + c div 64 < 64" "c mod 64 < 64"
    using "1.prems" by (auto; presburger)+
  moreover have "a div 4 * 4 + (a mod 4 * 16 + b div 16) div 16 = a"
    "(a mod 4 * 16 + b div 16) mod 16 * 16 + (b mod 16 * 4 + c div 64) div 4 = b"
    "(b mod 16 * 4 + c div 64) mod 4 * 64 + c mod 64 = c"
    using "1.prems" by (auto; presburger)+
  ultimately show ?case using 1 by (simp add: decode_four_def)
next
  case (2 a b)
  have "a div 4 < 64" "a mod 4 * 16 + b div 16 < 64" "b mod 16 * 4 < 64"
    using "2.prems" by (auto; presburger)+
  moreover have "a div 4 * 4 + (a mod 4 * 16 + b div 16) div 16 = a"
    "(a mod 4 * 16 + b div 16) mod 16 * 16 + b mod 16 * 4 div 4 = b" "b mod 16 * 4 mod 4 = 0"
    using "2.prems" by (auto; presburger)+
  ultimately show ?case by (simp add: decode_three_def)
next
  case (3 a)
  have "a div 4 < 64" "a mod 4 * 16 < 64" using "3.prems" by (auto; presburger)+
  then show ?case by (simp add: decode_two_def)
qed simp

lemma length_encode_groups: "length (encode_groups ns) = 4 * ((length ns + 2) div 3)"
proof (induction ns rule: encode_groups.induct)
  case (1 a b c r)
  have "(5 + n) div 3 = Suc (Suc (Suc n) div 3)" for n :: nat by presburger
  with 1 show ?case by simp
qed simp_all

lemma length_decode_groups: "decode_groups s = Some ns \<Longrightarrow> 4 * length ns \<le> 3 * length s"
proof (induction s arbitrary: ns rule: decode_groups.induct)
  case (2 w x y z r)
  then show ?case
    by (fastforce simp: decode_two_def decode_three_def decode_four_def
        split: if_splits option.splits)
qed simp_all

lemma encode_groups_alphabet:
  "\<forall>n \<in> set ns. n < 256 \<Longrightarrow> set (encode_groups ns) \<subseteq> insert CHR ''='' (set base64_alphabet)"
proof (induction ns rule: encode_groups.induct)
  case (1 a b c r)
  have "a div 4 < 64" "a mod 4 * 16 + b div 16 < 64" "b mod 16 * 4 + c div 64 < 64" "c mod 64 < 64"
    using "1.prems" by (auto; presburger)+
  then show ?case using 1 by (simp add: sextet_char_alphabet)
next
  case (2 a b)
  have "a div 4 < 64" "a mod 4 * 16 + b div 16 < 64" "b mod 16 * 4 < 64"
    using "2.prems" by (auto; presburger)+
  then show ?case by (simp add: sextet_char_alphabet)
next
  case (3 a)
  have "a div 4 < 64" "a mod 4 * 16 < 64" using "3.prems" by (auto; presburger)+
  then show ?case by (simp add: sextet_char_alphabet)
qed simp

lemma unat_u8_bound: "\<forall>n \<in> set (map unat (bs :: bytes)). n < 256"
  using unsigned_less [where 'a = nat and 'b = 8] by auto

interpretation std_engine: codec_contract std_codec
proof
  fix b s
  show "b64_decode std_codec (b64_encode std_codec b) = Inr b"
    by (simp add: std_codec_def decode_encode_groups [OF unat_u8_bound] map_idI)
  show "length (b64_encode std_codec b) = 4 * ((length b + 2) div 3)"
    by (simp add: std_codec_def length_encode_groups)
  show "4 * length b \<le> 3 * length s" if "b64_decode std_codec s = Inr b"
    using that length_decode_groups [of s] by (auto simp: std_codec_def split: option.splits)
  show "set (b64_encode std_codec b) \<subseteq> insert CHR ''='' (set base64_alphabet)"
    using encode_groups_alphabet [OF unat_u8_bound] by (simp add: std_codec_def)
qed

section \<open>Properties\<close>

text \<open>C39: With an engine that meets the contract, a payload is accepted and recovered exactly when it
  has at most 262146 bytes, two more than the advertised limit of 262144, and no encoded text
  that the reader accepts yields more than that.\<close>

theorem payload_limit_exact:
  assumes "codec_contract C"
  shows "(decode_base64 C p (b64_encode C b) m = Inr b \<longleftrightarrow> length b \<le> MAX_PAYLOAD_BYTES + 2)
    \<and> (case decode_base64 C p s m of Inr b' \<Rightarrow> length b' \<le> MAX_PAYLOAD_BYTES + 2
        | Inl e \<Rightarrow> rejects_with p e)"
  using codec_contract.payload_accepted_iff [OF assms]
    codec_contract.payload_decoded_bound [OF assms] decode_base64_rejects
  by (auto simp: MAX_PAYLOAD_BYTES_def split: sum.splits)

theorem payload_limit_exact_witness:
  "decode_base64 std_codec (new_params [] None) (b64_encode std_codec [1, 2, 3, 255]) ''data'' =
    Inr [1, 2, 3, 255]"
  using payload_limit_exact [OF std_engine.codec_contract_axioms, of "new_params [] None"
      "[1, 2, 3, 255]" "''data''"] by (simp add: MAX_PAYLOAD_BYTES_def)

text \<open>Every reader of a positional parameter that refuses a request answers with code -2, the id of
  the request and a message, whether the position is missing or holds a value of another type;
  an accepted string or number is the value at that position.\<close>

theorem params_readers_reject:
  "(case required_str p i m of Inr v \<Rightarrow> i < params_len p \<and> param_values p ! i = String v
      | Inl e \<Rightarrow> rejects_with p e \<and> resp_message e = Some m)
    \<and> (case required_u64 p i m of
        Inr n \<Rightarrow> i < params_len p \<and> param_values p ! i = Number (PosInt n)
      | Inl e \<Rightarrow> rejects_with p e \<and> resp_message e = Some m)
    \<and> (case required_base64 C p i m of
        Inr b \<Rightarrow> (\<exists>s. required_str p i m = Inr s \<and> b64_decode C s = Inr b)
      | Inl e \<Rightarrow> rejects_with p e)"
proof -
  have s: "as_str v = Some x \<longleftrightarrow> v = String x" for v x by (cases v) auto
  have n: "as_u64 v = Some x \<longleftrightarrow> v = Number (PosInt x)" for v x
    by (cases v rule: as_u64.cases) auto
  show ?thesis
    using required_base64_rejects [of C p i m]
    by (auto simp: required_str_def required_u64_def required_base64_def raw_def params_len_def s n
        decode_base64_ok_iff split: option.splits sum.splits bind_splits)
qed

end
