(* ===== verification/Issue.thy ===== *)
theory Issue
  imports Ffi Domain Base64
begin

text \<open>
  Issuing demonstration certificates (branch \<open>IssueCertificate\<close> of \<open>handle_request\<close> in
  \<open>src/main.rs\<close>). The branch works on files of the temporary directory and runs the \<open>openssl\<close>
  program on them; for a double certificate it makes an encryption key pair and an envelope for the
  token to import.

  The program is a function of its argument list. What each command may write is its documented
  behaviour, and the contract of the surroundings is a locale over a family of relations: which
  states a call may lead to, given the files it is allowed to change. One instance keeps the guards
  of the provider, another keeps every other file.
\<close>

section \<open>Surroundings\<close>

text \<open>The clock (none when it stands before the epoch), the temporary directory, the file system (a failed
  write answers with its error, a file that cannot be read as text with nothing), the program (an
  error text when it cannot be run, else whether it succeeded with its two outputs), the key of a
  parsed certificate request, and the two cipher libraries. Encrypting under a key the client chose
  may panic.\<close>

record 'w issuer =
  is_nanos :: "'w \<Rightarrow> nat option"
  is_temp_dir :: string
  is_write :: "string \<Rightarrow> bytes \<Rightarrow> 'w \<Rightarrow> string option \<times> 'w"
  is_read :: "string \<Rightarrow> 'w \<Rightarrow> string option"
  is_remove :: "string \<Rightarrow> 'w \<Rightarrow> 'w"
  is_exists :: "string \<Rightarrow> 'w \<Rightarrow> bool"
  is_openssl :: "string list \<Rightarrow> 'w \<Rightarrow> (string + bool \<times> bytes \<times> bytes) \<times> 'w"
  is_csr_key :: "bytes \<Rightarrow> bytes option"
  is_keypair :: "'w \<Rightarrow> (string \<times> string) \<times> 'w"
  is_random :: "'w \<Rightarrow> bytes \<times> 'w"
  is_sm4_ecb :: "bytes \<Rightarrow> bytes \<Rightarrow> bytes"
  is_sm2_encrypt :: "string \<Rightarrow> bytes \<Rightarrow> 'w \<Rightarrow> bytes outcome \<times> 'w"

definition temp_file_path :: "'w issuer \<Rightarrow> string \<Rightarrow> string" where
  "temp_file_path I nm =
    (let dir = is_temp_dir I in if dir = [] \<or> last dir = CHR ''/'' then dir @ nm else dir @ ''/'' @ nm)"

definition request_file :: "'w issuer \<Rightarrow> string \<Rightarrow> nat \<Rightarrow> string \<Rightarrow> string" where
  "request_file I what n ext = temp_file_path I (what @ ''_'' @ show_nat n @ ext)"

definition ca_key_path :: "'w issuer \<Rightarrow> string" where
  "ca_key_path I = temp_file_path I ''skf_ca.key''"

definition ca_crt_path :: "'w issuer \<Rightarrow> string" where
  "ca_crt_path I = temp_file_path I ''skf_ca.crt''"

section \<open>The program's commands\<close>

datatype openssl_command =
    ShowSubject string
  | MakeCA string string
  | ShowPublicKey string string
  | NewRequest string string string
  | SignRequest string string string string "string option"
  | GenerateSM2 string
  | PublicPart string string

fun argv :: "openssl_command \<Rightarrow> string list" where
  "argv (ShowSubject csr) = [''req'', ''-in'', csr, ''-noout'', ''-subject'']"
| "argv (MakeCA key crt) =
    [''req'', ''-x509'', ''-newkey'', ''rsa:2048'', ''-keyout'', key, ''-out'', crt, ''-days'', ''3650'', ''-nodes'',
     ''-subj'', ''/CN=SKF Demo CA'']"
| "argv (ShowPublicKey csr out) =
    [''req'', ''-in'', csr, ''-pubkey'', ''-noout'', ''-vfyopt'', ''distid:1234567812345678'', ''-out'', out]"
| "argv (NewRequest key out subject) =
    [''req'', ''-new'', ''-newkey'', ''rsa:2048'', ''-nodes'', ''-keyout'', key, ''-out'', out, ''-subj'', subject]"
| "argv (SignRequest csr ca_crt ca_key out public_key) =
    [''x509'', ''-req'', ''-in'', csr, ''-CA'', ca_crt, ''-CAkey'', ca_key, ''-CAcreateserial'', ''-out'', out,
     ''-days'', ''3650''] @ (case public_key of None \<Rightarrow> [] | Some k \<Rightarrow> [''-force_pubkey'', k])"
| "argv (GenerateSM2 out) = [''ecparam'', ''-name'', ''SM2'', ''-genkey'', ''-noout'', ''-out'', out]"
| "argv (PublicPart key out) = [''ec'', ''-in'', key, ''-pubout'', ''-out'', out]"

text \<open>The files a command writes: those it is told to, and beside the certificate of the authority the
  serial number that \<open>-CAcreateserial\<close> keeps, in the file of that name with the extension \<open>srl\<close>.\<close>

definition serial_file :: "string \<Rightarrow> string" where
  "serial_file crt = take (length crt - 3) crt @ ''srl''"

fun writes :: "openssl_command \<Rightarrow> string set" where
  "writes (ShowSubject _) = {}"
| "writes (MakeCA key crt) = {key, crt}"
| "writes (ShowPublicKey _ out) = {out}"
| "writes (NewRequest key out _) = {key, out}"
| "writes (SignRequest _ ca_crt _ out _) = {out, serial_file ca_crt}"
| "writes (GenerateSM2 out) = {out}"
| "writes (PublicPart _ out) = {out}"

definition run_openssl ::
  "'w issuer \<Rightarrow> openssl_command \<Rightarrow> 'w \<Rightarrow> (string + bool \<times> bytes \<times> bytes) \<times> 'w" where
  "run_openssl I c = is_openssl I (argv c)"

section \<open>The request\<close>

definition is_pem :: "string \<Rightarrow> bool" where
  "is_pem csr = contains ''-----BEGIN'' csr"

definition csr_input :: "codec \<Rightarrow> string \<Rightarrow> string + bytes" where
  "csr_input C csr = (if is_pem csr then Inr (as_bytes csr) else b64_decode C csr)"

definition csr_der_input :: "codec \<Rightarrow> string \<Rightarrow> bytes \<Rightarrow> bytes" where
  "csr_der_input C csr given =
    (if is_pem csr then
       (let b64 = remove_all [CHR 0x0D] (remove_all [CHR 0x0A]
          (remove_all ''-----END NEW CERTIFICATE REQUEST-----'' (remove_all ''-----BEGIN NEW CERTIFICATE REQUEST-----''
          (remove_all ''-----END CERTIFICATE REQUEST-----'' (remove_all ''-----BEGIN CERTIFICATE REQUEST-----'' csr)))))
        in case b64_decode C b64 of Inr b \<Rightarrow> b | Inl _ \<Rightarrow> [])
     else given)"

text \<open>What follows the first occurrence of a text, and the pieces between its occurrences.\<close>

fun after_first :: "string \<Rightarrow> string \<Rightarrow> string option" where
  "after_first pat [] = (if pat = [] then Some [] else None)"
| "after_first pat (c # s) =
    (if prefix pat (c # s) then Some (drop (length pat) (c # s)) else after_first pat s)"

fun split_comma :: "string \<Rightarrow> string list" where
  "split_comma (c # d # s) =
    (if c = CHR '','' \<and> d = CHR '' '' then [] # split_comma s
     else (case split_comma (d # s) of [] \<Rightarrow> [[c]] | piece # pieces \<Rightarrow> (c # piece) # pieces))"
| "split_comma s = [s]"

text \<open>The subject as the program prints it, in the form its option takes.\<close>

definition subject_path :: "string \<Rightarrow> string" where
  "subject_path part = concat (map (\<lambda>item. CHR ''/'' # item) (filter (\<lambda>item. item \<noteq> []) (split_comma part)))"

definition extracted_subject :: "string + bool \<times> bytes \<times> bytes \<Rightarrow> string" where
  "extracted_subject shown =
    (let fallback = ''/CN=SKF Generated Cert'' in
     case shown of
       Inl _ \<Rightarrow> fallback
     | Inr (_, stdout, _) \<Rightarrow>
         (case after_first ''subject='' (from_utf8_lossy stdout) of
           None \<Rightarrow> fallback
         | Some rest \<Rightarrow>
             (let formatted = (if trim rest = [] then [] else subject_path (trim rest))
              in if formatted = [] then fallback else formatted)))"

definition sign_point :: "bytes option \<Rightarrow> (bytes \<times> bytes) option" where
  "sign_point key =
    (case key of
      None \<Rightarrow> None
    | Some pk \<Rightarrow>
        (if 65 \<le> length pk \<and> hd pk = 0x04 then Some (take 32 (drop 1 pk), take 32 (drop 33 pk)) else None))"

section \<open>Structures read from bytes\<close>

definition le_value :: "bytes \<Rightarrow> u32" where
  "le_value bs = of_nat (\<Sum>i<4. unat (bs ! i) * 256 ^ i)"

definition read_ecc_blob :: "bytes \<Rightarrow> ecc_public_key_blob" where
  "read_ecc_blob bs =
    \<lparr>BitLen = le_value bs, XCoordinate = take 64 (drop 4 bs), YCoordinate = take 64 (drop 68 bs)\<rparr>"

lemma le_digits:
  assumes "m < (2 :: nat) ^ 32"
  shows "m mod 256 + m div 256 mod 256 * 256 + m div 65536 mod 256 * 65536 + m div 16777216 mod 256 * 16777216 = m"
proof -
  define a b c where abc: "a = m div 256" "b = a div 256" "c = b div 256"
  have "c < 256" using assms by (simp add: abc div_mult2_eq [symmetric])
  moreover have "m = 256 * a + m mod 256" "a = 256 * b + a mod 256" "b = 256 * c + b mod 256"
    by (simp_all add: abc)
  moreover have "m div 65536 = b" "m div 16777216 = c" by (simp_all add: abc div_mult2_eq [symmetric])
  ultimately show ?thesis unfolding abc(1) [symmetric] by simp
qed

lemma le_value_bytes: "le_value (le_bytes n @ rest) = n"
proof -
  have "unat n < 4294967296" using unsigned_less [of n, where 'a = nat] by simp
  then have m: "unat n mod 4294967296 = unat n" by (rule mod_less)
  have four: "{..<4} = {0, 1, 2, 3 :: nat}" by auto
  have byte: "unat (ucast (drop_bit k n) :: u8) = unat n div 2 ^ k mod 256" for k
    by (simp only: unsigned_ucast_eq unsigned_drop_bit_eq) (simp add: drop_bit_eq_div take_bit_eq_mod m)
  have "(\<Sum>i<4. unat ((le_bytes n @ rest) ! i) * 256 ^ i) = unat n"
    using le_digits [of "unat n"] \<open>unat n < 4294967296\<close> unfolding four
    by (simp add: le_bytes_def byte byte [of 0, simplified] add.assoc)
  then show ?thesis by (simp add: le_value_def)
qed

section \<open>The envelope\<close>

text \<open>A slice copied to the end of a zeroed array of 64 bytes.\<close>

definition right_aligned :: "bytes \<Rightarrow> bytes outcome" where
  "right_aligned bs = (if length bs \<le> 64 then Ret (replicate (64 - length bs) 0 @ bs) else Panic)"

definition padded_coordinate :: "bytes \<Rightarrow> bytes" where
  "padded_coordinate bs = replicate 32 0 @ bs"

text \<open>The coordinates of the new public key and the parts of the cipher text; zeroes when there are too few
  bytes.\<close>

definition key_halves :: "bytes \<Rightarrow> bytes \<times> bytes" where
  "key_halves pk =
    (if 64 \<le> length pk then (take 32 pk, take 32 (drop 32 pk)) else (replicate 32 0, replicate 32 0))"

definition cipher_parts :: "bytes \<Rightarrow> bytes \<times> bytes \<times> bytes \<times> bytes" where
  "cipher_parts c =
    (if 112 \<le> length c then (take 32 c, take 32 (drop 32 c), take 32 (drop 64 c), take 16 (drop 96 c))
     else (replicate 32 0, replicate 32 0, replicate 32 0, replicate 16 0))"

definition enveloped_blob :: "bytes \<Rightarrow> bytes \<times> bytes \<Rightarrow> bytes \<times> bytes \<times> bytes \<times> bytes \<Rightarrow> bytes" where
  "enveloped_blob encrypted_pri_key pub parts =
    (case (pub, parts) of ((x, y), (c1_x, c1_y, c3, c2)) \<Rightarrow>
      le_bytes 1 @ le_bytes 0x00000401 @ le_bytes 256 @ encrypted_pri_key
      @ le_bytes 256 @ padded_coordinate x @ padded_coordinate y
      @ padded_coordinate c1_x @ padded_coordinate c1_y @ c3 @ le_bytes (of_nat (length c2)) @ c2)"

text \<open>The structures of \<open>src/skf/types.rs\<close> as the token lays them out.\<close>

record ecc_cipher_blob =
  EC_XCoordinate :: bytes
  EC_YCoordinate :: bytes
  EC_Hash :: bytes
  EC_CipherLen :: u32
  EC_Cipher :: bytes

record enveloped_key_blob =
  EV_Version :: u32
  EV_SymmAlgID :: u32
  EV_Bits :: u32
  EV_EncryptedPriKey :: bytes
  EV_PubKey :: ecc_public_key_blob
  EV_CipherBlob :: ecc_cipher_blob

definition read_cipher_blob :: "bytes \<Rightarrow> ecc_cipher_blob" where
  "read_cipher_blob bs =
    \<lparr>EC_XCoordinate = take 64 bs, EC_YCoordinate = take 64 (drop 64 bs), EC_Hash = take 32 (drop 128 bs),
     EC_CipherLen = le_value (drop 160 bs), EC_Cipher = drop 164 bs\<rparr>"

definition read_envelope :: "bytes \<Rightarrow> enveloped_key_blob" where
  "read_envelope bs =
    \<lparr>EV_Version = le_value bs, EV_SymmAlgID = le_value (drop 4 bs), EV_Bits = le_value (drop 8 bs),
     EV_EncryptedPriKey = take 64 (drop 12 bs), EV_PubKey = read_ecc_blob (drop 76 bs),
     EV_CipherBlob = read_cipher_blob (drop 208 bs)\<rparr>"

text \<open>How a token opens an envelope: the cipher text of the session key is put together from its parts, and
  the session key decrypts the private key.\<close>

definition open_envelope ::
  "(bytes \<Rightarrow> bytes \<Rightarrow> bytes) \<Rightarrow> (bytes \<Rightarrow> bytes) \<Rightarrow> enveloped_key_blob \<Rightarrow> bytes" where
  "open_envelope decrypt_key decrypt_session ev =
    (let c = EV_CipherBlob ev
     in decrypt_key
          (decrypt_session (drop 32 (EC_XCoordinate c) @ drop 32 (EC_YCoordinate c) @ EC_Hash c
             @ take (unat (EC_CipherLen c)) (EC_Cipher c)))
          (EV_EncryptedPriKey ev))"

section \<open>The branch\<close>

text \<open>The files of one request, by the name of the local that holds the path.\<close>

definition sign_files :: "'w issuer \<Rightarrow> nat \<Rightarrow> string list" where
  "sign_files I n =
    [request_file I ''req'' n ''.csr'', request_file I ''pub'' n ''.pem'', request_file I ''dummy'' n ''.csr'',
     request_file I ''dummy'' n ''.key'', request_file I ''cert'' n ''.crt'']"

definition enc_files :: "'w issuer \<Rightarrow> nat \<Rightarrow> string list" where
  "enc_files I n =
    [request_file I ''enc_pub'' n ''.pem'', request_file I ''enc'' n ''.crt'', request_file I ''dummy2'' n ''.csr'',
     request_file I ''dummy2'' n ''.key'']"

definition remove_files :: "'w issuer \<Rightarrow> string list \<Rightarrow> 'w \<Rightarrow> 'w" where
  "remove_files I paths w = foldl (\<lambda>w p. is_remove I p w) w paths"

text \<open>From the subject to the attempt to sign, and the encryption certificate.\<close>

definition issue_sign ::
  "'w issuer \<Rightarrow> nat \<Rightarrow> 'w \<Rightarrow> (string \<times> (string + bool \<times> bytes \<times> bytes)) \<times> 'w" where
  "issue_sign I n w =
    (case run_openssl I (ShowSubject (request_file I ''req'' n ''.csr'')) w of
      (shown, w) \<Rightarrow>
        (let subject = extracted_subject shown;
             w = (if is_exists I (ca_key_path I) w then w
                  else snd (run_openssl I (MakeCA (ca_key_path I) (ca_crt_path I)) w));
             w = snd (run_openssl I
               (ShowPublicKey (request_file I ''req'' n ''.csr'') (request_file I ''pub'' n ''.pem'')) w);
             w = snd (run_openssl I
               (NewRequest (request_file I ''dummy'' n ''.key'') (request_file I ''dummy'' n ''.csr'') subject) w)
         in case run_openssl I
              (SignRequest (request_file I ''dummy'' n ''.csr'') (ca_crt_path I) (ca_key_path I)
                (request_file I ''cert'' n ''.crt'') (Some (request_file I ''pub'' n ''.pem''))) w of
            (output, w) \<Rightarrow> ((subject, output), w)))"

definition issue_enc :: "'w issuer \<Rightarrow> nat \<Rightarrow> string \<Rightarrow> bytes \<times> bytes \<Rightarrow> 'w \<Rightarrow> string \<times> 'w" where
  "issue_enc I n subject pub w =
    (let w = snd (is_write I (request_file I ''enc_raw'' n ''.bin'') (0x04 # fst pub @ snd pub) w);
         w = snd (run_openssl I (GenerateSM2 (request_file I ''tmpkey'' n ''.pem'')) w);
         w = snd (run_openssl I
           (PublicPart (request_file I ''tmpkey'' n ''.pem'') (request_file I ''enc_pub'' n ''.pem'')) w);
         w = is_remove I (request_file I ''enc_raw'' n ''.bin'') w;
         w = is_remove I (request_file I ''tmpkey'' n ''.pem'') w;
         w = snd (run_openssl I
           (NewRequest (request_file I ''dummy2'' n ''.key'') (request_file I ''dummy2'' n ''.csr'') subject) w);
         w = snd (run_openssl I
           (SignRequest (request_file I ''dummy2'' n ''.csr'') (ca_crt_path I) (ca_key_path I)
             (request_file I ''enc'' n ''.crt'') None) w)
     in ((case is_read I (request_file I ''enc'' n ''.crt'') w of Some pem \<Rightarrow> pem | None \<Rightarrow> []), w))"

text \<open>The envelope for the new private key: a session key encrypts it, the signing key the session key.\<close>

definition issue_envelope ::
  "'w issuer \<Rightarrow> bytes \<Rightarrow> bytes \<times> bytes \<Rightarrow> bytes \<times> bytes \<Rightarrow> 'w \<Rightarrow> bytes outcome \<times> 'w" where
  "issue_envelope I enc_sk enc_pub sign_pub w =
    (case is_random I w of
      (session_key, w) \<Rightarrow>
        (case right_aligned enc_sk of
          Panic \<Rightarrow> (Panic, w)
        | Ret plain_sk \<Rightarrow>
            (case slice 0 64 (is_sm4_ecb I session_key plain_sk) of
              Panic \<Rightarrow> (Panic, w)
            | Ret encrypted \<Rightarrow>
                (case is_sm2_encrypt I (concat (map fmt_02x (fst sign_pub @ snd sign_pub))) session_key w of
                  (Panic, w) \<Rightarrow> (Panic, w)
                | (Ret cipher, w) \<Rightarrow> (Ret (enveloped_blob encrypted enc_pub (cipher_parts cipher)), w)))))"

definition issue_double ::
  "'w issuer \<Rightarrow> codec \<Rightarrow> nat \<Rightarrow> string \<Rightarrow> string \<Rightarrow> bytes \<times> bytes \<Rightarrow> json option \<Rightarrow> 'w
    \<Rightarrow> rpc_response outcome \<times> 'w" where
  "issue_double I C n subject sign_cert sign_pub ident w =
    (case is_keypair I w of
      ((sk_hex, pk_hex), w) \<Rightarrow>
        (case (hex_to_bytes pk_hex, hex_to_bytes sk_hex) of
          (Ret pk, Ret sk) \<Rightarrow>
            (case issue_enc I n subject (key_halves pk) w of
              (enc_cert, w) \<Rightarrow>
                (case issue_envelope I sk (key_halves pk) sign_pub w of
                  (Panic, w) \<Rightarrow> (Panic, w)
                | (Ret blob, w) \<Rightarrow>
                    (Ret (rpc_ok (Object
                       [(''alg'', String ''SM2''), (''certificate'', String sign_cert),
                        (''certificate2'', String enc_cert), (''double'', Boolean True),
                        (''encPriKey'', String (b64_encode C blob)), (''sessKey'', String [])]) ident),
                     remove_files I (sign_files I n @ enc_files I n) w)))
        | _ \<Rightarrow> (Panic, w)))"

definition issue_on_disk ::
  "'w issuer \<Rightarrow> codec \<Rightarrow> nat \<Rightarrow> bytes \<Rightarrow> bool \<Rightarrow> json option \<Rightarrow> 'w \<Rightarrow> rpc_response outcome \<times> 'w" where
  "issue_on_disk I C n csr_der double ident w =
    (case issue_sign I n w of
      ((subject, Inl e), w) \<Rightarrow>
        (Ret (rpc_err (- 6) (''Failed to run OpenSSL: '' @ e) ident), remove_files I (sign_files I n) w)
    | ((subject, Inr (False, _, stderr)), w) \<Rightarrow>
        (Ret (rpc_err (- 5) (''OpenSSL sign failed: '' @ from_utf8_lossy stderr) ident), remove_files I (sign_files I n) w)
    | ((subject, Inr (True, _, _)), w) \<Rightarrow>
        (let sign_cert = (case is_read I (request_file I ''cert'' n ''.crt'') w of Some pem \<Rightarrow> pem | None \<Rightarrow> [])
         in if \<not> double then
              (Ret (rpc_ok (Object [(''certificate'', String sign_cert), (''double'', Boolean False)]) ident),
               remove_files I (sign_files I n) w)
            else
              (case sign_point (is_csr_key I csr_der) of
                None \<Rightarrow>
                  (Ret (rpc_err (- 7) ''Failed to extract sign public key from CSR'' ident),
                   remove_files I (sign_files I n) w)
              | Some sign_pub \<Rightarrow> issue_double I C n subject sign_cert sign_pub ident w)))"

definition issue_certificate ::
  "'w issuer \<Rightarrow> codec \<Rightarrow> params \<Rightarrow> 'w \<Rightarrow> rpc_response outcome \<times> 'w" where
  "issue_certificate I C p w =
    (case Option.bind (raw p 0) as_str of
      None \<Rightarrow> (Ret (rpc_err (- 2) ''Missing CSR param'' (params_id p)), w)
    | Some csr \<Rightarrow>
        (case csr_input C csr of
          Inl e \<Rightarrow> (Ret (rpc_err (- 3) (''Invalid base64: '' @ e) (params_id p)), w)
        | Inr given \<Rightarrow>
            (case is_nanos I w of
              None \<Rightarrow> (Panic, w)
            | Some n \<Rightarrow>
                (case is_write I (request_file I ''req'' n ''.csr'') given w of
                  (Some e, w) \<Rightarrow> (Ret (rpc_err (- 4) (''Failed to write CSR to disk: '' @ e) (params_id p)), w)
                | (None, w) \<Rightarrow>
                    issue_on_disk I C n (csr_der_input C csr given)
                      (Option.bind (raw p 1) as_bool = Some True) (params_id p) w))))"

definition IssueCertificate_branch ::
  "'w issuer \<Rightarrow> codec \<Rightarrow> params \<Rightarrow> ('w, 'd, 'a, 'c, 'h) handler" where
  "IssueCertificate_branch I C p =
    (\<lambda>(s, w). case issue_certificate I C p w of (r, w') \<Rightarrow> (r, s, w'))"

section \<open>What a request may change\<close>

definition issuer_respects :: "(string set \<Rightarrow> 'w \<Rightarrow> 'w \<Rightarrow> bool) \<Rightarrow> 'w issuer \<Rightarrow> bool" where
  "issuer_respects R I \<longleftrightarrow>
    (\<forall>w p b. R {p} w (snd (is_write I p b w))) \<and> (\<forall>w p. R {p} w (is_remove I p w))
    \<and> (\<forall>w c. R (writes c) w (snd (is_openssl I (argv c) w))) \<and> (\<forall>w. R {} w (snd (is_keypair I w)))
    \<and> (\<forall>w. R {} w (snd (is_random I w))) \<and> (\<forall>w k m. R {} w (snd (is_sm2_encrypt I k m w)))"

definition ca_files :: "'w issuer \<Rightarrow> string list" where
  "ca_files I = [ca_key_path I, ca_crt_path I, serial_file (ca_crt_path I)]"

definition scratch_files :: "'w issuer \<Rightarrow> nat \<Rightarrow> string list" where
  "scratch_files I n = [request_file I ''enc_raw'' n ''.bin'', request_file I ''tmpkey'' n ''.pem'']"

definition request_files :: "'w issuer \<Rightarrow> nat \<Rightarrow> string list" where
  "request_files I n = sign_files I n @ enc_files I n @ scratch_files I n"

locale issuer_contract =
  fixes I :: "'w issuer" and R :: "string set \<Rightarrow> 'w \<Rightarrow> 'w \<Rightarrow> bool"
  assumes change_refl: "R X w w"
    and change_trans: "R X w w' \<Longrightarrow> R Y w' w'' \<Longrightarrow> R (X \<union> Y) w w''"
    and respects: "issuer_respects R I"
begin

lemma change_mono: "R X w w' \<Longrightarrow> X \<subseteq> Y \<Longrightarrow> R Y w w'"
  using change_trans [OF _ change_refl [of Y w'], of X w] by (simp add: sup.absorb2)

lemma change_step: "R Z w w' \<Longrightarrow> R Y w' w'' \<Longrightarrow> Y \<subseteq> Z \<Longrightarrow> R Z w w''"
  using change_trans [of Z w w' Y w''] by (simp add: sup.absorb1)

lemma calls:
  "R {p} w (snd (is_write I p b w))" "R {p} w (is_remove I p w)" "R (writes c) w (snd (run_openssl I c w))"
  "R {} w (snd (is_keypair I w))" "R {} w (snd (is_random I w))" "R {} w (snd (is_sm2_encrypt I k m w))"
  using respects by (simp_all add: issuer_respects_def run_openssl_def)

lemmas change_calls = calls [THEN change_step [rotated]]

lemma change_remove_files: "R Z w w' \<Longrightarrow> set paths \<subseteq> Z \<Longrightarrow> R Z w (remove_files I paths w')"
  unfolding remove_files_def by (induction paths arbitrary: w') (simp_all add: change_calls(2))

lemma issue_sign_changes: "R (set (sign_files I n @ ca_files I)) w (snd (issue_sign I n w))"
  unfolding issue_sign_def Let_def split_beta
  by (simp add: split_beta) (intro conjI impI change_calls change_refl; simp add: sign_files_def ca_files_def)

lemma issue_enc_changes:
  "R (set (enc_files I n @ scratch_files I n @ ca_files I)) w (snd (issue_enc I n subject pub w))"
  unfolding issue_enc_def Let_def
  by simp (intro change_calls change_refl; simp add: enc_files_def scratch_files_def ca_files_def)

lemma issue_envelope_changes: "R {} w (snd (issue_envelope I sk pub sign_pub w))"
proof -
  have "R {} w (snd (is_random I w))" by (intro change_calls change_refl) simp
  moreover have "R {} w (snd (is_sm2_encrypt I k (fst (is_random I w)) (snd (is_random I w))))" for k
    by (intro change_calls change_refl; simp)
  ultimately show ?thesis
    by (auto simp: issue_envelope_def split: prod.split outcome.split) (metis fst_conv snd_conv)+
qed

text \<open>A double certificate, up to the removal of its files.\<close>

lemma issue_double_cases:
  assumes "issue_double I C n subject cert sign_pub ident w = (r, w')"
  obtains "r = Panic" "R (set (enc_files I n @ scratch_files I n @ ca_files I)) w w'"
  | answer v u pub w3 where "r = Ret answer" "w' = remove_files I (sign_files I n @ enc_files I n) v"
      "R {} w w3" "snd (issue_enc I n subject pub w3) = u" "R {} u v"
proof -
  obtain k w3 where k: "is_keypair I w = (k, w3)" by (cases "is_keypair I w")
  obtain sk_hex pk_hex where hex: "k = (sk_hex, pk_hex)" by (cases k)
  have R3: "R {} w w3" using calls(4) [of w] k by simp
  show ?thesis
  proof (cases "\<exists>pk sk. hex_to_bytes pk_hex = Ret pk \<and> hex_to_bytes sk_hex = Ret sk")
    case False
    then have "r = Panic" "w' = w3"
      using assms k hex by (auto simp: issue_double_def split: outcome.splits)
    then show ?thesis using that(1) change_mono [OF R3] by simp
  next
    case True
    then obtain pk sk where keys: "hex_to_bytes pk_hex = Ret pk" "hex_to_bytes sk_hex = Ret sk" by blast
    obtain enc u where u: "issue_enc I n subject (key_halves pk) w3 = (enc, u)"
      by (cases "issue_enc I n subject (key_halves pk) w3")
    obtain blob v where v: "issue_envelope I sk (key_halves pk) sign_pub u = (blob, v)"
      by (cases "issue_envelope I sk (key_halves pk) sign_pub u")
    have Ru: "R (set (enc_files I n @ scratch_files I n @ ca_files I)) w3 u"
      using issue_enc_changes [of n w3 subject "key_halves pk"] u by simp
    have Rv: "R {} u v" using issue_envelope_changes [of u sk "key_halves pk" sign_pub] v by simp
    show ?thesis
    proof (cases blob)
      case Panic
      then have "r = Panic" "w' = v" using assms k hex keys u v by (auto simp: issue_double_def)
      then show ?thesis
        using that(1) change_trans [OF R3 change_trans [OF Ru Rv]] by simp
    next
      case (Ret b)
      obtain answer where "r = Ret answer" "w' = remove_files I (sign_files I n @ enc_files I n) v"
        using assms k hex keys u v Ret by (auto simp: issue_double_def)
      then show ?thesis by (rule that(2) [OF _ _ R3 _ Rv, where pub = "key_halves pk"]) (simp add: u)
    qed
  qed
qed

lemma issue_double_changes:
  assumes "issue_double I C n subject cert sign_pub ident w = (r, w')"
  shows "R (set (request_files I n @ ca_files I)) w w'"
  using assms
proof (cases rule: issue_double_cases)
  case 1
  then show ?thesis by (auto simp: request_files_def intro: change_mono)
next
  case (2 answer v u pub w3)
  have "R (set (enc_files I n @ scratch_files I n @ ca_files I)) w3 u"
    using issue_enc_changes [of n w3 subject pub] 2(4) by simp
  from change_trans [OF 2(3) change_trans [OF this 2(5)]]
  have "R (set (request_files I n @ ca_files I)) w v" by (rule change_mono) (auto simp: request_files_def)
  then show ?thesis unfolding 2(2) by (rule change_remove_files) (auto simp: request_files_def)
qed

lemma issue_on_disk_cases:
  assumes "issue_on_disk I C n der double ident w = (r, w')"
  obtains answer u where "r = Ret answer" "w' = remove_files I (sign_files I n) u"
      "R (set (sign_files I n @ ca_files I)) w u"
  | subject cert sign_pub u where "issue_double I C n subject cert sign_pub ident u = (r, w')"
      "R (set (sign_files I n @ ca_files I)) w u"
proof -
  obtain subject out u where u: "issue_sign I n w = ((subject, out), u)" by (metis prod.collapse)
  have "R (set (sign_files I n @ ca_files I)) w u" using issue_sign_changes [of n w] u by simp
  then show ?thesis
    using assms u that unfolding issue_on_disk_def
    by (auto simp: Let_def split: sum.splits bool.splits option.splits if_splits)
qed

lemma issue_on_disk_changes:
  assumes "issue_on_disk I C n der double ident w = (r, w')"
  shows "R (set (request_files I n @ ca_files I)) w w'"
  using assms
proof (cases rule: issue_on_disk_cases)
  case (1 answer u)
  have "R (set (request_files I n @ ca_files I)) w u"
    using 1(3) by (rule change_mono) (auto simp: request_files_def)
  then show ?thesis unfolding 1(2) by (rule change_remove_files) (auto simp: request_files_def)
next
  case (2 subject cert sign_pub u)
  from change_trans [OF 2(2) issue_double_changes [OF 2(1)]] show ?thesis
    by (rule change_mono) (auto simp: request_files_def)
qed

lemma issue_certificate_changes: "\<exists>X. R X w (snd (issue_certificate I C p w))"
proof -
  have "R {f} w u" if "is_write I f b w = (x, u)" for f b x u using calls(1) [where p = f and b = b and w = w] that by simp
  moreover have "\<exists>X. R X u (snd (issue_on_disk I C n der double ident u))" for u n der double ident
    using issue_on_disk_changes [OF prod.collapse [symmetric]] by blast
  ultimately show ?thesis
    unfolding issue_certificate_def
    by (auto split: option.split sum.split prod.split intro: change_refl) (blast | metis change_trans)+
qed

end

section \<open>Files\<close>

definition file_change :: "('w \<Rightarrow> string \<Rightarrow> 'b option) \<Rightarrow> string set \<Rightarrow> 'w \<Rightarrow> 'w \<Rightarrow> bool" where
  "file_change disk X w w' \<longleftrightarrow> (\<forall>p. p \<notin> X \<longrightarrow> disk w' p = disk w p)"

lemma file_changeD: "file_change disk X w w' \<Longrightarrow> p \<notin> X \<Longrightarrow> disk w' p = disk w p"
  unfolding file_change_def by blast

text \<open>A disk on which every call changes at most the files it is about, and removing works.\<close>

locale issuer_files =
  fixes I :: "'w issuer" and disk :: "'w \<Rightarrow> string \<Rightarrow> 'b option"
  assumes touches: "issuer_respects (file_change disk) I"
    and removed: "disk (is_remove I p w) p = None"

sublocale issuer_files \<subseteq> issuer_contract I "file_change disk"
  by unfold_locales (auto simp: file_change_def touches)

context issuer_files
begin

lemma disk_remove: "disk (is_remove I p w) q = (if q = p then None else disk w q)"
  using calls(2) [of p w] removed by (auto dest: file_changeD)

lemma disk_remove_files: "disk (remove_files I paths w) p = (if p \<in> set paths then None else disk w p)"
  unfolding remove_files_def by (induction paths arbitrary: w) (simp_all add: disk_remove)

text \<open>The two files of the encryption key are removed before the certificate is made.\<close>

lemma scratch_removed:
  assumes "p \<in> set (scratch_files I n)" "p \<notin> set (enc_files I n @ ca_files I)"
  shows "disk (snd (issue_enc I n subject pub w)) p = None"
proof -
  define u where "u = snd (run_openssl I
      (PublicPart (request_file I ''tmpkey'' n ''.pem'') (request_file I ''enc_pub'' n ''.pem''))
      (snd (run_openssl I (GenerateSM2 (request_file I ''tmpkey'' n ''.pem''))
        (snd (is_write I (request_file I ''enc_raw'' n ''.bin'') (0x04 # fst pub @ snd pub) w)))))"
  define v where "v = is_remove I (request_file I ''tmpkey'' n ''.pem'') (is_remove I (request_file I ''enc_raw'' n ''.bin'') u)"
  have "file_change disk (set (enc_files I n @ ca_files I)) v (snd (issue_enc I n subject pub w))"
    unfolding issue_enc_def Let_def snd_conv u_def [symmetric] v_def [symmetric]
    by (intro change_calls change_refl; simp add: enc_files_def ca_files_def)
  moreover have "disk v p = None" using assms(1) by (auto simp: v_def disk_remove scratch_files_def)
  ultimately show ?thesis using assms(2) by (simp add: file_changeD)
qed

lemma double_cleans:
  assumes run: "issue_double I C n subject cert sign_pub ident w = (Ret r, w')"
    and fresh: "p \<in> set (enc_files I n @ scratch_files I n) \<Longrightarrow> p \<notin> set (sign_files I n) \<Longrightarrow> disk w p = None"
    and p: "p \<notin> set (ca_files I)"
  shows "disk w' p = (if p \<in> set (sign_files I n) then None else disk w p)"
  using run
proof (cases rule: issue_double_cases)
  case 1
  then show ?thesis by simp
next
  case (2 answer v u pub w3)
  have v: "disk v = disk u" "disk w3 = disk w" using 2(3,5) by (auto simp: file_change_def)
  have other: "disk u p = disk w p" if "p \<notin> set (enc_files I n @ scratch_files I n)"
    using issue_enc_changes [of n w3 subject pub] 2(4) that p v(2) by (auto dest: file_changeD)
  have gone: "disk u p = None" if "p \<in> set (scratch_files I n)" "p \<notin> set (enc_files I n)"
    using scratch_removed [of p n subject pub w3] 2(4) that p by simp
  show ?thesis
    using other gone fresh
    by (cases "p \<in> set (scratch_files I n)") (auto simp: 2(2) disk_remove_files v(1))
qed

lemma on_disk_cleans:
  assumes run: "issue_on_disk I C n der double ident w = (Ret r, w')"
    and fresh: "p \<in> set (enc_files I n @ scratch_files I n) \<Longrightarrow> p \<notin> set (sign_files I n) \<Longrightarrow> disk w p = None"
    and p: "p \<notin> set (ca_files I)"
  shows "disk w' p = (if p \<in> set (sign_files I n) then None else disk w p)"
  using run
proof (cases rule: issue_on_disk_cases)
  case (1 answer u)
  then show ?thesis using p by (auto simp: disk_remove_files dest: file_changeD)
next
  case (2 subject cert sign_pub u)
  have same: "disk u p = disk w p" if "p \<notin> set (sign_files I n)"
    using file_changeD [OF 2(2)] that p by simp
  show ?thesis using double_cleans [OF 2(1) _ p] same fresh by auto
qed

text \<open>A request that got as far as its files leaves none.\<close>

lemma certificate_cleans:
  assumes "is_nanos I w = Some n" and "\<And>q. q \<in> set (request_files I n) \<Longrightarrow> disk w q = None"
    and "issue_certificate I C p w = (Ret r, w')" and "resp_error r \<noteq> - 4" and p: "q \<notin> set (ca_files I)"
  shows "disk w' q = disk w q"
proof -
  have "w' = w \<or> (\<exists>csr given u. is_write I (request_file I ''req'' n ''.csr'') given w = (None, u)
      \<and> issue_on_disk I C n (csr_der_input C csr given) (Option.bind (raw p 1) as_bool = Some True) (params_id p) u
        = (Ret r, w'))"
    using assms(1,3,4)
    by (auto simp: issue_certificate_def rpc_err_def split: option.splits sum.splits prod.splits)
  then show ?thesis
  proof (elim disjE exE conjE)
    fix csr given u
    assume u: "is_write I (request_file I ''req'' n ''.csr'') given w = (None, u)"
      and run: "issue_on_disk I C n (csr_der_input C csr given) (Option.bind (raw p 1) as_bool = Some True) (params_id p) u
        = (Ret r, w')"
    have same: "disk u q = disk w q" if "q \<notin> set (sign_files I n)"
      using calls(1) [of "request_file I ''req'' n ''.csr''" w given] u that by (auto simp: sign_files_def dest: file_changeD)
    have "disk w' q = (if q \<in> set (sign_files I n) then None else disk u q)"
      using on_disk_cleans [OF run _ p] same assms(2) by (auto simp: request_files_def)
    then show ?thesis using same assms(2) [of q] by (simp add: request_files_def split: if_splits)
  qed simp
qed

end

section \<open>A disk and a program\<close>

text \<open>The files of a map, and a program that reads its options as \<open>openssl\<close> does and writes a file for each
  output option. The clock stands still and the key material is constant.\<close>

fun outputs :: "string list \<Rightarrow> string list" where
  "outputs (opt # arg # rest) =
    (if opt \<in> {''-out'', ''-keyout''} then arg # outputs rest
     else if opt \<in> {''-in'', ''-newkey'', ''-days'', ''-subj'', ''-vfyopt'', ''-CA'', ''-CAkey'', ''-force_pubkey'', ''-name''}
       then outputs rest
     else outputs (arg # rest))"
| "outputs _ = []"

definition disk_issuer :: "(string \<Rightarrow> string option) issuer" where
  "disk_issuer =
    \<lparr>is_nanos = \<lambda>_. Some 7, is_temp_dir = ''/tmp'', is_write = \<lambda>p b w. (None, w(p \<mapsto> map (\<lambda>x. char_of (unat x)) b)),
     is_read = \<lambda>p w. w p, is_remove = \<lambda>p w. w(p := None), is_exists = \<lambda>p w. w p \<noteq> None,
     is_openssl = \<lambda>args w. (Inr (True, as_bytes ''subject=C=CN, CN=key'', []),
       foldl (\<lambda>w p. w(p \<mapsto> ''PEM'')) w (outputs args)),
     is_csr_key = \<lambda>_. Some (4 # replicate 64 9), is_keypair = \<lambda>w. ((concat (map fmt_02x (replicate 32 1)), concat (map fmt_02x (replicate 64 2))), w),
     is_random = \<lambda>w. (replicate 16 3, w), is_sm4_ecb = \<lambda>k m. m @ replicate 16 16,
     is_sm2_encrypt = \<lambda>pk m w. (Ret (replicate 96 5 @ m), w)\<rparr>"

lemma outputs_written: "set (outputs (argv c)) \<subseteq> writes c"
  by (cases c) (auto split: option.splits)

interpretation disk: issuer_files disk_issuer "\<lambda>w. w"
proof
  have "foldl (\<lambda>w p. w(p \<mapsto> ''PEM'')) w ps q = w q" if "q \<notin> set ps" for w :: "string \<Rightarrow> string option" and ps q
    using that by (induction ps arbitrary: w) auto
  then show "issuer_respects (file_change (\<lambda>w. w)) disk_issuer"
    using outputs_written subsetD by (simp add: issuer_respects_def file_change_def disk_issuer_def) blast
qed (simp add: disk_issuer_def)

text \<open>A machine without a writable temporary directory and without the program.\<close>

definition readonly_issuer :: "'w issuer" where
  "readonly_issuer =
    \<lparr>is_nanos = \<lambda>_. Some 0, is_temp_dir = ''/tmp'', is_write = \<lambda>_ _ w. (Some ''Read-only file system (os error 30)'', w),
     is_read = \<lambda>_ _. None, is_remove = \<lambda>_ w. w, is_exists = \<lambda>_ _. False,
     is_openssl = \<lambda>_ w. (Inl ''No such file or directory (os error 2)'', w), is_csr_key = \<lambda>_. None,
     is_keypair = \<lambda>w. (([], []), w), is_random = \<lambda>w. (replicate 16 0, w), is_sm4_ecb = \<lambda>_ m. m,
     is_sm2_encrypt = \<lambda>_ m w. (Ret m, w)\<rparr>"

lemma readonly_respects: "(\<And>X w. R X w w) \<Longrightarrow> issuer_respects R readonly_issuer"
  by (simp add: issuer_respects_def readonly_issuer_def)

section \<open>Properties\<close>

text \<open>C20: A certificate request leaves nothing behind: whatever it answers, as soon as its file could be
  written, every file it made is gone again - the keys that were generated on the way among them -
  and no other file but those of the demonstration authority has changed.\<close>

theorem issue_leaves_no_files:
  assumes "issuer_files I disk" and "is_nanos I w = Some n"
    and "\<And>q. q \<in> set (request_files I n) \<Longrightarrow> disk w q = None"
    and "issue_certificate I C p w = (Ret r, w')" and "resp_error r \<noteq> - 4"
  shows "\<forall>q. q \<notin> set (ca_files I) \<longrightarrow> disk w' q = disk w q"
  using issuer_files.certificate_cleans [OF assms(1,2) _ assms(4,5)] assms(3) by blast

theorem issue_leaves_no_files_witness:
  "\<exists>r w'. issue_certificate disk_issuer std_codec (new_params [String ''-----BEGIN''] None)
      [''/tmp/note'' \<mapsto> ''mine''] = (Ret r, w')
    \<and> w' ''/tmp/dummy_7.key'' = None \<and> w' ''/tmp/note'' = Some ''mine''"
proof -
  let ?w = "[''/tmp/note'' \<mapsto> ''mine''] :: string \<Rightarrow> string option"
  let ?run = "issue_certificate disk_issuer std_codec (new_params [String ''-----BEGIN''] None) ?w"
  have files: "request_file disk_issuer what 7 ext = ''/tmp/'' @ what @ ''_7'' @ ext" for what ext
    by (simp add: request_file_def temp_file_path_def disk_issuer_def show_nat.simps digit_char_def)
  obtain r w' where run: "?run = (Ret r, w')" "resp_error r = 0"
    by (simp add: issue_certificate_def new_params_def raw_def csr_input_def is_pem_def disk_issuer_def
        issue_on_disk_def issue_sign_def run_openssl_def Let_def rpc_ok_def split_beta)
  have nanos: "is_nanos disk_issuer ?w = Some 7" by (simp add: disk_issuer_def)
  have fresh: "q \<in> set (request_files disk_issuer 7) \<Longrightarrow> ?w q = None" for q
    by (auto simp: request_files_def sign_files_def enc_files_def scratch_files_def files)
  have "''/tmp/dummy_7.key'' \<notin> set (ca_files disk_issuer)" "''/tmp/note'' \<notin> set (ca_files disk_issuer)"
    by (simp_all add: ca_files_def ca_key_path_def ca_crt_path_def serial_file_def temp_file_path_def disk_issuer_def)
  then show ?thesis
    using issue_leaves_no_files [OF disk.issuer_files_axioms nanos fresh run(1)] run by auto
qed

lemma blob_parts [simp]:
  "length (padded_coordinate bs) = 32 + length bs" "drop 32 (padded_coordinate bs) = bs"
  by (simp_all add: padded_coordinate_def le_bytes_def)

text \<open>The envelope is 388 bytes, and every field of the structure reads back.\<close>

lemma envelope_reads_back:
  assumes "length e = 64" "length x = 32" "length y = 32" "length c = 112"
  shows "length (enveloped_blob e (x, y) (cipher_parts c)) = 388"
    and "read_envelope (enveloped_blob e (x, y) (cipher_parts c)) =
      \<lparr>EV_Version = 1, EV_SymmAlgID = 0x401, EV_Bits = 256, EV_EncryptedPriKey = e,
       EV_PubKey = \<lparr>BitLen = 256, XCoordinate = padded_coordinate x, YCoordinate = padded_coordinate y\<rparr>,
       EV_CipherBlob = \<lparr>EC_XCoordinate = padded_coordinate (take 32 c), EC_YCoordinate = padded_coordinate (take 32 (drop 32 c)),
         EC_Hash = take 32 (drop 64 c), EC_CipherLen = 16, EC_Cipher = drop 96 c\<rparr>\<rparr>"
  using assms
  by (simp_all add: enveloped_blob_def cipher_parts_def read_envelope_def read_ecc_blob_def read_cipher_blob_def
      le_value_bytes)

lemma cipher_joined: "take 32 c @ take 32 (drop 32 c) @ take 32 (drop 64 c) @ drop 96 c = c"
proof -
  have "drop 64 c = take 32 (drop 64 c) @ drop 96 c" using append_take_drop_id [of 32 "drop 64 c"] by simp
  moreover have "drop 32 c = take 32 (drop 32 c) @ drop 64 c" using append_take_drop_id [of 32 "drop 32 c"] by simp
  ultimately show ?thesis using append_take_drop_id [of 32 c] by simp
qed

text \<open>C21: A double certificate delivers its key: when the cipher libraries do what they document, the branch
  answers, and a token that opens the envelope in the answer gets the new private key, aligned to the
  end of 64 bytes, together with the new public key.\<close>

theorem double_delivers_key:
  assumes "codec_contract C"
    and "is_keypair I w = ((sk_hex, pk_hex), w1)"
    and "hex_to_bytes sk_hex = Ret sk" "length sk \<le> 64" "hex_to_bytes pk_hex = Ret pk" "length pk = 64"
    and "\<And>w. length (fst (is_random I w)) = 16"
    and "\<And>k m. length m = 64 \<Longrightarrow> 64 \<le> length (is_sm4_ecb I k m) \<and> decrypt_key k (take 64 (is_sm4_ecb I k m)) = m"
    and "\<And>m w. length m = 16 \<Longrightarrow> \<exists>c. fst (is_sm2_encrypt I (concat (map fmt_02x (fst sign_pub @ snd sign_pub))) m w) = Ret c
      \<and> length c = 112 \<and> decrypt_session c = m"
  shows "\<exists>r w' kvs enc blob.
    issue_double I C n subject cert sign_pub ident w = (Ret r, w') \<and> resp_error r = 0
    \<and> resp_result r = Object kvs \<and> map_of kvs ''encPriKey'' = Some (String enc) \<and> b64_decode C enc = Inr blob
    \<and> length blob = 388
    \<and> open_envelope decrypt_key decrypt_session (read_envelope blob) = replicate (64 - length sk) 0 @ sk
    \<and> EV_PubKey (read_envelope blob) =
        \<lparr>BitLen = 256, XCoordinate = padded_coordinate (take 32 pk), YCoordinate = padded_coordinate (drop 32 pk)\<rparr>"
proof -
  define plain where "plain = replicate (64 - length sk) 0 @ sk"
  have plain: "length plain = 64" "right_aligned sk = Ret plain" using assms(4) by (simp_all add: plain_def right_aligned_def)
  have halves: "key_halves pk = (take 32 pk, drop 32 pk)" using assms(6) by (simp add: key_halves_def)
  obtain enc_cert u where u: "issue_enc I n subject (key_halves pk) w1 = (enc_cert, u)"
    by (cases "issue_enc I n subject (key_halves pk) w1")
  obtain k v where k: "is_random I u = (k, v)" by (cases "is_random I u")
  have "length k = 16" using assms(7) [of u] k by simp
  then obtain c v' where c: "is_sm2_encrypt I (concat (map fmt_02x (fst sign_pub @ snd sign_pub))) k v = (Ret c, v')"
    "length c = 112" "decrypt_session c = k"
    using assms(9) [of k v] by (metis prod.collapse)
  define e where "e = take 64 (is_sm4_ecb I k plain)"
  have e: "slice 0 64 (is_sm4_ecb I k plain) = Ret e" "length e = 64" "decrypt_key k e = plain"
    using assms(8) [OF plain(1), of k] by (simp_all add: slice_def e_def)
  define blob where "blob = enveloped_blob e (key_halves pk) (cipher_parts c)"
  have env: "issue_envelope I sk (key_halves pk) sign_pub u = (Ret blob, v')"
    using k plain(2) e(1) c(1) by (simp add: issue_envelope_def blob_def)
  have len: "length (take 32 pk) = 32" "length (drop 32 pk) = 32" using assms(6) by simp_all
  note blob_back = envelope_reads_back [OF e(2) len c(2)]
  have "open_envelope decrypt_key decrypt_session (read_envelope blob) = plain"
    using cipher_joined [of c] c(2,3) e(3)
    by (simp add: blob_def halves blob_back(2) open_envelope_def Let_def)
  then show ?thesis
    using assms(2,3,5) u env codec_contract.decode_encode [OF assms(1)]
    by (simp add: issue_double_def rpc_ok_def plain_def [symmetric])
      (simp add: blob_def halves blob_back)
qed

theorem double_delivers_key_witness:
  "\<exists>r w' kvs enc blob. issue_double disk_issuer std_codec 7 ''/CN=key'' ''PEM'' (replicate 32 8, replicate 32 9) None Map.empty = (Ret r, w')
    \<and> resp_result r = Object kvs \<and> map_of kvs ''encPriKey'' = Some (String enc) \<and> b64_decode std_codec enc = Inr blob
    \<and> open_envelope (\<lambda>_ c. c) (drop 96) (read_envelope blob) = replicate 32 0 @ replicate 32 1"
proof -
  have keys: "is_keypair disk_issuer Map.empty =
      ((concat (map fmt_02x (replicate 32 1)), concat (map fmt_02x (replicate 64 2))), Map.empty)"
    by (simp only: disk_issuer_def issuer.simps)
  show ?thesis
    using double_delivers_key [where I = disk_issuer and w = Map.empty and decrypt_key = "\<lambda>_ c. c" and decrypt_session = "drop 96"
        and C = std_codec and sign_pub = "(replicate 32 8, replicate 32 9)" and n = 7 and subject = "''/CN=key''"
        and cert = "''PEM''" and ident = None, OF std_engine.codec_contract_axioms keys hex_to_bytes_roundtrip _ hex_to_bytes_roundtrip]
    by (fastforce simp: disk_issuer_def)
qed

end
