(* ===== verification/Direct.thy ===== *)
theory Direct
  imports Signing Fake Issue
begin

text \<open>
  The branches of the dispatcher that call the vendor's C interface themselves instead of going
  through the provider (\<open>handle_request\<close> in \<open>src/main.rs\<close>), and the part of the context they use:
  the cache of loaded libraries and the two ways a branch gets at one.

  These branches close what they opened by explicit calls on every path. A ledger of open native
  handles, an argument with the documented effect of the opening and closing functions on it, says
  which branches give everything back.
\<close>

section \<open>Context\<close>

text \<open>Outside the model: the dynamic loader (\<open>sk_dlopen\<close> answers with the loader's error text,
  \<open>sk_dlclose\<close> runs when the last owner of a library goes away), the functions of the library at a path,
  the table behind the lock that remembers which library an alias has loaded, the guards a native
  provider hands out (\<open>sk_from_api\<close>), the certificate parser (serial number and subject), and what
  issuing demonstration certificates needs (\<open>sk_issuer\<close>).\<close>

record ('w, 'd, 'a, 'c, 'h) skf_context =
  sk_runtime :: runtime
  sk_config :: skf_config
  sk_provider :: "('w, 'd, 'a, 'c, 'h) provider"
  sk_os :: string
  sk_arch :: string
  sk_cached :: "string \<Rightarrow> 'w \<Rightarrow> string option"
  sk_cache_insert :: "string \<Rightarrow> string \<Rightarrow> 'w \<Rightarrow> 'w"
  sk_dlopen :: "string \<Rightarrow> 'w \<Rightarrow> string option \<times> 'w"
  sk_dlclose :: "string \<Rightarrow> 'w \<Rightarrow> 'w"
  sk_library :: "string \<Rightarrow> 'w skf_lib"
  sk_from_api :: "string \<Rightarrow> 'w skf_lib \<Rightarrow> ('w, 'd, 'a, 'c, 'h) provider"
  sk_clock :: "'w \<Rightarrow> instant"
  sk_micros :: "'w \<Rightarrow> nat option"
  sk_write_csr :: "string \<Rightarrow> 'w \<Rightarrow> 'w"
  sk_x509 :: "bytes \<Rightarrow> (string \<times> string) option"
  sk_issuer :: "'w issuer"

abbreviation sk_codec :: "('w, 'd, 'a, 'c, 'h) skf_context \<Rightarrow> codec" where
  "sk_codec K \<equiv> rt_codec (sk_runtime K)"

abbreviation sk_default :: "('w, 'd, 'a, 'c, 'h) skf_context \<Rightarrow> string" where
  "sk_default K \<equiv> cfg_default (sk_config K)"

definition get_lib_path :: "('w, 'd, 'a, 'c, 'h) skf_context \<Rightarrow> string \<Rightarrow> string + string" where
  "get_lib_path K prov = resolve_lib_path (sk_runtime K) (libs (sk_config K)) prov (sk_os K)"

definition get_api ::
  "('w, 'd, 'a, 'c, 'h) skf_context \<Rightarrow> string \<Rightarrow> 'w \<Rightarrow> (string + 'w skf_lib) \<times> 'w" where
  "get_api K prov w =
    (case sk_cached K prov w of
      Some path \<Rightarrow> (Inr (sk_library K path), w)
    | None \<Rightarrow>
        (let ls = libs (sk_config K); os = sk_os K
         in case Option.bind (map_of ls prov) (\<lambda>m. os_lookup m os) of
           None \<Rightarrow>
             (Inl (''Provider '' @ quoted prov @ '' not configured for OS '' @ quoted os
                @ ''. Avail Provs: '' @ debug_list (sk_runtime K) (map fst ls)
                @ ''. Avail OS for '' @ prov @ '': ''
                @ (case map_of ls prov of
                    Some m \<Rightarrow> debug_list (sk_runtime K) (map fst m)
                  | None \<Rightarrow> ''None'')), w)
         | Some raw_path \<Rightarrow>
             (let path = expand_env_vars (sk_runtime K) raw_path
              in case sk_dlopen K path w of
                (Some e, w') \<Rightarrow>
                  (Inl (''Failed to load library '' @ quoted path @ '' (process architecture: ''
                     @ sk_arch K @ ''): '' @ e), w')
              | (None, w') \<Rightarrow> (Inr (sk_library K path), sk_cache_insert K prov path w'))))"

section \<open>Shared steps\<close>

definition str_param :: "params \<Rightarrow> nat \<Rightarrow> string option" where
  "str_param p i = Option.bind (raw p i) as_str"

definition missing :: "string \<Rightarrow> params \<Rightarrow> rpc_response" where
  "missing text p = rpc_err (- 2) text (params_id p)"

definition default_or :: "('w, 'd, 'a, 'c, 'h) skf_context \<Rightarrow> params \<Rightarrow> string" where
  "default_or K p = (case str_param p 0 of Some v \<Rightarrow> v | None \<Rightarrow> sk_default K)"

definition named_alias :: "('w, 'd, 'a, 'c, 'h) skf_context \<Rightarrow> params \<Rightarrow> string" where
  "named_alias K p =
    (let v = (case str_param p 0 of Some v \<Rightarrow> v | None \<Rightarrow> [])
     in if v = [] \<or> v = ''default'' then sk_default K else v)"

definition with_api ::
  "('w, 'd, 'a, 'c, 'h) skf_context \<Rightarrow> string \<Rightarrow> (string \<Rightarrow> rpc_response)
    \<Rightarrow> ('w skf_lib \<Rightarrow> ('w, 'd, 'a, 'c, 'h) handler) \<Rightarrow> ('w, 'd, 'a, 'c, 'h) handler" where
  "with_api K prov on_err body =
    call (get_api K prov) (\<lambda>r. case r of Inl m \<Rightarrow> reply (on_err m) | Inr L \<Rightarrow> body L)"

text \<open>Four branches load the library for themselves and unload it when they end; a library that cannot
  be loaded is a panic here.\<close>

definition with_fresh_library ::
  "('w, 'd, 'a, 'c, 'h) skf_context \<Rightarrow> string \<Rightarrow> language \<Rightarrow> json option
    \<Rightarrow> ('w skf_lib \<Rightarrow> ('w, 'd, 'a, 'c, 'h) handler) \<Rightarrow> ('w, 'd, 'a, 'c, 'h) handler" where
  "with_fresh_library K prov lang ident body =
    (case get_lib_path K prov of
      Inl e \<Rightarrow> reply (load_failed_localized e lang ident)
    | Inr path \<Rightarrow>
        (\<lambda>(s, w). case sk_dlopen K path w of
          (Some _, w') \<Rightarrow> (Panic, s, w')
        | (None, w') \<Rightarrow>
            (case body (sk_library K path) (s, w') of
              (r, s', w'') \<Rightarrow> (r, s', sk_dlclose K path w''))))"

text \<open>\<open>CString::new(s).unwrap()\<close>.\<close>

definition unwrap_cstring :: "string \<Rightarrow> string outcome" where
  "unwrap_cstring s = (case cstring s of None \<Rightarrow> Panic | Some c \<Rightarrow> Ret c)"

definition device_unavailable ::
  "string \<Rightarrow> string \<Rightarrow> rpc_response \<Rightarrow> ('w, 'd, 'a, 'c, 'h) handler" where
  "device_unavailable prov dev r st = (Ret r, snd (sess_invalidate_device prov dev (fst st)), snd st)"

text \<open>Connecting a device; a failure costs the session its grants on it.\<close>

definition connect_or_lose ::
  "'w skf_lib \<Rightarrow> string \<Rightarrow> string \<Rightarrow> json option \<Rightarrow> (u64 \<Rightarrow> ('w, 'd, 'a, 'c, 'h) handler)
    \<Rightarrow> ('w, 'd, 'a, 'c, 'h) handler" where
  "connect_or_lose L prov dev ident body =
    let_ret (unwrap_cstring dev) (\<lambda>c_dev.
    call (api_connect_dev L c_dev 0) (\<lambda>(ret, h_dev).
      if ret \<noteq> SAR_OK then device_unavailable prov dev (rpc_err ret (failed_text ''ConnectDev'' ret) ident)
      else body h_dev))"

definition open_app_or_lose ::
  "'w skf_lib \<Rightarrow> u64 \<Rightarrow> string \<Rightarrow> string \<Rightarrow> string \<Rightarrow> json option
    \<Rightarrow> (u64 \<Rightarrow> ('w, 'd, 'a, 'c, 'h) handler) \<Rightarrow> ('w, 'd, 'a, 'c, 'h) handler" where
  "open_app_or_lose L h_dev prov dev app ident body =
    let_ret (unwrap_cstring app) (\<lambda>c_app.
    call (api_open_application L h_dev c_app 0) (\<lambda>(ret, h_app).
      if ret \<noteq> SAR_OK then
        call (api_dis_connect_dev L h_dev) (\<lambda>_.
        device_unavailable prov dev (rpc_err ret (failed_text ''OpenApplication'' ret) ident))
      else body h_app))"

text \<open>The names in a buffer. The slice is taken with the length the library reports; a report beyond the
  buffer would make the read undefined, and the model stops at the buffer's end.\<close>

definition names_of :: "bytes option \<Rightarrow> u32 \<Rightarrow> string list" where
  "names_of buf sz =
    split_names (take (unat sz) (case buf of Some b \<Rightarrow> b | None \<Rightarrow> []))"

definition zero_buf :: "u32 \<Rightarrow> bytes" where
  "zero_buf sz = replicate (unat sz) 0"

text \<open>The result of a call: success or the code with its text.\<close>

definition done_or ::
  "u32 \<Rightarrow> (u32 \<Rightarrow> string) \<Rightarrow> rpc_response \<Rightarrow> json option \<Rightarrow> ('w, 'd, 'a, 'c, 'h) handler" where
  "done_or ret text ok ident =
    reply (if ret = SAR_OK then ok else rpc_err ret (text ret) ident)"

definition b64_param ::
  "codec \<Rightarrow> string \<Rightarrow> string \<Rightarrow> i32 \<Rightarrow> params \<Rightarrow> rpc_response + bytes" where
  "b64_param C encoded what code p =
    (case b64_decode C encoded of
      Inr b \<Rightarrow> Inr b
    | Inl e \<Rightarrow> Inl (rpc_err code (''Invalid '' @ what @ '': '' @ e) (params_id p)))"

section \<open>Structures read from bytes\<close>

definition read_rsa_blob :: "bytes \<Rightarrow> rsa_public_key_blob" where
  "read_rsa_blob bs =
    \<lparr>AlgID = le_value bs, RBitLen = le_value (drop 4 bs), Modulus = take 256 (drop 8 bs),
     PublicExponent = take 4 (drop 264 bs)\<rparr>"

definition read_signature :: "bytes \<Rightarrow> eccsignatureblob" where
  "read_signature bs = \<lparr>sig_r = take 64 bs, sig_s = take 64 (drop 64 bs)\<rparr>"

section \<open>Events, devices, applications, containers\<close>

definition WaitForDevEvent_direct ::
  "('w, 'd, 'a, 'c, 'h) skf_context \<Rightarrow> string \<Rightarrow> params \<Rightarrow> language \<Rightarrow> ('w, 'd, 'a, 'c, 'h) handler" where
  "WaitForDevEvent_direct K prov p lang =
    with_api K prov (\<lambda>m. load_failed_localized m lang (params_id p)) (\<lambda>L.
    call (api_wait_for_dev_event L (zero_buf 256) 256 0) (\<lambda>(ret, buf, len, ev).
      done_or ret (\<lambda>code. ''WaitForDevEvent failed: 0x'' @ hex_digits (unat code))
        (rpc_ok (Object
          [(''deviceName'',
            String (trim_end_nul (from_utf8_lossy (take (min (unat len) 256) buf)))),
           (''event'', json_u32 ev)]) (params_id p))
        (params_id p)))"

definition EnumDevice_direct ::
  "('w, 'd, 'a, 'c, 'h) skf_context \<Rightarrow> string \<Rightarrow> params \<Rightarrow> language \<Rightarrow> ('w, 'd, 'a, 'c, 'h) handler" where
  "EnumDevice_direct K prov p lang =
    with_api K prov (\<lambda>m. rpc_err (- 5) ((case lang of CN \<Rightarrow> utf8 [0xE5, 0x8A, 0xA0, 0xE8, 0xBD, 0xBD, 0xE5, 0xBA, 0x93, 0xE5, 0xA4, 0xB1, 0xE8, 0xB4, 0xA5] @ '': '' | EN \<Rightarrow> ''Load Lib Failed: '') @ m) (params_id p)) (\<lambda>L.
    call (api_enum_dev L 1 None 0) (\<lambda>(ret, _, sz).
      if ret \<noteq> SAR_OK \<or> sz = 0 then
        done_or ret (\<lambda>_. (case lang of CN \<Rightarrow> utf8 [0xE6, 0x9E, 0x9A, 0xE4, 0xB8, 0xBE, 0xE8, 0xAE, 0xBE, 0xE5, 0xA4, 0x87, 0xE8, 0x8E, 0xB7, 0xE5, 0x8F, 0x96, 0xE5, 0xA4, 0xA7, 0xE5, 0xB0, 0x8F, 0xE5, 0xA4, 0xB1, 0xE8, 0xB4, 0xA5] | EN \<Rightarrow> ''EnumDev failed size check'')) (rpc_ok (Array []) (params_id p)) (params_id p)
      else
        call (api_enum_dev L 1 (Some (zero_buf sz)) sz) (\<lambda>(ret, buf, sz).
          done_or ret (\<lambda>_. (case lang of CN \<Rightarrow> utf8 [0xE6, 0x9E, 0x9A, 0xE4, 0xB8, 0xBE, 0xE8, 0xAE, 0xBE, 0xE5, 0xA4, 0x87, 0xE5, 0xA4, 0xB1, 0xE8, 0xB4, 0xA5] | EN \<Rightarrow> ''EnumDev failed''))
            (rpc_ok (Array (map String (names_of buf sz))) (params_id p)) (params_id p))))"

definition EnumApplication_branch ::
  "('w, 'd, 'a, 'c, 'h) skf_context \<Rightarrow> params \<Rightarrow> language \<Rightarrow> ('w, 'd, 'a, 'c, 'h) handler" where
  "EnumApplication_branch K p lang =
    (let prov = default_or K p in
     let_some (str_param p 1) (missing ''Missing deviceName param'' p) (\<lambda>dev.
     with_api K prov (\<lambda>m. load_failed m (params_id p)) (\<lambda>L.
     connect_or_lose L prov dev (params_id p) (\<lambda>h_dev.
     call (api_enum_application L h_dev None 0) (\<lambda>(ret, _, sz).
       if ret \<noteq> SAR_OK \<or> sz = 0 then
         call (api_dis_connect_dev L h_dev) (\<lambda>_.
         done_or ret (\<lambda>_. (case lang of CN \<Rightarrow> utf8 [0xE6, 0x9E, 0x9A, 0xE4, 0xB8, 0xBE, 0xE5, 0xBA, 0x94, 0xE7, 0x94, 0xA8, 0xE8, 0x8E, 0xB7, 0xE5, 0x8F, 0x96, 0xE5, 0xA4, 0xA7, 0xE5, 0xB0, 0x8F, 0xE5, 0xA4, 0xB1, 0xE8, 0xB4, 0xA5] | EN \<Rightarrow> ''EnumApplication failed size check'')) (rpc_ok (Array []) (params_id p)) (params_id p))
       else
         call (api_enum_application L h_dev (Some (zero_buf sz)) sz) (\<lambda>(ret, buf, sz).
         call (api_dis_connect_dev L h_dev) (\<lambda>_.
         done_or ret (\<lambda>_. (case lang of CN \<Rightarrow> utf8 [0xE6, 0x9E, 0x9A, 0xE4, 0xB8, 0xBE, 0xE5, 0xBA, 0x94, 0xE7, 0x94, 0xA8, 0xE5, 0xA4, 0xB1, 0xE8, 0xB4, 0xA5] | EN \<Rightarrow> ''EnumApplication failed''))
           (rpc_ok (Array (map String (names_of buf sz))) (params_id p)) (params_id p))))))))"

definition close_app_dev ::
  "'w skf_lib \<Rightarrow> u64 \<Rightarrow> u64 \<Rightarrow> ('w, 'd, 'a, 'c, 'h) handler \<Rightarrow> ('w, 'd, 'a, 'c, 'h) handler" where
  "close_app_dev L h_dev h_app k =
    call (api_close_application L h_app) (\<lambda>_. call (api_dis_connect_dev L h_dev) (\<lambda>_. k))"

definition EnumContainer_branch ::
  "('w, 'd, 'a, 'c, 'h) skf_context \<Rightarrow> params \<Rightarrow> language \<Rightarrow> ('w, 'd, 'a, 'c, 'h) handler" where
  "EnumContainer_branch K p lang =
    (let prov = default_or K p in
     let_some (str_param p 1) (missing ''Missing deviceName param'' p) (\<lambda>dev.
     let_some (str_param p 2) (missing ''Missing appName param'' p) (\<lambda>app.
     with_api K prov (\<lambda>m. load_failed m (params_id p)) (\<lambda>L.
     connect_or_lose L prov dev (params_id p) (\<lambda>h_dev.
     open_app_or_lose L h_dev prov dev app (params_id p) (\<lambda>h_app.
     call (api_enum_container L h_app None 0) (\<lambda>(ret, _, sz).
       if ret \<noteq> SAR_OK \<or> sz = 0 then
         close_app_dev L h_dev h_app
           (done_or ret (\<lambda>_. (case lang of CN \<Rightarrow> utf8 [0xE6, 0x9E, 0x9A, 0xE4, 0xB8, 0xBE, 0xE5, 0xAE, 0xB9, 0xE5, 0x99, 0xA8, 0xE8, 0x8E, 0xB7, 0xE5, 0x8F, 0x96, 0xE5, 0xA4, 0xA7, 0xE5, 0xB0, 0x8F, 0xE5, 0xA4, 0xB1, 0xE8, 0xB4, 0xA5] | EN \<Rightarrow> ''EnumContainer failed size check'')) (rpc_ok (Array []) (params_id p)) (params_id p))
       else
         call (api_enum_container L h_app (Some (zero_buf sz)) sz) (\<lambda>(ret, buf, sz).
         close_app_dev L h_dev h_app
           (done_or ret (\<lambda>_. (case lang of CN \<Rightarrow> utf8 [0xE6, 0x9E, 0x9A, 0xE4, 0xB8, 0xBE, 0xE5, 0xAE, 0xB9, 0xE5, 0x99, 0xA8, 0xE5, 0xA4, 0xB1, 0xE8, 0xB4, 0xA5] | EN \<Rightarrow> ''EnumContainer failed''))
             (rpc_ok (Array (map String (names_of buf sz))) (params_id p)) (params_id p))))))))))"

section \<open>Key pairs\<close>

definition SGD_SM4_ECB :: u32 where
  "SGD_SM4_ECB = 0x00000401"

text \<open>The optional block-cipher mode of the wrapped key.\<close>

definition sm4_mode :: "params \<Rightarrow> language \<Rightarrow> rpc_response + u32" where
  "sm4_mode p lang =
    (case str_param p 7 of
      None \<Rightarrow> Inr SGD_SM4_ECB
    | Some mode \<Rightarrow>
        if eq_ignore_ascii_case mode ''CBC'' then Inr SGD_SM4_CBC
        else if eq_ignore_ascii_case mode ''ECB'' then Inr SGD_SM4_ECB
        else Inl (rpc_err (- 2)
          (case lang of
            CN \<Rightarrow> utf8 [0xE4, 0xB8, 0x8D, 0xE6, 0x94, 0xAF, 0xE6, 0x8C, 0x81, 0xE7, 0x9A, 0x84] @ ''SM4'' @ utf8 [0xE6, 0xA8, 0xA1, 0xE5, 0xBC, 0x8F] @ '': '' @ mode @ '', '' @ utf8 [0xE6, 0x94, 0xAF, 0xE6, 0x8C, 0x81] @ '': ECB, CBC''
          | EN \<Rightarrow> ''Unsupported SM4 mode: '' @ mode @ '', supported: ECB, CBC'') (params_id p)))"

definition authorized_or ::
  "('w, 'd, 'a, 'c, 'h) skf_context \<Rightarrow> string \<Rightarrow> string \<Rightarrow> string \<Rightarrow> ('w, 'd, 'a, 'c, 'h) handler
    \<Rightarrow> ('w, 'd, 'a, 'c, 'h) handler \<Rightarrow> ('w, 'd, 'a, 'c, 'h) handler" where
  "authorized_or K prov dev app refused body st =
    (case session_authorized (sk_clock K (snd st)) prov dev app (fst st) of
      (Inl _, s) \<Rightarrow> refused (s, snd st)
    | (Inr _, s) \<Rightarrow> body (s, snd st))"

definition close_all ::
  "'w skf_lib \<Rightarrow> u64 \<Rightarrow> u64 \<Rightarrow> u64 \<Rightarrow> ('w, 'd, 'a, 'c, 'h) handler \<Rightarrow> ('w, 'd, 'a, 'c, 'h) handler" where
  "close_all L h_dev h_app h_cont k =
    call (api_close_container L h_cont) (\<lambda>_. close_app_dev L h_dev h_app k)"

text \<open>The import proper, with the container open. A wrapped key that does not decode is reported only
  here.\<close>

definition import_key_pair ::
  "('w, 'd, 'a, 'c, 'h) skf_context \<Rightarrow> 'w skf_lib \<Rightarrow> params \<Rightarrow> bool \<Rightarrow> u32 \<Rightarrow> bytes \<Rightarrow> u64
    \<Rightarrow> (rpc_response + u32 \<Rightarrow> ('w, 'd, 'a, 'c, 'h) handler) \<Rightarrow> ('w, 'd, 'a, 'c, 'h) handler" where
  "import_key_pair K L p is_ecc sm4_alg enc h_cont k =
    (if is_ecc then call (api_import_ecc_key_pair L h_cont enc) (\<lambda>ret. k (Inr ret))
     else
       (case b64_param (sk_codec K) (case str_param p 6 of Some v \<Rightarrow> v | None \<Rightarrow> [])
          ''wrapKey base64'' (- 3) p of
         Inl e \<Rightarrow> k (Inl e)
       | Inr wrap \<Rightarrow>
           call (api_import_rsa_key_pair L h_cont sm4_alg wrap (of_nat (length wrap)) enc
             (of_nat (length enc))) (\<lambda>ret. k (Inr ret))))"

text \<open>The unauthorised path closes the application and the device twice, as the code does.\<close>

definition ImportKeyPair_branch ::
  "('w, 'd, 'a, 'c, 'h) skf_context \<Rightarrow> params \<Rightarrow> language \<Rightarrow> ('w, 'd, 'a, 'c, 'h) handler" where
  "ImportKeyPair_branch K p lang =
    (let prov = named_alias K p; ident = params_id p in
     let_some (str_param p 1) (missing ''Missing deviceName param'' p) (\<lambda>dev.
     let_some (str_param p 2) (missing ''Missing appName param'' p) (\<lambda>app.
     let_some (str_param p 3) (missing ''Missing containerName param'' p) (\<lambda>cont.
     let_some (str_param p 4) (missing ''Missing alg param'' p) (\<lambda>alg.
     let_some (str_param p 5) (missing ''Missing encKeyPair param'' p) (\<lambda>enc_b64.
     let_ok (sm4_mode p lang) (\<lambda>sm4_alg.
     let_ok (b64_param (sk_codec K) enc_b64 ''encKeyPair base64'' (- 3) p) (\<lambda>enc.
     with_api K prov (\<lambda>m. load_failed m ident) (\<lambda>L.
     connect_or_lose L prov dev ident (\<lambda>h_dev.
     open_app_or_lose L h_dev prov dev app ident (\<lambda>h_app.
     authorized_or K prov dev app
       (close_app_dev L h_dev h_app (close_app_dev L h_dev h_app
         (reply (rpc_err (- 10) ''User not logged in (PIN cache empty). Call CheckPIN first.'' ident))))
       (let_ret (unwrap_cstring cont) (\<lambda>c_cont.
        call (api_open_container L h_app c_cont 0) (\<lambda>(ret, h_cont).
        if ret \<noteq> SAR_OK then
          close_app_dev L h_dev h_app (reply (rpc_err ret (failed_text ''OpenContainer'' ret) ident))
        else
          import_key_pair K L p (eq_ignore_ascii_case alg ''SM2'' \<or> eq_ignore_ascii_case alg ''ECC'')
            sm4_alg enc h_cont (\<lambda>r.
          close_all L h_dev h_app h_cont
            (case r of
              Inl e \<Rightarrow> reply e
            | Inr ret \<Rightarrow>
                done_or ret (failed_text ''ImportKeyPair'') (rpc_ok (Boolean True) ident) ident))))))))))))))))"

section \<open>Certificates on every token\<close>

text \<open>The search runs on the state outside only. A step answers with the results it adds, or panics.\<close>

type_synonym ('w, 'r) search = "'w \<Rightarrow> 'r list outcome \<times> 'w"

primrec search_each :: "('a \<Rightarrow> ('w, 'r) search) \<Rightarrow> 'a list \<Rightarrow> ('w, 'r) search" where
  "search_each f [] w = (Ret [], w)"
| "search_each f (x # xs) w =
    (case f x w of
      (Panic, w') \<Rightarrow> (Panic, w')
    | (Ret rs, w') \<Rightarrow>
        (case search_each f xs w' of
          (Panic, w'') \<Rightarrow> (Panic, w'')
        | (Ret rs', w'') \<Rightarrow> (Ret (rs @ rs'), w'')))"

text \<open>Asking for the size, then for the list: no names unless both calls succeed and the size exceeds
  one byte.\<close>

definition listed ::
  "(bytes option \<Rightarrow> u32 \<Rightarrow> 'w \<Rightarrow> (u32 \<times> bytes option \<times> u32) \<times> 'w) \<Rightarrow> 'w \<Rightarrow> string list \<times> 'w" where
  "listed enum w =
    (case enum None 0 w of
      ((ret, _, sz), w') \<Rightarrow>
        if ret = SAR_OK \<and> 1 < sz then
          (case enum (Some (zero_buf sz)) sz w' of
            ((ret, buf, sz), w'') \<Rightarrow> (if ret = SAR_OK then names_of buf sz else [], w''))
        else ([], w'))"

text \<open>Opening something under a name, searching inside, closing it: nothing when it does not open.\<close>

definition searched ::
  "(string \<Rightarrow> u64 \<Rightarrow> 'w \<Rightarrow> (u32 \<times> u64) \<times> 'w) \<Rightarrow> (u64 \<Rightarrow> 'w \<Rightarrow> u32 \<times> 'w) \<Rightarrow> string
    \<Rightarrow> (u64 \<Rightarrow> ('w, 'r) search) \<Rightarrow> ('w, 'r) search" where
  "searched open_h close_h name body w =
    (case unwrap_cstring name of
      Panic \<Rightarrow> (Panic, w)
    | Ret c \<Rightarrow>
        (case open_h c 0 w of
          ((ret, h), w') \<Rightarrow>
            if ret = SAR_OK then
              (case body h w' of
                (Panic, w'') \<Rightarrow> (Panic, w'')
              | (Ret rs, w'') \<Rightarrow> (Ret rs, snd (close_h h w'')))
            else (Ret [], w')))"

definition found_certificate ::
  "('w, 'd, 'a, 'c, 'h) skf_context \<Rightarrow> 'w skf_lib \<Rightarrow> string \<Rightarrow> u64 \<Rightarrow> bool \<Rightarrow> ('w, json) search" where
  "found_certificate K L path h_cont is_sign w =
    (let flag = (if is_sign then 1 else 0) in
     case api_export_certificate L h_cont flag None 0 w of
       ((ret, _, len), w') \<Rightarrow>
         if ret = SAR_OK \<and> 0 < len then
           (case api_export_certificate L h_cont flag (Some (zero_buf len)) len w' of
             ((ret, buf, _), w'') \<Rightarrow>
               if ret = SAR_OK then
                 (let cert = (case buf of Some b \<Rightarrow> b | None \<Rightarrow> [])
                  in case sk_x509 K cert of
                    Some (serial, subject) \<Rightarrow>
                      (Ret [Object
                        [(''cert'', String (b64_encode (sk_codec K) cert)),
                         (''key'', String (path @ ''/'' @ serial)),
                         (''type'', String (if is_sign then ''Sign'' else ''Enc'')),
                         (''value'', String subject)]], w'')
                  | None \<Rightarrow> (Ret [], w''))
               else (Ret [], w''))
         else (Ret [], w'))"

definition found_in_container ::
  "('w, 'd, 'a, 'c, 'h) skf_context \<Rightarrow> 'w skf_lib \<Rightarrow> string \<Rightarrow> bool list \<Rightarrow> u64 \<Rightarrow> ('w, json) search" where
  "found_in_container K L path flags h_cont = search_each (found_certificate K L path h_cont) flags"

definition found_in_application ::
  "('w, 'd, 'a, 'c, 'h) skf_context \<Rightarrow> 'w skf_lib \<Rightarrow> string \<Rightarrow> bool list \<Rightarrow> u64 \<Rightarrow> ('w, json) search" where
  "found_in_application K L path flags h_app w =
    (case listed (api_enum_container L h_app) w of
      (names, w') \<Rightarrow>
        search_each (\<lambda>n. searched (api_open_container L h_app) (api_close_container L) n
          (found_in_container K L (path @ ''/'' @ n) flags)) names w')"

definition found_on_device ::
  "('w, 'd, 'a, 'c, 'h) skf_context \<Rightarrow> 'w skf_lib \<Rightarrow> string \<Rightarrow> bool list \<Rightarrow> u64 \<Rightarrow> ('w, json) search" where
  "found_on_device K L path flags h_dev w =
    (case listed (api_enum_application L h_dev) w of
      (names, w') \<Rightarrow>
        search_each (\<lambda>n. searched (api_open_application L h_dev) (api_close_application L) n
          (found_in_application K L (path @ ''/'' @ n) flags)) names w')"

definition found_at_provider ::
  "('w, 'd, 'a, 'c, 'h) skf_context \<Rightarrow> bool list \<Rightarrow> string \<Rightarrow> ('w, json) search" where
  "found_at_provider K flags prov w =
    (case get_api K prov w of
      (Inl _, w') \<Rightarrow> (Ret [], w')
    | (Inr L, w') \<Rightarrow>
        (case listed (api_enum_dev L 1) w' of
          (names, w'') \<Rightarrow>
            search_each (\<lambda>n. searched (api_connect_dev L) (api_dis_connect_dev L) n
              (found_on_device K L (prov @ ''/'' @ n) flags)) names w''))"

definition FindCertificates_branch ::
  "('w, 'd, 'a, 'c, 'h) skf_context \<Rightarrow> params \<Rightarrow> ('w, 'd, 'a, 'c, 'h) handler" where
  "FindCertificates_branch K p =
    (let which = (case str_param p 0 of Some v \<Rightarrow> v | None \<Rightarrow> []);
         flags = (if which = [] \<or> eq_ignore_ascii_case which ''Sign'' then [True] else [])
           @ (if which = [] \<or> eq_ignore_ascii_case which ''Enc'' then [False] else [])
     in call (search_each (found_at_provider K flags) (map fst (libs (sk_config K)))) (\<lambda>r.
        let_ret r (\<lambda>results. reply (rpc_ok (Array results) (params_id p)))))"

section \<open>One-shot operations on a device\<close>

definition digest_alg :: "string \<Rightarrow> u32 option" where
  "digest_alg name =
    (if name = ''SM3'' then Some SGD_SM3 else if name = ''SHA1'' then Some 0x00000002
     else if name = ''SHA256'' then Some 0x00000004 else None)"

text \<open>The hash handle is never closed here; the device is.\<close>

definition Digest_branch ::
  "('w, 'd, 'a, 'c, 'h) skf_context \<Rightarrow> params \<Rightarrow> language \<Rightarrow> ('w, 'd, 'a, 'c, 'h) handler" where
  "Digest_branch K p lang =
    (let ident = params_id p in
     let_some (str_param p 0) (missing ''Missing providerName param'' p) (\<lambda>prov.
     let_some (str_param p 1) (missing ''Missing deviceName param'' p) (\<lambda>dev.
     let_some (str_param p 2) (missing ''Missing data param'' p) (\<lambda>data_b64.
     let alg_name = (case str_param p 3 of Some v \<Rightarrow> v | None \<Rightarrow> ''SM3'') in
     let_some (digest_alg (to_uppercase (unicode_upper (sk_runtime K)) alg_name))
       (rpc_err (- 2) (''Unsupported algorithm: '' @ alg_name) ident) (\<lambda>alg.
     let_ok (b64_param (sk_codec K) data_b64 ''base64 data'' (- 2) p) (\<lambda>data_bytes.
     with_api K prov (\<lambda>m. load_failed m ident) (\<lambda>L.
     connect_or_lose L prov dev ident (\<lambda>h_dev.
     call (api_digest_init L h_dev alg None None 0 0) (\<lambda>(ret, h_hash).
     if ret \<noteq> SAR_OK then
       call (api_dis_connect_dev L h_dev) (\<lambda>_.
       reply (rpc_err ret (failed_text ''DigestInit'' ret) ident))
     else
       call (api_digest L h_hash data_bytes (of_nat (length data_bytes)) (zero_buf 64) 64)
         (\<lambda>(ret, buf, len).
       call (api_dis_connect_dev L h_dev) (\<lambda>_.
       let hash = take (unat len) buf in
       done_or ret (localized lang (utf8 [0xE6, 0x91, 0x98, 0xE8, 0xA6, 0x81, 0xE8, 0xAE, 0xA1, 0xE7, 0xAE, 0x97, 0xE5, 0xA4, 0xB1, 0xE8, 0xB4, 0xA5] @ '': 0x'') (''Digest failed: 0x''))
         (rpc_ok (Object
           [(''algorithm'', String alg_name), (''base64'', String (b64_encode (sk_codec K) hash)),
            (''hex'', String (concat (map fmt_02x hash))), (''length'', json_u32 len)]) ident)
         ident)))))))))))"

definition json_u8 :: "u8 \<Rightarrow> json" where
  "json_u8 n = Number (PosInt (ucast n))"

definition version_json :: "u8 \<times> u8 \<Rightarrow> json" where
  "version_json v = Object [(''major'', json_u8 (fst v)), (''minor'', json_u8 (snd v))]"

text \<open>The texts are read up to their NUL; an array without one would be read past its end, which the
  model does not follow.\<close>

definition device_info_json :: "devinfo \<Rightarrow> json" where
  "device_info_json d =
    Object
      [(''algAsymCap'', json_u32 (AlgAsymCap d)), (''algHashCap'', json_u32 (AlgHashCap d)),
       (''algSymCap'', json_u32 (AlgSymCap d)), (''devAuthAlgId'', json_u32 (DevAuthAlgId d)),
       (''firmwareVersion'', version_json (FirmwareVersion d)),
       (''freeSpace'', json_u32 (FreeSpace d)), (''hwVersion'', version_json (HWVersion d)),
       (''issuer'', String (fixed_cstr (Issuer d))), (''label'', String (fixed_cstr (Label d))),
       (''manufacturer'', String (fixed_cstr (Manufacturer d))),
       (''maxBufferSize'', json_u32 (MaxBufferSize d)),
       (''maxECCBufferSize'', json_u32 (MaxECCBufferSize d)),
       (''serialNumber'', String (fixed_cstr (SerialNumber d))),
       (''totalSpace'', json_u32 (TotalSpace d)), (''version'', version_json (Version d))]"

definition GetDevInfo_branch ::
  "('w, 'd, 'a, 'c, 'h) skf_context \<Rightarrow> params \<Rightarrow> language \<Rightarrow> ('w, 'd, 'a, 'c, 'h) handler" where
  "GetDevInfo_branch K p lang =
    (let prov = named_alias K p; ident = params_id p in
     let_some (str_param p 1) (missing ''Missing deviceName param'' p) (\<lambda>dev.
     with_api K prov (\<lambda>m. load_failed m ident) (\<lambda>L.
     connect_or_lose L prov dev ident (\<lambda>h_dev.
     call (api_get_dev_info L h_dev zeroed_devinfo) (\<lambda>(ret, info).
     call (api_dis_connect_dev L h_dev) (\<lambda>_.
     done_or ret (localized lang (utf8 [0xE8, 0x8E, 0xB7, 0xE5, 0x8F, 0x96, 0xE8, 0xAE, 0xBE, 0xE5, 0xA4, 0x87, 0xE4, 0xBF, 0xA1, 0xE6, 0x81, 0xAF, 0xE5, 0xA4, 0xB1, 0xE8, 0xB4, 0xA5] @ '': 0x'') (''GetDevInfo failed: 0x''))
       (rpc_ok (device_info_json info) ident) ident))))))"

definition device_state_str :: "u32 \<Rightarrow> string" where
  "device_state_str n =
    (if n = 0 then ''absent'' else if n = 1 then ''present'' else if n = 2 then ''busy'' else ''unknown'')"

definition GetDevState_direct ::
  "('w, 'd, 'a, 'c, 'h) skf_context \<Rightarrow> string \<Rightarrow> string \<Rightarrow> params \<Rightarrow> language
    \<Rightarrow> ('w, 'd, 'a, 'c, 'h) handler" where
  "GetDevState_direct K prov dev p lang =
    with_api K prov (\<lambda>m. load_failed m (params_id p)) (\<lambda>L.
    let_ret (unwrap_cstring dev) (\<lambda>c_dev.
    call (api_get_dev_state L c_dev 0) (\<lambda>(ret, n).
    done_or ret (localized lang (utf8 [0xE8, 0x8E, 0xB7, 0xE5, 0x8F, 0x96, 0xE8, 0xAE, 0xBE, 0xE5, 0xA4, 0x87, 0xE7, 0x8A, 0xB6, 0xE6, 0x80, 0x81, 0xE5, 0xA4, 0xB1, 0xE8, 0xB4, 0xA5] @ '': 0x'') (''GetDevState failed: 0x''))
      (rpc_ok (Object [(''state'', json_u32 n), (''stateStr'', String (device_state_str n))]) (params_id p))
      (params_id p))))"

definition SetLabel_branch ::
  "('w, 'd, 'a, 'c, 'h) skf_context \<Rightarrow> params \<Rightarrow> language \<Rightarrow> ('w, 'd, 'a, 'c, 'h) handler" where
  "SetLabel_branch K p lang =
    (let prov = named_alias K p; ident = params_id p in
     let_some (str_param p 1) (missing ''Missing deviceName param'' p) (\<lambda>dev.
     let_some (str_param p 2) (missing ''Missing label param'' p) (\<lambda>label.
     with_api K prov (\<lambda>m. load_failed m ident) (\<lambda>L.
     connect_or_lose L prov dev ident (\<lambda>h_dev.
     let_ret (unwrap_cstring label) (\<lambda>c_label.
     call (api_set_label L h_dev c_label) (\<lambda>ret.
     call (api_dis_connect_dev L h_dev) (\<lambda>_.
     done_or ret (localized lang (utf8 [0xE8, 0xAE, 0xBE, 0xE7, 0xBD, 0xAE, 0xE8, 0xAE, 0xBE, 0xE5, 0xA4, 0x87, 0xE6, 0xA0, 0x87, 0xE7, 0xAD, 0xBE, 0xE5, 0xA4, 0xB1, 0xE8, 0xB4, 0xA5] @ '': 0x'') (''SetLabel failed: 0x'')) (rpc_ok (Boolean True) ident) ident))))))))"

definition ECCVerify_branch ::
  "('w, 'd, 'a, 'c, 'h) skf_context \<Rightarrow> params \<Rightarrow> language \<Rightarrow> ('w, 'd, 'a, 'c, 'h) handler" where
  "ECCVerify_branch K p lang =
    (let prov = named_alias K p; ident = params_id p; C = sk_codec K in
     let_some (str_param p 1) (missing ''Missing deviceName param'' p) (\<lambda>dev.
     let_some (str_param p 2) (missing ''Missing pubKey param'' p) (\<lambda>key_b64.
     let_some (str_param p 3) (missing ''Missing data param'' p) (\<lambda>data_b64.
     let_some (str_param p 4) (missing ''Missing signature param'' p) (\<lambda>sig_b64.
     let_ok (b64_param C key_b64 ''base64 pubKey'' (- 2) p) (\<lambda>key.
     let_ok (b64_param C data_b64 ''base64 data'' (- 2) p) (\<lambda>dat.
     let_ok (b64_param C sig_b64 ''base64 signature'' (- 2) p) (\<lambda>sig.
     if length key < 132 then reply (missing ''pubKey too short for ECCPUBLICKEYBLOB'' p)
     else if length sig < 128 then reply (missing ''signature too short for ECCSIGNATUREBLOB'' p)
     else
       with_api K prov (\<lambda>m. load_failed m ident) (\<lambda>L.
       connect_or_lose L prov dev ident (\<lambda>h_dev.
       call (api_ecc_verify L h_dev (read_ecc_blob key) dat (of_nat (length dat)) (read_signature sig))
         (\<lambda>ret.
       call (api_dis_connect_dev L h_dev) (\<lambda>_.
       done_or ret (localized lang (''ECC'' @ utf8 [0xE7, 0xAD, 0xBE, 0xE5, 0x90, 0x8D, 0xE9, 0xAA, 0x8C, 0xE8, 0xAF, 0x81, 0xE5, 0xA4, 0xB1, 0xE8, 0xB4, 0xA5] @ '': 0x'') (''ECCVerify failed: 0x'')) (rpc_ok (Boolean True) ident) ident))))))))))))"

section \<open>Operations on a library loaded for one request\<close>

definition LockDev_branch ::
  "('w, 'd, 'a, 'c, 'h) skf_context \<Rightarrow> params \<Rightarrow> language \<Rightarrow> ('w, 'd, 'a, 'c, 'h) handler" where
  "LockDev_branch K p lang =
    (let ident = params_id p in
     let_some (str_param p 0) (missing ''Missing providerName param'' p) (\<lambda>prov.
     let_some (str_param p 1) (missing ''Missing deviceName param'' p) (\<lambda>dev.
     let tmo = ucast (optional_u64 p 2 5000) :: u32 in
     with_fresh_library K prov lang ident (\<lambda>L.
     connect_or_lose L prov dev ident (\<lambda>h_dev.
     call (api_lock_dev L h_dev tmo) (\<lambda>ret.
     call (api_dis_connect_dev L h_dev) (\<lambda>_.
     done_or ret (localized lang (utf8 [0xE9, 0x94, 0x81, 0xE5, 0xAE, 0x9A, 0xE8, 0xAE, 0xBE, 0xE5, 0xA4, 0x87, 0xE5, 0xA4, 0xB1, 0xE8, 0xB4, 0xA5] @ '': 0x'') (''LockDev failed: 0x'')) (rpc_ok (Boolean True) ident) ident)))))))"

definition UnlockDev_branch ::
  "('w, 'd, 'a, 'c, 'h) skf_context \<Rightarrow> params \<Rightarrow> language \<Rightarrow> ('w, 'd, 'a, 'c, 'h) handler" where
  "UnlockDev_branch K p lang =
    (let ident = params_id p in
     let_some (str_param p 0) (missing ''Missing providerName param'' p) (\<lambda>prov.
     let_some (str_param p 1) (missing ''Missing deviceName param'' p) (\<lambda>dev.
     with_fresh_library K prov lang ident (\<lambda>L.
     connect_or_lose L prov dev ident (\<lambda>h_dev.
     call (api_unlock_dev L h_dev) (\<lambda>ret.
     call (api_dis_connect_dev L h_dev) (\<lambda>_.
     done_or ret (localized lang (utf8 [0xE8, 0xA7, 0xA3, 0xE9, 0x94, 0x81, 0xE8, 0xAE, 0xBE, 0xE5, 0xA4, 0x87, 0xE5, 0xA4, 0xB1, 0xE8, 0xB4, 0xA5] @ '': 0x'') (''UnlockDev failed: 0x'')) (rpc_ok (Boolean True) ident) ident)))))))"

definition Transmit_branch ::
  "('w, 'd, 'a, 'c, 'h) skf_context \<Rightarrow> params \<Rightarrow> language \<Rightarrow> ('w, 'd, 'a, 'c, 'h) handler" where
  "Transmit_branch K p lang =
    (let ident = params_id p in
     let_some (str_param p 0) (missing ''Missing providerName param'' p) (\<lambda>prov.
     let_some (str_param p 1) (missing ''Missing deviceName param'' p) (\<lambda>dev.
     let_some (str_param p 2) (missing ''Missing commandBase64 param'' p) (\<lambda>cmd_b64.
     let_ok (b64_param (sk_codec K) cmd_b64 ''base64 command'' (- 2) p) (\<lambda>cmd.
     with_fresh_library K prov lang ident (\<lambda>L.
     connect_or_lose L prov dev ident (\<lambda>h_dev.
     call (api_transmit L h_dev cmd (of_nat (length cmd)) (zero_buf 4096) 4096) (\<lambda>(ret, buf, len).
     call (api_dis_connect_dev L h_dev) (\<lambda>_.
     done_or ret (localized lang (utf8 [0xE9, 0x80, 0x8F, 0xE4, 0xBC, 0xA0] @ ''APDU'' @ utf8 [0xE5, 0xA4, 0xB1, 0xE8, 0xB4, 0xA5] @ '': 0x'') (''Transmit failed: 0x''))
       (rpc_ok (String (b64_encode (sk_codec K) (take (unat len) buf))) ident) ident)))))))))"

definition RSAVerify_branch ::
  "('w, 'd, 'a, 'c, 'h) skf_context \<Rightarrow> params \<Rightarrow> language \<Rightarrow> ('w, 'd, 'a, 'c, 'h) handler" where
  "RSAVerify_branch K p lang =
    (let ident = params_id p; C = sk_codec K in
     let_some (str_param p 0) (missing ''Missing providerName param'' p) (\<lambda>prov.
     let_some (str_param p 1) (missing ''Missing deviceName param'' p) (\<lambda>dev.
     let_some (str_param p 2) (missing ''Missing pubKeyBase64 param'' p) (\<lambda>key_b64.
     let_some (str_param p 3) (missing ''Missing dataBase64 param'' p) (\<lambda>data_b64.
     let_some (str_param p 4) (missing ''Missing signatureBase64 param'' p) (\<lambda>sig_b64.
     let_ok (b64_param C key_b64 ''base64 publicKey'' (- 2) p) (\<lambda>key.
     if length key < 268 then reply (missing ''RSAPUBLICKEYBLOB data too short'' p)
     else
       let_ok (b64_param C data_b64 ''base64 data'' (- 2) p) (\<lambda>dat.
       let_ok (b64_param C sig_b64 ''base64 signature'' (- 2) p) (\<lambda>sig.
       with_fresh_library K prov lang ident (\<lambda>L.
       connect_or_lose L prov dev ident (\<lambda>h_dev.
       call (api_rsa_verify L h_dev (read_rsa_blob key) dat (of_nat (length dat)) sig
         (of_nat (length sig))) (\<lambda>ret.
       call (api_dis_connect_dev L h_dev) (\<lambda>_.
       done_or ret (localized lang (''RSA'' @ utf8 [0xE9, 0xAA, 0x8C, 0xE7, 0xAD, 0xBE, 0xE5, 0xA4, 0xB1, 0xE8, 0xB4, 0xA5] @ '': 0x'') (''RSAVerify failed: 0x'')) (rpc_ok (Boolean True) ident) ident)))))))))))))"

text \<open>\<open>DigestInit\<close> for an alias other than the default connects the device, disconnects it and refuses.\<close>

definition DigestInit_direct ::
  "('w, 'd, 'a, 'c, 'h) skf_context \<Rightarrow> string \<Rightarrow> string \<Rightarrow> params \<Rightarrow> language
    \<Rightarrow> ('w, 'd, 'a, 'c, 'h) handler" where
  "DigestInit_direct K prov dev p lang =
    with_api K prov (\<lambda>m. load_failed_localized m lang (params_id p)) (\<lambda>L.
    let_ret (unwrap_cstring dev) (\<lambda>c_dev.
    call (api_connect_dev L c_dev 0) (\<lambda>(ret, h_dev).
    if ret \<noteq> SAR_OK then reply (rpc_err ret (failed_text ''ConnectDev'' ret) (params_id p))
    else
      call (api_dis_connect_dev L h_dev) (\<lambda>_.
      reply (rpc_err (- 1) ''DigestInit requires the default provider'' (params_id p))))))"

section \<open>The branches as a table\<close>

definition direct_methods ::
  "('w, 'd, 'a, 'c, 'h) skf_context \<Rightarrow> params \<Rightarrow> language
    \<Rightarrow> (string \<times> ('w, 'd, 'a, 'c, 'h) handler) list" where
  "direct_methods K p lang =
    [(''EnumApplication'', EnumApplication_branch K p lang),
     (''EnumContainer'', EnumContainer_branch K p lang),
     (''ImportKeyPair'', ImportKeyPair_branch K p lang),
     (''FindCertificates'', FindCertificates_branch K p),
     (''Digest'', Digest_branch K p lang),
     (''GetDevInfo'', GetDevInfo_branch K p lang),
     (''SetLabel'', SetLabel_branch K p lang),
     (''ECCVerify'', ECCVerify_branch K p lang),
     (''LockDev'', LockDev_branch K p lang),
     (''UnlockDev'', UnlockDev_branch K p lang),
     (''Transmit'', Transmit_branch K p lang),
     (''RSAVerify'', RSAVerify_branch K p lang)]"

lemmas direct_branch_defs =
  EnumApplication_branch_def EnumContainer_branch_def ImportKeyPair_branch_def Digest_branch_def
  GetDevInfo_branch_def SetLabel_branch_def ECCVerify_branch_def LockDev_branch_def
  UnlockDev_branch_def Transmit_branch_def RSAVerify_branch_def WaitForDevEvent_direct_def
  EnumDevice_direct_def GetDevState_direct_def DigestInit_direct_def

section \<open>What a call may do to the state outside\<close>

text \<open>A call runs within a relation when every result of interest leaves the state related to the one
  before. The relations used are reflexive and transitive.\<close>

definition runs :: "('r \<Rightarrow> bool) \<Rightarrow> ('w \<Rightarrow> 'w \<Rightarrow> bool) \<Rightarrow> ('w \<Rightarrow> 'r \<times> 'w) \<Rightarrow> bool" where
  "runs Q R f \<longleftrightarrow> (\<forall>w r w'. f w = (r, w') \<longrightarrow> Q r \<longrightarrow> R w w')"

abbreviation any_result :: "'r \<Rightarrow> bool" where
  "any_result \<equiv> (\<lambda>_. True)"

lemma runsD: "runs Q R f \<Longrightarrow> f w = (r, w') \<Longrightarrow> Q r \<Longrightarrow> R w w'"
  unfolding runs_def by blast

lemma runs_unit: "runs any_result R (\<lambda>w. (x, f w)) \<longleftrightarrow> (\<forall>w. R w (f w))"
  by (auto simp: runs_def)

lemma runs_weaken: "runs any_result R f \<Longrightarrow> runs Q R f"
  by (simp add: runs_def)

lemma runs_get_api:
  assumes R: "reflp R" "transp R" and "\<And>path. runs any_result R (sk_dlopen K path)"
    and "\<And>nm path. runs any_result R (\<lambda>w. ((), sk_cache_insert K nm path w))"
  shows "runs any_result R (get_api K prov)"
  unfolding runs_def
proof (intro allI impI)
  fix w r w'
  assume run: "get_api K prov w = (r, w')"
  show "R w w'"
  proof (cases "w' = w")
    case True
    then show ?thesis using R(1) by (simp add: reflp_def)
  next
    case False
    obtain path x u where x: "sk_dlopen K path w = (x, u)" "w' = u \<or> w' = sk_cache_insert K prov path u"
      using run False by (auto simp: get_api_def Let_def split: option.splits prod.splits)
    have "R w u" using assms(3) x(1) by (auto dest: runsD)
    moreover have "R u w'"
      using x(2) assms(4) [of prov path] R(1) by (auto simp: runs_unit reflp_def)
    ultimately show ?thesis by (rule transpD [OF R(2)])
  qed
qed

lemma runs_search_each:
  assumes "reflp R" "transp R" "\<And>x. Q (Ret x)" "\<And>x. runs Q R (f x)"
  shows "runs Q R (search_each f xs)"
proof (induction xs)
  case Nil
  then show ?case using assms(1) by (simp add: runs_def reflp_def)
next
  case (Cons x xs)
  show ?case
    unfolding runs_def
  proof (intro allI impI)
    fix w r w'
    assume run: "search_each f (x # xs) w = (r, w')" and q: "Q r"
    obtain y u where y: "f x w = (y, u)" by (cases "f x w")
    show "R w w'"
    proof (cases y)
      case Panic
      then show ?thesis using run q y runsD [OF assms(4)] by simp
    next
      case (Ret rs)
      obtain z v where z: "search_each f xs u = (z, v)" by (cases "search_each f xs u")
      have "w' = v" "Q z" using run q y z Ret assms(3) by (auto split: outcome.splits)
      then have "R u w'" using runsD [OF Cons z] by simp
      moreover have "R w u" using runsD [OF assms(4) y] Ret assms(3) by simp
      ultimately show ?thesis by (metis transpD assms(2))
    qed
  qed
qed

lemma runs_listed:
  assumes "transp R" "\<And>b n. runs any_result R (enum b n)"
  shows "runs any_result R (listed enum)"
  unfolding runs_def
proof (intro allI impI)
  fix w r w'
  assume run: "listed enum w = (r, w')"
  obtain ret b n u where x: "enum None 0 w = ((ret, b, n), u)" by (metis surj_pair)
  obtain ret2 b2 n2 v where y: "enum (Some (zero_buf n)) n u = ((ret2, b2, n2), v)" by (metis surj_pair)
  have "R w u" "R u v" using runsD [OF assms(2)] x y by blast+
  moreover have "w' = u \<or> w' = v" using run x y by (auto simp: listed_def split: if_splits)
  ultimately show "R w w'" by (metis transpD assms(1))
qed

lemma runs_then:
  assumes "transp R" "runs any_result R f" "\<And>x. runs Q R (g x)"
  shows "runs Q R (\<lambda>w. case f w of (x, w') \<Rightarrow> g x w')"
  unfolding runs_def
proof (intro allI impI)
  fix w r w'
  assume run: "(case f w of (x, w') \<Rightarrow> g x w') = (r, w')" and q: "Q r"
  obtain x u where x: "f w = (x, u)" by (cases "f w")
  have "R w u" "R u w'" using runsD [OF assms(2) x] runsD [OF assms(3) _ q] run x by auto
  then show "R w w'" by (metis transpD assms(1))
qed

lemma runs_found_certificate:
  assumes "transp R" "\<And>h f b n. runs any_result R (api_export_certificate L h f b n)"
  shows "runs any_result R (found_certificate K L path h_cont is_sign)"
  unfolding runs_def
proof (intro allI impI)
  fix w r w'
  define flag :: u8 where "flag = (if is_sign then 1 else 0)"
  assume run: "found_certificate K L path h_cont is_sign w = (r, w')"
  obtain ret b n u where x: "api_export_certificate L h_cont flag None 0 w = ((ret, b, n), u)"
    by (metis surj_pair)
  obtain ret2 b2 n2 v
    where y: "api_export_certificate L h_cont flag (Some (zero_buf n)) n u = ((ret2, b2, n2), v)"
    by (metis surj_pair)
  have "R w u" "R u v" using runsD [OF assms(2)] x y by blast+
  moreover have "w' = u \<or> w' = v"
    using run x y
    by (auto simp: found_certificate_def Let_def flag_def [symmetric] split: if_splits option.splits)
  ultimately show "R w w'" by (metis transpD assms(1))
qed

text \<open>The search composed: what the opened things do to the state is left to \<open>searched\<close>.\<close>

lemma runs_find:
  assumes R: "reflp R" "transp R" "\<And>x. Q (Ret x)"
    and api: "\<And>prov. runs any_result R (get_api K prov)"
    and lib: "\<And>prov w L. fst (get_api K prov w) = Inr L \<Longrightarrow>
        (\<forall>f b n. runs any_result R (api_enum_dev L f b n))
        \<and> (\<forall>h b n. runs any_result R (api_enum_application L h b n))
        \<and> (\<forall>h b n. runs any_result R (api_enum_container L h b n))
        \<and> (\<forall>h f b n. runs any_result R (api_export_certificate L h f b n))"
    and dev: "\<And>prov w L n body. fst (get_api K prov w) = Inr L \<Longrightarrow> (\<And>h. runs Q R (body h))
        \<Longrightarrow> runs Q R (searched (api_connect_dev L) (api_dis_connect_dev L) n body)"
    and app: "\<And>prov w L h n body. fst (get_api K prov w) = Inr L \<Longrightarrow> (\<And>h. runs Q R (body h))
        \<Longrightarrow> runs Q R (searched (api_open_application L h) (api_close_application L) n body)"
    and cont: "\<And>prov w L h n body. fst (get_api K prov w) = Inr L \<Longrightarrow> (\<And>h. runs Q R (body h))
        \<Longrightarrow> runs Q R (searched (api_open_container L h) (api_close_container L) n body)"
  shows "runs Q R (search_each (found_at_provider K flags) provs)"
proof (rule runs_search_each [where Q = Q, OF R])
  fix prov
  show "runs Q R (found_at_provider K flags prov)"
    unfolding runs_def
  proof (intro allI impI)
    fix w r w'
    assume run: "found_at_provider K flags prov w = (r, w')" and q: "Q r"
    obtain x u where x: "get_api K prov w = (x, u)" by (cases "get_api K prov w")
    have wu: "R w u" using runsD [OF api x] by simp
    show "R w w'"
    proof (cases x)
      case (Inl e)
      then show ?thesis using run x wu by (simp add: found_at_provider_def)
    next
      case (Inr L)
      have L: "fst (get_api K prov w) = Inr L" using x Inr by simp
      have e: "runs any_result R (api_enum_dev L f b n)" "runs any_result R (api_enum_application L h b n)"
        "runs any_result R (api_enum_container L h b n)" "runs any_result R (api_export_certificate L h f b n)"
        for f b n h
        using lib [OF L] by simp_all
      have "runs Q R (found_in_container K L path flags h)" for path h
        unfolding found_in_container_def
        by (rule runs_search_each [where Q = Q, OF R], rule runs_weaken, rule runs_found_certificate [OF R(2) e(4)])
      then have "runs Q R (\<lambda>w. search_each (\<lambda>n. searched (api_open_container L h) (api_close_container L) n
          (found_in_container K L (path @ ''/'' @ n) flags)) names w)" for path h names
        by (intro runs_search_each [where Q = Q, OF R] cont [OF L])
      then have 1: "runs Q R (found_in_application K L path flags h)" for path h
        unfolding found_in_application_def by (intro runs_then [OF R(2) runs_listed [OF R(2) e(3)]])
      have "runs Q R (\<lambda>w. search_each (\<lambda>n. searched (api_open_application L h) (api_close_application L) n
          (found_in_application K L (path @ ''/'' @ n) flags)) names w)" for path h names
        by (intro runs_search_each [where Q = Q, OF R] app [OF L] 1)
      then have 2: "runs Q R (found_on_device K L path flags h)" for path h
        unfolding found_on_device_def by (intro runs_then [OF R(2) runs_listed [OF R(2) e(2)]])
      have "runs Q R (\<lambda>w. search_each (\<lambda>n. searched (api_connect_dev L) (api_dis_connect_dev L) n
          (found_on_device K L (prov @ ''/'' @ n) flags)) names w)" for names
        by (intro runs_search_each [where Q = Q, OF R] dev [OF L] 2)
      then have "runs Q R (\<lambda>w. case listed (api_enum_dev L 1) w of (names, w') \<Rightarrow>
          search_each (\<lambda>n. searched (api_connect_dev L) (api_dis_connect_dev L) n
            (found_on_device K L (prov @ ''/'' @ n) flags)) names w')"
        by (intro runs_then [OF R(2) runs_listed [OF R(2) e(1)]])
      from runsD [OF this _ q, of u w'] have "R u w'"
        using run x Inr by (simp add: found_at_provider_def)
      with wu show ?thesis by (metis transpD R(2))
    qed
  qed
qed

section \<open>The provider's guards are not touched\<close>

definition kept ::
  "('w \<Rightarrow> ('d, 'a, 'c, 'h) resource multiset) \<Rightarrow> ('w \<Rightarrow> instant) \<Rightarrow> 'w \<Rightarrow> 'w \<Rightarrow> bool" where
  "kept live now w w' \<longleftrightarrow> live w' = live w \<and> now w \<le> now w'"

lemma keeps_runs: "keeps live now f \<longleftrightarrow> runs any_result (kept live now) f"
  unfolding keeps_def runs_def kept_def by (metis prod.collapse snd_conv)

lemma kept_order: "reflp (kept live now)" "transp (kept live now)"
  by (auto simp: kept_def reflp_def transp_def)

lemma keeps_searched:
  assumes "\<And>s h. keeps live now (open_h s h)" "\<And>h. keeps live now (close_h h)" "\<And>h. keeps live now (body h)"
  shows "keeps live now (searched open_h close_h name body)"
  unfolding keeps_runs runs_def
proof (intro allI impI)
  fix w r w'
  assume run: "searched open_h close_h name body w = (r, w')"
  show "kept live now w w'"
  proof (cases "unwrap_cstring name")
    case Panic
    then show ?thesis using run by (simp add: searched_def kept_def)
  next
    case (Ret c)
    obtain ret h u where x: "open_h c 0 w = ((ret, h), u)" by (metis surj_pair)
    obtain y v where y: "body h u = (y, v)" by (cases "body h u")
    have "w' = u \<or> w' = v \<or> w' = snd (close_h h v)"
      using run Ret x y by (auto simp: searched_def split: if_splits outcome.splits)
    moreover have "kept live now w u" "kept live now u v" "kept live now v (snd (close_h h v))"
      using assms x y by (auto simp: keeps_def kept_def, (metis fst_conv snd_conv)+)
    ultimately show ?thesis by (metis transpD kept_order(2))
  qed
qed

lemma clean_case_sum:
  "(\<And>a. x = Inl a \<Longrightarrow> clean live now A (f a)) \<Longrightarrow> (\<And>b. x = Inr b \<Longrightarrow> clean live now A (g b))
    \<Longrightarrow> clean live now A (case x of Inl a \<Rightarrow> f a | Inr b \<Rightarrow> g b)"
  by (cases x) simp_all

text \<open>A relation on the state that every function of a library respects.\<close>

definition library_respects :: "('w \<Rightarrow> 'w \<Rightarrow> bool) \<Rightarrow> 'w skf_lib \<Rightarrow> bool" where
  "library_respects R L \<longleftrightarrow>
    (\<forall>x1 x2 x3. runs any_result R (api_wait_for_dev_event L x1 x2 x3))
    \<and> (runs any_result R (api_cancel_wait_for_dev_event L))
    \<and> (\<forall>x1 x2 x3. runs any_result R (api_enum_dev L x1 x2 x3))
    \<and> (\<forall>x1 x2. runs any_result R (api_connect_dev L x1 x2))
    \<and> (\<forall>x1. runs any_result R (api_dis_connect_dev L x1))
    \<and> (\<forall>x1 x2 x3. runs any_result R (api_gen_random L x1 x2 x3))
    \<and> (\<forall>x1 x2 x3. runs any_result R (api_enum_application L x1 x2 x3))
    \<and> (\<forall>x1 x2 x3. runs any_result R (api_open_application L x1 x2 x3))
    \<and> (\<forall>x1. runs any_result R (api_close_application L x1))
    \<and> (\<forall>x1 x2 x3. runs any_result R (api_enum_container L x1 x2 x3))
    \<and> (\<forall>x1 x2 x3. runs any_result R (api_open_container L x1 x2 x3))
    \<and> (\<forall>x1. runs any_result R (api_close_container L x1))
    \<and> (\<forall>x1 x2 x3 x4. runs any_result R (api_export_certificate L x1 x2 x3 x4))
    \<and> (\<forall>x1 x2 x3 x4. runs any_result R (api_verify_pin L x1 x2 x3 x4))
    \<and> (\<forall>x1 x2 x3 x4. runs any_result R (api_ecc_sign_data L x1 x2 x3 x4))
    \<and> (\<forall>x1 x2. runs any_result R (api_get_container_type L x1 x2))
    \<and> (\<forall>x1 x2 x3 x4 x5. runs any_result R (api_rsa_sign_data L x1 x2 x3 x4 x5))
    \<and> (\<forall>x1 x2 x3 x4 x5 x6. runs any_result R (api_digest_init L x1 x2 x3 x4 x5 x6))
    \<and> (\<forall>x1 x2 x3 x4 x5. runs any_result R (api_digest L x1 x2 x3 x4 x5))
    \<and> (\<forall>x1 x2 x3. runs any_result R (api_create_container L x1 x2 x3))
    \<and> (\<forall>x1 x2 x3. runs any_result R (api_gen_ecc_key_pair L x1 x2 x3))
    \<and> (\<forall>x1 x2 x3. runs any_result R (api_gen_rsa_key_pair L x1 x2 x3))
    \<and> (\<forall>x1 x2. runs any_result R (api_delete_container L x1 x2))
    \<and> (\<forall>x1 x2 x3 x4. runs any_result R (api_import_certificate L x1 x2 x3 x4))
    \<and> (\<forall>x1 x2. runs any_result R (api_import_ecc_key_pair L x1 x2))
    \<and> (\<forall>x1 x2 x3 x4 x5 x6. runs any_result R (api_import_rsa_key_pair L x1 x2 x3 x4 x5 x6))
    \<and> (\<forall>x1 x2 x3 x4 x5 x6 x7. runs any_result R (api_encrypt_data L x1 x2 x3 x4 x5 x6 x7))
    \<and> (\<forall>x1 x2 x3 x4 x5 x6 x7. runs any_result R (api_decrypt_data L x1 x2 x3 x4 x5 x6 x7))
    \<and> (\<forall>x1 x2 x3. runs any_result R (api_digest_update L x1 x2 x3))
    \<and> (\<forall>x1 x2 x3. runs any_result R (api_digest_final L x1 x2 x3))
    \<and> (\<forall>x1 x2 x3 x4 x5 x6. runs any_result R (api_rsa_verify L x1 x2 x3 x4 x5 x6))
    \<and> (\<forall>x1 x2 x3 x4. runs any_result R (api_set_symm_key L x1 x2 x3 x4))
    \<and> (\<forall>x1 x2. runs any_result R (api_get_dev_info L x1 x2))
    \<and> (\<forall>x1 x2. runs any_result R (api_get_dev_state L x1 x2))
    \<and> (\<forall>x1 x2. runs any_result R (api_set_label L x1 x2))
    \<and> (\<forall>x1 x2 x3 x4 x5. runs any_result R (api_ecc_verify L x1 x2 x3 x4 x5))
    \<and> (\<forall>x1 x2. runs any_result R (api_lock_dev L x1 x2))
    \<and> (\<forall>x1. runs any_result R (api_unlock_dev L x1))
    \<and> (\<forall>x1 x2 x3 x4 x5. runs any_result R (api_transmit L x1 x2 x3 x4 x5))
    \<and> (\<forall>x1. runs any_result R (api_close_hash L x1))"

lemma library_respectsD:
  assumes "library_respects R L"
  shows "runs any_result R (api_wait_for_dev_event L x0_0 x0_1 x0_2)"
    "runs any_result R (api_cancel_wait_for_dev_event L)"
    "runs any_result R (api_enum_dev L x2_0 x2_1 x2_2)"
    "runs any_result R (api_connect_dev L x3_0 x3_1)"
    "runs any_result R (api_dis_connect_dev L x4_0)"
    "runs any_result R (api_gen_random L x5_0 x5_1 x5_2)"
    "runs any_result R (api_enum_application L x6_0 x6_1 x6_2)"
    "runs any_result R (api_open_application L x7_0 x7_1 x7_2)"
    "runs any_result R (api_close_application L x8_0)"
    "runs any_result R (api_enum_container L x9_0 x9_1 x9_2)"
    "runs any_result R (api_open_container L x10_0 x10_1 x10_2)"
    "runs any_result R (api_close_container L x11_0)"
    "runs any_result R (api_export_certificate L x12_0 x12_1 x12_2 x12_3)"
    "runs any_result R (api_verify_pin L x13_0 x13_1 x13_2 x13_3)"
    "runs any_result R (api_ecc_sign_data L x14_0 x14_1 x14_2 x14_3)"
    "runs any_result R (api_get_container_type L x15_0 x15_1)"
    "runs any_result R (api_rsa_sign_data L x16_0 x16_1 x16_2 x16_3 x16_4)"
    "runs any_result R (api_digest_init L x17_0 x17_1 x17_2 x17_3 x17_4 x17_5)"
    "runs any_result R (api_digest L x18_0 x18_1 x18_2 x18_3 x18_4)"
    "runs any_result R (api_create_container L x19_0 x19_1 x19_2)"
    "runs any_result R (api_gen_ecc_key_pair L x20_0 x20_1 x20_2)"
    "runs any_result R (api_gen_rsa_key_pair L x21_0 x21_1 x21_2)"
    "runs any_result R (api_delete_container L x22_0 x22_1)"
    "runs any_result R (api_import_certificate L x23_0 x23_1 x23_2 x23_3)"
    "runs any_result R (api_import_ecc_key_pair L x24_0 x24_1)"
    "runs any_result R (api_import_rsa_key_pair L x25_0 x25_1 x25_2 x25_3 x25_4 x25_5)"
    "runs any_result R (api_encrypt_data L x26_0 x26_1 x26_2 x26_3 x26_4 x26_5 x26_6)"
    "runs any_result R (api_decrypt_data L x27_0 x27_1 x27_2 x27_3 x27_4 x27_5 x27_6)"
    "runs any_result R (api_digest_update L x28_0 x28_1 x28_2)"
    "runs any_result R (api_digest_final L x29_0 x29_1 x29_2)"
    "runs any_result R (api_rsa_verify L x30_0 x30_1 x30_2 x30_3 x30_4 x30_5)"
    "runs any_result R (api_set_symm_key L x31_0 x31_1 x31_2 x31_3)"
    "runs any_result R (api_get_dev_info L x32_0 x32_1)"
    "runs any_result R (api_get_dev_state L x33_0 x33_1)"
    "runs any_result R (api_set_label L x34_0 x34_1)"
    "runs any_result R (api_ecc_verify L x35_0 x35_1 x35_2 x35_3 x35_4)"
    "runs any_result R (api_lock_dev L x36_0 x36_1)"
    "runs any_result R (api_unlock_dev L x37_0)"
    "runs any_result R (api_transmit L x38_0 x38_1 x38_2 x38_3 x38_4)"
    "runs any_result R (api_close_hash L x39_0)"
  using assms by (simp_all add: library_respects_def)

lemma runs_mono: "runs Q R f \<Longrightarrow> (\<And>w w'. R w w' \<Longrightarrow> R' w w') \<Longrightarrow> runs Q R' f"
  unfolding runs_def by blast

lemma library_respects_mono:
  assumes "library_respects R L" "\<And>w w'. R w w' \<Longrightarrow> R' w w'"
  shows "library_respects R' L"
  unfolding library_respects_def
  by (intro conjI allI; rule runs_mono [OF _ assms(2)], rule library_respectsD [OF assms(1)])

text \<open>Calls into a library do not create or destroy guards of the provider, and time passes.\<close>

definition library_quiet ::
  "('w \<Rightarrow> ('d, 'a, 'c, 'h) resource multiset) \<Rightarrow> ('w \<Rightarrow> instant) \<Rightarrow> 'w skf_lib \<Rightarrow> bool" where
  "library_quiet live now L \<longleftrightarrow> library_respects (kept live now) L"

lemma library_quietD [release_intros]:
  assumes "library_quiet live now L"
  shows "keeps live now (api_wait_for_dev_event L b n e)" "keeps live now (api_enum_dev L f ob n)"
    "keeps live now (api_connect_dev L s h)" "keeps live now (api_dis_connect_dev L h)"
    "keeps live now (api_enum_application L h ob n)" "keeps live now (api_open_application L h s g)"
    "keeps live now (api_close_application L h)" "keeps live now (api_enum_container L h ob n)"
    "keeps live now (api_open_container L h s g)" "keeps live now (api_close_container L h)"
    "keeps live now (api_export_certificate L h f ob n)" "keeps live now (api_digest_init L h a ok oi n g)"
    "keeps live now (api_digest L h b n b' m)" "keeps live now (api_import_ecc_key_pair L h b)"
    "keeps live now (api_import_rsa_key_pair L h a b n b' m)" "keeps live now (api_get_dev_info L h i)"
    "keeps live now (api_get_dev_state L s n)" "keeps live now (api_set_label L h s)"
    "keeps live now (api_ecc_verify L h k b n sg)" "keeps live now (api_lock_dev L h n)"
    "keeps live now (api_unlock_dev L h)" "keeps live now (api_transmit L h b n b' m)"
    "keeps live now (api_rsa_verify L h rk b n b' m)"
  using assms by (simp_all add: library_quiet_def keeps_runs library_respects_def)

lemma clean_case_prod [release_intros]:
  "(\<And>a b. x = (a, b) \<Longrightarrow> clean live now A (f a b)) \<Longrightarrow> clean live now A (case x of (a, b) \<Rightarrow> f a b)"
  by (cases x) simp

lemma clean_done_or [release_intros]: "clean live now A (done_or ret text ok ident)"
  by (simp add: done_or_def clean_reply)

lemma clean_device_unavailable [release_intros]: "clean live now A (device_unavailable prov dev r)"
  by (simp add: clean_def device_unavailable_def sess_kept_def)

lemma clean_connect_or_lose [release_intros]:
  assumes "library_quiet live now L" "\<And>h. clean live now A (body h)"
  shows "clean live now A (connect_or_lose L prov dev ident body)"
  unfolding connect_or_lose_def using assms by (intro release_intros)

lemma clean_open_app_or_lose [release_intros]:
  assumes "library_quiet live now L" "\<And>h. clean live now A (body h)"
  shows "clean live now A (open_app_or_lose L h_dev prov dev app ident body)"
  unfolding open_app_or_lose_def using assms by (intro release_intros)

lemma clean_close_app_dev [release_intros]:
  "library_quiet live now L \<Longrightarrow> clean live now A k \<Longrightarrow> clean live now A (close_app_dev L h_dev h_app k)"
  unfolding close_app_dev_def by (intro release_intros)

lemma clean_close_all [release_intros]:
  "library_quiet live now L \<Longrightarrow> clean live now A k \<Longrightarrow> clean live now A (close_all L h_dev h_app h_cont k)"
  unfolding close_all_def by (intro release_intros)

lemma clean_authorized_or [release_intros]:
  assumes "clean live now A refused" "clean live now A body"
  shows "clean live now A (authorized_or K prov dev app refused body)"
proof (rule cleanI)
  fix s w r s' w'
  assume run: "authorized_or K prov dev app refused body (s, w) = (r, s', w')"
  obtain x t where x: "session_authorized (sk_clock K w) prov dev app s = (x, t)"
    by (cases "session_authorized (sk_clock K w) prov dev app s")
  obtain f where f: "clean live now A f" and rf: "f (t, w) = (r, s', w')"
    using run x assms by (cases x) (auto simp: authorized_or_def)
  show "live w' = live w \<and> now w \<le> now w' \<and> sess_kept A s s'"
    using cleanD [OF f rf] sess_kept_trans [OF session_authorized_kept [OF x]] by simp
qed

lemma clean_import_key_pair [release_intros]:
  assumes "library_quiet live now L" "\<And>r. clean live now A (k r)"
  shows "clean live now A (import_key_pair K L p is_ecc alg enc h_cont k)"
  unfolding import_key_pair_def using assms by (auto split: sum.split intro!: release_intros)

locale direct_contract =
  fixes K :: "('w, 'd, 'a, 'c, 'h) skf_context"
    and live :: "'w \<Rightarrow> ('d, 'a, 'c, 'h) resource multiset"
  assumes library_laws: "library_quiet live (sk_clock K) (sk_library K path)"
    and dlopen_keeps: "keeps live (sk_clock K) (sk_dlopen K path)"
    and dlclose_keeps: "keeps live (sk_clock K) (\<lambda>w. ((), sk_dlclose K path w))"
    and cache_keeps: "keeps live (sk_clock K) (\<lambda>w. ((), sk_cache_insert K nm path w))"
begin

lemma get_api_library: "fst (get_api K prov w) = Inr L \<Longrightarrow> \<exists>path. L = sk_library K path"
  by (auto simp: get_api_def Let_def split: option.splits prod.splits)

lemma get_api_keeps: "keeps live (sk_clock K) (get_api K prov)"
  using dlopen_keeps cache_keeps by (simp add: keeps_runs runs_get_api kept_order)

lemma clean_with_api [release_intros]:
  assumes "\<And>L. library_quiet live (sk_clock K) L \<Longrightarrow> clean live (sk_clock K) A (body L)"
  shows "clean live (sk_clock K) A (with_api K prov err body)"
proof (rule cleanI)
  fix s w r s' w'
  assume run: "with_api K prov err body (s, w) = (r, s', w')"
  obtain x u where x: "get_api K prov w = (x, u)" by (cases "get_api K prov w")
  define k where "k = (case x of Inl m \<Rightarrow> reply (err m) | Inr L \<Rightarrow> body L)"
  have k: "clean live (sk_clock K) A k"
    using assms library_laws get_api_library [of prov w] x
    by (auto simp: k_def clean_reply split: sum.splits)
  have "k (s, u) = (r, s', w')" using run x by (simp add: with_api_def call_def k_def)
  from cleanD [OF k this] keepsD [OF get_api_keeps x]
  show "live w' = live w \<and> sk_clock K w \<le> sk_clock K w' \<and> sess_kept A s s'" by auto
qed

lemma clean_with_fresh_library [release_intros]:
  assumes "\<And>L. library_quiet live (sk_clock K) L \<Longrightarrow> clean live (sk_clock K) A (body L)"
  shows "clean live (sk_clock K) A (with_fresh_library K prov lang ident body)"
proof (cases "get_lib_path K prov")
  case (Inl e)
  then show ?thesis by (simp add: with_fresh_library_def clean_reply)
next
  case (Inr path)
  show ?thesis
  proof (rule cleanI)
    fix s w r s' w'
    assume run: "with_fresh_library K prov lang ident body (s, w) = (r, s', w')"
    obtain x u where x: "sk_dlopen K path w = (x, u)" by (cases "sk_dlopen K path w")
    note u = keepsD [OF dlopen_keeps x]
    show "live w' = live w \<and> sk_clock K w \<le> sk_clock K w' \<and> sess_kept A s s'"
    proof (cases x)
      case (Some e)
      then show ?thesis using run Inr x u by (auto simp: with_fresh_library_def)
    next
      case None
      obtain v where b: "body (sk_library K path) (s, u) = (r, s', v)" and w': "w' = sk_dlclose K path v"
        using run Inr x None by (auto simp: with_fresh_library_def split: prod.splits)
      have "live w' = live v" "sk_clock K v \<le> sk_clock K w'"
        using dlclose_keeps w' by (simp_all add: keeps_def)
      then show ?thesis using cleanD [OF assms [OF library_laws] b] u by auto
    qed
  qed
qed

lemma clean_search:
  assumes "keeps live (sk_clock K) f"
  shows "clean live (sk_clock K) A (call f (\<lambda>r. let_ret r (\<lambda>x. reply (g x))))"
  using assms by (intro release_intros)

lemma keeps_find: "keeps live (sk_clock K) (search_each (found_at_provider K flags) provs)"
  unfolding keeps_runs
proof (rule runs_find)
  show "runs (\<lambda>_. True) (kept live (sk_clock K)) (get_api K prov)" for prov
    using get_api_keeps by (simp add: keeps_runs)
qed (auto simp: keeps_runs [symmetric] kept_order intro!: library_quietD library_laws keeps_searched
    dest: get_api_library)

lemma clean_direct:
  assumes "(m, f) \<in> set (direct_methods K p lang)"
  shows "clean live (sk_clock K) {} f"
proof -
  have "clean live (sk_clock K) {} (FindCertificates_branch K p)"
    unfolding FindCertificates_branch_def Let_def by (intro clean_search keeps_find)
  moreover have "clean live (sk_clock K) {} (EnumApplication_branch K p lang)"
    "clean live (sk_clock K) {} (EnumContainer_branch K p lang)"
    "clean live (sk_clock K) {} (ImportKeyPair_branch K p lang)"
    "clean live (sk_clock K) {} (Digest_branch K p lang)"
    "clean live (sk_clock K) {} (GetDevInfo_branch K p lang)"
    "clean live (sk_clock K) {} (SetLabel_branch K p lang)"
    "clean live (sk_clock K) {} (ECCVerify_branch K p lang)"
    "clean live (sk_clock K) {} (LockDev_branch K p lang)"
    "clean live (sk_clock K) {} (UnlockDev_branch K p lang)"
    "clean live (sk_clock K) {} (Transmit_branch K p lang)"
    "clean live (sk_clock K) {} (RSAVerify_branch K p lang)"
    unfolding direct_branch_defs Let_def
    by (intro release_intros clean_case_sum; assumption?)+
  ultimately show ?thesis using assms by (auto simp: direct_methods_def)
qed

lemma clean_direct_alias:
  "clean live (sk_clock K) {} (WaitForDevEvent_direct K prov p lang)"
  "clean live (sk_clock K) {} (EnumDevice_direct K prov p lang)"
  "clean live (sk_clock K) {} (GetDevState_direct K prov dev p lang)"
  "clean live (sk_clock K) {} (DigestInit_direct K prov dev p lang)"
  unfolding direct_branch_defs Let_def by (intro release_intros; assumption?)+

end

section \<open>The ledger of native handles\<close>

text \<open>What the SKF interface promises of handles: a successful opening call adds the handle it returns,
  a closing call takes its handle away, and nothing else opens or closes. The ledger counts, since
  a library may hand out one value to several callers.\<close>

datatype raw_resource = RawDevice u64 | RawApplication u64 | RawContainer u64 | RawHash u64

definition raw_opens ::
  "('w \<Rightarrow> raw_resource multiset) \<Rightarrow> (u64 \<Rightarrow> raw_resource) \<Rightarrow> ('w \<Rightarrow> (u32 \<times> u64) \<times> 'w) \<Rightarrow> bool" where
  "raw_opens opened res f \<longleftrightarrow>
    (\<forall>w ret h w'. f w = ((ret, h), w') \<longrightarrow>
      opened w' = (if ret = SAR_OK then add_mset (res h) (opened w) else opened w))"

definition raw_closes ::
  "('w \<Rightarrow> raw_resource multiset) \<Rightarrow> (u64 \<Rightarrow> raw_resource) \<Rightarrow> (u64 \<Rightarrow> 'w \<Rightarrow> u32 \<times> 'w) \<Rightarrow> bool" where
  "raw_closes opened res f \<longleftrightarrow> (\<forall>h w. opened (snd (f h w)) = opened w - {#res h#})"

abbreviation untouched :: "('w \<Rightarrow> raw_resource multiset) \<Rightarrow> 'w \<Rightarrow> 'w \<Rightarrow> bool" where
  "untouched opened w w' \<equiv> opened w' = opened w"

definition raw_keeps :: "('w \<Rightarrow> raw_resource multiset) \<Rightarrow> ('w \<Rightarrow> 'r \<times> 'w) \<Rightarrow> bool" where
  "raw_keeps opened f \<longleftrightarrow> runs any_result (untouched opened) f"

definition library_ledger :: "('w \<Rightarrow> raw_resource multiset) \<Rightarrow> 'w skf_lib \<Rightarrow> bool" where
  "library_ledger opened L \<longleftrightarrow>
    (\<forall>s h. raw_opens opened RawDevice (api_connect_dev L s h))
    \<and> raw_closes opened RawDevice (api_dis_connect_dev L)
    \<and> (\<forall>d s h. raw_opens opened RawApplication (api_open_application L d s h))
    \<and> raw_closes opened RawApplication (api_close_application L)
    \<and> (\<forall>a s h. raw_opens opened RawContainer (api_open_container L a s h))
    \<and> raw_closes opened RawContainer (api_close_container L)
    \<and> (\<forall>d a k i n h. raw_opens opened RawHash (api_digest_init L d a k i n h))
    \<and> (\<forall>b n e. raw_keeps opened (api_wait_for_dev_event L b n e))
    \<and> (\<forall>f ob n. raw_keeps opened (api_enum_dev L f ob n))
    \<and> (\<forall>h ob n. raw_keeps opened (api_enum_application L h ob n))
    \<and> (\<forall>h ob n. raw_keeps opened (api_enum_container L h ob n))
    \<and> (\<forall>h f ob n. raw_keeps opened (api_export_certificate L h f ob n))
    \<and> (\<forall>h b n b' m. raw_keeps opened (api_digest L h b n b' m))
    \<and> (\<forall>h b. raw_keeps opened (api_import_ecc_key_pair L h b))
    \<and> (\<forall>h a b n b' m. raw_keeps opened (api_import_rsa_key_pair L h a b n b' m))
    \<and> (\<forall>h i. raw_keeps opened (api_get_dev_info L h i))
    \<and> (\<forall>s n. raw_keeps opened (api_get_dev_state L s n))
    \<and> (\<forall>h s. raw_keeps opened (api_set_label L h s))
    \<and> (\<forall>h k b n sg. raw_keeps opened (api_ecc_verify L h k b n sg))
    \<and> (\<forall>h n. raw_keeps opened (api_lock_dev L h n))
    \<and> (\<forall>h. raw_keeps opened (api_unlock_dev L h))
    \<and> (\<forall>h b n b' m. raw_keeps opened (api_transmit L h b n b' m))
    \<and> (\<forall>h rk b n b' m. raw_keeps opened (api_rsa_verify L h rk b n b' m))
    \<and> (\<forall>a s h. raw_opens opened RawContainer (api_create_container L a s h))
    \<and> raw_closes opened RawHash (api_close_hash L)
    \<and> (raw_keeps opened (api_cancel_wait_for_dev_event L))
    \<and> (\<forall>x1 x2 x3. raw_keeps opened (api_gen_random L x1 x2 x3))
    \<and> (\<forall>x1 x2 x3 x4. raw_keeps opened (api_verify_pin L x1 x2 x3 x4))
    \<and> (\<forall>x1 x2 x3 x4. raw_keeps opened (api_ecc_sign_data L x1 x2 x3 x4))
    \<and> (\<forall>x1 x2. raw_keeps opened (api_get_container_type L x1 x2))
    \<and> (\<forall>x1 x2 x3 x4 x5. raw_keeps opened (api_rsa_sign_data L x1 x2 x3 x4 x5))
    \<and> (\<forall>x1 x2 x3. raw_keeps opened (api_gen_ecc_key_pair L x1 x2 x3))
    \<and> (\<forall>x1 x2 x3. raw_keeps opened (api_gen_rsa_key_pair L x1 x2 x3))
    \<and> (\<forall>x1 x2. raw_keeps opened (api_delete_container L x1 x2))
    \<and> (\<forall>x1 x2 x3 x4. raw_keeps opened (api_import_certificate L x1 x2 x3 x4))
    \<and> (\<forall>x1 x2 x3 x4 x5 x6 x7. raw_keeps opened (api_encrypt_data L x1 x2 x3 x4 x5 x6 x7))
    \<and> (\<forall>x1 x2 x3 x4 x5 x6 x7. raw_keeps opened (api_decrypt_data L x1 x2 x3 x4 x5 x6 x7))
    \<and> (\<forall>x1 x2 x3. raw_keeps opened (api_digest_update L x1 x2 x3))
    \<and> (\<forall>x1 x2 x3. raw_keeps opened (api_digest_final L x1 x2 x3))
    \<and> (\<forall>x1 x2 x3 x4. raw_keeps opened (api_set_symm_key L x1 x2 x3 x4))"

lemma library_ledgerD:
  assumes "library_ledger opened L"
  shows "raw_opens opened RawDevice (api_connect_dev L s h)"
    "raw_closes opened RawDevice (api_dis_connect_dev L)"
    "raw_opens opened RawApplication (api_open_application L d s h)"
    "raw_closes opened RawApplication (api_close_application L)"
    "raw_opens opened RawContainer (api_open_container L d s h)"
    "raw_closes opened RawContainer (api_close_container L)"
    "raw_opens opened RawHash (api_digest_init L d a ok oi n h)"
    "raw_opens opened RawContainer (api_create_container L d s h)"
    "raw_closes opened RawHash (api_close_hash L)"
  using assms by (simp_all add: library_ledger_def)

lemma library_ledger_keeps:
  assumes "library_ledger opened L"
  shows "raw_keeps opened (api_wait_for_dev_event L b n e)"
    "raw_keeps opened (api_enum_dev L f ob n)"
    "raw_keeps opened (api_enum_application L h ob n)"
    "raw_keeps opened (api_enum_container L h ob n)"
    "raw_keeps opened (api_export_certificate L h f ob n)"
    "raw_keeps opened (api_digest L h b n b' m)"
    "raw_keeps opened (api_import_ecc_key_pair L h b)"
    "raw_keeps opened (api_import_rsa_key_pair L h a b n b' m)"
    "raw_keeps opened (api_get_dev_info L h i)"
    "raw_keeps opened (api_get_dev_state L s n)"
    "raw_keeps opened (api_set_label L h s)"
    "raw_keeps opened (api_ecc_verify L h k b n sg)"
    "raw_keeps opened (api_lock_dev L h n)"
    "raw_keeps opened (api_unlock_dev L h)"
    "raw_keeps opened (api_transmit L h b n b' m)"
    "raw_keeps opened (api_rsa_verify L h rk b n b' m)"
    "raw_keeps opened (api_cancel_wait_for_dev_event L)"
    "raw_keeps opened (api_gen_random L x1_0 x1_1 x1_2)"
    "raw_keeps opened (api_verify_pin L x2_0 x2_1 x2_2 x2_3)"
    "raw_keeps opened (api_ecc_sign_data L x3_0 x3_1 x3_2 x3_3)"
    "raw_keeps opened (api_get_container_type L x4_0 x4_1)"
    "raw_keeps opened (api_rsa_sign_data L x5_0 x5_1 x5_2 x5_3 x5_4)"
    "raw_keeps opened (api_gen_ecc_key_pair L x6_0 x6_1 x6_2)"
    "raw_keeps opened (api_gen_rsa_key_pair L x7_0 x7_1 x7_2)"
    "raw_keeps opened (api_delete_container L x8_0 x8_1)"
    "raw_keeps opened (api_import_certificate L x9_0 x9_1 x9_2 x9_3)"
    "raw_keeps opened (api_encrypt_data L x10_0 x10_1 x10_2 x10_3 x10_4 x10_5 x10_6)"
    "raw_keeps opened (api_decrypt_data L x11_0 x11_1 x11_2 x11_3 x11_4 x11_5 x11_6)"
    "raw_keeps opened (api_digest_update L x12_0 x12_1 x12_2)"
    "raw_keeps opened (api_digest_final L x13_0 x13_1 x13_2)"
    "raw_keeps opened (api_set_symm_key L x14_0 x14_1 x14_2 x14_3)"
  using assms by (simp_all add: library_ledger_def)

text \<open>A part of a branch that holds a stack of handles settles it with a postcondition: whatever else is
  open, an answer relates what was open beside the stack to what is open in the end. A balanced
  branch is one that settles an empty stack with equality.\<close>

definition settles ::
  "('w \<Rightarrow> raw_resource multiset) \<Rightarrow> (rpc_response \<Rightarrow> raw_resource multiset \<Rightarrow> raw_resource multiset \<Rightarrow> bool)
    \<Rightarrow> raw_resource list \<Rightarrow> ('w, 'd, 'a, 'c, 'h) handler \<Rightarrow> bool" where
  "settles opened Q hs f \<longleftrightarrow>
    (\<forall>s w r s' w' base. f (s, w) = (Ret r, s', w') \<longrightarrow> opened w = base + mset hs \<longrightarrow> Q r base (opened w'))"

abbreviation balanced :: "rpc_response \<Rightarrow> raw_resource multiset \<Rightarrow> raw_resource multiset \<Rightarrow> bool" where
  "balanced r base final \<equiv> final = base"

lemma settlesI:
  "(\<And>s w r s' w' base. f (s, w) = (Ret r, s', w') \<Longrightarrow> opened w = base + mset hs \<Longrightarrow> Q r base (opened w'))
    \<Longrightarrow> settles opened Q hs f"
  unfolding settles_def by blast

lemma settlesD:
  "settles opened Q hs f \<Longrightarrow> f (s, w) = (Ret r, s', w') \<Longrightarrow> opened w = base + mset hs \<Longrightarrow> Q r base (opened w')"
  unfolding settles_def by blast

lemma settles_reply [raw_intros]: "(\<And>base. Q r base (base + mset hs)) \<Longrightarrow> settles opened Q hs (reply r)"
  by (auto simp: settles_def reply_def)

lemma settles_done_or [raw_intros]:
  "(\<And>base. ret = SAR_OK \<Longrightarrow> Q ok base (base + mset hs)) \<Longrightarrow>
    (\<And>base. ret \<noteq> SAR_OK \<Longrightarrow> Q (rpc_err ret (text ret) ident) base (base + mset hs)) \<Longrightarrow>
    settles opened Q hs (done_or ret text ok ident)"
  by (auto simp: done_or_def intro: settles_reply)

lemma settles_device_unavailable [raw_intros]:
  "(\<And>base. Q r base (base + mset hs)) \<Longrightarrow> settles opened Q hs (device_unavailable prov dev r)"
  by (auto simp: settles_def device_unavailable_def)

lemma settles_let_some [raw_intros]:
  "(\<And>base. Q e base (base + mset hs)) \<Longrightarrow> (\<And>v. x = Some v \<Longrightarrow> settles opened Q hs (f v)) \<Longrightarrow>
    settles opened Q hs (let_some x e f)"
  by (cases x) (simp_all add: let_some_def settles_reply)

lemma settles_let_ok [raw_intros]:
  "(\<And>e base. x = Inl e \<Longrightarrow> Q e base (base + mset hs)) \<Longrightarrow> (\<And>v. x = Inr v \<Longrightarrow> settles opened Q hs (f v)) \<Longrightarrow>
    settles opened Q hs (let_ok x f)"
  by (cases x) (simp_all add: let_ok_def settles_reply)

lemma settles_let_ret [raw_intros]: "(\<And>v. settles opened Q hs (f v)) \<Longrightarrow> settles opened Q hs (let_ret x f)"
  by (cases x) (auto simp: let_ret_def settles_def)

lemma settles_if [raw_intros]:
  "(b \<Longrightarrow> settles opened Q hs f) \<Longrightarrow> (\<not> b \<Longrightarrow> settles opened Q hs g) \<Longrightarrow> settles opened Q hs (if b then f else g)"
  by simp

lemma settles_case_prod [raw_intros]:
  "(\<And>a b. settles opened Q hs (f a b)) \<Longrightarrow> settles opened Q hs (case x of (a, b) \<Rightarrow> f a b)"
  by (cases x) simp

lemma settles_call:
  assumes "raw_keeps opened g" "\<And>x. settles opened Q hs (f x)"
  shows "settles opened Q hs (call g f)"
proof (rule settlesI)
  fix s w r s' w' base
  assume run: "call g f (s, w) = (Ret r, s', w')" and debt: "opened w = base + mset hs"
  obtain x u where x: "g w = (x, u)" by (cases "g w")
  have "opened u = base + mset hs" using runsD [OF assms(1) [unfolded raw_keeps_def] x] debt by simp
  then show "Q r base (opened w')" using settlesD [OF assms(2)] run x by (simp add: call_def)
qed

lemma settles_open:
  assumes "raw_opens opened res g" "\<And>ret h. ret \<noteq> SAR_OK \<Longrightarrow> settles opened Q hs (e ret h)"
    and "\<And>ret h. settles opened Q (res h # hs) (f ret h)"
  shows "settles opened Q hs (call g (\<lambda>(ret, h). if ret \<noteq> SAR_OK then e ret h else f ret h))"
proof (rule settlesI)
  fix s w r s' w' base
  assume run: "call g (\<lambda>(ret, h). if ret \<noteq> SAR_OK then e ret h else f ret h) (s, w) = (Ret r, s', w')"
    and debt: "opened w = base + mset hs"
  obtain ret h u where x: "g w = ((ret, h), u)" by (metis surj_pair)
  have u: "opened u = (if ret = SAR_OK then add_mset (res h) (opened w) else opened w)"
    using assms(1) x unfolding raw_opens_def by blast
  show "Q r base (opened w')"
  proof (cases "ret = SAR_OK")
    case True
    then show ?thesis using run x u debt settlesD [OF assms(3), of ret h s u r s' w' base] by (simp add: call_def)
  next
    case False
    then show ?thesis using run x u debt settlesD [OF assms(2) [OF False], of h s u r s' w' base] by (simp add: call_def)
  qed
qed

lemma settles_close:
  assumes "raw_closes opened res g" "settles opened Q hs k"
  shows "settles opened Q (res h # hs) (call (g h) (\<lambda>_. k))"
proof (rule settlesI)
  fix s w r s' w' base
  assume run: "call (g h) (\<lambda>_. k) (s, w) = (Ret r, s', w')" and debt: "opened w = base + mset (res h # hs)"
  have "opened (snd (g h w)) = base + mset hs" using assms(1) debt by (simp add: raw_closes_def)
  then show "Q r base (opened w')"
    using settlesD [OF assms(2), of s "snd (g h w)"] run by (simp add: call_def split: prod.splits)
qed

text \<open>Closing what lies below the top of the stack.\<close>

lemma settles_close_below:
  assumes "raw_closes opened res g" "settles opened Q [x] k"
  shows "settles opened Q [x, res h] (call (g h) (\<lambda>_. k))"
  using settles_close [OF assms] unfolding settles_def by (simp add: add_mset_commute)

lemmas settles_calls [raw_intros] = library_ledger_keeps [THEN settles_call]
lemmas settles_opens [raw_intros] = library_ledgerD(1,3,5,7) [THEN settles_open]
lemmas settles_closes [raw_intros] = library_ledgerD(2,4,6) [THEN settles_close]

lemma settles_connect [raw_intros]:
  assumes "library_ledger opened L" "\<And>h. settles opened Q (RawDevice h # hs) (body h)"
    and "\<And>ret base. ret \<noteq> SAR_OK \<Longrightarrow> Q (rpc_err ret (failed_text ''ConnectDev'' ret) ident) base (base + mset hs)"
  shows "settles opened Q hs (connect_or_lose L prov dev ident body)"
  unfolding connect_or_lose_def using assms by (intro raw_intros)

lemma settles_open_app [raw_intros]:
  assumes "library_ledger opened L" "\<And>a. settles opened Q (RawApplication a # RawDevice h # hs) (body a)"
    and "\<And>ret base. ret \<noteq> SAR_OK \<Longrightarrow> Q (rpc_err ret (failed_text ''OpenApplication'' ret) ident) base (base + mset hs)"
  shows "settles opened Q (RawDevice h # hs) (open_app_or_lose L h prov dev app ident body)"
  unfolding open_app_or_lose_def using assms by (intro raw_intros)

lemma settles_close_app_dev [raw_intros]:
  "library_ledger opened L \<Longrightarrow> settles opened Q hs k \<Longrightarrow>
    settles opened Q (RawApplication a # RawDevice h # hs) (close_app_dev L h a k)"
  unfolding close_app_dev_def by (intro raw_intros)

lemma runs_searched_open:
  assumes "\<And>s. raw_opens opened res (open_h s 0)" "raw_closes opened res close_h"
    and "\<And>h. runs (\<lambda>r. r \<noteq> Panic) (untouched opened) (body h)"
  shows "runs (\<lambda>r. r \<noteq> Panic) (untouched opened) (searched open_h close_h name body)"
  unfolding runs_def
proof (intro allI impI)
  fix w r w'
  assume run: "searched open_h close_h name body w = (r, w')" and r: "r \<noteq> Panic"
  obtain c where c: "unwrap_cstring name = Ret c"
    using run r by (cases "unwrap_cstring name") (auto simp: searched_def)
  obtain ret h u where x: "open_h c 0 w = ((ret, h), u)" by (metis surj_pair)
  obtain y v where y: "body h u = (y, v)" by (cases "body h u")
  have u: "opened u = (if ret = SAR_OK then add_mset (res h) (opened w) else opened w)"
    using assms(1) x unfolding raw_opens_def by blast
  show "opened w' = opened w"
  proof (cases "ret = SAR_OK")
    case False
    then show ?thesis using run c x u by (simp add: searched_def)
  next
    case True
    then obtain rs where ry: "y = Ret rs" and w': "w' = snd (close_h h v)"
      using run c x y r by (cases y) (auto simp: searched_def)
    have "opened v = opened u" using runsD [OF assms(3) y] ry by simp
    then show ?thesis using u True w' assms(2) by (simp add: raw_closes_def)
  qed
qed

locale raw_contract =
  fixes K :: "('w, 'd, 'a, 'c, 'h) skf_context"
    and opened :: "'w \<Rightarrow> raw_resource multiset"
  assumes ledger_laws: "library_ledger opened (sk_library K path)"
    and dlopen_raw: "raw_keeps opened (sk_dlopen K path)"
    and dlclose_raw: "opened (sk_dlclose K path w) = opened w"
    and cache_raw: "opened (sk_cache_insert K nm path w) = opened w"
begin

lemma get_api_raw: "raw_keeps opened (get_api K prov)"
  unfolding raw_keeps_def
  by (rule runs_get_api) (use dlopen_raw cache_raw in \<open>auto simp: reflp_def transp_def raw_keeps_def runs_unit\<close>)

lemma get_api_ledger: "fst (get_api K prov w) = Inr L \<Longrightarrow> library_ledger opened L"
  using ledger_laws by (auto simp: get_api_def Let_def split: option.splits prod.splits)

lemma settles_with_api [raw_intros]:
  assumes "\<And>m base. Q (err m) base base" "\<And>L. library_ledger opened L \<Longrightarrow> settles opened Q [] (body L)"
  shows "settles opened Q [] (with_api K prov err body)"
proof (rule settlesI)
  fix s w r s' w' base
  assume run: "with_api K prov err body (s, w) = (Ret r, s', w')" and debt: "opened w = base + mset []"
  obtain x u where x: "get_api K prov w = (x, u)" by (cases "get_api K prov w")
  have u: "opened u = base" using runsD [OF get_api_raw [unfolded raw_keeps_def] x] debt by simp
  show "Q r base (opened w')"
  proof (cases x)
    case (Inl m)
    then show ?thesis using run x u assms(1) by (auto simp: with_api_def call_def reply_def)
  next
    case (Inr L)
    then have "library_ledger opened L" using get_api_ledger [of prov w L] x by simp
    then show ?thesis using settlesD [OF assms(2), of L s u r s' w' base] run x u Inr by (simp add: with_api_def call_def)
  qed
qed

lemma settles_with_fresh_library [raw_intros]:
  assumes "\<And>e base. Q (load_failed_localized e lang ident) base base"
    and "\<And>L. library_ledger opened L \<Longrightarrow> settles opened Q [] (body L)"
  shows "settles opened Q [] (with_fresh_library K prov lang ident body)"
proof (cases "get_lib_path K prov")
  case (Inl e)
  then show ?thesis by (simp add: with_fresh_library_def settles_reply assms(1))
next
  case (Inr path)
  show ?thesis
  proof (rule settlesI)
    fix s w r s' w' base
    assume run: "with_fresh_library K prov lang ident body (s, w) = (Ret r, s', w')" and debt: "opened w = base + mset []"
    obtain x u where x: "sk_dlopen K path w = (x, u)" by (cases "sk_dlopen K path w")
    have u: "opened u = base" using runsD [OF dlopen_raw [unfolded raw_keeps_def] x] debt by simp
    obtain v where b: "body (sk_library K path) (s, u) = (Ret r, s', v)" and w': "w' = sk_dlclose K path v"
      using run Inr x by (cases x) (auto simp: with_fresh_library_def split: prod.splits)
    show "Q r base (opened w')" using settlesD [OF assms(2) [OF ledger_laws] b] u w' dlclose_raw by simp
  qed
qed

lemma raw_find: "runs (\<lambda>r. r \<noteq> Panic) (untouched opened) (search_each (found_at_provider K flags) provs)"
proof (rule runs_find)
  show "runs any_result (untouched opened) (get_api K prov)" for prov
    using get_api_raw by (simp add: raw_keeps_def)
qed (auto simp: reflp_def transp_def raw_keeps_def [symmetric] intro!: library_ledger_keeps runs_searched_open library_ledgerD
    dest: get_api_ledger)

lemma settles_branches:
  "settles opened balanced [] (EnumApplication_branch K p lang)" "settles opened balanced [] (EnumContainer_branch K p lang)"
  "settles opened balanced [] (GetDevInfo_branch K p lang)" "settles opened balanced [] (SetLabel_branch K p lang)"
  "settles opened balanced [] (ECCVerify_branch K p lang)" "settles opened balanced [] (LockDev_branch K p lang)"
  "settles opened balanced [] (UnlockDev_branch K p lang)" "settles opened balanced [] (Transmit_branch K p lang)"
  "settles opened balanced [] (RSAVerify_branch K p lang)" "settles opened balanced [] (WaitForDevEvent_direct K prov p lang)"
  "settles opened balanced [] (EnumDevice_direct K prov p lang)" "settles opened balanced [] (GetDevState_direct K prov dev p lang)"
  "settles opened balanced [] (DigestInit_direct K prov dev p lang)"
  unfolding direct_branch_defs Let_def by (intro raw_intros; (assumption | simp; fail)?)+

lemma settles_FindCertificates: "settles opened balanced [] (FindCertificates_branch K p)"
proof (rule settlesI)
  fix s w r s' w' base
  assume run: "FindCertificates_branch K p (s, w) = (Ret r, s', w')" and debt: "opened w = base + mset []"
  then obtain flags x where x: "search_each (found_at_provider K flags) (map fst (libs (sk_config K))) w = (x, w')"
      "x \<noteq> Panic"
    unfolding FindCertificates_branch_def Let_def
    by (auto simp: call_def let_ret_def reply_def split: prod.splits outcome.splits)
  show "opened w' = base" using runsD [OF raw_find x(1)] x(2) debt by simp
qed

lemma settles_direct:
  "(m, f) \<in> set (direct_methods K p lang) \<Longrightarrow> m \<noteq> ''ImportKeyPair'' \<Longrightarrow> m \<noteq> ''Digest'' \<Longrightarrow> settles opened balanced [] f"
  unfolding direct_methods_def list.set insert_iff prod.inject empty_iff
  by (elim disjE conjE) (simp_all only: settles_branches settles_FindCertificates)

end

section \<open>A token in the machine\<close>

text \<open>An example: a library that opens everything under handle 1, as some vendors do for a device that
  is connected twice, and a service whose default provider could not be prepared.\<close>

definition token_library :: "raw_resource multiset skf_lib" where
  "token_library =
    (refusing_library (\<lambda>_. True))
    \<lparr>SKF_ConnectDev := \<lambda>_ _ w. ((SAR_OK, 1), add_mset (RawDevice 1) w),
     SKF_DisConnectDev := \<lambda>h w. (SAR_OK, w - {#RawDevice h#}),
     SKF_OpenApplication := \<lambda>_ _ _ w. ((SAR_OK, 1), add_mset (RawApplication 1) w),
     SKF_CloseApplication := \<lambda>h w. (SAR_OK, w - {#RawApplication h#}),
     SKF_OpenContainer := \<lambda>_ _ _ w. ((SAR_OK, 1), add_mset (RawContainer 1) w),
     SKF_CloseContainer := \<lambda>h w. (SAR_OK, w - {#RawContainer h#}),
     SKF_DigestInit := \<lambda>_ _ _ _ _ _ w. ((SAR_OK, 1), add_mset (RawHash 1) w),
     SKF_Digest := \<lambda>_ _ _ b _ w. ((SAR_OK, b, 32), w),
     SKF_SetLabel := \<lambda>_ _ w. (SAR_OK, w),
     SKF_CreateContainer := \<lambda>_ _ _ w. ((SAR_OK, 1), add_mset (RawContainer 1) w),
     SKF_CloseHash := \<lambda>h w. (SAR_OK, w - {#RawHash h#})\<rparr>"

definition token_context :: "(raw_resource multiset, unit, unit, unit, unit) skf_context" where
  "token_context =
    \<lparr>sk_runtime = plain_runtime\<lparr>rt_codec := std_codec\<rparr>,
     sk_config = \<lparr>cfg_default = ''GM'', vendor = [], allow_remote = None,
       libs = [(''GM'', [(''linux'', ''libgm.so'')])]\<rparr>,
     sk_provider = unavailable_provider ''x86_64'' ''GM'' ''no token'', sk_os = ''linux'', sk_arch = ''x86_64'',
     sk_cached = \<lambda>_ _. None, sk_cache_insert = \<lambda>_ _ w. w, sk_dlopen = \<lambda>_ w. (None, w),
     sk_dlclose = \<lambda>_ w. w, sk_library = \<lambda>_. token_library,
     sk_from_api = \<lambda>nm _. unavailable_provider ''x86_64'' nm ''no token'', sk_clock = \<lambda>_. 0,
     sk_micros = \<lambda>_. Some 0, sk_write_csr = \<lambda>_ w. w, sk_x509 = \<lambda>_. None,
     sk_issuer = readonly_issuer\<rparr>"

lemmas api_defs =
  api_wait_for_dev_event_def api_cancel_wait_for_dev_event_def api_enum_dev_def
  api_connect_dev_def api_dis_connect_dev_def api_gen_random_def api_enum_application_def
  api_open_application_def api_close_application_def api_enum_container_def
  api_open_container_def api_close_container_def api_export_certificate_def api_verify_pin_def
  api_ecc_sign_data_def api_get_container_type_def api_rsa_sign_data_def api_digest_init_def
  api_digest_def api_create_container_def api_gen_ecc_key_pair_def api_gen_rsa_key_pair_def
  api_delete_container_def api_import_certificate_def api_import_ecc_key_pair_def
  api_import_rsa_key_pair_def api_encrypt_data_def api_decrypt_data_def api_digest_update_def
  api_digest_final_def api_rsa_verify_def api_set_symm_key_def api_get_dev_info_def
  api_get_dev_state_def api_set_label_def api_ecc_verify_def api_lock_dev_def
  api_unlock_dev_def api_transmit_def api_close_hash_def

lemma token_library_ledger: "library_ledger (\<lambda>w. w) token_library"
  unfolding library_ledger_def token_library_def refusing_library_def api_defs
  by (intro conjI allI)
    (simp_all add: raw_opens_def raw_closes_def raw_keeps_def runs_def ffi_def SAR_OK_def SAR_FAIL_def)

interpretation token: raw_contract token_context "\<lambda>w. w"
  by unfold_locales (simp_all add: token_context_def token_library_ledger raw_keeps_def runs_def)

lemma token_library_quiet: "library_quiet (\<lambda>_. {#}) (\<lambda>_. 0) token_library"
  unfolding library_quiet_def library_respects_def by (simp add: runs_def kept_def)

interpretation token_direct: direct_contract token_context "\<lambda>_. {#}"
  by unfold_locales (simp_all add: token_context_def token_library_quiet keeps_def)

lemma token_api: "get_api token_context ''GM'' w = (Inr token_library, w)"
  by (simp add: get_api_def token_context_def os_lookup_def)

lemma token_calls [simp]:
  "api_connect_dev token_library nm h w = ((SAR_OK, 1), add_mset (RawDevice 1) w)"
  "api_dis_connect_dev token_library h w = (SAR_OK, w - {#RawDevice h#})"
  "api_open_application token_library d nm h w = ((SAR_OK, 1), add_mset (RawApplication 1) w)"
  "api_set_label token_library h nm w = (SAR_OK, w)"
  "api_digest_init token_library d a k i n h w = ((SAR_OK, 1), add_mset (RawHash 1) w)"
  "api_digest token_library h b n b' m w = ((SAR_OK, b', 32), w)"
  by (simp_all add: api_defs ffi_def token_library_def refusing_library_def)

section \<open>Properties\<close>

text \<open>C7: Of the twelve branches that call the vendor library themselves, the ten others than
  \<open>ImportKeyPair\<close> and \<open>Digest\<close> give back every native handle they open: whenever such a branch answers,
  with success or with an error, the handles open in the library are those that were open before,
  however many share a value.\<close>

theorem direct_branches_balance:
  assumes "raw_contract K opened" and "(m, f) \<in> set (direct_methods K p lang)"
    and "m \<noteq> ''ImportKeyPair''" "m \<noteq> ''Digest''" and "f (s, w) = (Ret r, s', w')"
  shows "opened w' = opened w"
  using settlesD [OF raw_contract.settles_direct [OF assms(1-4)] assms(5), of "opened w"] by simp

theorem direct_branches_balance_witness:
  "\<exists>s' w'. SetLabel_branch token_context (new_params [String ''GM'', String ''dev'', String ''lbl''] None) EN
      (new_session [] 600, {#RawDevice 1#}) = (Ret (rpc_ok (Boolean True) None), s', w')
    \<and> w' = {#RawDevice 1#}"
proof -
  let ?p = "new_params [String ''GM'', String ''dev'', String ''lbl''] None"
  let ?s = "new_session [] 600 :: (unit, unit, unit, unit) session_state"
  have a: "named_alias token_context ?p = ''GM''"
    by (simp add: named_alias_def str_param_def raw_def new_params_def)
  have p: "str_param ?p 1 = Some ''dev''" "str_param ?p 2 = Some ''lbl''" "params_id ?p = None"
    by (simp_all add: str_param_def raw_def new_params_def)
  obtain s' w' where run: "SetLabel_branch token_context ?p EN (?s, {#RawDevice 1#}) = (Ret (rpc_ok (Boolean True) None), s', w')"
    unfolding SetLabel_branch_def Let_def a p
    by (simp add: let_some_def with_api_def call_def token_api connect_or_lose_def let_ret_def unwrap_cstring_def
        cstring_def done_or_def reply_def)
  have m: "(''SetLabel'', SetLabel_branch token_context ?p EN) \<in> set (direct_methods token_context ?p EN)"
    by (simp add: direct_methods_def)
  have "w' = {#RawDevice 1#}"
    using direct_branches_balance [OF token.raw_contract_axioms m _ _ run] by simp
  with run show ?thesis by blast
qed

definition digest_leftover :: "rpc_response \<Rightarrow> raw_resource multiset \<Rightarrow> raw_resource multiset \<Rightarrow> bool" where
  "digest_leftover r base final \<longleftrightarrow>
    (\<exists>h. final = add_mset (RawHash h) base) \<or> final = base \<and> resp_error r \<noteq> 0"

lemma digest_leftover_hash [simp]: "digest_leftover r base (add_mset (RawHash h) base)"
  by (auto simp: digest_leftover_def)

lemma digest_leftover_same: "resp_error r \<noteq> 0 \<Longrightarrow> digest_leftover r base base"
  by (simp add: digest_leftover_def)

lemma direct_errors [simp]:
  "resp_error (missing text p) = - 2" "resp_error (load_failed msg ident) = - 5"
  "resp_error (rpc_err code msg ident) = code"
  by (simp_all add: missing_def load_failed_def)

lemma settles_Digest:
  assumes "raw_contract K opened"
  shows "settles opened digest_leftover [] (Digest_branch K p lang)"
proof -
  have err: "resp_error e = - 2" if "b64_param C x what (- 2) p = Inl e" for C x what e
    using that by (auto simp: b64_param_def split: sum.splits)
  show ?thesis
    unfolding Digest_branch_def Let_def
    by (intro raw_intros raw_contract.settles_with_api [OF assms] settles_close_below [OF library_ledgerD(2)])
      (auto simp: SAR_OK_def dest: err intro!: digest_leftover_same)
qed

text \<open>C19: The one-shot \<open>Digest\<close> gives back its device but not its hash: an answer leaves at most one hash
  handle behind, and a successful answer always does.\<close>

theorem digest_leaves_hash_open:
  assumes "raw_contract K opened" and "Digest_branch K p lang (s, w) = (Ret r, s', w')"
  shows "(\<exists>h. opened w' = add_mset (RawHash h) (opened w)) \<or> opened w' = opened w \<and> resp_error r \<noteq> 0"
  using settlesD [OF settles_Digest [OF assms(1)] assms(2), of "opened w"] by (simp add: digest_leftover_def)

theorem digest_leaves_hash_open_witness:
  "\<exists>r s' w' h. Digest_branch token_context (new_params [String ''GM'', String ''dev'', String [], String ''SM3''] None) EN
      (new_session [] 600, {#}) = (Ret r, s', w') \<and> resp_error r = 0 \<and> w' = {#RawHash h#}"
proof -
  let ?p = "new_params [String ''GM'', String ''dev'', String [], String ''SM3''] None"
  let ?s = "new_session [] 600 :: (unit, unit, unit, unit) session_state"
  have p: "str_param ?p 0 = Some ''GM''" "str_param ?p (Suc 0) = Some ''dev''" "str_param ?p 2 = Some []"
    "str_param ?p 3 = Some ''SM3''" "params_id ?p = None"
    by (simp_all add: str_param_def raw_def new_params_def)
  have d: "b64_param (sk_codec token_context) [] what code p = Inr []" for what code p
    by (simp add: b64_param_def token_context_def std_codec_def)
  have u: "digest_alg (to_uppercase (unicode_upper (sk_runtime token_context)) ''SM3'') = Some SGD_SM3"
    by (simp add: token_context_def plain_runtime_def digest_alg_def to_uppercase_def) code_simp
  obtain r s' w' where run: "Digest_branch token_context ?p EN (?s, {#}) = (Ret r, s', w')" "resp_error r = 0"
    unfolding Digest_branch_def Let_def
    by (simp add: p d u let_some_def let_ok_def with_api_def call_def token_api connect_or_lose_def let_ret_def
        unwrap_cstring_def cstring_def done_or_def reply_def rpc_ok_def)
  with digest_leaves_hash_open [OF token.raw_contract_axioms run(1)] show ?thesis by auto
qed

text \<open>C18: \<open>ImportKeyPair\<close> closes twice when the session holds no grant: with the device connected and the
  application open, an unauthorised caller is refused with code -10, and the library is left with
  one holder less of both handles than before the request.\<close>

theorem import_refusal_closes_twice:
  fixes K :: "('a, 'b, 'c, 'd, 'e) skf_context"
  assumes contract: "raw_contract K opened"
    and params: "str_param p 1 = Some dev" "str_param p 2 = Some app" "str_param p 3 = Some cont"
      "str_param p 4 = Some alg" "str_param p 5 = Some enc_b64"
    and decoded: "sm4_mode p lang = Inr sm4" "b64_decode (sk_codec K) enc_b64 = Inr enc"
    and api: "get_api K (named_alias K p) w = (Inr L, w1)"
    and dev: "cstring dev = Some dev" "api_connect_dev L dev 0 w1 = ((SAR_OK, h_dev), w2)"
    and app: "cstring app = Some app" "api_open_application L h_dev app 0 w2 = ((SAR_OK, h_app), w3)"
    and refused: "session_authorized (sk_clock K w3) (named_alias K p) dev app s = (Inl e, s')"
  shows "\<exists>w'. ImportKeyPair_branch K p lang (s, w) =
      (Ret (rpc_err (- 10) ''User not logged in (PIN cache empty). Call CheckPIN first.'' (params_id p)), s', w')
    \<and> opened w' = opened w - {#RawApplication h_app, RawDevice h_dev#}"
proof -
  have L: "library_ledger opened L" using raw_contract.get_api_ledger [OF contract, of "named_alias K p" w] api by simp
  have "opened w1 = opened w"
    using runsD [OF raw_contract.get_api_raw [OF contract, unfolded raw_keeps_def] api] by simp
  then have w3: "opened w3 = add_mset (RawApplication h_app) (add_mset (RawDevice h_dev) (opened w))"
    using library_ledgerD(1,3) [OF L] dev(2) app(2) by (simp add: raw_opens_def)
  note closes = library_ledgerD(2,4) [OF L, unfolded raw_closes_def]
  define close2 where
    "close2 u = snd (api_dis_connect_dev L h_dev (snd (api_close_application L h_app u)))" for u
  have "opened (close2 u) = opened u - {#RawApplication h_app#} - {#RawDevice h_dev#}" for u
    using closes by (simp add: close2_def)
  then have "opened (close2 (close2 w3)) = opened w - {#RawApplication h_app, RawDevice h_dev#}"
    by (simp add: w3 add_mset_commute)
  moreover have "close_app_dev L h_dev h_app k (t, u) = k (t, close2 u)"
    for k :: "('a, 'b, 'c, 'd, 'e) handler" and t u
    by (simp add: close_app_dev_def call_def close2_def split: prod.split)
  ultimately show ?thesis
    using params decoded api dev app refused
    by (simp add: ImportKeyPair_branch_def Let_def let_some_def let_ok_def b64_param_def with_api_def call_def
        connect_or_lose_def open_app_or_lose_def let_ret_def unwrap_cstring_def authorized_or_def reply_def)
qed

theorem import_refusal_closes_twice_witness:
  "\<exists>s' w'. ImportKeyPair_branch token_context
      (new_params (map String [''GM'', ''dev'', ''app'', ''cnt'', ''SM2'', []]) None) EN
      (new_session [] 600, {#RawDevice 1, RawApplication 1#}) =
    (Ret (rpc_err (- 10) ''User not logged in (PIN cache empty). Call CheckPIN first.'' None), s', w')
    \<and> w' = {#}"
proof -
  let ?p = "new_params (map String [''GM'', ''dev'', ''app'', ''cnt'', ''SM2'', []]) None"
  let ?s = "new_session [] 600 :: (unit, unit, unit, unit) session_state"
  let ?w = "{#RawDevice 1, RawApplication 1#}"
  have p: "str_param ?p 1 = Some ''dev''" "str_param ?p 2 = Some ''app''" "str_param ?p 3 = Some ''cnt''"
    "str_param ?p 4 = Some ''SM2''" "str_param ?p 5 = Some []" "params_id ?p = None"
    "named_alias token_context ?p = ''GM''" "sm4_mode ?p EN = Inr SGD_SM4_ECB"
    by (simp_all add: str_param_def raw_def new_params_def named_alias_def sm4_mode_def)
  have d: "b64_decode (sk_codec token_context) [] = Inr []" by (simp add: token_context_def std_codec_def)
  have a: "get_api token_context (named_alias token_context ?p) ?w = (Inr token_library, ?w)"
    unfolding p(7) by (rule token_api)
  have r: "\<exists>e s'. session_authorized now prov dev app ?s = (Inl e, s')" for now prov dev app
    by (simp add: session_authorized_def sess_authorize_def new_session_def new_auth_table_def auth_check_def)
  then obtain e s' where r: "session_authorized 0 ''GM'' ''dev'' ''app'' ?s = (Inl e, s')" by blast
  have r: "session_authorized (sk_clock token_context w3) (named_alias token_context ?p) ''dev'' ''app'' ?s = (Inl e, s')"
    for w3
    using r unfolding p(7) by (simp add: token_context_def)
  have c: "cstring ''dev'' = Some ''dev''" "cstring ''app'' = Some ''app''" by (simp_all add: cstring_def)
  note refusal = import_refusal_closes_twice [OF token.raw_contract_axioms p(1-5,8) d a c(1) token_calls(1) c(2)
      token_calls(3) r]
  from refusal obtain w' where w': "ImportKeyPair_branch token_context ?p EN (?s, ?w) =
      (Ret (rpc_err (- 10) ''User not logged in (PIN cache empty). Call CheckPIN first.'' (params_id ?p)), s', w')"
    "w' = ?w - {#RawApplication 1, RawDevice 1#}"
    by (elim exE conjE)
  have "w' = {#}" using w'(2) by simp
  with w'(1) show ?thesis unfolding p(6) by (intro exI conjI)
qed

end
