(* ===== verification/Containers.thy ===== *)
theory Containers
  imports Fake Base64
begin

text \<open>
  The container and certificate handlers (\<open>src/domain/container.rs\<close>): \<open>CreateContainer\<close>,
  \<open>DeleteContainer\<close>, \<open>GetContainerType\<close> and \<open>ImportCertificate\<close>.
\<close>

definition CreateContainer_handle ::
  "('w, 'd, 'a, 'c, 'h) server_context \<Rightarrow> params \<Rightarrow> language \<Rightarrow> ('w, 'd, 'a, 'c, 'h) handler" where
  "CreateContainer_handle ctx p lang =
    (let ident = params_id p; prov = normalize_alias ctx (optional_str p 0 []) in
     let_ok (required_str p 1 ''Missing deviceName param'') (\<lambda>dev.
     let_ok (required_str p 2 ''Missing appName param'') (\<lambda>app.
     let_ok (required_str p 3 ''Missing containerName param'') (\<lambda>cont.
     with_provider ctx prov (\<lambda>m. load_failed m ident) (\<lambda>P.
     with_device P prov dev ident (\<lambda>d.
     with_application P d prov dev app (failed_text ''OpenApplication'') ident (\<lambda>a.
     require_auth ctx prov dev app ident (
     with_guard (create_container P a cont) (drop_container P)
       (\<lambda>e. reply (provider_failure (localized lang
         (utf8 [0xE5, 0x88, 0x9B, 0xE5, 0xBB, 0xBA, 0xE5, 0xAE, 0xB9, 0xE5, 0x99, 0xA8, 0xE5, 0xA4, 0xB1, 0xE8, 0xB4, 0xA5] @ '': 0x'')
         ''CreateContainer failed: 0x'') e ident))
       (\<lambda>_. reply (rpc_ok (String cont) ident))))))))))"

definition DeleteContainer_handle ::
  "('w, 'd, 'a, 'c, 'h) server_context \<Rightarrow> params \<Rightarrow> language \<Rightarrow> ('w, 'd, 'a, 'c, 'h) handler" where
  "DeleteContainer_handle ctx p lang =
    (let ident = params_id p; prov = optional_str p 0 (default_alias ctx) in
     let_ok (required_str p 1 ''Missing deviceName param'') (\<lambda>dev.
     let_ok (required_str p 2 ''Missing appName param'') (\<lambda>app.
     let_ok (required_str p 3 ''Missing containerName param'') (\<lambda>cont.
     with_provider ctx prov (\<lambda>m. load_failed m ident) (\<lambda>P.
     with_device P prov dev ident (\<lambda>d.
     with_application P d prov dev app (failed_text ''OpenApplication'') ident (\<lambda>a.
     call (delete_container P a cont) (answer (\<lambda>_. rpc_ok (Boolean True) ident)
       (\<lambda>e. provider_failure (localized lang
         (utf8 [0xE5, 0x88, 0xA0, 0xE9, 0x99, 0xA4, 0xE5, 0xAE, 0xB9, 0xE5, 0x99, 0xA8, 0xE5, 0xA4, 0xB1, 0xE8, 0xB4, 0xA5] @ '': 0x'')
         ''DeleteContainer failed: 0x'') e ident)))))))))"

definition container_type_str :: "u32 \<Rightarrow> string" where
  "container_type_str t =
    (if t = 1 then ''Sign'' else if t = 2 then ''Enc'' else if t = 3 then ''Both'' else ''Unknown'')"

definition GetContainerType_handle ::
  "('w, 'd, 'a, 'c, 'h) server_context \<Rightarrow> params \<Rightarrow> language \<Rightarrow> ('w, 'd, 'a, 'c, 'h) handler" where
  "GetContainerType_handle ctx p lang =
    (let ident = params_id p; prov = normalize_alias ctx (optional_str p 0 []) in
     let_ok (required_str p 1 ''Missing deviceName param'') (\<lambda>dev.
     let_ok (required_str p 2 ''Missing appName param'') (\<lambda>app.
     let_ok (required_str p 3 ''Missing containerName param'') (\<lambda>cont.
     with_provider ctx prov (\<lambda>m. load_failed m ident) (\<lambda>P.
     with_device P prov dev ident (\<lambda>d.
     with_application P d prov dev app (failed_text ''OpenApplication'') ident (\<lambda>a.
     with_container P a cont ident (\<lambda>c.
     call (container_type P c) (answer
       (\<lambda>t. rpc_ok (Object [(''type'', json_u32 t), (''typeStr'', String (container_type_str t))]) ident)
       (\<lambda>e. provider_failure (localized lang
         (utf8 [0xE8, 0x8E, 0xB7, 0xE5, 0x8F, 0x96, 0xE5, 0xAE, 0xB9, 0xE5, 0x99, 0xA8, 0xE7, 0xB1, 0xBB, 0xE5, 0x9E, 0x8B, 0xE5, 0xA4, 0xB1, 0xE8, 0xB4, 0xA5] @ '': 0x'')
         ''GetContainerType failed: 0x'') e ident))))))))))"

definition decode_certificate :: "codec \<Rightarrow> string \<Rightarrow> string + bytes" where
  "decode_certificate C cert =
    (if contains ''-----BEGIN'' cert then
       (let b64 = filter (\<lambda>c. c \<noteq> CHR 0x0A \<and> c \<noteq> CHR 0x0D)
          (remove_all ''-----END CERTIFICATE-----'' (remove_all ''-----BEGIN CERTIFICATE-----'' cert))
        in case b64_decode C b64 of Inr b \<Rightarrow> Inr b | Inl _ \<Rightarrow> Inr (as_bytes cert))
     else b64_decode C cert)"

definition ImportCertificate_handle ::
  "codec \<Rightarrow> ('w, 'd, 'a, 'c, 'h) server_context \<Rightarrow> params \<Rightarrow> language \<Rightarrow> ('w, 'd, 'a, 'c, 'h) handler" where
  "ImportCertificate_handle C ctx p lang =
    (let ident = params_id p; prov = optional_str p 0 (default_alias ctx) in
     let_ok (required_str p 1 ''Missing deviceName param'') (\<lambda>dev.
     let_ok (required_str p 2 ''Missing appName param'') (\<lambda>app.
     let_ok (required_str p 3 ''Missing containerName param'') (\<lambda>cont.
     let_some (Option.bind (raw p 4) as_bool) (rpc_err (- 2) ''Missing bSignFlag param'' ident) (\<lambda>sign_flag.
     let_ok (required_str p 5 ''Missing certData param'') (\<lambda>cert_str.
     let_ok (check_payload_len p cert_str) (\<lambda>_.
     let_ok (case decode_certificate C cert_str of
               Inr b \<Rightarrow> Inr b
             | Inl e \<Rightarrow> Inl (rpc_err (- 3) (''Invalid cert base64: '' @ e) ident)) (\<lambda>cert.
     with_provider ctx prov (\<lambda>m. load_failed m ident) (\<lambda>P.
     with_device P prov dev ident (\<lambda>d.
     with_application P d prov dev app (failed_text ''OpenApplication'') ident (\<lambda>a.
     require_auth ctx prov dev app ident (
     with_container P a cont ident (\<lambda>c.
     call (import_certificate P c sign_flag cert) (answer (\<lambda>_. rpc_ok (Boolean True) ident)
       (\<lambda>e. provider_failure (localized lang
         (utf8 [0xE5, 0xAF, 0xBC, 0xE5, 0x85, 0xA5, 0xE8, 0xAF, 0x81, 0xE4, 0xB9, 0xA6, 0xE5, 0xA4, 0xB1, 0xE8, 0xB4, 0xA5] @ '': 0x'')
         ''ImportCertificate failed: 0x'') e ident)))))))))))))))"

lemmas container_handler_defs =
  CreateContainer_handle_def DeleteContainer_handle_def GetContainerType_handle_def
  ImportCertificate_handle_def

section \<open>Every path gives back what it took\<close>

context server_contract
begin

lemma clean_containers:
  "clean live (clock ctx) {} (CreateContainer_handle ctx p lang)"
  "clean live (clock ctx) {} (DeleteContainer_handle ctx p lang)"
  "clean live (clock ctx) {} (GetContainerType_handle ctx p lang)"
  "clean live (clock ctx) {} (ImportCertificate_handle C ctx p lang)"
  unfolding container_handler_defs Let_def
  by (intro release_intros; assumption?)+

end

section \<open>What a session without a grant can reach\<close>

lemma agree_containers:
  assumes "server_contract ctx live" "front_equal ctx ctx'"
  shows "agree (clock ctx) (named_key (normalize_alias ctx (optional_str p 0 [])) p)
      (CreateContainer_handle ctx p lang) (CreateContainer_handle ctx' p lang)"
    "agree (clock ctx) (named_key (optional_str p 0 (default_alias ctx)) p)
      (ImportCertificate_handle C ctx p lang) (ImportCertificate_handle C ctx' p lang)"
proof -
  have "default_alias ctx' = default_alias ctx" using assms(2) by (simp add: front_equal_def)
  then show "agree (clock ctx) (named_key (normalize_alias ctx (optional_str p 0 [])) p)
      (CreateContainer_handle ctx p lang) (CreateContainer_handle ctx' p lang)"
    "agree (clock ctx) (named_key (optional_str p 0 (default_alias ctx)) p)
      (ImportCertificate_handle C ctx p lang) (ImportCertificate_handle C ctx' p lang)"
    unfolding container_handler_defs Let_def named_key_def normalize_alias_front [OF assms(2)]
    using assms by (auto intro!: agree_intros simp: required_str_optional)
qed

section \<open>PEM certificates\<close>

lemma contains_prefix: "contains pat (pat @ s)"
  by (cases "pat @ s") (auto simp: prefix_def, metis append_Cons)

lemma remove_all_prefix: "pat \<noteq> [] \<Longrightarrow> remove_all pat (pat @ s) = remove_all pat s"
  by (cases pat) simp_all

lemma remove_all_skip:
  "pat \<noteq> [] \<Longrightarrow> hd pat \<notin> set u \<Longrightarrow> remove_all pat (u @ v) = u @ remove_all pat v"
  by (induction u) (auto simp: prefix_def, metis append_Cons list.sel(1) neq_Nil_conv)

abbreviation cert_begin :: string where "cert_begin \<equiv> ''-----BEGIN CERTIFICATE-----''"
abbreviation cert_end :: string where "cert_end \<equiv> ''-----END CERTIFICATE-----''"

lemma pem_strip:
  assumes "CHR ''-'' \<notin> set body"
  shows "remove_all cert_end (remove_all cert_begin (cert_begin @ body @ cert_end @ [CHR 0x0A])) =
    body @ [CHR 0x0A]"
proof -
  have "remove_all cert_begin (cert_begin @ body @ cert_end @ [CHR 0x0A]) =
      remove_all cert_begin (body @ cert_end @ [CHR 0x0A])"
    by (rule remove_all_prefix) simp
  also have "\<dots> = body @ remove_all cert_begin (cert_end @ [CHR 0x0A])"
    by (rule remove_all_skip) (use assms in simp_all)
  also have "remove_all cert_begin (cert_end @ [CHR 0x0A]) = cert_end @ [CHR 0x0A]"
    by code_simp
  finally have "remove_all cert_end (remove_all cert_begin (cert_begin @ body @ cert_end @ [CHR 0x0A]))
      = body @ remove_all cert_end (cert_end @ [CHR 0x0A])"
    using remove_all_skip [of cert_end body "cert_end @ [CHR 0x0A]"] assms by simp
  also have "remove_all cert_end (cert_end @ [CHR 0x0A]) = [CHR 0x0A]"
    by code_simp
  finally show ?thesis .
qed

section \<open>Properties\<close>

text \<open>A certificate that arrives as PEM, with its base64 text broken into lines in any way, is
  decoded to the original bytes, and so is the bare base64 text, for every engine that meets
  the contract; a text with a PEM marker is never refused, because what does not decode is
  taken as raw bytes.\<close>

theorem decode_certificate_roundtrip:
  assumes "codec_contract C"
    and "filter (\<lambda>c. c \<noteq> CHR 0x0A \<and> c \<noteq> CHR 0x0D) body = b64_encode C b"
  shows "decode_certificate C (cert_begin @ body @ cert_end @ [CHR 0x0A]) = Inr b
    \<and> decode_certificate C (b64_encode C b) = Inr b
    \<and> (\<forall>s. contains ''-----BEGIN'' s \<longrightarrow> (\<exists>b'. decode_certificate C s = Inr b'))"
proof (intro conjI allI impI)
  note dec = codec_contract.decode_encode [OF assms(1)]
  have dash: "CHR ''-'' \<notin> set (b64_encode C b)" by (rule codec_contract.encode_no_dash [OF assms(1)])
  then have body: "CHR ''-'' \<notin> set body" unfolding assms(2) [symmetric] by simp
  have "contains ''-----BEGIN'' (cert_begin @ body @ cert_end @ [CHR 0x0A])"
    using contains_prefix [of "''-----BEGIN''" "'' CERTIFICATE-----'' @ body @ cert_end @ [CHR 0x0A]"]
    by simp
  then show "decode_certificate C (cert_begin @ body @ cert_end @ [CHR 0x0A]) = Inr b"
    unfolding decode_certificate_def Let_def pem_strip [OF body] using assms(2) dec by simp
  have "contains ''-----BEGIN'' u \<Longrightarrow> CHR ''-'' \<in> set u" for u
    by (induction u) (auto simp: prefix_def)
  then have "\<not> contains ''-----BEGIN'' (b64_encode C b)" using dash by blast
  then show "decode_certificate C (b64_encode C b) = Inr b"
    by (simp add: decode_certificate_def dec)
next
  fix s :: string
  assume "contains ''-----BEGIN'' s"
  then show "\<exists>b'. decode_certificate C s = Inr b'"
    by (simp add: decode_certificate_def Let_def split: sum.splits)
qed

theorem decode_certificate_roundtrip_witness:
  "decode_certificate std_codec (cert_begin @ [CHR 0x0A] @ b64_encode std_codec [0x30, 0x00]
      @ [CHR 0x0A] @ cert_end @ [CHR 0x0A]) = Inr [0x30, 0x00]"
proof -
  let ?e = "b64_encode std_codec [0x30, 0x00]"
  have "?e = ''MAA=''" by code_simp
  then have "filter (\<lambda>c. c \<noteq> CHR 0x0A \<and> c \<noteq> CHR 0x0D) ([CHR 0x0A] @ ?e @ [CHR 0x0A]) = ?e"
    by simp
  from decode_certificate_roundtrip [OF std_engine.codec_contract_axioms this]
  show ?thesis by simp
qed

text \<open>When the device cannot be opened, \<open>CreateContainer\<close> answers with the vendor's code (or the
  load failure), creates nothing, and the session loses exactly its grants on that device of
  that provider.\<close>

theorem create_container_device_lost:
  assumes "param_values p = String req # String dev # String app # String cont # rest"
    and "prov = normalize_alias ctx req" and "resolve ctx prov w = (Inr P, w1)"
    and "open_device P dev w1 = (Inl e, w2)"
  shows "\<exists>s'. CreateContainer_handle ctx p lang (s, w) =
      (Ret (case native_code e of
          Some code \<Rightarrow> rpc_err code (''ConnectDev failed: 0x'' @ fmt_08X code) (params_id p)
        | None \<Rightarrow> rpc_err (- 5) (''Load Lib Failed: '' @ error_to_string e) (params_id p)), s', w2)
    \<and> handles s' = handles s
    \<and> auth_lookup (auth s') = (\<lambda>k. if on_device prov dev k then None else auth_lookup (auth s) k)"
proof -
  have r: "required_str p 1 m = Inr dev" "required_str p 2 m = Inr app" "required_str p 3 m = Inr cont"
    "optional_str p 0 [] = req" for m
    using assms(1) by (simp_all add: required_str_def optional_str_def raw_def numeral_eq_Suc)
  have "CreateContainer_handle ctx p lang (s, w) =
      (Ret (provider_failure (failed_text ''ConnectDev'') e (params_id p)),
       note_device_unavailable prov dev s, w2)"
    unfolding CreateContainer_handle_def Let_def r let_ok_def sum.case
    using assms(2-) by (simp add: with_provider_def call_def with_device_def with_guard_def lost_device_def)
  then show ?thesis
    by (simp add: provider_failure_def load_failed_def fun_eq_iff split: option.splits)
qed

theorem create_container_device_lost_witness:
  "\<exists>s' w'. CreateContainer_handle (fake_context ''FAKE'')
      (new_params [String ''default'', String ''dev-a'', String ''app'', String ''cnt''] None) EN
      (new_session [] 600, fail_next OpOpenDevice (Custom 0x0A000022) (new_fake ''FAKE'')) =
    (Ret (rpc_err 0x0A000022 ''ConnectDev failed: 0x0A000022'' None), s', w')"
proof -
  let ?w = "fail_next OpOpenDevice (Custom 0x0A000022) (new_fake ''FAKE'')"
  let ?p = "new_params [String ''default'', String ''dev-a'', String ''app'', String ''cnt''] None"
  obtain w2 where o: "open_device (fake_provider ''FAKE'') ''dev-a'' ?w =
      (Inl (Injected (Custom 0x0A000022)), w2)"
    by (simp add: fake_provider_guards box_guard_def begin_op_def record_op_def Let_def fail_next_def
        new_fake_def with_devices_def)
  have p: "param_values ?p = String ''default'' # String ''dev-a'' # String ''app'' # String ''cnt'' # []"
    "params_id ?p = None"
    by (simp_all add: new_params_def)
  have f: "fmt_08X 0x0A000022 = ''0A000022''"
    by (simp add: fmt_08X_def upper_digit_char_def upt_rec)
  have r: "resolve (fake_context ''FAKE'') (normalize_alias (fake_context ''FAKE'') ''default'') ?w =
      (Inr (fake_provider ''FAKE''), ?w)"
    by simp
  from create_container_device_lost [OF p(1) refl r o, of EN "new_session [] 600"]
  obtain s' where s': "CreateContainer_handle (fake_context ''FAKE'') ?p EN (new_session [] 600, ?w) =
      (Ret (case native_code (Injected (Custom 0x0A000022)) of
          Some code \<Rightarrow> rpc_err code (''ConnectDev failed: 0x'' @ fmt_08X code) (params_id ?p)
        | None \<Rightarrow> rpc_err (- 5) (''Load Lib Failed: ''
            @ error_to_string (Injected (Custom 0x0A000022))) (params_id ?p)), s', w2)"
    by blast
  show ?thesis unfolding s' p(2) native_code.simps option.case f by simp
qed

end
