(* ===== verification/Pin.thy ===== *)
theory Pin
  imports Fake
begin

text \<open>
  \<open>CheckPIN\<close> (\<open>src/domain/pin.rs\<close>), the only handler that authorizes a session.
\<close>

definition open_app_text :: "u32 \<Rightarrow> string" where
  "open_app_text code =
    failed_text ''OpenApplication'' code
    @ (if code = 0x0A00002E then '' (Application Not Exists)'' else '''')"

definition pin_failed_text :: "language \<Rightarrow> u32 \<Rightarrow> nat \<Rightarrow> string" where
  "pin_failed_text lang code retries =
    (case lang of
      CN \<Rightarrow> ''PIN'' @ utf8 [0xE9, 0xAA, 0x8C, 0xE8, 0xAF, 0x81, 0xE5, 0xA4, 0xB1, 0xE8, 0xB4, 0xA5] @ '': 0x'' @ fmt_08X code @ '', ''
              @ utf8 [0xE5, 0x89, 0xA9, 0xE4, 0xBD, 0x99, 0xE6, 0xAC, 0xA1, 0xE6, 0x95, 0xB0] @ '': '' @ show_nat retries
    | EN \<Rightarrow> ''VerifyPIN failed: 0x'' @ fmt_08X code @ '', retries left: '' @ show_nat retries)"

text \<open>Recording the grant reads the clock at that moment; it panics when the deadline is not
  representable.\<close>

definition grant_and_reply ::
  "runtime \<Rightarrow> ('w, 'd, 'a, 'c, 'h) server_context \<Rightarrow> auth_key \<Rightarrow> rpc_response
    \<Rightarrow> ('w, 'd, 'a, 'c, 'h) handler" where
  "grant_and_reply R ctx key r st =
    (case sess_grant R (clock ctx (snd st)) key (fst st) of
      Panic \<Rightarrow> (Panic, st)
    | Ret s \<Rightarrow> (Ret r, s, snd st))"

definition CheckPIN_handle ::
  "runtime \<Rightarrow> ('w, 'd, 'a, 'c, 'h) server_context \<Rightarrow> params \<Rightarrow> language \<Rightarrow> ('w, 'd, 'a, 'c, 'h) handler" where
  "CheckPIN_handle R ctx p lang =
    (let ident = params_id p in
     let_ok (required_str p 0 ''Missing certKey param'') (\<lambda>cert_key.
     let_ok (required_str p 1 ''Missing PIN param'') (\<lambda>pin_str.
     let_some (split_cert_key cert_key 3)
       (rpc_err (- 2) ''Invalid certKey format, expected at least: provider/device/app'' ident) (\<lambda>parts.
     let prov = normalize_alias ctx (parts ! 0); dev = parts ! 1; app = parts ! 2 in
     with_provider ctx prov (\<lambda>m. load_failed m ident) (\<lambda>P.
     with_device P prov dev ident (\<lambda>d.
     with_application P d prov dev app open_app_text ident (\<lambda>a.
     let_call (verify_pin P a pin_str)
       (\<lambda>e. provider_failure (\<lambda>code. pin_failed_text lang code 0) e ident) (\<lambda>res.
     if pin_success res then
       grant_and_reply R ctx (new_auth_key prov dev app) (rpc_ok (Boolean True) ident)
     else reply (rpc_err (pin_code res)
       (pin_failed_text lang (pin_code res) (unat (retry_count res))) ident)))))))))"

lemma clean_grant_and_reply [release_intros]:
  assumes "key \<in> K"
  shows "clean live now K (grant_and_reply R ctx key r)"
  using assms
  by (auto simp: clean_def grant_and_reply_def sess_grant_Ret_iff sess_kept_def auth_grant_lookup
      auth_grant_ttl split: outcome.splits)

context server_contract
begin

lemma clean_check_pin: "clean live (clock ctx) {cert_key_target ctx p} (CheckPIN_handle R ctx p lang)"
  unfolding CheckPIN_handle_def Let_def
  by (intro release_intros; assumption?)
    (auto simp: cert_key_target_def Let_def required_str_optional dest!: split_cert_key_SomeD(1))

end

section \<open>When a grant is recorded\<close>

text \<open>Either the answer is success and exactly the named application was granted, or no grant was
  added.\<close>

definition pin_post ::
  "auth_key \<Rightarrow> json option \<Rightarrow> ('d, 'a, 'c, 'h) session_state \<Rightarrow> rpc_response outcome
    \<Rightarrow> ('d, 'a, 'c, 'h) session_state \<Rightarrow> bool" where
  "pin_post key ident s r s' \<longleftrightarrow>
    (r = Ret (rpc_ok (Boolean True) ident)
       \<and> (\<exists>t. auth_lookup (auth s') =
             (auth_lookup (auth s))(key \<mapsto> \<lparr>expires_at = t + ttl (auth s)\<rparr>)))
    \<or> ((\<forall>x. r \<noteq> Ret (rpc_ok x ident))
       \<and> (\<forall>k. auth_lookup (auth s') k \<in> {None, auth_lookup (auth s) k}))"

lemma not_ok: "resp_message e \<noteq> None \<Longrightarrow> e \<noteq> rpc_ok x ident"
  by auto

lemma pin_post_error: "resp_message e \<noteq> None \<Longrightarrow> pin_post key ident s (Ret e) s"
  by (auto simp: pin_post_def)

lemma pin_post_lost:
  "resp_message e \<noteq> None \<Longrightarrow> pin_post key ident s (Ret e) (note_device_unavailable prov dev s)"
  by (auto simp: pin_post_def)

lemma provider_failure_message: "resp_message (provider_failure text e ident) \<noteq> None"
  by (simp add: provider_failure_def load_failed_def split: option.splits)

lemma load_failed_message: "resp_message (load_failed m ident) \<noteq> None"
  by (simp add: load_failed_def)

lemma pin_post_granted:
  assumes "auth_grant R now key (auth s) = Ret t"
  shows "pin_post key ident s (Ret (rpc_ok (Boolean True) ident)) (s\<lparr>auth := t\<rparr>)"
  using auth_grant_lookup [OF assms] by (auto simp: pin_post_def fun_eq_iff)

lemma pin_post_panic: "pin_post key ident s Panic s"
  by (simp add: pin_post_def)

lemma posts_grant_and_reply:
  "posts (pin_post key ident) (grant_and_reply R ctx key (rpc_ok (Boolean True) ident))"
  by (auto simp: posts_def grant_and_reply_def sess_grant_Ret_iff pin_post_granted pin_post_panic
      split: outcome.splits)

lemma posts_check_pin:
  "posts (pin_post (cert_key_target ctx p) (params_id p)) (CheckPIN_handle R ctx p lang)"
proof -
  have refuse: "required_str p i m = Inl e \<Longrightarrow> resp_message e \<noteq> None" for i m e
    using required_str_rejects [of p i m e] by (simp add: rejects_with_def)
  show ?thesis
    unfolding CheckPIN_handle_def Let_def
  proof (intro posts_intros)
    fix e s assume "required_str p 0 ''Missing certKey param'' = Inl e"
    then show "pin_post (cert_key_target ctx p) (params_id p) s (Ret e) s"
      by (intro pin_post_error refuse)
  next
    fix e s assume "required_str p 1 ''Missing PIN param'' = Inl e"
    then show "pin_post (cert_key_target ctx p) (params_id p) s (Ret e) s"
      by (intro pin_post_error refuse)
  next
    fix cert_key parts
    assume "required_str p 0 ''Missing certKey param'' = Inr cert_key"
      and "split_cert_key cert_key 3 = Some parts"
    then have "cert_key_target ctx p =
        new_auth_key (normalize_alias ctx (parts ! 0)) (parts ! 1) (parts ! 2)"
      by (auto simp: cert_key_target_def Let_def required_str_optional dest!: split_cert_key_SomeD(1))
    then show "posts (pin_post (cert_key_target ctx p) (params_id p))
        (grant_and_reply R ctx
          (new_auth_key (normalize_alias ctx (parts ! 0)) (parts ! 1) (parts ! 2))
          (rpc_ok (Boolean True) (params_id p)))"
      by (simp add: posts_grant_and_reply)
  qed (simp_all add: pin_post_error pin_post_lost provider_failure_message load_failed_message)
qed

section \<open>Properties\<close>

text \<open>C10: \<open>CheckPIN\<close> records a grant only when it answers success; then it records exactly one, for the
  application the certificate key names, with a deadline one lifetime ahead, and every other
  grant is untouched. On every other answer no grant is added.\<close>

theorem check_pin_grants_only_on_success:
  "(case CheckPIN_handle R ctx p lang (s, w) of
      (r, s', w') \<Rightarrow>
        (r = Ret (rpc_ok (Boolean True) (params_id p))
           \<and> (\<exists>t. auth_lookup (auth s') =
                 (auth_lookup (auth s))(cert_key_target ctx p \<mapsto> \<lparr>expires_at = t + ttl (auth s)\<rparr>)))
        \<or> ((\<forall>x. r \<noteq> Ret (rpc_ok x (params_id p)))
           \<and> (\<forall>k. auth_lookup (auth s') k \<in> {None, auth_lookup (auth s) k})))"
  using postsD [OF posts_check_pin, of R ctx p lang s w]
  by (auto simp: pin_post_def split: prod.splits)

text \<open>C11: When the token is reachable and answers the verification, \<open>CheckPIN\<close> does exactly this: on
  a match it stores the deadline computed from the clock at that moment (or panics when that
  instant cannot be represented), on a mismatch it answers with the token's code and the retries
  left, and in each case it closes the application and then the device.\<close>

theorem check_pin_exact:
  assumes "param_values p = String key # String pin # rest" and "split_cert_key key 3 = Some parts"
    and "prov = normalize_alias ctx (parts ! 0)" and "resolve ctx prov w = (Inr P, w1)"
    and "open_device P (parts ! 1) w1 = (Inr d, w2)"
    and "open_application P d (parts ! 2) w2 = (Inr a, w3)"
    and "verify_pin P a pin w3 = (Inr res, w4)"
  shows "CheckPIN_handle R ctx p lang (s, w) =
    (if \<not> pin_success res then
       (Ret (rpc_err (pin_code res) (pin_failed_text lang (pin_code res) (unat (retry_count res)))
          (params_id p)), s, drop_device P d (drop_application P a w4))
     else case sess_grant R (clock ctx w4) (new_auth_key prov (parts ! 1) (parts ! 2)) s of
       Panic \<Rightarrow> (Panic, s, drop_device P d (drop_application P a w4))
     | Ret s' \<Rightarrow> (Ret (rpc_ok (Boolean True) (params_id p)), s',
          drop_device P d (drop_application P a w4)))"
proof -
  have r: "required_str p 0 m = Inr key" "required_str p 1 m = Inr pin" for m
    using assms(1) by (simp_all add: required_str_def raw_def)
  show ?thesis
    using assms(2-)
    by (simp add: CheckPIN_handle_def Let_def r r(2) [simplified] let_ok_def let_some_def with_provider_def call_def
        with_device_def with_application_def with_guard_def let_call_def grant_and_reply_def
        reply_def split: outcome.splits)
qed

theorem check_pin_exact_witness:
  "\<exists>w'. CheckPIN_handle plain_runtime (fake_context ''FAKE'')
      (new_params [String ''default/dev-a/app-a'', String ''0000''] None) EN
      (new_session [] 600, new_fake ''FAKE'') =
    (Ret (rpc_ok (Boolean True) None),
     (new_session [] 600)\<lparr>auth :=
       \<lparr>grants = [(new_auth_key ''FAKE'' ''dev-a'' ''app-a'', \<lparr>expires_at = 600\<rparr>)], ttl = 600\<rparr>\<rparr>, w')"
proof -
  let ?P = "fake_provider ''FAKE''" and ?w = "new_fake ''FAKE''"
  have q: "failures ?w = []" "fi_clock ?w = 0" by (simp_all add: new_fake_def with_devices_def)
  obtain d w2 where d: "open_device ?P ''dev-a'' ?w = (Inr d, w2)" "failures w2 = []" "fi_clock w2 = 0"
    using fake_quiet [OF q(1)] q(2) by (metis fake_provider_guards(1))
  obtain a w3 where a: "open_application ?P d ''app-a'' w2 = (Inr a, w3)" "failures w3 = []"
      "fi_clock w3 = 0"
    using fake_quiet [OF d(2)] d(3) by (metis fake_provider_guards(2))
  have v: "verify_pin ?P a ''0000'' w3 =
      (Inr \<lparr>pin_success = True, retry_count = 3, pin_code = 0\<rparr>, record_op OpVerifyPin w3)"
    using fake_quiet_value(2) [OF a(2)] by (simp add: fake_provider_guards)
  have key: "split_cert_key ''default/dev-a/app-a'' 3 = Some [''default'', ''dev-a'', ''app-a'']"
    by (simp add: split_cert_key_def numeral_eq_Suc)
  let ?p = "new_params [String ''default/dev-a/app-a'', String ''0000''] None"
  have p: "param_values ?p = [String ''default/dev-a/app-a'', String ''0000'']" "params_id ?p = None"
    by (simp_all add: new_params_def)
  have n: "normalize_alias (fake_context ''FAKE'') ([''default'', ''dev-a'', ''app-a''] ! 0) = ''FAKE''"
    by (simp add: normalize_alias_def)
  show ?thesis
    using check_pin_exact [OF p(1) key refl, of "fake_context ''FAKE''" ?w ?P ?w d w2 a w3
        "\<lparr>pin_success = True, retry_count = 3, pin_code = 0\<rparr>" "record_op OpVerifyPin w3"
        plain_runtime EN "new_session [] 600"] d a v n p(2)
    by (simp add: sess_grant_def auth_grant_def plain_runtime_def new_session_def new_auth_table_def)
qed

end
