(* ===== verification/Classification.thy ===== *)
theory Classification
  imports Protocol
begin

text \<open>
  The read-only / destructive table of the methods and the switch that turns off the restricted
  ones (\<open>src/domain/classification.rs\<close>). No request path consults the table; the restriction is
  consulted by the dispatcher before any method runs.
\<close>

datatype operation_class = ReadOnly | Destructive

primrec operation_class_as_str :: "operation_class \<Rightarrow> string" where
  "operation_class_as_str ReadOnly = ''ReadOnly''"
| "operation_class_as_str Destructive = ''Destructive''"

definition CLASSIFIED_METHODS :: "(string \<times> operation_class) list" where
  "CLASSIFIED_METHODS =
    [(''SetLanguage'', ReadOnly),
     (''WaitForDevEvent'', ReadOnly),
     (''EnumProvider'', ReadOnly),
     (''EnumDevice'', ReadOnly),
     (''ConnectDev'', Destructive),
     (''EnumApplication'', ReadOnly),
     (''EnumContainer'', ReadOnly),
     (''DeleteContainer'', Destructive),
     (''IssueCertificate'', Destructive),
     (''ImportCertificate'', Destructive),
     (''SignData'', ReadOnly),
     (''DisConnectDev'', Destructive),
     (''FindCertificates'', ReadOnly),
     (''GenerateRandom'', ReadOnly),
     (''Digest'', ReadOnly),
     (''CheckPIN'', Destructive),
     (''CreatePKCS10'', Destructive),
     (''EncryptData'', ReadOnly),
     (''DecryptData'', ReadOnly),
     (''GetDevInfo'', ReadOnly),
     (''GetDevState'', ReadOnly),
     (''SetLabel'', Destructive),
     (''ECCVerify'', ReadOnly),
     (''CreateContainer'', Destructive),
     (''GetContainerType'', ReadOnly),
     (''RSASignData'', ReadOnly),
     (''LockDev'', Destructive),
     (''UnlockDev'', Destructive),
     (''Transmit'', Destructive),
     (''CancelWaitForDevEvent'', ReadOnly),
     (''GenECCKeyPair'', Destructive),
     (''GenRSAKeyPair'', Destructive),
     (''RSAVerify'', ReadOnly),
     (''DigestInit'', ReadOnly),
     (''DigestUpdate'', ReadOnly),
     (''DigestFinal'', ReadOnly),
     (''CloseHash'', ReadOnly),
     (''GetProtocolVersion'', ReadOnly)]"

definition RESTRICTED_METHODS :: "string list" where
  "RESTRICTED_METHODS = [''IssueCertificate'', ''Transmit'']"

definition RESTRICT_ENV :: string where
  "RESTRICT_ENV = ''SKF_RESTRICT_LEGACY''"

definition RESTRICTED_ERROR :: i32 where
  "RESTRICTED_ERROR = - 100"

definition is_restricted :: "string \<Rightarrow> bool" where
  "is_restricted m \<longleftrightarrow> m \<in> set RESTRICTED_METHODS"

definition restricted_rejection :: "string \<Rightarrow> bool \<Rightarrow> json option \<Rightarrow> rpc_response option" where
  "restricted_rejection m enabled ident =
    (if \<not> enabled \<or> \<not> is_restricted m then None
     else Some (rpc_err RESTRICTED_ERROR
       (''Method '' @ m @ '' is restricted in this deployment; see RELEASE-NOTES.md'') ident))"

definition classify :: "string \<Rightarrow> operation_class option" where
  "classify m = map_option snd (find (\<lambda>(n, c). n = m) CLASSIFIED_METHODS)"

section \<open>Facts\<close>

lemma classified_distinct: "distinct (map fst CLASSIFIED_METHODS)"
  unfolding CLASSIFIED_METHODS_def by code_simp

lemma find_key_map_of: "map_option snd (find (\<lambda>(n, c). n = m) xs) = map_of xs m"
  by (induction xs) auto

lemma classify_map_of: "classify m = map_of CLASSIFIED_METHODS m"
  by (simp add: classify_def find_key_map_of)

lemma is_restricted_iff: "is_restricted m \<longleftrightarrow> m = ''IssueCertificate'' \<or> m = ''Transmit''"
  by (simp add: is_restricted_def RESTRICTED_METHODS_def)

lemma restricted_rejection_Some_iff:
  "restricted_rejection m e i = Some r \<longleftrightarrow>
    e \<and> (m = ''IssueCertificate'' \<or> m = ''Transmit'')
    \<and> r = rpc_err (- 100)
        (''Method '' @ m @ '' is restricted in this deployment; see RELEASE-NOTES.md'') i"
  by (auto simp: restricted_rejection_def is_restricted_iff RESTRICTED_ERROR_def)

lemma restricted_rejection_None_iff:
  "restricted_rejection m e i = None \<longleftrightarrow> \<not> (e \<and> is_restricted m)"
  by (simp add: restricted_rejection_def)

lemma classify_restricted:
  "classify ''IssueCertificate'' = Some Destructive" "classify ''Transmit'' = Some Destructive"
  by code_simp+

lemma restricted_destructive: "is_restricted m \<Longrightarrow> classify m = Some Destructive"
  using classify_restricted by (auto simp: is_restricted_iff)

section \<open>Properties\<close>

text \<open>Looking a method up returns the class of its one entry in the table, and nothing for a name
  the table does not hold; a restriction can only ever hit a method that is classed destructive.\<close>

theorem classify_table:
  "(\<forall>m c. classify m = Some c \<longleftrightarrow> (m, c) \<in> set CLASSIFIED_METHODS)
    \<and> (\<forall>m e i. restricted_rejection m e i = None \<or> (e \<and> classify m = Some Destructive))"
proof (intro conjI allI)
  fix m c
  show "classify m = Some c \<longleftrightarrow> (m, c) \<in> set CLASSIFIED_METHODS"
    using classified_distinct by (simp add: classify_map_of)
next
  fix m e i
  show "restricted_rejection m e i = None \<or> (e \<and> classify m = Some Destructive)"
    by (auto simp: restricted_rejection_None_iff restricted_destructive)
qed

end
