(* ===== verification/Dispatcher.thy ===== *)
theory Dispatcher
  imports Direct Containers Keys Pin Classification
begin

text \<open>
  The request dispatcher of the binary (\<open>src/main.rs\<close>): the checks
  every request passes, the table of methods, the branches that use the session's own handles or
  the injected provider. The connection around it is in the theory of the server.
\<close>

section \<open>The context as the handlers see it\<close>

definition skf_resolve ::
  "('w, 'd, 'a, 'c, 'h) skf_context \<Rightarrow> string \<Rightarrow> 'w \<Rightarrow> (string + ('w, 'd, 'a, 'c, 'h) provider) \<times> 'w" where
  "skf_resolve K nm w =
    (if nm = sk_default K then (Inr (sk_provider K), w)
     else
       (case get_api K nm w of
         (Inl e, w') \<Rightarrow> (Inl e, w')
       | (Inr L, w') \<Rightarrow> (Inr (sk_from_api K nm L), w')))"

lemma skf_resolve_state: "snd (skf_resolve K nm w) = (if nm = sk_default K then w else snd (get_api K nm w))"
  by (simp add: skf_resolve_def split: prod.split sum.split)

definition server_context_of ::
  "('w, 'd, 'a, 'c, 'h) skf_context \<Rightarrow> ('w, 'd, 'a, 'c, 'h) server_context" where
  "server_context_of K =
    \<lparr>default_alias = sk_default K, resolve = skf_resolve K, clock = sk_clock K,
     unix_micros = sk_micros K, write_last_csr = sk_write_csr K\<rparr>"

section \<open>Helpers\<close>

definition FFI_TIMEOUT_SECONDS :: nat where
  "FFI_TIMEOUT_SECONDS = 30"

definition ffi_timeout :: "runtime \<Rightarrow> duration" where
  "ffi_timeout R =
    (case Option.bind (env_var R ''SKF_FFI_TIMEOUT_SECONDS'') (\<lambda>v. parse_u64 (trim v)) of
      Some n \<Rightarrow> from_secs (unat n)
    | None \<Rightarrow> from_secs FFI_TIMEOUT_SECONDS)"

definition is_wait_method :: "string \<Rightarrow> bool" where
  "is_wait_method m \<longleftrightarrow> m = ''WaitForDevEvent'' \<or> m = ''CancelWaitForDevEvent''"

definition restricted_enabled :: "runtime \<Rightarrow> bool" where
  "restricted_enabled R = env_flag R RESTRICT_ENV"

definition provider_load_failed :: "provider_error \<Rightarrow> language \<Rightarrow> json option \<Rightarrow> rpc_response" where
  "provider_load_failed e lang ident =
    rpc_err (- 5)
      (case lang of
        CN \<Rightarrow> utf8 [0xE5, 0x8A, 0xA0, 0xE8, 0xBD, 0xBD, 0xE5, 0xBA, 0x93, 0xE5, 0xA4, 0xB1, 0xE8, 0xB4, 0xA5] @ '': '' @ error_to_string e
      | EN \<Rightarrow> ''Load Lib Failed: '' @ error_to_string e)
      ident"

text \<open>The match on a provider failure in these branches: only a native error keeps its code.\<close>

definition native_failure ::
  "(u32 \<Rightarrow> string) \<Rightarrow> provider_error \<Rightarrow> language \<Rightarrow> json option \<Rightarrow> rpc_response" where
  "native_failure text e lang ident =
    (case e of
      Native code _ \<Rightarrow> rpc_err code (text code) ident
    | _ \<Rightarrow> provider_load_failed e lang ident)"

section \<open>Branches\<close>

definition GetProtocolVersion_branch :: "params \<Rightarrow> ('w, 'd, 'a, 'c, 'h) handler" where
  "GetProtocolVersion_branch p =
    reply (rpc_ok (Object
      [(''current'', json_u32 1), (''min'', json_u32 1), (''service'', String ''0.3.1'')]) (params_id p))"

definition SetLanguage_branch :: "params \<Rightarrow> ('w, 'd, 'a, 'c, 'h) handler" where
  "SetLanguage_branch p =
    (case str_param p 0 of
      Some _ \<Rightarrow> reply (rpc_ok (String ''OK'') (params_id p))
    | None \<Rightarrow> reply (rpc_err (- 2) ''Missing Language Code'' (params_id p)))"

text \<open>The language the session has after a request.\<close>

definition language_after :: "runtime \<Rightarrow> string \<Rightarrow> params \<Rightarrow> language \<Rightarrow> language" where
  "language_after R m p lang =
    (if m = ''SetLanguage'' then
       (case str_param p 0 of
         Some l \<Rightarrow> (if to_uppercase (unicode_upper R) l \<in> {''CN'', ''ZH''} then CN else EN)
       | None \<Rightarrow> lang)
     else lang)"

definition WaitForDevEvent_branch ::
  "('w, 'd, 'a, 'c, 'h) skf_context \<Rightarrow> params \<Rightarrow> language \<Rightarrow> ('w, 'd, 'a, 'c, 'h) handler" where
  "WaitForDevEvent_branch K p lang =
    (let prov = (case str_param p 0 of Some v \<Rightarrow> v | None \<Rightarrow> sk_default K) in
     if prov = sk_default K then
       call (wait_for_event (sk_provider K) 256) (answer
         (\<lambda>(dev, ev). rpc_ok (Object [(''deviceName'', String dev), (''event'', json_u32 ev)]) (params_id p))
         (\<lambda>e. native_failure (\<lambda>code. ''WaitForDevEvent failed: 0x'' @ hex_digits (unat code)) e lang (params_id p)))
     else WaitForDevEvent_direct K prov p lang)"

definition EnumProvider_branch ::
  "('w, 'd, 'a, 'c, 'h) skf_context \<Rightarrow> params \<Rightarrow> language \<Rightarrow> ('w, 'd, 'a, 'c, 'h) handler" where
  "EnumProvider_branch K p lang =
    (case str_param p 0 of
      Some (c # cs) \<Rightarrow>
        (case map_of (vendor (sk_config K)) (c # cs) of
          Some prov \<Rightarrow> reply (rpc_ok (String prov) (params_id p))
        | None \<Rightarrow> reply (rpc_err (- 4)
            (case lang of CN \<Rightarrow> utf8 [0xE6, 0x9C, 0xAA, 0xE7, 0x9F, 0xA5] @ '' VID:PID: '' @ c # cs
             | EN \<Rightarrow> ''Unknown VPID: '' @ c # cs) (params_id p)))
    | _ \<Rightarrow>
        (let names = map fst (libs (sk_config K)); d = sk_default K in
         reply (rpc_ok (Array (map String (if d \<in> set names then d # remove1 d names else names)))
           (params_id p))))"

definition EnumDevice_branch ::
  "('w, 'd, 'a, 'c, 'h) skf_context \<Rightarrow> params \<Rightarrow> language \<Rightarrow> ('w, 'd, 'a, 'c, 'h) handler" where
  "EnumDevice_branch K p lang =
    (let prov = (case str_param p 0 of Some v \<Rightarrow> v | None \<Rightarrow> sk_default K) in
     if prov = sk_default K then
       call (enum_devices (sk_provider K) True) (answer
         (\<lambda>names. rpc_ok (Array (map String names)) (params_id p))
         (\<lambda>e. native_failure (\<lambda>_. (case lang of CN \<Rightarrow> utf8 [0xE6, 0x9E, 0x9A, 0xE4, 0xB8, 0xBE, 0xE8, 0xAE, 0xBE, 0xE5, 0xA4, 0x87, 0xE8, 0x8E, 0xB7, 0xE5, 0x8F, 0x96, 0xE5, 0xA4, 0xA7, 0xE5, 0xB0, 0x8F, 0xE5, 0xA4, 0xB1, 0xE8, 0xB4, 0xA5] | EN \<Rightarrow> ''EnumDev failed size check'')) e lang (params_id p)))
     else EnumDevice_direct K prov p lang)"

definition ConnectDev_branch ::
  "('w, 'd, 'a, 'c, 'h) skf_context \<Rightarrow> params \<Rightarrow> language \<Rightarrow> ('w, 'd, 'a, 'c, 'h) handler" where
  "ConnectDev_branch K p lang =
    let_some (str_param p 0) (rpc_err (- 2) ''Missing param'' (params_id p)) (\<lambda>name.
    let_call (open_device (sk_provider K) name)
      (\<lambda>e. native_failure (\<lambda>_. (case lang of CN \<Rightarrow> utf8 [0xE8, 0xBF, 0x9E, 0xE6, 0x8E, 0xA5, 0xE8, 0xAE, 0xBE, 0xE5, 0xA4, 0x87, 0xE5, 0xA4, 0xB1, 0xE8, 0xB4, 0xA5] | EN \<Rightarrow> ''ConnectDev failed'')) e lang (params_id p))
      (\<lambda>g (s, w). case issue_device g (handles s) of
        (h, t) \<Rightarrow> (Ret (rpc_ok (String h) (params_id p)), s\<lparr>handles := t\<rparr>, w)))"

definition bad_handle :: "string \<Rightarrow> json option \<Rightarrow> rpc_response" where
  "bad_handle text ident = rpc_err (- 11) text ident"

definition DisConnectDev_branch ::
  "('w, 'd, 'a, 'c, 'h) skf_context \<Rightarrow> params \<Rightarrow> ('w, 'd, 'a, 'c, 'h) handler" where
  "DisConnectDev_branch K p =
    let_some (str_param p 0) (bad_handle ''Invalid or expired handle'' (params_id p)) (\<lambda>h (s, w).
      case remove_device h (handles s) of
        (Inr g, t) \<Rightarrow>
          (Ret (rpc_ok (Boolean True) (params_id p)), s\<lparr>handles := t\<rparr>, drop_device (sk_provider K) g w)
      | (Inl _, t) \<Rightarrow>
          (Ret (bad_handle ''Invalid or expired handle'' (params_id p)), s\<lparr>handles := t\<rparr>, w))"

definition GenerateRandom_branch ::
  "('w, 'd, 'a, 'c, 'h) skf_context \<Rightarrow> params \<Rightarrow> language \<Rightarrow> ('w, 'd, 'a, 'c, 'h) handler" where
  "GenerateRandom_branch K p lang =
    let_some (str_param p 0) (rpc_err (- 2) ''Bad params'' (params_id p)) (\<lambda>h.
    let_some (Option.bind (raw p 1) as_u64) (rpc_err (- 2) ''Bad params'' (params_id p)) (\<lambda>len (s, w).
      case get_device h (handles s) of
        Inl _ \<Rightarrow> reply (bad_handle ''Invalid or expired handle'' (params_id p)) (s, w)
      | Inr g \<Rightarrow>
          call (dev_random (sk_provider K) g (unat len)) (answer
            (\<lambda>bs. rpc_ok (String (b64_encode (sk_codec K) bs)) (params_id p))
            (\<lambda>e. native_failure (\<lambda>_. (case lang of CN \<Rightarrow> utf8 [0xE7, 0x94, 0x9F, 0xE6, 0x88, 0x90, 0xE9, 0x9A, 0x8F, 0xE6, 0x9C, 0xBA, 0xE6, 0x95, 0xB0, 0xE5, 0xA4, 0xB1, 0xE8, 0xB4, 0xA5] | EN \<Rightarrow> ''GenRandom failed'')) e lang (params_id p))) (s, w)))"

definition GetDevState_branch ::
  "('w, 'd, 'a, 'c, 'h) skf_context \<Rightarrow> params \<Rightarrow> language \<Rightarrow> ('w, 'd, 'a, 'c, 'h) handler" where
  "GetDevState_branch K p lang =
    (let prov = normalize_alias (server_context_of K) (case str_param p 0 of Some v \<Rightarrow> v | None \<Rightarrow> []) in
     let_some (str_param p 1) (rpc_err (- 2) ''Missing deviceName param'' (params_id p)) (\<lambda>dev.
     if prov = sk_default K then
       call (device_state (sk_provider K) dev) (answer
         (\<lambda>n. rpc_ok (Object [(''state'', json_u32 n), (''stateStr'', String (device_state_str n))]) (params_id p))
         (\<lambda>e. native_failure (localized lang (utf8 [0xE8, 0x8E, 0xB7, 0xE5, 0x8F, 0x96, 0xE8, 0xAE, 0xBE, 0xE5, 0xA4, 0x87, 0xE7, 0x8A, 0xB6, 0xE6, 0x80, 0x81, 0xE5, 0xA4, 0xB1, 0xE8, 0xB4, 0xA5] @ '': 0x'') ''GetDevState failed: 0x'') e lang (params_id p)))
     else GetDevState_direct K prov dev p lang))"

definition CancelWaitForDevEvent_branch ::
  "('w, 'd, 'a, 'c, 'h) skf_context \<Rightarrow> params \<Rightarrow> language \<Rightarrow> ('w, 'd, 'a, 'c, 'h) handler" where
  "CancelWaitForDevEvent_branch K p lang =
    call (cancel_wait_for_event (sk_provider K)) (answer
      (\<lambda>_. rpc_ok (Boolean True) (params_id p))
      (\<lambda>e. case e of
        Native code _ \<Rightarrow> rpc_err code
          (localized lang (utf8 [0xE5, 0x8F, 0x96, 0xE6, 0xB6, 0x88, 0xE7, 0xAD, 0x89, 0xE5, 0xBE, 0x85, 0xE5, 0xA4, 0xB1, 0xE8, 0xB4, 0xA5] @ '': 0x'') ''CancelWaitForDevEvent failed: 0x'' code) (params_id p)
      | _ \<Rightarrow> load_failed_localized (error_to_string e) lang (params_id p)))"

text \<open>The device opened for a digest goes into the session beside the digest; when the digest cannot
  be started it is dropped at the end of the branch.\<close>

definition DigestInit_branch ::
  "('w, 'd, 'a, 'c, 'h) skf_context \<Rightarrow> params \<Rightarrow> language \<Rightarrow> ('w, 'd, 'a, 'c, 'h) handler" where
  "DigestInit_branch K p lang =
    let_some (str_param p 0) (rpc_err (- 2) ''Missing providerName param'' (params_id p)) (\<lambda>prov.
    let_some (str_param p 1) (rpc_err (- 2) ''Missing deviceName param'' (params_id p)) (\<lambda>dev.
    let alg_id = ucast (optional_u64 p 2 (ucast SGD_SM3)) :: u32;
        id_bytes = optional_base64 (sk_codec K) p 3 in
    if prov \<noteq> sk_default K then DigestInit_direct K prov dev p lang
    else
      let_call (open_device (sk_provider K) dev)
        (\<lambda>e. native_failure (failed_text ''ConnectDev'') e lang (params_id p)) (\<lambda>d.
      call (begin_digest (sk_provider K) d alg_id id_bytes) (\<lambda>r (s, w).
        case r of
          Inr g \<Rightarrow>
            (case issue_digest g (handles s) of
              (h, t) \<Rightarrow>
                (Ret (rpc_ok (Object [(''handle'', String h)]) (params_id p)),
                 s\<lparr>handles := snd (issue_device d t)\<rparr>, w))
        | Inl e \<Rightarrow>
            (Ret (native_failure (localized lang (''DigestInit'' @ utf8 [0xE5, 0xA4, 0xB1, 0xE8, 0xB4, 0xA5] @ '': 0x'') ''DigestInit failed: 0x'') e lang (params_id p)),
             s, drop_device (sk_provider K) d w)))))"

definition DigestUpdate_branch ::
  "('w, 'd, 'a, 'c, 'h) skf_context \<Rightarrow> params \<Rightarrow> language \<Rightarrow> ('w, 'd, 'a, 'c, 'h) handler" where
  "DigestUpdate_branch K p lang =
    let_some (str_param p 0) (rpc_err (- 2) ''Missing handle param'' (params_id p)) (\<lambda>h.
    let_some (str_param p 1) (rpc_err (- 2) ''Missing dataBase64 param'' (params_id p)) (\<lambda>data_b64.
    let_ok (case b64_decode (sk_codec K) data_b64 of
              Inr b \<Rightarrow> Inr b
            | Inl e \<Rightarrow> Inl (rpc_err (- 2) (''Invalid base64 data: '' @ e) (params_id p))) (\<lambda>data (s, w).
      case get_digest h (handles s) of
        Inl _ \<Rightarrow> reply (bad_handle ''Invalid or expired hash handle'' (params_id p)) (s, w)
      | Inr g \<Rightarrow>
          call (dig_update (sk_provider K) g data) (answer
            (\<lambda>_. rpc_ok (Boolean True) (params_id p))
            (\<lambda>e. native_failure (localized lang (''DigestUpdate'' @ utf8 [0xE5, 0xA4, 0xB1, 0xE8, 0xB4, 0xA5] @ '': 0x'') ''DigestUpdate failed: 0x'') e lang (params_id p))) (s, w))))"

definition DigestFinal_branch ::
  "('w, 'd, 'a, 'c, 'h) skf_context \<Rightarrow> params \<Rightarrow> language \<Rightarrow> ('w, 'd, 'a, 'c, 'h) handler" where
  "DigestFinal_branch K p lang =
    let_some (str_param p 0) (rpc_err (- 2) ''Missing handle param'' (params_id p)) (\<lambda>h (s, w).
      case remove_digest h (handles s) of
        (Inl _, t) \<Rightarrow>
          (Ret (bad_handle ''Invalid or expired hash handle'' (params_id p)), s\<lparr>handles := t\<rparr>, w)
      | (Inr g, t) \<Rightarrow>
          (case dig_finalize (sk_provider K) g w of
            (r, w') \<Rightarrow>
              (Ret (case r of
                 Inr hash \<Rightarrow> rpc_ok (String (b64_encode (sk_codec K) hash)) (params_id p)
               | Inl e \<Rightarrow> native_failure (localized lang (''DigestFinal'' @ utf8 [0xE5, 0xA4, 0xB1, 0xE8, 0xB4, 0xA5] @ '': 0x'') ''DigestFinal failed: 0x'') e lang (params_id p)),
               s\<lparr>handles := t\<rparr>, drop_digest (sk_provider K) g w')))"

definition CloseHash_branch ::
  "('w, 'd, 'a, 'c, 'h) skf_context \<Rightarrow> params \<Rightarrow> ('w, 'd, 'a, 'c, 'h) handler" where
  "CloseHash_branch K p =
    let_some (str_param p 0) (rpc_err (- 2) ''Missing handle param'' (params_id p)) (\<lambda>h (s, w).
      case remove_digest h (handles s) of
        (Inr g, t) \<Rightarrow>
          (Ret (rpc_ok (Boolean True) (params_id p)), s\<lparr>handles := t\<rparr>, drop_digest (sk_provider K) g w)
      | (Inl _, t) \<Rightarrow>
          (Ret (bad_handle ''Invalid or expired hash handle'' (params_id p)), s\<lparr>handles := t\<rparr>, w))"

section \<open>The table of methods\<close>

definition domain_methods ::
  "runtime \<Rightarrow> ('w, 'd, 'a, 'c, 'h) server_context \<Rightarrow> params \<Rightarrow> language
    \<Rightarrow> (string \<times> ('w, 'd, 'a, 'c, 'h) handler) list" where
  "domain_methods R ctx p lang =
    [(''DeleteContainer'', DeleteContainer_handle ctx p lang),
     (''ImportCertificate'', ImportCertificate_handle (rt_codec R) ctx p lang),
     (''SignData'', SignData_handle (rt_codec R) ctx p lang),
     (''CheckPIN'', CheckPIN_handle R ctx p lang),
     (''CreatePKCS10'', CreatePKCS10_handle R ctx p lang),
     (''EncryptData'', EncryptData_handle (rt_codec R) ctx p lang),
     (''DecryptData'', DecryptData_handle (rt_codec R) ctx p lang),
     (''CreateContainer'', CreateContainer_handle ctx p lang),
     (''GetContainerType'', GetContainerType_handle ctx p lang),
     (''RSASignData'', RSASignData_handle (rt_codec R) ctx p lang),
     (''GenECCKeyPair'', GenECCKeyPair_handle (rt_codec R) ctx p lang),
     (''GenRSAKeyPair'', GenRSAKeyPair_handle (rt_codec R) ctx p lang)]"

definition session_methods ::
  "('w, 'd, 'a, 'c, 'h) skf_context \<Rightarrow> params \<Rightarrow> language
    \<Rightarrow> (string \<times> ('w, 'd, 'a, 'c, 'h) handler) list" where
  "session_methods K p lang =
    [(''GetProtocolVersion'', GetProtocolVersion_branch p),
     (''SetLanguage'', SetLanguage_branch p),
     (''WaitForDevEvent'', WaitForDevEvent_branch K p lang),
     (''EnumProvider'', EnumProvider_branch K p lang),
     (''EnumDevice'', EnumDevice_branch K p lang),
     (''ConnectDev'', ConnectDev_branch K p lang),
     (''DisConnectDev'', DisConnectDev_branch K p),
     (''GenerateRandom'', GenerateRandom_branch K p lang),
     (''GetDevState'', GetDevState_branch K p lang),
     (''CancelWaitForDevEvent'', CancelWaitForDevEvent_branch K p lang),
     (''DigestInit'', DigestInit_branch K p lang),
     (''DigestUpdate'', DigestUpdate_branch K p lang),
     (''DigestFinal'', DigestFinal_branch K p lang),
     (''CloseHash'', CloseHash_branch K p)]"

definition method_table ::
  "('w, 'd, 'a, 'c, 'h) skf_context \<Rightarrow> params \<Rightarrow> language
    \<Rightarrow> (string \<times> ('w, 'd, 'a, 'c, 'h) handler) list" where
  "method_table K p lang =
    session_methods K p lang
    @ domain_methods (sk_runtime K) (server_context_of K) p lang
    @ direct_methods K p lang @ [(''IssueCertificate'', IssueCertificate_branch (sk_issuer K) (sk_codec K) p)]"

definition dispatch ::
  "('w, 'd, 'a, 'c, 'h) skf_context \<Rightarrow> string \<Rightarrow> params \<Rightarrow> language \<Rightarrow> ('w, 'd, 'a, 'c, 'h) handler" where
  "dispatch K m p lang =
    (case map_of (method_table K p lang) m of
      Some f \<Rightarrow> f
    | None \<Rightarrow> reply (rpc_err (- 3) (''Method '' @ m @ '' not found'') (params_id p)))"

definition CURRENT_API_VERSION :: u32 where
  "CURRENT_API_VERSION = 1"

definition version_rejection :: "u32 option \<Rightarrow> json option \<Rightarrow> rpc_response option" where
  "version_rejection requested ident =
    (case requested of
      None \<Rightarrow> None
    | Some v \<Rightarrow>
        if CURRENT_API_VERSION < v then
          Some (rpc_err (- 1)
            (''Unsupported apiVersion '' @ show_nat (unat v) @ ''; this service supports up to ''
             @ show_nat (unat CURRENT_API_VERSION)) ident)
        else None)"

text \<open>The request arrives parsed, or as the parser's error text.\<close>

definition handle_request ::
  "('w, 'd, 'a, 'c, 'h) skf_context \<Rightarrow> string + rpc_request \<Rightarrow> language
    \<Rightarrow> ('w, 'd, 'a, 'c, 'h) handler_state
    \<Rightarrow> (rpc_response outcome \<times> ('w, 'd, 'a, 'c, 'h) handler_state) \<times> language" where
  "handle_request K parsed lang st =
    (case parsed of
      Inl e \<Rightarrow> (reply (rpc_err (- 1) (''Invalid JSON: '' @ e) None) st, lang)
    | Inr req \<Rightarrow>
        (case version_rejection (req_api_version req) (req_id req) of
          Some r \<Rightarrow> (reply r st, lang)
        | None \<Rightarrow>
            (case restricted_rejection (req_method req) (restricted_enabled (sk_runtime K)) (req_id req) of
              Some r \<Rightarrow> (reply r st, lang)
            | None \<Rightarrow>
                (let p = new_params (req_params req) (req_id req)
                 in (dispatch K (req_method req) p lang st,
                     language_after (sk_runtime K) (req_method req) p lang)))))"

section \<open>Ownership of guards\<close>

lemma guards_issue_device:
  assumes "wf_handles t" "can_mint t" "issue_device g t = (h, t')"
  shows "guards_of t' = add_mset (ResDevice g) (guards_of t)"
proof -
  have "map_of (devices t) (handle_text Device (unat (next_id t + 1))) = None"
    using assms(1,2) wf_kind_fresh [of Device "next_id t" "devices t" Device] by (simp add: wf_handles_def)
  from mset_values_update_fresh [OF this, of g] show ?thesis
    using assms(3) by (auto simp: issue_device_def mint_eq guards_of_def)
qed

lemma guards_issue_digest:
  assumes "wf_handles t" "can_mint t" "issue_digest g t = (h, t')"
  shows "guards_of t' = add_mset (ResDigest g) (guards_of t)"
proof -
  have "map_of (digests t) (handle_text Digest (unat (next_id t + 1))) = None"
    using assms(1,2) wf_kind_fresh [of Digest "next_id t" "digests t" Digest] by (simp add: wf_handles_def)
  from mset_values_update_fresh [OF this, of g] show ?thesis
    using assms(3) by (auto simp: issue_digest_def mint_eq guards_of_def)
qed

lemma guards_remove_device:
  assumes "wf_handles t" "remove_device h t = (Inr g, t')"
  shows "guards_of t = add_mset (ResDevice g) (guards_of t')"
proof -
  have "wf_table (devices t)" using assms(1) by (simp add: wf_handles_def wf_kind_def)
  moreover have "map_of (devices t) h = Some g" "t' = t\<lparr>devices := AList.delete h (devices t)\<rparr>"
    using assms(2) by (auto simp: remove_device_def split: sum.splits option.splits)
  ultimately show ?thesis using mset_values_delete [of "devices t" h g] by (simp add: guards_of_def)
qed

lemma guards_remove_digest:
  assumes "wf_handles t" "remove_digest h t = (Inr g, t')"
  shows "guards_of t = add_mset (ResDigest g) (guards_of t')"
proof -
  have "wf_table (digests t)" using assms(1) by (simp add: wf_handles_def wf_kind_def)
  moreover have "map_of (digests t) h = Some g" "t' = t\<lparr>digests := AList.delete h (digests t)\<rparr>"
    using assms(2) by (auto simp: remove_digest_def split: sum.splits option.splits)
  ultimately show ?thesis using mset_values_delete [of "digests t" h g] by (simp add: guards_of_def)
qed

lemma remove_error_same:
  "remove_device h t = (Inl e, t') \<Longrightarrow> t' = t" "remove_digest h t = (Inl e, t') \<Longrightarrow> t' = t"
  by (auto simp: remove_device_def remove_digest_def split: sum.splits option.splits)

text \<open>A session owns its part of the ledger: beside a base of guards that belong to others, the guards
  that exist are those its table holds. A handler conserves ownership when this stays so,
  however it ends, and it mints at most two handles.\<close>

definition owns ::
  "('w \<Rightarrow> ('d, 'a, 'c, 'h) resource multiset) \<Rightarrow> ('d, 'a, 'c, 'h) resource multiset
    \<Rightarrow> ('d, 'a, 'c, 'h) session_state \<Rightarrow> 'w \<Rightarrow> bool" where
  "owns live base s w \<longleftrightarrow> wf_handles (handles s) \<and> live w = base + guards_of (handles s)"

definition minted_count :: "('d, 'a, 'c, 'h) session_state \<Rightarrow> nat" where
  "minted_count s = unat (next_id (handles s))"

definition conserves ::
  "('w \<Rightarrow> ('d, 'a, 'c, 'h) resource multiset) \<Rightarrow> ('w, 'd, 'a, 'c, 'h) handler \<Rightarrow> bool" where
  "conserves live f \<longleftrightarrow>
    (\<forall>base s w r s' w'. f (s, w) = (r, s', w') \<longrightarrow> minted_count s + 2 < 2 ^ 64 \<longrightarrow> owns live base s w
      \<longrightarrow> owns live base s' w' \<and> minted_count s' \<le> minted_count s + 2)"

lemma conservesI:
  "(\<And>base s w r s' w'. f (s, w) = (r, s', w') \<Longrightarrow> minted_count s + 2 < 2 ^ 64 \<Longrightarrow> owns live base s w
      \<Longrightarrow> owns live base s' w' \<and> minted_count s' \<le> minted_count s + 2) \<Longrightarrow> conserves live f"
  by (simp add: conserves_def)

lemma conservesD:
  assumes "conserves live f" "f (s, w) = (r, s', w')" "minted_count s + 2 < 2 ^ 64" "owns live base s w"
  shows "owns live base s' w'" "minted_count s' \<le> minted_count s + 2"
  using assms by (simp_all add: conserves_def)

lemma clean_conserves: "clean live now A f \<Longrightarrow> conserves live f"
  by (rule conservesI) (auto simp: owns_def minted_count_def sess_kept_def clean_def)

lemma room_can_mint:
  assumes "minted_count s + 1 < 2 ^ 64"
  shows "can_mint (handles s)" "unat (next_id (handles s) + 1) = Suc (minted_count s)"
proof -
  have m: "unat (- 1 :: u64) = 2 ^ 64 - 1" by (simp add: unsigned_minus_1_eq_mask mask_eq_exp_minus_1)
  show "can_mint (handles s)" using assms m by (auto simp: minted_count_def)
  then show "unat (next_id (handles s) + 1) = Suc (minted_count s)"
    by (simp add: minted_count_def unat_succ)
qed

lemma conserves_reply: "conserves live (reply r)"
  by (auto simp: conserves_def reply_def)

lemma conserves_let_some:
  "(\<And>v. x = Some v \<Longrightarrow> conserves live (f v)) \<Longrightarrow> conserves live (let_some x e f)"
  by (cases x) (simp_all add: let_some_def conserves_reply)

lemma conserves_if: "(b \<Longrightarrow> conserves live f) \<Longrightarrow> (\<not> b \<Longrightarrow> conserves live g) \<Longrightarrow>
    conserves live (if b then f else g)"
  by simp

lemma owns_issue_device:
  assumes "minted_count s + 1 < 2 ^ 64" "wf_handles (handles s)"
    and "live u = add_mset (ResDevice g) (base + guards_of (handles s))"
    and i: "issue_device g (handles s) = (h, t)"
  shows "owns live base (s\<lparr>handles := t\<rparr>) u" "minted_count (s\<lparr>handles := t\<rparr>) = Suc (minted_count s)"
proof -
  have room: "can_mint (handles s)" "unat (next_id (handles s) + 1) = Suc (minted_count s)"
    using room_can_mint [of s] assms(1) by simp_all
  show "owns live base (s\<lparr>handles := t\<rparr>) u"
    using assms guards_issue_device [OF assms(2) room(1) i] device_table.issue_wf [OF assms(2) room(1) i]
    by (simp add: owns_def)
  show "minted_count (s\<lparr>handles := t\<rparr>) = Suc (minted_count s)"
    using i room(2) by (auto simp: issue_device_def mint_eq minted_count_def)
qed

lemma owns_issue_digest:
  assumes "minted_count s + 1 < 2 ^ 64" "wf_handles (handles s)"
    and "live u = add_mset (ResDigest g) (base + guards_of (handles s))"
    and i: "issue_digest g (handles s) = (h, t)"
  shows "owns live base (s\<lparr>handles := t\<rparr>) u" "minted_count (s\<lparr>handles := t\<rparr>) = Suc (minted_count s)"
proof -
  have room: "can_mint (handles s)" "unat (next_id (handles s) + 1) = Suc (minted_count s)"
    using room_can_mint [of s] assms(1) by simp_all
  show "owns live base (s\<lparr>handles := t\<rparr>) u"
    using assms guards_issue_digest [OF assms(2) room(1) i] digest_table.issue_wf [OF assms(2) room(1) i]
    by (simp add: owns_def)
  show "minted_count (s\<lparr>handles := t\<rparr>) = Suc (minted_count s)"
    using i room(2) by (auto simp: issue_digest_def mint_eq minted_count_def)
qed

lemma remove_keeps_next:
  "next_id (snd (remove_device h t)) = next_id t" "next_id (snd (remove_digest h t)) = next_id t"
  by (auto simp: remove_device_def remove_digest_def split: sum.splits option.splits)

lemma owns_remove_device:
  assumes "closes live now ResDevice dr" "owns live base s w" "remove_device h (handles s) = (Inr g, t)"
  shows "owns live base (s\<lparr>handles := t\<rparr>) (dr g w)" "minted_count (s\<lparr>handles := t\<rparr>) = minted_count s"
  using assms guards_remove_device [OF _ assms(3)] device_table.remove_wf [of "handles s" h]
    remove_keeps_next(1) [of h "handles s"]
  by (auto simp: owns_def minted_count_def closes_def)

lemma owns_remove_digest:
  assumes "closes live now ResDigest dr" "owns live base s w" "remove_digest h (handles s) = (Inr g, t)"
  shows "owns live base (s\<lparr>handles := t\<rparr>) (dr g w)" "minted_count (s\<lparr>handles := t\<rparr>) = minted_count s"
  using assms guards_remove_digest [OF _ assms(3)] digest_table.remove_wf [of "handles s" h]
    remove_keeps_next(2) [of h "handles s"]
  by (auto simp: owns_def minted_count_def closes_def)

lemma conserves_open_issue:
  assumes "opens live now ResDevice f"
  shows "conserves live (let_call f err (\<lambda>g (s, w). case issue_device g (handles s) of
    (h, t) \<Rightarrow> (Ret (ok h), s\<lparr>handles := t\<rparr>, w)))"
proof (rule conservesI)
  fix base s w r s' w'
  assume run: "let_call f err (\<lambda>g (s, w). case issue_device g (handles s) of
      (h, t) \<Rightarrow> (Ret (ok h), s\<lparr>handles := t\<rparr>, w)) (s, w) = (r, s', w')"
    and room: "minted_count s + 2 < 2 ^ 64" and own: "owns live base s w"
  obtain x u where o: "f w = (x, u)" by (cases "f w")
  show "owns live base s' w' \<and> minted_count s' \<le> minted_count s + 2"
  proof (cases x)
    case (Inl e)
    then show ?thesis using run o own opensD(1) [OF assms] by (auto simp: let_call_def call_def reply_def owns_def)
  next
    case (Inr g)
    obtain h t where i: "issue_device g (handles s) = (h, t)" by (cases "issue_device g (handles s)")
    have "live u = add_mset (ResDevice g) (base + guards_of (handles s))" "wf_handles (handles s)"
      using own opensD(2) [OF assms] o Inr by (simp_all add: owns_def)
    note issued = owns_issue_device [where live = live, OF _ this(2,1) i]
    show ?thesis using run o Inr i room issued by (auto simp: let_call_def call_def)
  qed
qed

lemma conserves_remove_device:
  assumes "closes live now ResDevice dr"
  shows "conserves live (\<lambda>(s, w). case remove_device h (handles s) of
      (Inr g, t) \<Rightarrow> (Ret ok, s\<lparr>handles := t\<rparr>, dr g w)
    | (Inl _, t) \<Rightarrow> (Ret bad, s\<lparr>handles := t\<rparr>, w))"
  using assms owns_remove_device [OF assms]
  by (intro conservesI) (auto split: prod.splits sum.splits dest: remove_error_same)

lemma conserves_remove_digest:
  assumes "closes live now ResDigest dr"
  shows "conserves live (\<lambda>(s, w). case remove_digest h (handles s) of
      (Inr g, t) \<Rightarrow> (Ret ok, s\<lparr>handles := t\<rparr>, dr g w)
    | (Inl _, t) \<Rightarrow> (Ret bad, s\<lparr>handles := t\<rparr>, w))"
  using assms owns_remove_digest [OF assms]
  by (intro conservesI) (auto split: prod.splits sum.splits dest: remove_error_same)

lemma conserves_finalize:
  assumes k: "\<And>g. keeps live now (fin g)" and c: "closes live now ResDigest dr"
  shows "conserves live (\<lambda>(s, w). case remove_digest h (handles s) of
      (Inl _, t) \<Rightarrow> (Ret bad, s\<lparr>handles := t\<rparr>, w)
    | (Inr g, t) \<Rightarrow> (case fin g w of (r, w') \<Rightarrow> (Ret (ok r), s\<lparr>handles := t\<rparr>, dr g w')))"
proof (rule conservesI)
  fix base s w r s' w'
  assume run: "(case (s, w) of (s, w) \<Rightarrow> case remove_digest h (handles s) of
      (Inl _, t) \<Rightarrow> (Ret bad, s\<lparr>handles := t\<rparr>, w)
    | (Inr g, t) \<Rightarrow> (case fin g w of (r, w') \<Rightarrow> (Ret (ok r), s\<lparr>handles := t\<rparr>, dr g w'))) = (r, s', w')"
    and own: "owns live base s w"
  obtain x t where rm: "remove_digest h (handles s) = (x, t)" by (cases "remove_digest h (handles s)")
  show "owns live base s' w' \<and> minted_count s' \<le> minted_count s + 2"
  proof (cases x)
    case (Inl e)
    then show ?thesis using run rm own remove_error_same(2) [of h "handles s" e t] by auto
  next
    case (Inr g)
    obtain y u where y: "fin g w = (y, u)" by (cases "fin g w")
    have "owns live base s u" using own keepsD(1) [OF k y] by (simp add: owns_def)
    then show ?thesis using run rm Inr y owns_remove_digest [OF c, of base s u h g t] by auto
  qed
qed

lemma conserves_begin_digest:
  assumes f: "opens live now ResDevice f" and b: "\<And>d. opens live now ResDigest (begin d)"
    and c: "closes live now ResDevice dr"
  shows "conserves live (let_call f err (\<lambda>d. call (begin d) (\<lambda>r (s, w).
      case r of
        Inr g \<Rightarrow> (case issue_digest g (handles s) of
          (h, t) \<Rightarrow> (Ret (ok h), s\<lparr>handles := snd (issue_device d t)\<rparr>, w))
      | Inl e \<Rightarrow> (Ret (bad e), s, dr d w))))"
proof (rule conservesI)
  fix base s w r s' w'
  assume run: "let_call f err (\<lambda>d. call (begin d) (\<lambda>r (s, w).
      case r of
        Inr g \<Rightarrow> (case issue_digest g (handles s) of
          (h, t) \<Rightarrow> (Ret (ok h), s\<lparr>handles := snd (issue_device d t)\<rparr>, w))
      | Inl e \<Rightarrow> (Ret (bad e), s, dr d w))) (s, w) = (r, s', w')"
    and room: "minted_count s + 2 < 2 ^ 64" and own: "owns live base s w"
  obtain x u where o: "f w = (x, u)" by (cases "f w")
  show "owns live base s' w' \<and> minted_count s' \<le> minted_count s + 2"
  proof (cases x)
    case (Inl e)
    then show ?thesis using run o own opensD(1) [OF f] by (auto simp: let_call_def call_def reply_def owns_def)
  next
    case (Inr d)
    obtain y v where y: "begin d u = (y, v)" by (cases "begin d u")
    have u: "live u = add_mset (ResDevice d) (base + guards_of (handles s))" "wf_handles (handles s)"
      using own opensD(2) [OF f] o Inr by (simp_all add: owns_def)
    show ?thesis
    proof (cases y)
      case (Inl e)
      then show ?thesis
        using run o \<open>x = Inr d\<close> y u opensD(1) [OF b] closesD(1) [OF c]
        by (auto simp: let_call_def call_def owns_def)
    next
      case (Inr g)
      obtain h t where i: "issue_digest g (handles s) = (h, t)" by (cases "issue_digest g (handles s)")
      obtain h2 t2 where i2: "issue_device d t = (h2, t2)" by (cases "issue_device d t")
      have v: "live v = add_mset (ResDigest g) ((base + {#ResDevice d#}) + guards_of (handles s))"
        using u opensD(2) [OF b] y Inr by simp
      note one = owns_issue_digest [where live = live, OF _ u(2) v i]
      have "owns live base (s\<lparr>handles := t2\<rparr>) v \<and> minted_count (s\<lparr>handles := t2\<rparr>) = Suc (Suc (minted_count s))"
        using one room owns_issue_device [of "s\<lparr>handles := t\<rparr>" live v d base h2 t2] i2 by (auto simp: owns_def)
      then show ?thesis
        using run o \<open>x = Inr d\<close> y Inr i i2 by (auto simp: let_call_def call_def)
    qed
  qed
qed

section \<open>The contract of the dispatcher's surroundings\<close>

locale dispatcher_contract = direct_contract K live
  for K :: "('w, 'd, 'a, 'c, 'h) skf_context"
    and live :: "'w \<Rightarrow> ('d, 'a, 'c, 'h) resource multiset" +
  assumes default_contract: "provider_contract (sk_provider K) live (sk_clock K)"
    and alias_contract: "provider_contract (sk_from_api K nm (sk_library K path)) live (sk_clock K)"
    and write_keeps: "keeps live (sk_clock K) (\<lambda>w. ((), sk_write_csr K pem w))"
    and issuer_keeps: "issuer_respects (\<lambda>_. kept live (sk_clock K)) (sk_issuer K)"

text \<open>One contract gives the other: the dispatcher's surroundings make a server context that the
  domain handlers can rely on.\<close>

sublocale dispatcher_contract \<subseteq> server_contract "server_context_of K" live
proof (rule server_contract.intro)
  fix pem nm w and P :: "('w, 'd, 'a, 'c, 'h) provider"
  show "keeps live (clock (server_context_of K)) (\<lambda>w. ((), write_last_csr (server_context_of K) pem w))"
    using write_keeps by (simp add: server_context_of_def)
  show "keeps live (clock (server_context_of K)) (resolve (server_context_of K) nm)"
    using get_api_keeps [of nm] by (simp add: server_context_of_def keeps_def skf_resolve_state)
  show "provider_contract P live (clock (server_context_of K))"
    if "fst (resolve (server_context_of K) nm w) = Inr P"
    using that default_contract alias_contract get_api_library [of nm w]
    by (auto simp: server_context_of_def skf_resolve_def split: if_splits prod.splits sum.splits)
qed

context dispatcher_contract
begin

lemma clean_passive:
  "clean live (sk_clock K) {} (GetProtocolVersion_branch p)"
  "clean live (sk_clock K) {} (SetLanguage_branch p)"
  "clean live (sk_clock K) {} (WaitForDevEvent_branch K p lang)"
  "clean live (sk_clock K) {} (EnumProvider_branch K p lang)"
  "clean live (sk_clock K) {} (EnumDevice_branch K p lang)"
  "clean live (sk_clock K) {} (GetDevState_branch K p lang)"
  "clean live (sk_clock K) {} (CancelWaitForDevEvent_branch K p lang)"
  using default_contract
  by (auto simp: GetProtocolVersion_branch_def SetLanguage_branch_def WaitForDevEvent_branch_def
      EnumProvider_branch_def EnumDevice_branch_def GetDevState_branch_def
      CancelWaitForDevEvent_branch_def Let_def split: option.split list.split intro!: release_intros clean_direct_alias)

lemma clean_lookup:
  assumes "\<And>e. clean live (sk_clock K) A (f e)" "\<And>g. clean live (sk_clock K) A (k g)"
  shows "clean live (sk_clock K) A (\<lambda>(s, w). case look s of Inl e \<Rightarrow> f e (s, w) | Inr g \<Rightarrow> k g (s, w))"
  using assms by (fastforce simp: clean_def split: sum.splits)

lemma clean_readers:
  "clean live (sk_clock K) {} (GenerateRandom_branch K p lang)"
  "clean live (sk_clock K) {} (DigestUpdate_branch K p lang)"
  unfolding GenerateRandom_branch_def DigestUpdate_branch_def
  by (intro clean_let_some clean_let_ok clean_lookup clean_reply clean_call clean_answer
      provider_contract.device_keeps(5) [OF default_contract]
      provider_contract.digest_keeps(1) [OF default_contract])+

lemma conserves_ConnectDev: "conserves live (ConnectDev_branch K p lang)"
  unfolding ConnectDev_branch_def
  by (intro conserves_let_some conserves_open_issue [where now = "sk_clock K"]
      provider_contract.guard_opens(1) [OF default_contract])

lemma conserves_DisConnectDev: "conserves live (DisConnectDev_branch K p)"
  unfolding DisConnectDev_branch_def
  by (intro conserves_let_some conserves_remove_device [where now = "sk_clock K"]
      provider_contract.guard_closes(1) [OF default_contract])

lemma conserves_CloseHash: "conserves live (CloseHash_branch K p)"
  unfolding CloseHash_branch_def
  by (intro conserves_let_some conserves_remove_digest [where now = "sk_clock K"]
      provider_contract.guard_closes(4) [OF default_contract])

lemma conserves_DigestFinal: "conserves live (DigestFinal_branch K p lang)"
  unfolding DigestFinal_branch_def
  by (intro conserves_let_some conserves_finalize [where now = "sk_clock K"] provider_contract.digest_keeps(2) [OF default_contract]
      provider_contract.guard_closes(4) [OF default_contract])

lemma conserves_DigestInit: "conserves live (DigestInit_branch K p lang)"
  unfolding DigestInit_branch_def Let_def
  by (intro conserves_let_some conserves_if clean_conserves [OF clean_direct_alias(4)]
      conserves_begin_digest [where now = "sk_clock K"]
      provider_contract.guard_opens [OF default_contract]
      provider_contract.guard_closes(1) [OF default_contract])

lemma conserves_session_methods:
  assumes "(m, f) \<in> set (session_methods K p lang)"
  shows "conserves live f"
  using assms
  by (auto simp: session_methods_def clean_passive [THEN clean_conserves] clean_readers [THEN clean_conserves]
      conserves_ConnectDev conserves_DisConnectDev conserves_DigestInit conserves_DigestFinal conserves_CloseHash)

lemma conserves_domain_methods:
  assumes "(m, f) \<in> set (domain_methods R (server_context_of K) p lang)"
  shows "conserves live f"
  using assms
  by (auto simp: domain_methods_def clean_containers [THEN clean_conserves] clean_keys [THEN clean_conserves]
      clean_signing [THEN clean_conserves] clean_check_pin [THEN clean_conserves])

lemma issue_clean: "clean live (sk_clock K) {} (IssueCertificate_branch (sk_issuer K) C p)"
proof -
  have "issuer_contract (sk_issuer K) (\<lambda>_. kept live (sk_clock K))"
    using issuer_keeps kept_order [of live "sk_clock K"]
    by unfold_locales (auto simp: reflp_def transp_def)
  from issuer_contract.issue_certificate_changes [OF this]
  have "kept live (sk_clock K) w w'" if "issue_certificate (sk_issuer K) C p w = (r, w')" for w r w'
    using that by (metis snd_conv)
  then show ?thesis
    unfolding clean_def IssueCertificate_branch_def kept_def by (simp split: prod.splits)
qed

lemma conserves_dispatch: "conserves live (dispatch K m p lang)"
proof (cases "map_of (method_table K p lang) m")
  case None
  then show ?thesis by (simp add: dispatch_def conserves_reply)
next
  case (Some f)
  then have "(m, f) \<in> set (method_table K p lang)" by (rule map_of_SomeD)
  then have "conserves live f"
    using conserves_session_methods conserves_domain_methods clean_direct [THEN clean_conserves]
      issue_clean [THEN clean_conserves]
    by (auto simp: method_table_def)
  then show ?thesis using Some by (simp add: dispatch_def)
qed

lemma conserves_handle_request:
  assumes run: "handle_request K parsed lang (s, w) = ((r, s', w'), lang')"
    and room: "minted_count s + 2 < 2 ^ 64" and own: "owns live base s w"
  shows "owns live base s' w'" "minted_count s' \<le> minted_count s + 2"
proof -
  have "(s', w') = (s, w) \<or> (\<exists>m p. dispatch K m p lang (s, w) = (r, s', w'))"
    using run by (auto simp: handle_request_def reply_def Let_def split: sum.splits option.splits)
  then show "owns live base s' w'" "minted_count s' \<le> minted_count s + 2"
    using own conservesD [OF conserves_dispatch _ room own] by auto
qed

end

section \<open>Services without a vendor library\<close>

text \<open>The context of a machine where no library can be loaded: the default provider is what the server
  was given, every other alias fails to load.\<close>

definition offline_context ::
  "('w, 'd, 'a, 'c, 'h) provider \<Rightarrow> ('w \<Rightarrow> instant) \<Rightarrow> ('w, 'd, 'a, 'c, 'h) skf_context" where
  "offline_context P now =
    \<lparr>sk_runtime = plain_runtime\<lparr>rt_codec := std_codec\<rparr>,
     sk_config = \<lparr>cfg_default = provider_alias P, vendor = [], allow_remote = None, libs = []\<rparr>,
     sk_provider = P, sk_os = ''linux'', sk_arch = ''x86_64'', sk_cached = \<lambda>_ _. None,
     sk_cache_insert = \<lambda>_ _ w. w, sk_dlopen = \<lambda>_ w. (Some ''cannot open shared object file'', w),
     sk_dlclose = \<lambda>_ w. w, sk_library = \<lambda>_. refusing_library (\<lambda>_. False), sk_from_api = \<lambda>_ _. P,
     sk_clock = now, sk_micros = \<lambda>w. Some (now w div 1000), sk_write_csr = \<lambda>_ w. w, sk_x509 = \<lambda>_. None,
     sk_issuer = readonly_issuer\<rparr>"

lemma refusing_library_quiet: "library_quiet live now (refusing_library present)"
  unfolding library_quiet_def library_respects_def api_defs
  by (simp add: runs_def kept_def ffi_def refusing_library_def)

lemma offline_contract:
  assumes "provider_contract P live now"
  shows "dispatcher_contract (offline_context P now) live"
proof (intro dispatcher_contract.intro direct_contract.intro dispatcher_contract_axioms.intro)
  show "issuer_respects (\<lambda>_. kept live (sk_clock (offline_context P now))) (sk_issuer (offline_context P now))"
    by (simp add: offline_context_def readonly_respects kept_def)
qed (use assms in \<open>simp_all add: offline_context_def refusing_library_quiet keeps_def\<close>)

interpretation fake_dispatcher:
  dispatcher_contract "offline_context (fake_provider nm) fi_clock" boxes for nm
  by (rule offline_contract) unfold_locales

interpretation unavailable_dispatcher:
  dispatcher_contract "offline_context (unavailable_provider arch nm detail) now" "\<lambda>_. {#}" for arch nm detail now
  by (rule offline_contract) unfold_locales

interpretation token_dispatcher: dispatcher_contract token_context "\<lambda>_. {#}"
proof (intro dispatcher_contract.intro token_direct.direct_contract_axioms dispatcher_contract_axioms.intro)
  show "issuer_respects (\<lambda>_. kept (\<lambda>_. {#}) (sk_clock token_context)) (sk_issuer token_context)"
    by (simp add: token_context_def readonly_respects kept_def)
qed (simp_all add: token_context_def keeps_def unavailable_contract.provider_contract_axioms)

end
