(* ===== verification/Server.thy ===== *)
theory Server
  imports Dispatcher
begin

text \<open>
  The server around the dispatcher (\<open>src/server/mod.rs\<close>, and \<open>JsonRpcSession\<close> in \<open>src/main.rs\<close>): admission of
  connections against a fixed number of slots, the session each connection owns, the blocking pool
  with its timeout, and the end of a connection. All connections share the state behind the
  provider; requests are steps of one interleaving.
\<close>

section \<open>State\<close>

definition MAX_CONNECTIONS :: nat where
  "MAX_CONNECTIONS = 64"

text \<open>A connection is its session and its language. A request whose caller stopped waiting keeps the
  session it was given until it ends.\<close>

type_synonym ('d, 'a, 'c, 'h) connection = "('d, 'a, 'c, 'h) session_state \<times> language"

type_synonym ('d, 'a, 'c, 'h) running_request =
  "('d, 'a, 'c, 'h) session_state \<times> (string + rpc_request) \<times> language"

record ('w, 'd, 'a, 'c, 'h) server =
  srv_accepting :: bool
  srv_permits :: nat
  srv_handshakes :: nat
  srv_conns :: "('d, 'a, 'c, 'h) connection list"
  srv_running :: "('d, 'a, 'c, 'h) running_request list"
  srv_world :: 'w

definition serve_start :: "'w \<Rightarrow> ('w, 'd, 'a, 'c, 'h) server" where
  "serve_start w0 =
    \<lparr>srv_accepting = True, srv_permits = MAX_CONNECTIONS, srv_handshakes = 0, srv_conns = [],
     srv_running = [], srv_world = w0\<rparr>"

section \<open>Admission and the life of a connection\<close>

text \<open>Without a free slot the socket is dropped before the handshake.\<close>

definition admit :: "('w, 'd, 'a, 'c, 'h) server \<Rightarrow> ('w, 'd, 'a, 'c, 'h) server" where
  "admit \<sigma> =
    (if srv_permits \<sigma> = 0 then \<sigma>
     else \<sigma>\<lparr>srv_permits := srv_permits \<sigma> - 1, srv_handshakes := Suc (srv_handshakes \<sigma>)\<rparr>)"

text \<open>The task of a client: a failed upgrade frees the slot, a successful one creates the session.\<close>

definition upgrade_failed :: "('w, 'd, 'a, 'c, 'h) server \<Rightarrow> ('w, 'd, 'a, 'c, 'h) server" where
  "upgrade_failed \<sigma> =
    \<sigma>\<lparr>srv_handshakes := srv_handshakes \<sigma> - 1, srv_permits := Suc (srv_permits \<sigma>)\<rparr>"

definition create_session ::
  "bytes \<Rightarrow> duration \<Rightarrow> ('w, 'd, 'a, 'c, 'h) server \<Rightarrow> ('w, 'd, 'a, 'c, 'h) server" where
  "create_session random16 life \<sigma> =
    \<sigma>\<lparr>srv_handshakes := srv_handshakes \<sigma> - 1,
      srv_conns := srv_conns \<sigma> @ [(new_session random16 life, EN)]\<rparr>"

text \<open>The end of a client's task: the session goes with everything it holds, then the slot.\<close>

definition close_connection ::
  "('w, 'd, 'a, 'c, 'h) skf_context \<Rightarrow> nat \<Rightarrow> ('w, 'd, 'a, 'c, 'h) server \<Rightarrow> ('w, 'd, 'a, 'c, 'h) server" where
  "close_connection K i \<sigma> =
    \<sigma>\<lparr>srv_conns := take i (srv_conns \<sigma>) @ drop (Suc i) (srv_conns \<sigma>),
      srv_permits := Suc (srv_permits \<sigma>),
      srv_world := drop_session (sk_provider K) (fst (srv_conns \<sigma> ! i)) (srv_world \<sigma>)\<rparr>"

section \<open>One request\<close>

definition timeout_exempt :: "string + rpc_request \<Rightarrow> bool" where
  "timeout_exempt parsed = (case parsed of Inl _ \<Rightarrow> False | Inr req \<Rightarrow> is_wait_method (req_method req))"

definition timeout_response :: "string + rpc_request \<Rightarrow> rpc_response" where
  "timeout_response parsed =
    rpc_err (- 1) ''Device operation timed out after 30s''
      (case parsed of Inl _ \<Rightarrow> None | Inr req \<Rightarrow> req_id req)"

text \<open>\<open>JsonRpcSession::handle\<close>: the session travels to the blocking pool with the request. When the
  dispatcher returns, session and language come back; when it panics, the session is dropped as
  the thread unwinds and the connection starts over with an empty one.\<close>

definition handle_completes ::
  "('w, 'd, 'a, 'c, 'h) skf_context \<Rightarrow> bytes \<Rightarrow> duration \<Rightarrow> nat \<Rightarrow> string + rpc_request
    \<Rightarrow> ('w, 'd, 'a, 'c, 'h) server \<Rightarrow> rpc_response outcome \<times> ('w, 'd, 'a, 'c, 'h) server" where
  "handle_completes K random16 life i parsed \<sigma> =
    (case srv_conns \<sigma> ! i of (s, lang) \<Rightarrow>
      (case handle_request K parsed lang (s, srv_world \<sigma>) of
        ((Ret r, s', w'), lang') \<Rightarrow>
          (Ret r, \<sigma>\<lparr>srv_conns := (srv_conns \<sigma>)[i := (s', lang')], srv_world := w'\<rparr>)
      | ((Panic, s', w'), _) \<Rightarrow>
          (Panic, \<sigma>\<lparr>srv_conns := (srv_conns \<sigma>)[i := (new_session random16 life, EN)],
             srv_world := drop_session (sk_provider K) s' w'\<rparr>)))"

text \<open>When the caller stops waiting, the connection starts over at once and the request goes on.\<close>

definition handle_times_out ::
  "bytes \<Rightarrow> duration \<Rightarrow> nat \<Rightarrow> string + rpc_request
    \<Rightarrow> ('w, 'd, 'a, 'c, 'h) server \<Rightarrow> rpc_response \<times> ('w, 'd, 'a, 'c, 'h) server" where
  "handle_times_out random16 life i parsed \<sigma> =
    (case srv_conns \<sigma> ! i of (s, lang) \<Rightarrow>
      (timeout_response parsed,
       \<sigma>\<lparr>srv_conns := (srv_conns \<sigma>)[i := (new_session random16 life, EN)],
         srv_running := (s, parsed, lang) # srv_running \<sigma>\<rparr>))"

text \<open>A request nobody waits for ends: its session is dropped on the pool's thread.\<close>

definition late_finish ::
  "('w, 'd, 'a, 'c, 'h) skf_context \<Rightarrow> nat \<Rightarrow> ('w, 'd, 'a, 'c, 'h) server \<Rightarrow> ('w, 'd, 'a, 'c, 'h) server" where
  "late_finish K j \<sigma> =
    (case srv_running \<sigma> ! j of (s, parsed, lang) \<Rightarrow>
      (case handle_request K parsed lang (s, srv_world \<sigma>) of
        ((_, s', w'), _) \<Rightarrow>
          \<sigma>\<lparr>srv_running := take j (srv_running \<sigma>) @ drop (Suc j) (srv_running \<sigma>),
            srv_world := drop_session (sk_provider K) s' w'\<rparr>))"

section \<open>Steps\<close>

inductive server_step ::
  "('w, 'd, 'a, 'c, 'h) skf_context \<Rightarrow> duration
    \<Rightarrow> ('w, 'd, 'a, 'c, 'h) server \<Rightarrow> ('w, 'd, 'a, 'c, 'h) server \<Rightarrow> bool"
  for K life where
  Accept: "srv_accepting \<sigma> \<Longrightarrow> server_step K life \<sigma> (admit \<sigma>)"
| Stop: "server_step K life \<sigma> (\<sigma>\<lparr>srv_accepting := False\<rparr>)"
| UpgradeFailed: "0 < srv_handshakes \<sigma> \<Longrightarrow> server_step K life \<sigma> (upgrade_failed \<sigma>)"
| Upgraded: "0 < srv_handshakes \<sigma> \<Longrightarrow> server_step K life \<sigma> (create_session random16 life \<sigma>)"
| Completes: "i < length (srv_conns \<sigma>)
    \<Longrightarrow> server_step K life \<sigma> (snd (handle_completes K random16 life i parsed \<sigma>))"
| TimesOut: "i < length (srv_conns \<sigma>) \<Longrightarrow> \<not> timeout_exempt parsed
    \<Longrightarrow> server_step K life \<sigma> (snd (handle_times_out random16 life i parsed \<sigma>))"
| LateFinish: "j < length (srv_running \<sigma>) \<Longrightarrow> server_step K life \<sigma> (late_finish K j \<sigma>)"
| Close: "i < length (srv_conns \<sigma>) \<Longrightarrow> server_step K life \<sigma> (close_connection K i \<sigma>)"

inductive server_reach ::
  "('w, 'd, 'a, 'c, 'h) skf_context \<Rightarrow> duration \<Rightarrow> 'w \<Rightarrow> nat \<Rightarrow> ('w, 'd, 'a, 'c, 'h) server \<Rightarrow> bool"
  for K life w0 where
  Started: "server_reach K life w0 0 (serve_start w0)"
| Stepped: "server_reach K life w0 n \<sigma> \<Longrightarrow> server_step K life \<sigma> \<sigma>'
    \<Longrightarrow> server_reach K life w0 (Suc n) \<sigma>'"

inductive_cases server_stepE: "server_step K life \<sigma> \<sigma>'"

section \<open>Slots\<close>

definition slots :: "('w, 'd, 'a, 'c, 'h) server \<Rightarrow> nat" where
  "slots \<sigma> = srv_permits \<sigma> + srv_handshakes \<sigma> + length (srv_conns \<sigma>)"

lemma slots_step: "server_step K life \<sigma> \<sigma>' \<Longrightarrow> slots \<sigma>' = slots \<sigma>"
  by (induction rule: server_step.induct)
    (auto simp: slots_def admit_def upgrade_failed_def create_session_def handle_completes_def
      handle_times_out_def late_finish_def close_connection_def split: prod.splits outcome.splits)

lemma slots_reach: "server_reach K life w0 n \<sigma> \<Longrightarrow> slots \<sigma> = MAX_CONNECTIONS"
  by (induction rule: server_reach.induct) (auto simp: slots_step, simp add: slots_def serve_start_def)

section \<open>Accounting for the guards\<close>

definition held :: "('d, 'a, 'c, 'h) session_state list \<Rightarrow> ('d, 'a, 'c, 'h) resource multiset" where
  "held ss = sum_list (map (\<lambda>s. guards_of (handles s)) ss)"

definition sessions_of :: "('w, 'd, 'a, 'c, 'h) server \<Rightarrow> ('d, 'a, 'c, 'h) session_state list" where
  "sessions_of \<sigma> = map fst (srv_conns \<sigma>) @ map fst (srv_running \<sigma>)"

definition without :: "nat \<Rightarrow> 'x list \<Rightarrow> 'x list" where
  "without i xs = take i xs @ drop (Suc i) xs"

lemma held_simps [simp]:
  "held [] = {#}" "held (s # ss) = guards_of (handles s) + held ss" "held (ss @ ts) = held ss + held ts"
  by (simp_all add: held_def)

lemma held_pick: "i < length ss \<Longrightarrow> held ss = guards_of (handles (ss ! i)) + held (without i ss)"
  by (subst (1) id_take_nth_drop [of i ss]) (simp_all add: without_def ac_simps)

lemma held_update: "i < length ss \<Longrightarrow> held (ss[i := s]) = guards_of (handles s) + held (without i ss)"
  by (simp add: upd_conv_take_nth_drop without_def ac_simps)

lemma map_without: "map f (without i xs) = without i (map f xs)"
  by (simp add: without_def take_map drop_map)

lemma set_without: "set (without i xs) \<subseteq> set xs"
  by (auto simp: without_def dest: in_set_takeD in_set_dropD)

definition sound_session :: "nat \<Rightarrow> ('d, 'a, 'c, 'h) session_state \<Rightarrow> bool" where
  "sound_session n s \<longleftrightarrow> wf_handles (handles s) \<and> minted_count s \<le> 2 * n"

definition accounted ::
  "('w \<Rightarrow> ('d, 'a, 'c, 'h) resource multiset) \<Rightarrow> 'w \<Rightarrow> nat \<Rightarrow> ('w, 'd, 'a, 'c, 'h) server \<Rightarrow> bool" where
  "accounted live w0 n \<sigma> \<longleftrightarrow>
    live (srv_world \<sigma>) = live w0 + held (sessions_of \<sigma>) \<and> (\<forall>s \<in> set (sessions_of \<sigma>). sound_session n s)"

lemma sound_mono: "sound_session n s \<Longrightarrow> sound_session (Suc n) s"
  by (simp add: sound_session_def)

lemma sound_new [simp]: "sound_session n (new_session random16 life)"
  by (simp add: sound_session_def new_session_def minted_count_def) (simp add: new_handle_table_def)

lemma held_new [simp]: "guards_of (handles (new_session random16 life)) = {#}"
  by (simp add: new_session_def)

text \<open>Everything but one session is the base the session's request leaves alone.\<close>

lemma accountedI:
  assumes "live (srv_world \<sigma>') = live w0 + held (sessions_of \<sigma>')"
    and "set (sessions_of \<sigma>') \<subseteq> set (sessions_of \<sigma>) \<union> {s. sound_session (Suc n) s}" and "accounted live w0 n \<sigma>"
  shows "accounted live w0 (Suc n) \<sigma>'"
  using assms sound_mono unfolding accounted_def by blast

context dispatcher_contract
begin

lemma drop_owned:
  "owns live base s w \<Longrightarrow> live (drop_session (sk_provider K) s w) = base"
  by (simp add: owns_def provider_contract.live_drop_session [OF default_contract])

lemma request_on:
  assumes "handle_request K parsed lang (s, w) = ((r, s', w'), lang')"
    and "sound_session n s" "2 * n + 2 < 2 ^ 64" "live w = base + guards_of (handles s)"
  shows "owns live base s' w'" "sound_session (Suc n) s'"
proof -
  have own: "owns live base s w" "minted_count s + 2 < 2 ^ 64"
    using assms by (simp_all add: owns_def sound_session_def)
  note after = conserves_handle_request [OF assms(1) own(2,1)]
  show "owns live base s' w'" by (rule after)
  show "sound_session (Suc n) s'" using after assms(2) by (simp add: owns_def sound_session_def)
qed

lemma accounted_completes:
  assumes acc: "accounted live w0 n \<sigma>" and i: "i < length (srv_conns \<sigma>)" and n: "2 * n + 2 < 2 ^ 64"
  shows "accounted live w0 (Suc n) (snd (handle_completes K random16 life i parsed \<sigma>))"
proof -
  obtain s lang where s: "srv_conns \<sigma> ! i = (s, lang)" by (cases "srv_conns \<sigma> ! i")
  define base where
    "base = live w0 + held (without i (map fst (srv_conns \<sigma>))) + held (map fst (srv_running \<sigma>))"
  obtain r s' w' lang' where run: "handle_request K parsed lang (s, srv_world \<sigma>) = ((r, s', w'), lang')"
    by (metis surj_pair)
  have mem: "s \<in> set (map fst (srv_conns \<sigma>))" using s i by (metis fst_conv length_map nth_map nth_mem)
  have w: "live (srv_world \<sigma>) = base + guards_of (handles s)" and ok: "sound_session n s"
    using acc i s mem held_pick [of i "map fst (srv_conns \<sigma>)"]
    by (auto simp: accounted_def sessions_of_def base_def ac_simps)
  note after = request_on [OF run ok n w]
  show ?thesis
  proof (rule accountedI [OF _ _ acc])
    show "live (srv_world (snd (handle_completes K random16 life i parsed \<sigma>))) =
        live w0 + held (sessions_of (snd (handle_completes K random16 life i parsed \<sigma>)))"
      using s run i after(1) drop_owned [OF after(1)]
      by (cases r) (simp_all add: handle_completes_def sessions_of_def map_update held_update base_def owns_def ac_simps)
    show "set (sessions_of (snd (handle_completes K random16 life i parsed \<sigma>)))
        \<subseteq> set (sessions_of \<sigma>) \<union> {s. sound_session (Suc n) s}"
      using s run after(2)
      by (cases r) (auto simp: handle_completes_def sessions_of_def map_update dest!: set_update_subset_insert [THEN subsetD])
  qed
qed

lemma accounted_late_finish:
  assumes acc: "accounted live w0 n \<sigma>" and j: "j < length (srv_running \<sigma>)" and n: "2 * n + 2 < 2 ^ 64"
  shows "accounted live w0 (Suc n) (late_finish K j \<sigma>)"
proof -
  obtain s parsed lang where s: "srv_running \<sigma> ! j = (s, parsed, lang)" by (metis surj_pair)
  define base where
    "base = live w0 + held (map fst (srv_conns \<sigma>)) + held (without j (map fst (srv_running \<sigma>)))"
  obtain r s' w' lang' where run: "handle_request K parsed lang (s, srv_world \<sigma>) = ((r, s', w'), lang')"
    by (metis surj_pair)
  have mem: "s \<in> set (map fst (srv_running \<sigma>))" using s j by (metis fst_conv length_map nth_map nth_mem)
  have w: "live (srv_world \<sigma>) = base + guards_of (handles s)" and ok: "sound_session n s"
    using acc j s mem held_pick [of j "map fst (srv_running \<sigma>)"]
    by (auto simp: accounted_def sessions_of_def base_def ac_simps)
  note after = request_on [OF run ok n w]
  have shape: "sessions_of (late_finish K j \<sigma>) = map fst (srv_conns \<sigma>) @ without j (map fst (srv_running \<sigma>))"
    "srv_world (late_finish K j \<sigma>) = drop_session (sk_provider K) s' w'"
    using s run by (simp_all add: late_finish_def sessions_of_def map_without without_def [symmetric])
  show ?thesis
    using accountedI [OF _ _ acc, of "late_finish K j \<sigma>"] drop_owned [OF after(1)]
      set_without [of j "map fst (srv_running \<sigma>)"]
    unfolding shape by (auto simp: sessions_of_def base_def ac_simps)
qed

lemma accounted_close:
  assumes acc: "accounted live w0 n \<sigma>" and i: "i < length (srv_conns \<sigma>)"
  shows "accounted live w0 (Suc n) (close_connection K i \<sigma>)"
proof -
  have shape: "sessions_of (close_connection K i \<sigma>) = without i (map fst (srv_conns \<sigma>)) @ map fst (srv_running \<sigma>)"
    by (simp add: close_connection_def sessions_of_def map_without without_def [symmetric])
  have "live (srv_world (close_connection K i \<sigma>)) = live w0 + held (sessions_of (close_connection K i \<sigma>))"
    using acc i held_pick [of i "map fst (srv_conns \<sigma>)"] unfolding shape
    by (simp add: close_connection_def accounted_def sessions_of_def ac_simps
        provider_contract.live_drop_session [OF default_contract])
  then show ?thesis
    using accountedI [OF _ _ acc, of "close_connection K i \<sigma>"] set_without [of i "map fst (srv_conns \<sigma>)"]
    unfolding shape by (auto simp: sessions_of_def)
qed

lemma accounted_times_out:
  assumes acc: "accounted live w0 n \<sigma>" and i: "i < length (srv_conns \<sigma>)"
  shows "accounted live w0 (Suc n) (snd (handle_times_out random16 life i parsed \<sigma>))"
proof -
  obtain s lang where s: "srv_conns \<sigma> ! i = (s, lang)" by (cases "srv_conns \<sigma> ! i")
  have mem: "s \<in> set (map fst (srv_conns \<sigma>))" using s i by (metis fst_conv length_map nth_map nth_mem)
  show ?thesis
  proof (rule accountedI [OF _ _ acc])
    show "live (srv_world (snd (handle_times_out random16 life i parsed \<sigma>))) =
        live w0 + held (sessions_of (snd (handle_times_out random16 life i parsed \<sigma>)))"
      using acc s i held_pick [of i "map fst (srv_conns \<sigma>)"]
      by (simp add: handle_times_out_def accounted_def sessions_of_def map_update held_update ac_simps)
    show "set (sessions_of (snd (handle_times_out random16 life i parsed \<sigma>)))
        \<subseteq> set (sessions_of \<sigma>) \<union> {s. sound_session (Suc n) s}"
      using s mem
      by (auto simp: handle_times_out_def sessions_of_def map_update dest!: set_update_subset_insert [THEN subsetD])
  qed
qed

lemma accounted_step:
  assumes "server_step K life \<sigma> \<sigma>'" "accounted live w0 n \<sigma>" "2 * n + 2 < 2 ^ 64"
  shows "accounted live w0 (Suc n) \<sigma>'"
  using assms(1)
proof (cases rule: server_step.cases)
  case (Upgraded random16)
  then show ?thesis
    using assms(2) by (intro accountedI [of live \<sigma>' w0 \<sigma> n]) (auto simp: create_session_def sessions_of_def accounted_def)
next
  case (Completes i random16 parsed)
  then show ?thesis using accounted_completes [OF assms(2) _ assms(3)] by simp
next
  case (TimesOut i parsed random16)
  then show ?thesis using accounted_times_out [OF assms(2)] by simp
next
  case (LateFinish j)
  then show ?thesis using accounted_late_finish [OF assms(2) _ assms(3)] by simp
next
  case (Close i)
  then show ?thesis using accounted_close [OF assms(2)] by simp
qed (use assms(2) in \<open>auto simp: admit_def upgrade_failed_def sessions_of_def accounted_def sound_mono\<close>)

lemma accounted_reach:
  "server_reach K life w0 n \<sigma> \<Longrightarrow> 2 * n < 2 ^ 64 \<Longrightarrow> accounted live w0 n \<sigma>"
proof (induction rule: server_reach.induct)
  case Started
  then show ?case by (simp add: accounted_def serve_start_def sessions_of_def)
next
  case (Stepped n \<sigma> \<sigma>')
  then show ?case by (simp add: accounted_step)
qed

end

section \<open>Properties\<close>

text \<open>C4: Guards are accounted for across the whole server: after any number of accepted connections,
  requests that complete, panic or outlive their caller, and closed connections, the guards that
  exist beyond those of the start are exactly the ones in the tables of the open connections and of
  the requests still running.\<close>

theorem server_accounts_for_guards:
  assumes "dispatcher_contract K live" and "server_reach K life w0 n \<sigma>" and "2 * n < 2 ^ 64"
  shows "live (srv_world \<sigma>) = live w0 + held (map fst (srv_conns \<sigma>)) + held (map fst (srv_running \<sigma>))"
  using dispatcher_contract.accounted_reach [OF assms] by (simp add: accounted_def sessions_of_def)

text \<open>C9: No slot is lost or made: the free slots, the handshakes under way and the open connections
  always add up to 64, so at most 64 connections are served and a connection that ends makes room
  for another.\<close>

theorem connection_slots_conserved:
  assumes "server_reach K life w0 n \<sigma>"
  shows "srv_permits \<sigma> + srv_handshakes \<sigma> + length (srv_conns \<sigma>) = 64 \<and> length (srv_conns \<sigma>) \<le> 64"
  using slots_reach [OF assms] by (simp add: slots_def MAX_CONNECTIONS_def)

subsection \<open>A run on the test provider\<close>

abbreviation example_context ::
  "(fake_inner, fake_device, fake_application, fake_container, fake_digest) skf_context" where
  "example_context \<equiv> offline_context (fake_provider ''FAKE'') fi_clock"

definition connect_request :: "string + rpc_request" where
  "connect_request =
    Inr \<lparr>req_method = ''ConnectDev'', req_params = [String ''dev-a''], req_id = None, req_api_version = None\<rparr>"

text \<open>One client connects and opens a device.\<close>

definition example_run :: "(fake_inner, fake_device, fake_application, fake_container, fake_digest) server" where
  "example_run =
    snd (handle_completes example_context [] 600 0 connect_request
      (create_session [] 600 (admit (serve_start (with_devices ''FAKE'' [''dev-a''])))))"

lemma example_reach: "server_reach example_context 600 (with_devices ''FAKE'' [''dev-a'']) 3 example_run"
proof -
  let ?start = "serve_start (with_devices ''FAKE'' [''dev-a''])"
  have 1: "server_reach example_context 600 (with_devices ''FAKE'' [''dev-a'']) 1 (admit ?start)"
    using server_reach.Stepped [OF server_reach.Started server_step.Accept]
    by (simp add: serve_start_def)
  have 2: "server_reach example_context 600 (with_devices ''FAKE'' [''dev-a'']) 2 (create_session [] 600 (admit ?start))"
    using server_reach.Stepped [OF 1 server_step.Upgraded, of "[]"]
    by (simp add: admit_def serve_start_def MAX_CONNECTIONS_def numeral_2_eq_2)
  show ?thesis
    using server_reach.Stepped [OF 2 server_step.Completes, of 0 "[]" connect_request]
    by (simp add: example_run_def create_session_def eval_nat_numeral)
qed

lemma dispatch_ConnectDev: "dispatch K ''ConnectDev'' p lang = ConnectDev_branch K p lang"
  by (simp add: dispatch_def method_table_def session_methods_def)

lemma example_holds:
  "\<exists>s. srv_conns example_run = [(s, EN)] \<and> srv_running example_run = [] \<and> srv_handshakes example_run = 0
    \<and> guards_of (handles s) = {#ResDevice \<lparr>fd_name = ''dev-a'', fd_exposed = 1000\<rparr>#}"
proof -
  have p: "str_param (new_params [String ''dev-a''] None) 0 = Some ''dev-a''"
    by (simp add: str_param_def raw_def new_params_def)
  have "restricted_rejection ''ConnectDev'' b None = None" for b
    by (simp add: restricted_rejection_def is_restricted_def RESTRICTED_METHODS_def)
  then show ?thesis
    by (simp add: example_run_def handle_completes_def create_session_def admit_def serve_start_def MAX_CONNECTIONS_def
        connect_request_def handle_request_def version_rejection_def dispatch_ConnectDev ConnectDev_branch_def p
        let_some_def let_call_def call_def offline_context_def fake_provider_def box_guard_def begin_op_def record_op_def
        with_devices_def take_handle_def FIRST_HANDLE_def new_session_def issue_device_def mint_eq new_handle_table_def
        language_after_def guards_of_def)
qed

theorem server_accounts_for_guards_witness:
  "boxes (srv_world example_run) = {#ResDevice \<lparr>fd_name = ''dev-a'', fd_exposed = 1000\<rparr>#}"
  using server_accounts_for_guards [OF fake_dispatcher.dispatcher_contract_axioms example_reach] example_holds
  by (auto simp: with_devices_def)

theorem connection_slots_conserved_witness: "srv_permits example_run = 63"
  using connection_slots_conserved [OF example_reach] example_holds by auto

end
