(* ===== verification/Client.thy ===== *)
theory Client
  imports Server
begin

text \<open>
  The loop that serves one WebSocket client (\<open>spawn_client\<close> in \<open>src/server/mod.rs\<close>). The frames a
  client sends and whether each reply could be sent are the input; the session is an arbitrary
  state with its answer to a text.
\<close>

definition MAX_WS_MESSAGE_BYTES :: nat where
  "MAX_WS_MESSAGE_BYTES = 1024 * 1024"

text \<open>A text frame may not be valid UTF-8; frames of other kinds are skipped; an error ends the loop.\<close>

datatype frame = TextFrame "string option" | OtherFrame | FrameError

fun client_loop ::
  "(string \<Rightarrow> 's \<Rightarrow> string \<times> 's) \<Rightarrow> (frame \<times> bool) list \<Rightarrow> 's \<Rightarrow> string list \<times> 's" where
  "client_loop handle [] s = ([], s)"
| "client_loop handle ((TextFrame (Some t), sent) # frames) s =
    (case handle t s of
      (answer1, s) \<Rightarrow>
        if sent then (case client_loop handle frames s of (rest, s) \<Rightarrow> (answer1 # rest, s)) else ([], s))"
| "client_loop handle ((TextFrame None, sent) # frames) s = client_loop handle frames s"
| "client_loop handle ((OtherFrame, sent) # frames) s = client_loop handle frames s"
| "client_loop handle ((FrameError, sent) # frames) s = ([], s)"

text \<open>What a client is answered, said without the loop: the texts up to the first error, each with
  whether its reply goes through, and the session after any number of them.\<close>

definition texts_of :: "(frame \<times> bool) list \<Rightarrow> (string \<times> bool) list" where
  "texts_of frames =
    List.map_filter (\<lambda>(f, sent). case f of TextFrame (Some t) \<Rightarrow> Some (t, sent) | _ \<Rightarrow> None)
      (takeWhile (\<lambda>(f, _). f \<noteq> FrameError) frames)"

definition session_after :: "(string \<Rightarrow> 's \<Rightarrow> string \<times> 's) \<Rightarrow> string list \<Rightarrow> 's \<Rightarrow> 's" where
  "session_after handle ts s = foldl (\<lambda>s t. snd (handle t s)) s ts"

lemma texts_of_simps [simp]:
  "texts_of [] = []"
  "texts_of ((f, sent) # frames) =
    (case f of FrameError \<Rightarrow> [] | TextFrame (Some t) \<Rightarrow> (t, sent) # texts_of frames | _ \<Rightarrow> texts_of frames)"
  by (simp_all add: texts_of_def map_filter_simps split: frame.split option.split)

lemma session_after_simps [simp]:
  "session_after handle [] s = s" "session_after handle (t # ts) s = session_after handle ts (snd (handle t s))"
  by (simp_all add: session_after_def)

section \<open>Properties\<close>

text \<open>C13: The client is answered in order and loses no answer before the first that cannot be sent: the \<open>i\<close>-th reply is
  the answer to its \<open>i\<close>-th text, given by the session as the texts before it left it.\<close>

theorem client_answered_in_order:
  "fst (client_loop handle frames s) =
    map (\<lambda>i. fst (handle (fst (texts_of frames ! i)) (session_after handle (map fst (take i (texts_of frames))) s)))
      [0..<length (takeWhile snd (texts_of frames))]"
proof (induction handle frames s rule: client_loop.induct)
  case (2 handle t sent frames s)
  obtain reply s' where h: "handle t s = (reply, s')" by (cases "handle t s")
  show ?case
    using 2 [OF h [symmetric]] h
    by (cases sent) (auto simp: upt_conv_Cons map_Suc_upt [symmetric] comp_def split: prod.split simp del: upt_Suc)
qed simp_all

end
