(* ===== verification/Grants.thy ===== *)
theory Grants
  imports Server
begin

text \<open>
  Where the authorization of a session comes from, over the whole life of the server: every grant an
  open connection holds is traced back to the \<open>CheckPIN\<close> request of that session which earned it.
\<close>

section \<open>Handlers that leave the grants alone\<close>

text \<open>No grant is new: each one held afterwards was held before, with the same deadline.\<close>

definition no_new_grants :: "auth_table \<Rightarrow> auth_table \<Rightarrow> bool" where
  "no_new_grants t t' \<longleftrightarrow>
    ttl t' = ttl t \<and> (\<forall>k g. auth_lookup t' k = Some g \<longrightarrow> auth_lookup t k = Some g)"

abbreviation grants_only_kept ::
  "('d, 'a, 'c, 'h) session_state \<Rightarrow> rpc_response outcome \<Rightarrow> ('d, 'a, 'c, 'h) session_state \<Rightarrow> bool" where
  "grants_only_kept \<equiv> \<lambda>s r s'. sess_id s' = sess_id s \<and> no_new_grants (auth s) (auth s')"

lemma no_new_grants_refl [simp]: "no_new_grants t t"
  by (simp add: no_new_grants_def)

lemma posts_clean: "clean live now {} f \<Longrightarrow> posts grants_only_kept f"
  unfolding clean_def posts_def sess_kept_def no_new_grants_def by (metis empty_iff option.distinct(1))

text \<open>The branches that use the handle table change nothing else of the session.\<close>

lemma posts_handle_branches:
  "posts grants_only_kept (ConnectDev_branch K p lang)"
  "posts grants_only_kept (DisConnectDev_branch K p)"
  "posts grants_only_kept (DigestFinal_branch K p lang)"
  "posts grants_only_kept (CloseHash_branch K p)"
  unfolding ConnectDev_branch_def DisConnectDev_branch_def DigestFinal_branch_def CloseHash_branch_def
  by (intro posts_intros; simp add: posts_def split: prod.splits sum.splits)+

section \<open>When a PIN check grants\<close>

text \<open>A handler grants in time when the clock does not go back under it and what it grants runs from an
  instant between its start and its end.\<close>

definition grants_in_time :: "('w \<Rightarrow> instant) \<Rightarrow> ('w, 'd, 'a, 'c, 'h) handler \<Rightarrow> bool" where
  "grants_in_time now f \<longleftrightarrow>
    (\<forall>s w r s' w'. f (s, w) = (r, s', w') \<longrightarrow> now w \<le> now w' \<and> sess_id s' = sess_id s \<and> ttl (auth s') = ttl (auth s)
      \<and> (\<forall>k g. auth_lookup (auth s') k = Some g \<longrightarrow>
            auth_lookup (auth s) k = Some g \<or> now w + ttl (auth s) \<le> expires_at g \<and> expires_at g \<le> now w' + ttl (auth s)))"

named_theorems timed_intros \<open>handlers that grant in time\<close>

lemma timed_reply [timed_intros]: "grants_in_time now (reply r)"
  by (simp add: grants_in_time_def reply_def)

lemma timed_let_ok [timed_intros]:
  "(\<And>v. x = Inr v \<Longrightarrow> grants_in_time now (body v)) \<Longrightarrow> grants_in_time now (let_ok x body)"
  by (cases x) (simp_all add: let_ok_def timed_reply)

lemma timed_let_some [timed_intros]:
  "(\<And>v. x = Some v \<Longrightarrow> grants_in_time now (body v)) \<Longrightarrow> grants_in_time now (let_some x e body)"
  by (cases x) (simp_all add: let_some_def timed_reply)

lemma timed_if [timed_intros]:
  "(b \<Longrightarrow> grants_in_time now f) \<Longrightarrow> (\<not> b \<Longrightarrow> grants_in_time now g) \<Longrightarrow> grants_in_time now (if b then f else g)"
  by simp

lemma timed_call [timed_intros]:
  assumes f: "keeps live now f" and k: "\<And>r. grants_in_time now (k r)"
  shows "grants_in_time now (call f k)"
  using k keepsD(2) [OF f] unfolding grants_in_time_def call_def
  by (fastforce split: prod.splits intro: order_trans add_right_mono)

lemma timed_let_call [timed_intros]:
  "keeps live now f \<Longrightarrow> (\<And>v. grants_in_time now (body v)) \<Longrightarrow> grants_in_time now (let_call f err body)"
  unfolding let_call_def by (rule timed_call) (auto simp: timed_reply split: sum.split)

lemma timed_with_guard:
  assumes o: "opens live now res open_g" and c: "closes live now res drop_g"
    and e: "\<And>e. grants_in_time now (err e)" and b: "\<And>g. grants_in_time now (body g)"
  shows "grants_in_time now (with_guard open_g drop_g err body)"
  unfolding grants_in_time_def
proof (intro allI impI)
  fix s w r s' w'
  assume run: "with_guard open_g drop_g err body (s, w) = (r, s', w')"
  obtain x u where x: "open_g w = (x, u)" by (cases "open_g w")
  then have u: "now w \<le> now u" by (rule opensD(3) [OF o])
  obtain v where v: "now v \<le> now w'"
    and inner: "(case x of Inl e \<Rightarrow> err e | Inr g \<Rightarrow> body g) (s, u) = (r, s', v)"
    using run x closesD(2) [OF c] by (auto simp: with_guard_def split: sum.splits prod.splits)
  have "grants_in_time now (case x of Inl e \<Rightarrow> err e | Inr g \<Rightarrow> body g)" using e b by (simp split: sum.split)
  from this [unfolded grants_in_time_def, rule_format, OF inner] u v
  show "now w \<le> now w' \<and> sess_id s' = sess_id s \<and> ttl (auth s') = ttl (auth s)
      \<and> (\<forall>k g. auth_lookup (auth s') k = Some g \<longrightarrow>
            auth_lookup (auth s) k = Some g \<or> now w + ttl (auth s) \<le> expires_at g \<and> expires_at g \<le> now w' + ttl (auth s))"
    by (meson add_right_mono order_trans)
qed

lemma timed_lost_device: "grants_in_time now (lost_device prov dev err e)"
  by (auto simp: grants_in_time_def lost_device_def note_device_unavailable_def split: if_splits)

lemma timed_grant [timed_intros]: "grants_in_time (clock ctx) (grant_and_reply R ctx key r)"
  by (auto simp: grants_in_time_def grant_and_reply_def sess_grant_Ret_iff auth_grant_lookup auth_grant_ttl
      split: outcome.splits if_splits)

context provider_contract
begin

lemma timed_with_device:
  "(\<And>d. grants_in_time now (body d)) \<Longrightarrow> grants_in_time now (with_device P prov dev ident body)"
  unfolding with_device_def by (rule timed_with_guard [OF guard_opens(1) guard_closes(1) timed_lost_device])

lemma timed_with_application:
  "(\<And>a. grants_in_time now (body a)) \<Longrightarrow> grants_in_time now (with_application P d prov dev app text ident body)"
  unfolding with_application_def by (rule timed_with_guard [OF guard_opens(2) guard_closes(2) timed_lost_device])

end

context server_contract
begin

lemma timed_with_provider:
  assumes "\<And>P. provider_contract P live (clock ctx) \<Longrightarrow> grants_in_time (clock ctx) (body P)"
  shows "grants_in_time (clock ctx) (with_provider ctx name on_err body)"
  unfolding grants_in_time_def
proof (intro allI impI)
  fix s w r s' w'
  assume run: "with_provider ctx name on_err body (s, w) = (r, s', w')"
  obtain x u where x: "resolve ctx name w = (x, u)" by (cases "resolve ctx name w")
  define k where "k = (case x of Inl m \<Rightarrow> reply (on_err m) | Inr P \<Rightarrow> body P)"
  have k: "grants_in_time (clock ctx) k"
    using assms resolve_contract [of name w] x by (auto simp: k_def timed_reply split: sum.splits)
  have run': "k (s, u) = (r, s', w')" using run x by (simp add: with_provider_def call_def k_def)
  show "clock ctx w \<le> clock ctx w' \<and> sess_id s' = sess_id s \<and> ttl (auth s') = ttl (auth s)
      \<and> (\<forall>k g. auth_lookup (auth s') k = Some g \<longrightarrow> auth_lookup (auth s) k = Some g
            \<or> clock ctx w + ttl (auth s) \<le> expires_at g \<and> expires_at g \<le> clock ctx w' + ttl (auth s))"
    using k [unfolded grants_in_time_def, rule_format, OF run'] keepsD(2) [OF resolve_keeps x]
    by (meson add_right_mono order_trans)
qed

lemma timed_check_pin: "grants_in_time (clock ctx) (CheckPIN_handle R ctx p lang)"
  unfolding CheckPIN_handle_def Let_def
  by (intro timed_reply timed_let_ok timed_let_some timed_if timed_grant timed_let_call [where live = live]
      timed_with_provider provider_contract.timed_with_device provider_contract.timed_with_application
      provider_contract.application_keeps(2); assumption)

end

section \<open>One request\<close>

text \<open>The request is a \<open>CheckPIN\<close> for this application and the answer is its success.\<close>

definition checks_pin ::
  "('w, 'd, 'a, 'c, 'h) skf_context \<Rightarrow> string + rpc_request \<Rightarrow> auth_key \<Rightarrow> rpc_response \<Rightarrow> bool" where
  "checks_pin K parsed key answer1 \<longleftrightarrow>
    (case parsed of
      Inl _ \<Rightarrow> False
    | Inr req \<Rightarrow> req_method req = ''CheckPIN'' \<and> answer1 = rpc_ok (Boolean True) (req_id req)
        \<and> key = cert_key_target (server_context_of K) (new_params (req_params req) (req_id req)))"

context dispatcher_contract
begin

lemma posts_DigestInit: "posts grants_only_kept (DigestInit_branch K p lang)"
  unfolding DigestInit_branch_def Let_def
  by (intro posts_intros posts_clean [OF clean_direct_alias(4)]; simp add: posts_def split: prod.splits sum.splits)

lemma posts_session_methods: "(m, f) \<in> set (session_methods K p lang) \<Longrightarrow> posts grants_only_kept f"
  by (auto simp: session_methods_def posts_handle_branches posts_DigestInit
      clean_passive [THEN posts_clean] clean_readers [THEN posts_clean])

lemma posts_domain_methods:
  "(m, f) \<in> set (domain_methods R (server_context_of K) p lang) \<Longrightarrow> m \<noteq> ''CheckPIN'' \<Longrightarrow> posts grants_only_kept f"
  by (auto simp: domain_methods_def clean_containers [THEN posts_clean] clean_keys [THEN posts_clean]
      clean_signing [THEN posts_clean])

lemma dispatch_no_new_grants:
  assumes "m \<noteq> ''CheckPIN''"
  shows "posts grants_only_kept (dispatch K m p lang)"
proof (cases "map_of (method_table K p lang) m")
  case None
  then show ?thesis by (simp add: dispatch_def posts_reply)
next
  case (Some f)
  then have "(m, f) \<in> set (method_table K p lang)" by (rule map_of_SomeD)
  then have "posts grants_only_kept f"
    using assms posts_session_methods posts_domain_methods clean_direct [THEN posts_clean] issue_clean [THEN posts_clean]
    by (auto simp: method_table_def)
  then show ?thesis using Some by (simp add: dispatch_def)
qed

lemma dispatch_CheckPIN:
  "dispatch K ''CheckPIN'' p lang = CheckPIN_handle (sk_runtime K) (server_context_of K) p lang"
  by (simp add: dispatch_def method_table_def session_methods_def domain_methods_def)

lemma request_grants:
  assumes run: "handle_request K parsed lang (s, w) = ((r, s', w'), lang')"
  shows "sess_id s' = sess_id s \<and> ttl (auth s') = ttl (auth s)
    \<and> (\<forall>k g. auth_lookup (auth s') k = Some g \<longrightarrow> auth_lookup (auth s) k = Some g
          \<or> (\<exists>a. r = Ret a \<and> checks_pin K parsed k a) \<and> sk_clock K w + ttl (auth s) \<le> expires_at g
            \<and> expires_at g \<le> sk_clock K w' + ttl (auth s))"
proof -
  consider (same) "s' = s"
    | (other) m p where "m \<noteq> ''CheckPIN''" "dispatch K m p lang (s, w) = (r, s', w')"
    | (pin) req where "parsed = Inr req" "req_method req = ''CheckPIN''"
        "dispatch K ''CheckPIN'' (new_params (req_params req) (req_id req)) lang (s, w) = (r, s', w')"
  proof -
    have "s' = s \<or> (\<exists>req. parsed = Inr req
        \<and> dispatch K (req_method req) (new_params (req_params req) (req_id req)) lang (s, w) = (r, s', w'))"
      using run by (auto simp: handle_request_def reply_def Let_def split: sum.splits option.splits)
    then show thesis using that by metis
  qed
  then show ?thesis
  proof cases
    case same
    then show ?thesis by simp
  next
    case other
    then show ?thesis using postsD [OF dispatch_no_new_grants other(2)] by (auto simp: no_new_grants_def)
  next
    case pin
    let ?p = "new_params (req_params req) (req_id req)"
    have ident: "params_id ?p = req_id req" by (simp add: new_params_def)
    note run = pin(3) [unfolded dispatch_CheckPIN]
    have timed: "sess_id s' = sess_id s \<and> ttl (auth s') = ttl (auth s)
      \<and> (\<forall>k g. auth_lookup (auth s') k = Some g \<longrightarrow> auth_lookup (auth s) k = Some g
          \<or> sk_clock K w + ttl (auth s) \<le> expires_at g \<and> expires_at g \<le> sk_clock K w' + ttl (auth s))"
      using timed_check_pin [unfolded grants_in_time_def, rule_format, OF run] by (simp add: server_context_of_def)
    moreover have "(\<exists>a. r = Ret a \<and> checks_pin K parsed k a) \<or> auth_lookup (auth s') k \<in> {None, auth_lookup (auth s) k}" for k
      using postsD [OF posts_check_pin run] pin(1,2) unfolding pin_post_def ident
      by (cases "k = cert_key_target (server_context_of K) ?p") (auto simp: checks_pin_def)
    ultimately show ?thesis by (metis insert_iff option.distinct(1) singletonD)
  qed
qed

end

section \<open>The life of the server\<close>

text \<open>The grant was earned: at some earlier state the session with this identifier had a \<open>CheckPIN\<close> answered
  with success, what happened since led here, and the deadline counts from an instant during that
  request.\<close>

definition earned ::
  "('w, 'd, 'a, 'c, 'h) skf_context \<Rightarrow> duration \<Rightarrow> 'w \<Rightarrow> nat \<Rightarrow> ('w, 'd, 'a, 'c, 'h) server
    \<Rightarrow> session_id \<Rightarrow> auth_key \<Rightarrow> grant \<Rightarrow> bool" where
  "earned K life w0 n \<sigma> sid key g \<longleftrightarrow>
    (\<exists>m i parsed random16 a \<sigma>1 \<sigma>2. m < n \<and> server_reach K life w0 m \<sigma>1
      \<and> i < length (srv_conns \<sigma>1) \<and> sess_id (fst (srv_conns \<sigma>1 ! i)) = sid
      \<and> handle_completes K random16 life i parsed \<sigma>1 = (Ret a, \<sigma>2) \<and> checks_pin K parsed key a
      \<and> (server_step K life ^^ (n - Suc m)) \<sigma>2 \<sigma>
      \<and> sk_clock K (srv_world \<sigma>1) + life \<le> expires_at g \<and> expires_at g \<le> sk_clock K (srv_world \<sigma>2) + life)"

lemma earned_step:
  assumes "earned K life w0 n \<sigma> sid key g" "server_step K life \<sigma> \<sigma>'"
  shows "earned K life w0 (Suc n) \<sigma>' sid key g"
proof -
  have "(server_step K life ^^ (Suc n - Suc m)) \<sigma>2 \<sigma>'" if "m < n" "(server_step K life ^^ (n - Suc m)) \<sigma>2 \<sigma>" for m \<sigma>2
    using relpowp_Suc_I [OF that(2) assms(2)] that(1) by (metis Suc_diff_Suc diff_Suc_Suc)
  then show ?thesis using assms(1) less_SucI unfolding earned_def by metis
qed

text \<open>Every grant of a session was earned, and the session has the lifetime of the server.\<close>

definition earned_session ::
  "('w, 'd, 'a, 'c, 'h) skf_context \<Rightarrow> duration \<Rightarrow> 'w \<Rightarrow> nat \<Rightarrow> ('w, 'd, 'a, 'c, 'h) server
    \<Rightarrow> ('d, 'a, 'c, 'h) session_state \<Rightarrow> bool" where
  "earned_session K life w0 n \<sigma> s \<longleftrightarrow>
    ttl (auth s) = life \<and> (\<forall>k g. auth_lookup (auth s) k = Some g \<longrightarrow> earned K life w0 n \<sigma> (sess_id s) k g)"

lemma earned_session_step:
  "earned_session K life w0 n \<sigma> s \<Longrightarrow> server_step K life \<sigma> \<sigma>' \<Longrightarrow> earned_session K life w0 (Suc n) \<sigma>' s"
  unfolding earned_session_def using earned_step by metis

lemma earned_new: "earned_session K life w0 n \<sigma> (new_session random16 life)"
  by (simp add: earned_session_def new_session_def new_auth_table_def)

context dispatcher_contract
begin

lemma earned_completes:
  assumes reach: "server_reach K life w0 n \<sigma>" and i: "i < length (srv_conns \<sigma>)"
    and inv: "\<forall>(s, lang) \<in> set (srv_conns \<sigma>). earned_session K life w0 n \<sigma> s"
    and run: "handle_completes K random16 life i parsed \<sigma> = (r, \<sigma>')" and mem: "(s', lang') \<in> set (srv_conns \<sigma>')"
  shows "earned_session K life w0 (Suc n) \<sigma>' s'"
proof -
  have step: "server_step K life \<sigma> \<sigma>'" using server_step.Completes [OF i] run by (metis snd_conv)
  obtain s lang where s: "srv_conns \<sigma> ! i = (s, lang)" by (cases "srv_conns \<sigma> ! i")
  obtain r1 s1 w1 lang1 where req: "handle_request K parsed lang (s, srv_world \<sigma>) = ((r1, s1, w1), lang1)"
    by (metis surj_pair)
  have s_inv: "earned_session K life w0 n \<sigma> s" using inv i s nth_mem by fastforce
  show ?thesis
  proof (cases "(s', lang') \<in> set (srv_conns \<sigma>)")
    case True
    then show ?thesis using inv earned_session_step [OF _ step] by blast
  next
    case False
    then consider "s' = new_session random16 life" | a where "r1 = Ret a" "s' = s1"
      using run s req mem by (cases r1) (auto simp: handle_completes_def dest!: set_update_subset_insert [THEN subsetD])
    then show ?thesis
    proof cases
      case 1
      then show ?thesis by (simp add: earned_new)
    next
      case 2
      have ended: "r = Ret a" "srv_world \<sigma>' = w1" using run s req 2(1) by (auto simp: handle_completes_def)
      note after = request_grants [OF req]
      have life: "ttl (auth s) = life" using s_inv by (simp add: earned_session_def)
      have "earned K life w0 (Suc n) \<sigma>' (sess_id s) k g" if g: "auth_lookup (auth s1) k = Some g" for k g
      proof (cases "auth_lookup (auth s) k = Some g")
        case True
        then show ?thesis using s_inv earned_step [OF _ step] by (simp add: earned_session_def)
      next
        case False
        then show ?thesis
          using after g 2(1) reach i s run ended life unfolding earned_def
          by (intro exI [of _ n] exI [of _ i] exI [of _ parsed] exI [of _ random16] exI [of _ a] exI [of _ \<sigma>] exI [of _ \<sigma>'])
            auto
      qed
      then show ?thesis using after life 2(2) by (simp add: earned_session_def)
    qed
  qed
qed

lemma earned_server_step:
  assumes reach: "server_reach K life w0 n \<sigma>" and step: "server_step K life \<sigma> \<sigma>'"
    and inv: "\<forall>(s, lang) \<in> set (srv_conns \<sigma>). earned_session K life w0 n \<sigma> s"
    and mem: "(s', lang') \<in> set (srv_conns \<sigma>')"
  shows "earned_session K life w0 (Suc n) \<sigma>' s'"
proof (cases "(s', lang') \<in> set (srv_conns \<sigma>)")
  case True
  then show ?thesis using inv earned_session_step [OF _ step] by blast
next
  case False
  from step show ?thesis
  proof (cases rule: server_step.cases)
    case (Completes i random16 parsed)
    then show ?thesis using earned_completes [OF reach _ inv _ mem] by (metis prod.collapse)
  qed (use mem False in \<open>auto simp: admit_def upgrade_failed_def create_session_def handle_times_out_def late_finish_def
      close_connection_def earned_new dest: in_set_takeD in_set_dropD dest!: set_update_subset_insert [THEN subsetD]
      split: prod.splits if_splits\<close>)
qed

lemma grants_earned:
  "server_reach K life w0 n \<sigma> \<Longrightarrow> (s, lang) \<in> set (srv_conns \<sigma>) \<Longrightarrow> earned_session K life w0 n \<sigma> s"
proof (induction arbitrary: s lang rule: server_reach.induct)
  case Started
  then show ?case by (simp add: serve_start_def)
next
  case (Stepped n \<sigma> \<sigma>')
  then show ?case using earned_server_step [OF Stepped(1,2)] by blast
qed

end

section \<open>A run on the test provider\<close>

definition pin_request :: "string + rpc_request" where
  "pin_request =
    Inr \<lparr>req_method = ''CheckPIN'', req_params = [String ''FAKE/dev-a/app-a'', String ''0000''], req_id = None,
      req_api_version = None\<rparr>"

text \<open>One client connects and verifies its PIN.\<close>

definition pin_run :: "(fake_inner, fake_device, fake_application, fake_container, fake_digest) server" where
  "pin_run =
    snd (handle_completes example_context [] 600 0 pin_request
      (create_session [] 600 (admit (serve_start (new_fake ''FAKE'')))))"

lemma pin_run_reach: "server_reach example_context 600 (new_fake ''FAKE'') 3 pin_run"
proof -
  let ?start = "serve_start (new_fake ''FAKE'')"
  have 1: "server_reach example_context 600 (new_fake ''FAKE'') 1 (admit ?start)"
    using server_reach.Stepped [OF server_reach.Started server_step.Accept] by (simp add: serve_start_def)
  have 2: "server_reach example_context 600 (new_fake ''FAKE'') 2 (create_session [] 600 (admit ?start))"
    using server_reach.Stepped [OF 1 server_step.Upgraded, of "[]"]
    by (simp add: admit_def serve_start_def MAX_CONNECTIONS_def numeral_2_eq_2)
  show ?thesis
    using server_reach.Stepped [OF 2 server_step.Completes, of 0 "[]" pin_request]
    by (simp add: pin_run_def create_session_def eval_nat_numeral)
qed

lemma pin_handled:
  "\<exists>s w. CheckPIN_handle (sk_runtime example_context) (server_context_of example_context)
      (new_params [String ''FAKE/dev-a/app-a'', String ''0000''] None) EN (new_session [] 600, new_fake ''FAKE'') =
        (Ret (rpc_ok (Boolean True) None), s, w)
    \<and> authorized (fi_clock w) (auth s) (new_auth_key ''FAKE'' ''dev-a'' ''app-a'')"
proof -
  let ?p = "new_params [String ''FAKE/dev-a/app-a'', String ''0000''] None"
  have p: "required_str ?p 0 m = Inr ''FAKE/dev-a/app-a''" "required_str ?p (Suc 0) m = Inr ''0000''"
    "params_id ?p = None" for m
    by (simp_all add: required_str_def raw_def new_params_def)
  have key: "split_cert_key ''FAKE/dev-a/app-a'' 3 = Some [''FAKE'', ''dev-a'', ''app-a'']"
    by (simp add: split_cert_key_def numeral_eq_Suc)
  have ctx: "normalize_alias (server_context_of example_context) ''FAKE'' = ''FAKE''"
    "resolve (server_context_of example_context) ''FAKE'' w = (Inr (fake_provider ''FAKE''), w)"
    "clock (server_context_of example_context) = fi_clock" "instant_max (sk_runtime example_context) = 10 ^ 30" for w
    by (simp_all add: normalize_alias_def server_context_of_def skf_resolve_def offline_context_def fake_provider_def
        plain_runtime_def)
  have drops: "drop_device (fake_provider nm) = unbox_guard OpCloseDevice ResDevice"
    "drop_application (fake_provider nm) = unbox_guard OpCloseApplication ResApplication" for nm
    by (simp_all add: fake_provider_def)
  show ?thesis
    by (simp add: CheckPIN_handle_def p key ctx drops Let_def let_ok_def let_some_def with_provider_def with_device_def
        with_application_def with_guard_def let_call_def call_def grant_and_reply_def fake_provider_guards
        fake_verify_pin_def box_guard_def begin_op_def record_op_def take_handle_def new_fake_def with_devices_def
        sess_grant_def auth_grant_def new_session_def new_auth_table_def authorized_def unbox_guard_def)
qed

lemma pin_run_authorized:
  "\<exists>s. srv_conns pin_run = [(s, EN)]
    \<and> authorized (fi_clock (srv_world pin_run)) (auth s) (new_auth_key ''FAKE'' ''dev-a'' ''app-a'')"
proof -
  have "restricted_rejection ''CheckPIN'' b None = None" for b
    by (simp add: restricted_rejection_def is_restricted_def RESTRICTED_METHODS_def)
  then show ?thesis
    using pin_handled
    by (auto simp: pin_run_def pin_request_def handle_completes_def create_session_def admit_def serve_start_def
        MAX_CONNECTIONS_def handle_request_def version_rejection_def language_after_def Let_def
        fake_dispatcher.dispatch_CheckPIN)
qed

section \<open>Properties\<close>

text \<open>C1: An authorised session verified its PIN less than a lifetime ago: whatever the clients did since the
  server was started, when an open connection is authorised for an application, a \<open>CheckPIN\<close> for that
  application was answered with success in the session of the same identifier, and less than one
  lifetime has passed since that answer. No other method, no other session, no timeout and no panic
  gives an authorization.\<close>

theorem authorized_session_checked_pin:
  assumes "dispatcher_contract K live" and "server_reach K life w0 n \<sigma>"
    and "(s, lang) \<in> set (srv_conns \<sigma>)" and "authorized (sk_clock K (srv_world \<sigma>)) (auth s) key"
  shows "\<exists>m i parsed random16 a \<sigma>1 \<sigma>2. m < n \<and> server_reach K life w0 m \<sigma>1
    \<and> i < length (srv_conns \<sigma>1) \<and> sess_id (fst (srv_conns \<sigma>1 ! i)) = sess_id s
    \<and> handle_completes K random16 life i parsed \<sigma>1 = (Ret a, \<sigma>2) \<and> checks_pin K parsed key a
    \<and> (server_step K life ^^ (n - Suc m)) \<sigma>2 \<sigma>
    \<and> sk_clock K (srv_world \<sigma>) < sk_clock K (srv_world \<sigma>2) + life"
proof -
  obtain g where "auth_lookup (auth s) key = Some g" "sk_clock K (srv_world \<sigma>) < expires_at g"
    using assms(4) by (auto simp: authorized_def)
  then show ?thesis
    using dispatcher_contract.grants_earned [OF assms(1-3)] unfolding earned_session_def earned_def
    by (meson order_less_le_trans)
qed

theorem authorized_session_checked_pin_witness:
  "\<exists>m i parsed random16 a \<sigma>1 \<sigma>2. m < 3 \<and> server_reach example_context 600 (new_fake ''FAKE'') m \<sigma>1
    \<and> i < length (srv_conns \<sigma>1) \<and> handle_completes example_context random16 600 i parsed \<sigma>1 = (Ret a, \<sigma>2)
    \<and> checks_pin example_context parsed (new_auth_key ''FAKE'' ''dev-a'' ''app-a'') a
    \<and> fi_clock (srv_world pin_run) < fi_clock (srv_world \<sigma>2) + 600"
proof -
  obtain s where s: "(s, EN) \<in> set (srv_conns pin_run)"
    "authorized (fi_clock (srv_world pin_run)) (auth s) (new_auth_key ''FAKE'' ''dev-a'' ''app-a'')"
    using pin_run_authorized by auto
  have c: "sk_clock example_context = fi_clock" by (simp add: offline_context_def)
  from authorized_session_checked_pin [OF fake_dispatcher.dispatcher_contract_axioms pin_run_reach s(1)]
  show ?thesis using s(2) unfolding c by blast
qed

end
