(* ===== verification/Requests.thy ===== *)
theory Requests
  imports Dispatcher
begin

text \<open>
  What a client can rely on per request, whatever the method: the table of methods against the
  published classification, the identifier of the answer, and what a session without a grant can
  reach.
\<close>

section \<open>The table of methods\<close>

definition method_names :: "string list" where
  "method_names =
    [''GetProtocolVersion'', ''SetLanguage'', ''WaitForDevEvent'', ''EnumProvider'', ''EnumDevice'', ''ConnectDev'',
     ''DisConnectDev'', ''GenerateRandom'', ''GetDevState'', ''CancelWaitForDevEvent'', ''DigestInit'', ''DigestUpdate'',
     ''DigestFinal'', ''CloseHash'', ''DeleteContainer'', ''ImportCertificate'', ''SignData'', ''CheckPIN'',
     ''CreatePKCS10'', ''EncryptData'', ''DecryptData'', ''CreateContainer'', ''GetContainerType'', ''RSASignData'',
     ''GenECCKeyPair'', ''GenRSAKeyPair'', ''EnumApplication'', ''EnumContainer'', ''ImportKeyPair'',
     ''FindCertificates'', ''Digest'', ''GetDevInfo'', ''SetLabel'', ''ECCVerify'', ''LockDev'', ''UnlockDev'',
     ''Transmit'', ''RSAVerify'', ''IssueCertificate'']"

lemma method_table_names: "map fst (method_table K p lang) = method_names"
  by (simp add: method_table_def session_methods_def domain_methods_def direct_methods_def method_names_def)

lemma method_names_distinct: "distinct method_names"
  unfolding method_names_def by code_simp

lemma method_table_distinct: "distinct (map fst (method_table K p lang))"
  by (simp add: method_table_names method_names_distinct)

lemma names_classified:
  "list_all (\<lambda>m. m = ''ImportKeyPair'' \<or> m \<in> set (map fst CLASSIFIED_METHODS)) method_names"
  "list_all (\<lambda>m. m \<in> set method_names) (map fst CLASSIFIED_METHODS)"
  "''ImportKeyPair'' \<in> set method_names" "''ImportKeyPair'' \<notin> set (map fst CLASSIFIED_METHODS)"
  unfolding method_names_def CLASSIFIED_METHODS_def by code_simp+

section \<open>Sessions without a grant\<close>

text \<open>The methods that need a grant, with the application whose grant they need.\<close>

definition guarded_targets ::
  "('w, 'd, 'a, 'c, 'h) server_context \<Rightarrow> params \<Rightarrow> (string \<times> auth_key) list" where
  "guarded_targets ctx p =
    [(''SignData'', cert_key_target ctx p), (''RSASignData'', cert_key_target ctx p),
     (''EncryptData'', cert_key_target ctx p), (''DecryptData'', cert_key_target ctx p),
     (''CreatePKCS10'', named_key (normalize_alias ctx (optional_str p 0 [])) p),
     (''CreateContainer'', named_key (normalize_alias ctx (optional_str p 0 [])) p),
     (''ImportCertificate'', named_key (optional_str p 0 (default_alias ctx)) p),
     (''GenECCKeyPair'', named_key (optional_str p 0 []) p), (''GenRSAKeyPair'', named_key (optional_str p 0 []) p)]"

lemma guarded_agree:
  assumes "server_contract ctx live" "front_equal ctx ctx'" "(m, key) \<in> set (guarded_targets ctx p)"
    and "map_of (domain_methods R ctx p lang) m = Some f" "map_of (domain_methods R ctx' p lang) m = Some f'"
  shows "agree (clock ctx) key f f'"
  using assms(3) unfolding guarded_targets_def list.set insert_iff prod.inject empty_iff
  by (elim disjE conjE)
    (use assms(4,5) agree_signing [OF assms(1,2)] agree_containers [OF assms(1,2)] agree_keys [OF assms(1,2)] in
      \<open>auto simp: domain_methods_def\<close>)

section \<open>The identifier of the answer\<close>

named_theorems echo_intros \<open>handlers whose answers carry the identifier of the request\<close>

definition echoes :: "json option \<Rightarrow> ('w, 'd, 'a, 'c, 'h) handler \<Rightarrow> bool" where
  "echoes ident f \<longleftrightarrow> (\<forall>st r st'. f st = (Ret r, st') \<longrightarrow> resp_id r = ident)"

lemma echoes_reply [echo_intros]: "resp_id r = ident \<Longrightarrow> echoes ident (reply r)"
  by (auto simp: echoes_def reply_def)

lemma echoes_let_ok [echo_intros]:
  "(\<And>e. x = Inl e \<Longrightarrow> resp_id e = ident) \<Longrightarrow> (\<And>v. echoes ident (f v)) \<Longrightarrow> echoes ident (let_ok x f)"
  by (cases x) (simp_all add: let_ok_def echoes_reply)

lemma echoes_let_some [echo_intros]:
  "resp_id e = ident \<Longrightarrow> (\<And>v. echoes ident (f v)) \<Longrightarrow> echoes ident (let_some x e f)"
  by (cases x) (simp_all add: let_some_def echoes_reply)

lemma echoes_let_ret [echo_intros]: "(\<And>v. echoes ident (f v)) \<Longrightarrow> echoes ident (let_ret x f)"
  by (cases x) (auto simp: let_ret_def echoes_def)

lemma echoes_call [echo_intros]: "(\<And>v. echoes ident (f v)) \<Longrightarrow> echoes ident (call g f)"
  unfolding echoes_def call_def by (auto split: prod.splits)

lemma echoes_answer [echo_intros]:
  "(\<And>v. resp_id (ok v) = ident) \<Longrightarrow> (\<And>e. resp_id (err e) = ident) \<Longrightarrow> echoes ident (answer ok err r)"
  by (cases r) (simp_all add: answer_def echoes_reply)

lemma echoes_case_sum [echo_intros]:
  "(\<And>a. x = Inl a \<Longrightarrow> echoes ident (f a)) \<Longrightarrow> (\<And>b. x = Inr b \<Longrightarrow> echoes ident (g b)) \<Longrightarrow> echoes ident (case x of Inl a \<Rightarrow> f a | Inr b \<Rightarrow> g b)"
  by (cases x) simp_all

lemma echoes_case_option [echo_intros]:
  "echoes ident f \<Longrightarrow> (\<And>b. echoes ident (g b)) \<Longrightarrow> echoes ident (case x of None \<Rightarrow> f | Some b \<Rightarrow> g b)"
  by (cases x) simp_all

lemma echoes_case_prod [echo_intros]:
  "(\<And>a b. echoes ident (f a b)) \<Longrightarrow> echoes ident (case x of (a, b) \<Rightarrow> f a b)"
  by (cases x) simp

lemma echoes_if [echo_intros]: "echoes ident f \<Longrightarrow> echoes ident g \<Longrightarrow> echoes ident (if b then f else g)"
  by simp

lemma echoes_let_call [echo_intros]:
  "(\<And>e. resp_id (err e) = ident) \<Longrightarrow> (\<And>v. echoes ident (f v)) \<Longrightarrow> echoes ident (let_call g err f)"
  unfolding let_call_def by (intro echo_intros)

lemma echoes_with_guard [echo_intros]:
  assumes "\<And>e. echoes ident (err e)" "\<And>g. echoes ident (body g)"
  shows "echoes ident (with_guard open_g drop_g err body)"
  using assms by (force simp: echoes_def with_guard_def split: prod.splits sum.splits)

lemma echoes_lost_device [echo_intros]: "resp_id (err e) = ident \<Longrightarrow> echoes ident (lost_device prov dev err e)"
  by (auto simp: echoes_def lost_device_def)

lemma echoes_with_device [echo_intros]:
  "(\<And>d. echoes ident (body d)) \<Longrightarrow> echoes ident (with_device P prov dev ident body)"
  unfolding with_device_def by (intro echo_intros) simp_all

lemma echoes_with_application [echo_intros]:
  "(\<And>a. echoes ident (body a)) \<Longrightarrow> echoes ident (with_application P d prov dev app text ident body)"
  unfolding with_application_def by (intro echo_intros) simp_all

lemma echoes_with_container [echo_intros]:
  "(\<And>c. echoes ident (body c)) \<Longrightarrow> echoes ident (with_container P a cont ident body)"
  unfolding with_container_def by (intro echo_intros) simp_all

lemma echoes_with_provider [echo_intros]:
  "(\<And>m. resp_id (err m) = ident) \<Longrightarrow> (\<And>P. echoes ident (body P)) \<Longrightarrow> echoes ident (with_provider ctx name err body)"
  unfolding with_provider_def by (intro echo_intros)

lemma echoes_require_auth [echo_intros]:
  "echoes ident body \<Longrightarrow> echoes ident (require_auth ctx prov dev app ident body)"
  by (auto simp: echoes_def require_auth_def reply_def split: prod.splits sum.splits)

lemma echoes_grant_and_reply [echo_intros]: "resp_id r = ident \<Longrightarrow> echoes ident (grant_and_reply R ctx key r)"
  by (auto simp: echoes_def grant_and_reply_def split: outcome.splits)

lemma echoes_signing_parts [echo_intros]:
  "echoes ident body \<Longrightarrow> echoes ident (with_symm_key P c lang ident key body)"
  "(\<And>a b n k. echoes ident (k4 a b n k)) \<Longrightarrow> echoes ident (with_key_pair P c is_ecc len ident k4)"
  "(\<And>b. echoes ident (k1 b)) \<Longrightarrow> echoes ident (with_csr_signature P c is_ecc hash ident k1)"
  "(\<And>n. echoes ident (k n)) \<Longrightarrow> echoes ident (with_container_name ctx P d supplied k)"
  unfolding with_symm_key_def with_key_pair_def with_csr_signature_def with_container_name_def
  by (intro echo_intros; simp)+

lemma echoes_direct_parts [echo_intros]:
  "(\<And>m. resp_id (err m) = ident) \<Longrightarrow> (\<And>L. echoes ident (body1 L)) \<Longrightarrow> echoes ident (with_api K prov err body1)"
  "(\<And>h. echoes ident (body h)) \<Longrightarrow> echoes ident (connect_or_lose L prov dev ident body)"
  "(\<And>h. echoes ident (body h)) \<Longrightarrow> echoes ident (open_app_or_lose L h_dev prov dev app ident body)"
  "echoes ident k \<Longrightarrow> echoes ident (close_app_dev L h_dev h_app k)"
  "echoes ident k \<Longrightarrow> echoes ident (close_all L h_dev h_app h_cont k)"
  "resp_id ok = ident \<Longrightarrow> echoes ident (done_or ret text ok ident)"
  "resp_id ok = ident \<Longrightarrow> echoes ident (device_unavailable prov dev ok)"
proof -
  show dev: "resp_id ok = ident \<Longrightarrow> echoes ident (device_unavailable prov dev ok)"
    for ok prov dev by (auto simp: echoes_def device_unavailable_def)
  show "(\<And>m. resp_id (err m) = ident) \<Longrightarrow> (\<And>L. echoes ident (body1 L)) \<Longrightarrow> echoes ident (with_api K prov err body1)"
    unfolding with_api_def by (intro echo_intros)
  show "(\<And>h. echoes ident (body h)) \<Longrightarrow> echoes ident (connect_or_lose L prov dev ident body)"
    "(\<And>h. echoes ident (body h)) \<Longrightarrow> echoes ident (open_app_or_lose L h_dev prov dev app ident body)"
    "echoes ident k \<Longrightarrow> echoes ident (close_app_dev L h_dev h_app k)"
    "echoes ident k \<Longrightarrow> echoes ident (close_all L h_dev h_app h_cont k)"
    "resp_id ok = ident \<Longrightarrow> echoes ident (done_or ret text ok ident)"
    unfolding connect_or_lose_def open_app_or_lose_def close_app_dev_def close_all_def done_or_def
    by (intro echo_intros dev; simp)+
qed

lemma echoes_with_fresh_library [echo_intros]:
  assumes "\<And>L. echoes ident (body L)"
  shows "echoes ident (with_fresh_library K prov lang ident body)"
  using assms by (fastforce simp: with_fresh_library_def echoes_def reply_def split: sum.splits prod.splits option.splits)

lemma echoes_authorized_or [echo_intros]:
  "echoes ident refused \<Longrightarrow> echoes ident body \<Longrightarrow> echoes ident (authorized_or K prov dev app refused body)"
  by (auto simp: echoes_def authorized_or_def split: prod.splits sum.splits)

lemma echoes_import_key_pair [echo_intros]:
  assumes "\<And>e. resp_id e = params_id p \<Longrightarrow> echoes ident (k (Inl e))" "\<And>n. echoes ident (k (Inr n))"
  shows "echoes ident (import_key_pair K L p is_ecc alg enc h_cont k)"
proof -
  have "resp_id e = params_id p" if "b64_param C x what code p = Inl e" for C x what code e
    using that by (auto simp: b64_param_def split: sum.splits)
  then show ?thesis
    unfolding import_key_pair_def using assms by (auto split: sum.split intro!: echo_intros)
qed

lemma error_ids:
  "required_str p i m = Inl e \<Longrightarrow> resp_id e = params_id p"
  "required_u64 p i m = Inl e \<Longrightarrow> resp_id e = params_id p"
  "required_base64 C p i m = Inl e \<Longrightarrow> resp_id e = params_id p"
  "decode_base64 C p s m = Inl e \<Longrightarrow> resp_id e = params_id p"
  "sym_key_param C p = Inl e \<Longrightarrow> resp_id e = params_id p"
  "b64_param C s what code p = Inl e \<Longrightarrow> resp_id e = params_id p"
  "sm4_mode p lang = Inl e \<Longrightarrow> resp_id e = params_id p"
  "check_payload_len p s = Inl e \<Longrightarrow> resp_id e = params_id p"
  using required_str_rejects required_u64_rejects required_base64_rejects decode_base64_rejects
    check_payload_len_rejects
  by (auto simp: rejects_with_def sym_key_param_def b64_param_def sm4_mode_def split: option.splits sum.splits if_splits)

lemma missing_id [simp]: "resp_id (missing text p) = params_id p"
  by (simp add: missing_def)

lemma native_failure_id [simp]:
  "resp_id (native_failure text e lang ident) = ident" "resp_id (bad_handle m ident) = ident"
  by (simp_all add: native_failure_def provider_load_failed_def bad_handle_def split: provider_error.split)

lemma echoes_domain:
  assumes "(m, f) \<in> set (domain_methods R ctx p lang)"
  shows "echoes (params_id p) f"
proof -
  have "echoes (params_id p) (CreateContainer_handle ctx p lang)" "echoes (params_id p) (DeleteContainer_handle ctx p lang)"
    "echoes (params_id p) (GetContainerType_handle ctx p lang)"
    "echoes (params_id p) (ImportCertificate_handle (rt_codec R) ctx p lang)"
    unfolding container_handler_defs Let_def by (intro echo_intros; (erule error_ids | (simp; fail) | auto split: sum.splits))+
  moreover have "echoes (params_id p) (GenECCKeyPair_handle (rt_codec R) ctx p lang)"
    "echoes (params_id p) (GenRSAKeyPair_handle (rt_codec R) ctx p lang)"
    unfolding key_handler_defs Let_def by (intro echo_intros; (erule error_ids | (simp; fail) | auto split: sum.splits))+
  moreover have "echoes (params_id p) (SignData_handle (rt_codec R) ctx p lang)"
    "echoes (params_id p) (RSASignData_handle (rt_codec R) ctx p lang)"
    "echoes (params_id p) (EncryptData_handle (rt_codec R) ctx p lang)"
    "echoes (params_id p) (DecryptData_handle (rt_codec R) ctx p lang)"
    "echoes (params_id p) (CreatePKCS10_handle R ctx p lang)"
    unfolding signing_handler_defs Let_def by (intro echo_intros; (erule error_ids | (simp; fail) | auto split: sum.splits))+
  moreover have "echoes (params_id p) (CheckPIN_handle R ctx p lang)"
    unfolding CheckPIN_handle_def Let_def by (intro echo_intros; (erule error_ids | (simp; fail) | auto split: sum.splits))+
  ultimately show ?thesis using assms by (auto simp: domain_methods_def)
qed

lemma echoes_direct_alias:
  "echoes (params_id p) (WaitForDevEvent_direct K prov p lang)" "echoes (params_id p) (EnumDevice_direct K prov p lang)"
  "echoes (params_id p) (GetDevState_direct K prov dev p lang)" "echoes (params_id p) (DigestInit_direct K prov dev p lang)"
  unfolding direct_branch_defs Let_def by (intro echo_intros; (erule error_ids | (simp; fail) | auto split: sum.splits))+

lemma echoes_direct:
  assumes "(m, f) \<in> set (direct_methods K p lang)"
  shows "echoes (params_id p) f"
proof -
  have "echoes (params_id p) (EnumApplication_branch K p lang)" "echoes (params_id p) (EnumContainer_branch K p lang)"
    "echoes (params_id p) (ImportKeyPair_branch K p lang)" "echoes (params_id p) (Digest_branch K p lang)"
    "echoes (params_id p) (GetDevInfo_branch K p lang)" "echoes (params_id p) (SetLabel_branch K p lang)"
    "echoes (params_id p) (ECCVerify_branch K p lang)" "echoes (params_id p) (LockDev_branch K p lang)"
    "echoes (params_id p) (UnlockDev_branch K p lang)" "echoes (params_id p) (Transmit_branch K p lang)"
    "echoes (params_id p) (RSAVerify_branch K p lang)" "echoes (params_id p) (FindCertificates_branch K p)"
    unfolding direct_branch_defs FindCertificates_branch_def Let_def
    by (intro echo_intros; (erule error_ids | (simp; fail) | auto))+
  then show ?thesis using assms by (auto simp: direct_methods_def)
qed

lemma echoes_lookup [echo_intros]:
  assumes "\<And>e. echoes ident (f e)" "\<And>g. echoes ident (k g)"
  shows "echoes ident (\<lambda>(s, w). case look s of Inl e \<Rightarrow> f e (s, w) | Inr g \<Rightarrow> k g (s, w))"
  using assms by (fastforce simp: echoes_def split: sum.splits)

lemma echoes_session:
  assumes "(m, f) \<in> set (session_methods K p lang)"
  shows "echoes (params_id p) f"
proof -
  have "echoes (params_id p) (GetProtocolVersion_branch p)" "echoes (params_id p) (SetLanguage_branch p)"
    "echoes (params_id p) (WaitForDevEvent_branch K p lang)" "echoes (params_id p) (EnumDevice_branch K p lang)"
    "echoes (params_id p) (GetDevState_branch K p lang)" "echoes (params_id p) (CancelWaitForDevEvent_branch K p lang)"
    "echoes (params_id p) (GenerateRandom_branch K p lang)" "echoes (params_id p) (DigestUpdate_branch K p lang)"
    unfolding GetProtocolVersion_branch_def SetLanguage_branch_def WaitForDevEvent_branch_def EnumDevice_branch_def
      GetDevState_branch_def CancelWaitForDevEvent_branch_def GenerateRandom_branch_def DigestUpdate_branch_def Let_def
    by (intro echo_intros echoes_direct_alias; (auto split: provider_error.splits prod.splits sum.splits)?)+
  moreover have "echoes (params_id p) (EnumProvider_branch K p lang)"
    unfolding EnumProvider_branch_def Let_def by (auto split: option.split list.split intro!: echo_intros)
  moreover have "echoes (params_id p) (ConnectDev_branch K p lang)" "echoes (params_id p) (DisConnectDev_branch K p)"
    "echoes (params_id p) (CloseHash_branch K p)" "echoes (params_id p) (DigestFinal_branch K p lang)"
    unfolding ConnectDev_branch_def DisConnectDev_branch_def CloseHash_branch_def DigestFinal_branch_def
    by (intro echo_intros; (auto simp: echoes_def split: prod.splits sum.splits)?)+
  moreover have "echoes (params_id p) (DigestInit_branch K p lang)"
    unfolding DigestInit_branch_def Let_def
    by (intro echo_intros echoes_direct_alias; (auto simp: echoes_def split: prod.splits sum.splits)?)+
  ultimately show ?thesis using assms by (auto simp: session_methods_def)
qed

lemma echoes_issue: "echoes (params_id p) (IssueCertificate_branch I C p)"
proof -
  have double: "fst (issue_double I C n subject cert sign_pub ident w) = Ret r \<Longrightarrow> resp_id r = ident"
    for n subject cert sign_pub ident w r
    by (auto simp: issue_double_def split: prod.splits outcome.splits)
  have disk: "fst (issue_on_disk I C n der double ident w) = Ret r \<Longrightarrow> resp_id r = ident" for n der double ident w r
    using double by (auto simp: issue_on_disk_def Let_def split: prod.splits sum.splits bool.splits option.splits if_splits)
  have "fst (issue_certificate I C p w) = Ret r \<Longrightarrow> resp_id r = params_id p" for w r
    using disk by (auto simp: issue_certificate_def split: option.splits sum.splits prod.splits)
  then show ?thesis unfolding echoes_def IssueCertificate_branch_def by (simp split: prod.splits) (metis fst_conv)
qed

lemma echoes_dispatch: "echoes (params_id p) (dispatch K m p lang)"
proof (cases "map_of (method_table K p lang) m")
  case None
  then show ?thesis by (simp add: dispatch_def echoes_reply)
next
  case (Some f)
  then have "(m, f) \<in> set (method_table K p lang)" by (rule map_of_SomeD)
  then have "echoes (params_id p) f"
    using echoes_session echoes_domain echoes_direct echoes_issue by (auto simp: method_table_def)
  then show ?thesis using Some by (simp add: dispatch_def)
qed

lemma handle_request_id:
  assumes "handle_request K parsed lang st = ((Ret r, st'), lang')"
  shows "resp_id r = (case parsed of Inl _ \<Rightarrow> None | Inr req \<Rightarrow> req_id req)"
proof (cases parsed)
  case (Inl e)
  then show ?thesis using assms by (auto simp: handle_request_def reply_def)
next
  case (Inr req)
  let ?p = "new_params (req_params req) (req_id req)"
  have i: "params_id ?p = req_id req" by (simp add: new_params_def)
  have "resp_id r = req_id req \<or> dispatch K (req_method req) ?p lang st = (Ret r, st')"
    using assms Inr
    by (auto simp: handle_request_def reply_def Let_def version_rejection_def restricted_rejection_Some_iff
        split: option.splits if_splits)
  then show ?thesis
    using Inr i echoes_dispatch [of ?p K "req_method req" lang] unfolding echoes_def by fastforce
qed

section \<open>Properties\<close>

text \<open>C6: A session without a live grant gets nothing out of the token from the methods that need one:
  replacing everything the providers do beyond opening and closing devices and applications, so
  every key, certificate, signature and cipher operation, changes neither the answer nor the
  session nor the state behind the provider.\<close>

theorem guarded_methods_need_grant:
  assumes "server_contract ctx live" and "\<And>P. same_front P (alter P)"
    and "(m, key) \<in> set (guarded_targets ctx p)" and "\<not> authorized (clock ctx w) (auth s) key"
    and "map_of (domain_methods R ctx p lang) m = Some f"
    and "map_of (domain_methods R (alter_providers alter ctx) p lang) m = Some f'"
  shows "f (s, w) = f' (s, w)"
  using agreeD [OF guarded_agree [OF assms(1) front_equal_alter [OF assms(2)] assms(3,5,6)] assms(4)] .

theorem guarded_methods_need_grant_witness:
  "SignData_handle std_codec (fake_context ''FAKE'') (new_params [String ''FAKE/dev-a/app/cnt/1'', String []] None) EN
      (new_session [] 600, with_devices ''FAKE'' [''dev-a'']) =
    SignData_handle std_codec
      (alter_providers (\<lambda>P. P\<lparr>sign_ecc := \<lambda>_ _ w. (Inr [1, 2, 3], w)\<rparr>) (fake_context ''FAKE''))
      (new_params [String ''FAKE/dev-a/app/cnt/1'', String []] None) EN
      (new_session [] 600, with_devices ''FAKE'' [''dev-a''])"
proof -
  let ?p = "new_params [String ''FAKE/dev-a/app/cnt/1'', String []] None"
  let ?R = "plain_runtime\<lparr>rt_codec := std_codec\<rparr>"
  have front: "same_front P (P\<lparr>sign_ecc := \<lambda>_ _ w. (Inr [1, 2, 3], w)\<rparr>)"
    for P :: "(fake_inner, fake_device, fake_application, fake_container, fake_digest) provider"
    by (simp add: same_front_def)
  have t: "(''SignData'', cert_key_target (fake_context ''FAKE'') ?p) \<in> set (guarded_targets (fake_context ''FAKE'') ?p)"
    by (simp add: guarded_targets_def)
  have na: "\<not> authorized now (auth (new_session [] 600)) key" for now key
    by (simp add: authorized_def new_session_def new_auth_table_def)
  have m: "map_of (domain_methods ?R ctx q EN) ''SignData'' = Some (SignData_handle std_codec ctx q EN)" for ctx q
    by (simp add: domain_methods_def)
  show ?thesis
    by (rule guarded_methods_need_grant [OF fake_server.server_contract_axioms front t na m m])
qed

text \<open>C15: The dispatcher answers exactly the methods of the published classification and
  \<open>ImportKeyPair\<close>, which the classification leaves out; every other name is refused with code -3 and
  changes nothing.\<close>

theorem dispatched_methods:
  "(map_of (method_table K p lang) m = None \<longleftrightarrow> classify m = None \<and> m \<noteq> ''ImportKeyPair'')
    \<and> (classify m = None \<and> m \<noteq> ''ImportKeyPair'' \<longrightarrow>
        dispatch K m p lang st = (Ret (rpc_err (- 3) (''Method '' @ m @ '' not found'') (params_id p)), st))"
proof -
  have iff: "map_of (method_table K p lang) m = None \<longleftrightarrow> classify m = None \<and> m \<noteq> ''ImportKeyPair''"
    using names_classified
    unfolding map_of_eq_None_iff classify_map_of set_map [symmetric] method_table_names list_all_iff by metis
  moreover have "dispatch K m p lang st = (Ret (rpc_err (- 3) (''Method '' @ m @ '' not found'') (params_id p)), st)"
    if "map_of (method_table K p lang) m = None"
    using that by (simp add: dispatch_def reply_def)
  ultimately show ?thesis by blast
qed

theorem dispatched_methods_witness:
  "dispatch token_context ''Format'' (new_params [] None) EN (new_session [] 600, {#}) =
    (Ret (rpc_err (- 3) ''Method Format not found'' None), new_session [] 600, {#})"
proof -
  have c: "classify ''Format'' = None" by code_simp
  show ?thesis
    using dispatched_methods [of token_context "new_params [] None" EN "''Format''" "(new_session [] 600, {#})"] c
    by (simp add: new_params_def)
qed

lemma direct_digest_refuses: "DigestInit_direct K prov dev p lang st = (Ret r, st') \<Longrightarrow> resp_result r = Null"
  by (cases "get_api K prov (snd st)"; cases "fst (get_api K prov (snd st))"; cases "unwrap_cstring dev")
    (auto simp: DigestInit_direct_def with_api_def call_def let_ret_def reply_def split: prod.splits if_splits)

lemma native_failure_result: "resp_result (native_failure text e lang ident) = Null"
  by (simp add: native_failure_def provider_load_failed_def split: provider_error.split)

lemma digest_init_issued:
  assumes init: "DigestInit_branch K p lang (s, w) = (Ret r, s1, w1)" and h: "resp_result r = Object [(''handle'', String h)]"
  shows "\<exists>d g t. issue_digest g (handles s) = (h, t) \<and> s1 = s\<lparr>handles := snd (issue_device d t)\<rparr>"
proof -
  obtain prov where prov: "str_param p 0 = Some prov"
    using init h by (cases "str_param p 0") (auto simp: DigestInit_branch_def let_some_def reply_def)
  obtain dev where dev: "str_param p 1 = Some dev"
    using init h prov by (cases "str_param p 1") (auto simp: DigestInit_branch_def let_some_def reply_def)
  have prov_default: "prov = sk_default K"
    using init h prov dev direct_digest_refuses [of K prov dev p lang "(s, w)" r "(s1, w1)"]
    by (cases "prov = sk_default K") (auto simp: DigestInit_branch_def let_some_def Let_def)
  define alg where "alg = (ucast (optional_u64 p 2 (ucast SGD_SM3)) :: u32)"
  define idb where "idb = optional_base64 (sk_codec K) p 3"
  obtain x u where x: "open_device (sk_provider K) dev w = (x, u)" by (cases "open_device (sk_provider K) dev w")
  obtain d where d: "x = Inr d"
    using init h prov dev prov_default x native_failure_result
    by (cases x) (auto simp: DigestInit_branch_def let_some_def Let_def let_call_def call_def reply_def)
  obtain y v where y: "begin_digest (sk_provider K) d alg idb u = (y, v)" by (cases "begin_digest (sk_provider K) d alg idb u")
  obtain g where g: "y = Inr g"
    using init h prov dev prov_default x d y native_failure_result
    by (cases y) (auto simp: DigestInit_branch_def let_some_def Let_def let_call_def call_def alg_def idb_def)
  obtain h' t where t: "issue_digest g (handles s) = (h', t)" by (cases "issue_digest g (handles s)")
  then show ?thesis
    using init h prov dev prov_default x d y g
    by (intro exI [of _ d] exI [of _ g] exI [of _ t])
      (auto simp: DigestInit_branch_def let_some_def Let_def let_call_def call_def alg_def idb_def)
qed

text \<open>C17: A digest leaves its device with the session: finishing a digest that was started with the
  default provider removes the digest guard and nothing else, so after the pair of requests the
  session holds one device guard more than before, under a handle the client was never told.\<close>

theorem digest_cycle_keeps_device:
  assumes wf: "wf_handles (handles s)" "minted_count s + 2 < 2 ^ 64"
    and init: "DigestInit_branch K p lang (s, w) = (Ret r, s1, w1)"
    and h: "resp_result r = Object [(''handle'', String h)]"
    and final: "DigestFinal_branch K (new_params [String h] ident) lang' (s1, w2) = (r', s2, w3)"
  shows "\<exists>d. guards_of (handles s2) = add_mset (ResDevice d) (guards_of (handles s))"
proof -
  obtain d g t where t: "issue_digest g (handles s) = (h, t)" and s1: "s1 = s\<lparr>handles := snd (issue_device d t)\<rparr>"
    using digest_init_issued [OF init h] by blast
  obtain h2 t2 where t2: "issue_device d t = (h2, t2)" by (cases "issue_device d t")
  have room: "can_mint (handles s)" "unat (next_id (handles s) + 1) = Suc (minted_count s)"
    using room_can_mint [of s] wf(2) by simp_all
  have t': "wf_handles t" "guards_of t = add_mset (ResDigest g) (guards_of (handles s))"
    "minted_count (s\<lparr>handles := t\<rparr>) = Suc (minted_count s)"
    using digest_table.issue_wf [OF wf(1) room(1) t] guards_issue_digest [OF wf(1) room(1) t] t room(2)
    by (auto simp: issue_digest_def mint_eq minted_count_def)
  have room2: "can_mint t" using room_can_mint(1) [of "s\<lparr>handles := t\<rparr>"] t'(3) wf(2) by simp
  have t2': "wf_handles t2" "guards_of t2 = add_mset (ResDevice d) (guards_of t)" "digests t2 = digests t"
    using device_table.issue_wf [OF t'(1) room2 t2] guards_issue_device [OF t'(1) room2 t2] t2
    by (auto simp: issue_device_def mint_eq)
  have "get_digest h t = Inr g" by (rule digest_table.issued_found [OF t])
  then have "fst (remove_digest h t2) = Inr g"
    using t2'(3) by (simp add: digest_table.remove_result get_digest_def split: sum.splits)
  then obtain t3 where t3: "remove_digest h t2 = (Inr g, t3)" by (cases "remove_digest h t2") simp
  have "handles s2 = t3"
    using final s1 t2 t3
    by (auto simp: DigestFinal_branch_def let_some_def str_param_def raw_def new_params_def split: prod.splits)
  then have "guards_of (handles s2) = add_mset (ResDevice d) (guards_of (handles s))"
    using guards_remove_digest [OF t2'(1) t3] t2'(2) t'(2) by simp
  then show ?thesis by blast
qed

theorem digest_cycle_keeps_device_witness:
  "\<exists>r s1 w1 h r' s2 w3 d. DigestInit_branch (offline_context (fake_provider ''FAKE'') fi_clock)
      (new_params [String ''FAKE'', String ''dev-a''] None) EN (new_session [] 600, with_devices ''FAKE'' [''dev-a'']) =
        (Ret r, s1, w1)
    \<and> DigestFinal_branch (offline_context (fake_provider ''FAKE'') fi_clock) (new_params [String h] None) EN (s1, w1) =
        (r', s2, w3)
    \<and> guards_of (handles s2) = {#ResDevice d#}"
proof -
  let ?K = "offline_context (fake_provider ''FAKE'') fi_clock"
  let ?p = "new_params [String ''FAKE'', String ''dev-a''] None"
  let ?s = "new_session [] 600 :: (fake_device, fake_application, fake_container, fake_digest) session_state"
  have p: "str_param ?p 0 = Some ''FAKE''" "str_param ?p (Suc 0) = Some ''dev-a''" "optional_u64 ?p 2 n = n"
    "optional_base64 C ?p 3 = []" for n C
    by (simp_all add: str_param_def raw_def new_params_def optional_u64_def optional_base64_def)
  obtain r s1 w1 h where init: "DigestInit_branch ?K ?p EN (?s, with_devices ''FAKE'' [''dev-a'']) = (Ret r, s1, w1)"
    and h: "resp_result r = Object [(''handle'', String h)]"
    by (simp add: DigestInit_branch_def p Let_def let_some_def let_call_def call_def offline_context_def
        fake_provider_def fake_begin_digest_def box_guard_def begin_op_def record_op_def with_devices_def take_handle_def
        new_session_def issue_device_def issue_digest_def mint_eq new_handle_table_def)
  obtain r' s2 w3 where final: "DigestFinal_branch ?K (new_params [String h] None) EN (s1, w1) = (r', s2, w3)"
    by (metis surj_pair)
  have "wf_handles (handles ?s)" "minted_count ?s + 2 < 2 ^ 64" "guards_of (handles ?s) = {#}"
    by (simp_all add: new_session_def minted_count_def new_handle_table_def guards_of_def)
      (simp add: wf_new_handle_table [unfolded new_handle_table_def])
  with digest_cycle_keeps_device [OF _ _ init h final] init final show ?thesis by fastforce
qed

end
