(* ===== verification/Answers.thy ===== *)
theory Answers
  imports Requests Server
begin

text \<open>
  What a client gets back: the identifier of each answer of a connection, and the keys that a client
  takes from one answer and hands back in a later request.
\<close>

section \<open>Keys in answers\<close>

text \<open>What the results of a handler are like; a result that is null belongs to an error.\<close>

definition results :: "(json \<Rightarrow> bool) \<Rightarrow> ('w, 'd, 'a, 'c, 'h) handler \<Rightarrow> bool" where
  "results Q f \<longleftrightarrow> (\<forall>st r st'. f st = (Ret r, st') \<longrightarrow> resp_result r = Null \<or> Q (resp_result r))"

named_theorems result_intros \<open>handlers whose results have a given form\<close>

lemma results_reply [result_intros]: "resp_result r = Null \<or> Q (resp_result r) \<Longrightarrow> results Q (reply r)"
  by (auto simp: results_def reply_def)

lemma results_error [simp]:
  "resp_result (rpc_err code msg ident) = Null" "resp_result (load_failed m ident) = Null"
  "resp_result (load_failed_localized m lang ident) = Null" "resp_result (provider_failure text e ident) = Null"
  "resp_result (not_logged_in ident) = Null" "resp_result (reject p m) = Null"
  by (simp_all add: rpc_err_def load_failed_def load_failed_localized_def provider_failure_def not_logged_in_def
      reject_def split: option.split)

lemma results_required_str [result_intros]:
  "(\<And>v. required_str p i m = Inr v \<Longrightarrow> results Q (f v)) \<Longrightarrow> results Q (let_ok (required_str p i m) f)"
  by (auto simp: let_ok_def required_str_def intro: results_reply split: option.split)

lemma results_with_guard [result_intros]:
  "(\<And>e. results Q (err e)) \<Longrightarrow> (\<And>g. results Q (body g)) \<Longrightarrow> results Q (with_guard open_g drop_g err body)"
  by (force simp: results_def with_guard_def split: prod.splits sum.splits)

lemma results_lost_device [result_intros]:
  "(\<And>e. resp_result (err e) = Null) \<Longrightarrow> results Q (lost_device prov dev err e)"
  by (auto simp: results_def lost_device_def)

lemma results_scopes [result_intros]:
  "(\<And>d. results Q (body1 d)) \<Longrightarrow> results Q (with_device P prov dev ident body1)"
  "(\<And>a. results Q (body2 a)) \<Longrightarrow> results Q (with_application P d prov dev app msg ident body2)"
  "(\<And>c. results Q (body3 c)) \<Longrightarrow> results Q (with_container P a cont ident body3)"
  unfolding with_device_def with_application_def with_container_def by (intro result_intros; simp)+

lemma results_require_auth [result_intros]:
  "results Q body \<Longrightarrow> results Q (require_auth ctx prov dev app ident body)"
  by (auto simp: results_def require_auth_def reply_def split: prod.splits sum.splits)

lemma results_with_provider [result_intros]:
  assumes "\<And>m. resp_result (err m) = Null" "\<And>P u. fst (resolve ctx prov u) = Inr P \<Longrightarrow> results Q (body P)"
  shows "results Q (with_provider ctx prov err body)"
  unfolding results_def
proof (intro allI impI)
  fix st r st'
  assume run: "with_provider ctx prov err body st = (Ret r, st')"
  obtain x u where x: "resolve ctx prov (snd st) = (x, u)" by (cases "resolve ctx prov (snd st)")
  show "resp_result r = Null \<or> Q (resp_result r)"
  proof (cases x)
    case (Inl m)
    then show ?thesis using run x assms(1) by (auto simp: with_provider_def call_def reply_def split: prod.splits)
  next
    case (Inr P)
    then have "results Q (body P)" using assms(2) x by (metis fst_conv)
    moreover have "body P (fst st, u) = (Ret r, st')"
      using run x Inr by (cases st) (simp add: with_provider_def call_def)
    ultimately show ?thesis unfolding results_def by blast
  qed
qed

lemma results_call_answer [result_intros]:
  assumes "\<And>e. resp_result (err e) = Null" "\<And>v u. fst (f u) = Inr v \<Longrightarrow> Q (resp_result (ok v))"
  shows "results Q (call f (answer ok err))"
  unfolding results_def
proof (intro allI impI)
  fix st r st'
  assume run: "call f (answer ok err) st = (Ret r, st')"
  obtain x u where "f (snd st) = (x, u)" by (cases "f (snd st)")
  then show "resp_result r = Null \<or> Q (resp_result r)"
    using run assms(1) assms(2) [of "snd st"]
    by (cases st; cases x) (auto simp: call_def answer_def reply_def)
qed

text \<open>A key handler answers with the key its provider generated.\<close>

definition ecc_key_result ::
  "codec \<Rightarrow> ('w, 'd, 'a, 'c, 'h) server_context \<Rightarrow> params \<Rightarrow> ecc_public_key \<Rightarrow> json \<Rightarrow> bool" where
  "ecc_key_result C ctx p key j \<longleftrightarrow>
    (\<exists>prov P c alg u v. required_str p 0 ''Missing providerName param'' = Inr prov \<and> fst (resolve ctx prov u) = Inr P
      \<and> fst (gen_ecc_key_pair P c alg v) = Inr key)
    \<and> j = Object [(''bitLen'', json_u32 (ecc_bit_len key)),
        (''publicKeyBase64'', String (b64_encode C (struct_bytes_ecc (ecc_blob key))))]"

definition rsa_key_result ::
  "codec \<Rightarrow> ('w, 'd, 'a, 'c, 'h) server_context \<Rightarrow> params \<Rightarrow> rsa_public_key \<Rightarrow> json \<Rightarrow> bool" where
  "rsa_key_result C ctx p key j \<longleftrightarrow>
    (\<exists>prov P c bits u v. required_str p 0 ''Missing providerName param'' = Inr prov \<and> fst (resolve ctx prov u) = Inr P
      \<and> fst (gen_rsa_key_pair P c bits v) = Inr key)
    \<and> j = Object [(''bitLen'', json_u32 (rsa_bit_len key)),
        (''publicKeyBase64'', String (b64_encode C (struct_bytes_rsa (rsa_blob key))))]"

lemma results_GenECC: "results (\<lambda>j. \<exists>key. ecc_key_result C ctx p key j) (GenECCKeyPair_handle C ctx p lang)"
  unfolding GenECCKeyPair_handle_def Let_def ecc_key_result_def
  by (intro result_intros; (simp add: rpc_ok_def)?) blast

lemma results_GenRSA: "results (\<lambda>j. \<exists>key. rsa_key_result C ctx p key j) (GenRSAKeyPair_handle C ctx p lang)"
  unfolding GenRSAKeyPair_handle_def Let_def rsa_key_result_def
  by (intro result_intros; (simp add: rpc_ok_def)?) blast

lemma read_key_blobs:
  "read_ecc_blob (struct_bytes_ecc (ecc_blob key)) = ecc_blob key"
  "read_rsa_blob (struct_bytes_rsa (rsa_blob key')) = rsa_blob key'"
  using wf_ecc_blob_of [of key] wf_rsa_blob_of [of key']
  by (simp_all add: read_ecc_blob_def read_rsa_blob_def struct_bytes_ecc_def struct_bytes_rsa_def le_value_bytes
      wf_ecc_blob_def wf_rsa_blob_def del: wf_ecc_blob_of wf_rsa_blob_of)

section \<open>Two generated keys\<close>

abbreviation key_params :: params where
  "key_params \<equiv> new_params [String ''FAKE'', String ''dev-a'', String ''app-a'', String ''cnt''] None"

abbreviation granted_session ::
  "(fake_device, fake_application, fake_container, fake_digest) session_state" where
  "granted_session \<equiv>
    (new_session [] 600)\<lparr>auth := \<lparr>grants = [(new_auth_key ''FAKE'' ''dev-a'' ''app-a'', \<lparr>expires_at = 600\<rparr>)], ttl = 600\<rparr>\<rparr>"

lemma key_params_read:
  "required_str key_params 0 m = Inr ''FAKE''" "required_str key_params (Suc 0) m = Inr ''dev-a''"
  "required_str key_params 2 m = Inr ''app-a''" "required_str key_params 3 m = Inr ''cnt''"
  "params_id key_params = None"
  by (simp_all add: required_str_def raw_def new_params_def)

lemma fake_keys:
  "\<exists>a st'. GenECCKeyPair_handle std_codec (fake_context ''FAKE'') key_params EN (granted_session, new_fake ''FAKE'') = (Ret a, st')
    \<and> resp_result a = Object [(''bitLen'', json_u32 256), (''publicKeyBase64'', String (b64_encode std_codec
        (struct_bytes_ecc (ecc_blob \<lparr>ecc_bit_len = 256, ecc_x = replicate 64 0x11, ecc_y = replicate 64 0x22\<rparr>))))]"
  "\<exists>a st'. GenRSAKeyPair_handle std_codec (fake_context ''FAKE'') key_params EN (granted_session, new_fake ''FAKE'') = (Ret a, st')
    \<and> resp_result a = Object [(''bitLen'', json_u32 2048), (''publicKeyBase64'', String (b64_encode std_codec
        (struct_bytes_rsa (rsa_blob \<lparr>rsa_alg_id = 0, rsa_bit_len = 2048, rsa_modulus = replicate 256 0x33,
          rsa_exponent = [0x01, 0x00, 0x01, 0x00]\<rparr>))))]"
proof -
  have bits: "optional_u64 key_params 4 2048 = 2048"
    by (simp add: optional_u64_def raw_def new_params_def)
  have gen: "gen_ecc_key_pair (fake_provider nm) = fake_gen_ecc_key_pair"
    "gen_rsa_key_pair (fake_provider nm) = fake_gen_rsa_key_pair"
    "drop_device (fake_provider nm) = unbox_guard OpCloseDevice ResDevice"
    "drop_application (fake_provider nm) = unbox_guard OpCloseApplication ResApplication"
    "drop_container (fake_provider nm) = unbox_guard OpCloseContainer ResContainer" for nm
    by (simp_all add: fake_provider_def)
  note eval = key_params_read gen bits Let_def let_ok_def with_provider_def with_device_def with_application_def
    with_container_def with_guard_def require_auth_def session_authorized_def sess_authorize_def auth_check_def
    call_def answer_def reply_def rpc_ok_def fake_provider_guards after_begin_def box_guard_def begin_op_def
    record_op_def take_handle_def new_fake_def with_devices_def unbox_guard_def test_context_def
  show "\<exists>a st'. GenECCKeyPair_handle std_codec (fake_context ''FAKE'') key_params EN (granted_session, new_fake ''FAKE'') = (Ret a, st')
    \<and> resp_result a = Object [(''bitLen'', json_u32 256), (''publicKeyBase64'', String (b64_encode std_codec
        (struct_bytes_ecc (ecc_blob \<lparr>ecc_bit_len = 256, ecc_x = replicate 64 0x11, ecc_y = replicate 64 0x22\<rparr>))))]"
    by (simp add: GenECCKeyPair_handle_def eval del: replicate.simps)
  show "\<exists>a st'. GenRSAKeyPair_handle std_codec (fake_context ''FAKE'') key_params EN (granted_session, new_fake ''FAKE'') = (Ret a, st')
    \<and> resp_result a = Object [(''bitLen'', json_u32 2048), (''publicKeyBase64'', String (b64_encode std_codec
        (struct_bytes_rsa (rsa_blob \<lparr>rsa_alg_id = 0, rsa_bit_len = 2048, rsa_modulus = replicate 256 0x33,
          rsa_exponent = [0x01, 0x00, 0x01, 0x00]\<rparr>))))]"
    by (simp add: GenRSAKeyPair_handle_def eval del: replicate.simps)
qed

section \<open>Properties\<close>

text \<open>C14: Every answer that a request gets from its handler or from the timeout carries the identifier of the
  request, whatever the method, whether it succeeds or fails and at whatever step, and none when the
  text does not parse. The one text without it is the one for a request whose handler panicked.\<close>

theorem answers_carry_request_id:
  assumes "srv_conns \<sigma> ! i = (s, lang)" and "handle_completes K random16 life i parsed \<sigma> = (out, \<sigma>')"
    and "ident = (case parsed of Inl _ \<Rightarrow> None | Inr req \<Rightarrow> req_id req)"
  shows "(\<forall>r. out = Ret r \<longrightarrow> resp_id r = ident)
    \<and> (out = Panic \<longleftrightarrow> fst (fst (handle_request K parsed lang (s, srv_world \<sigma>))) = Panic)
    \<and> resp_id (fst (handle_times_out random16' life i parsed \<sigma>)) = ident"
proof -
  obtain r s' w' lang' where run: "handle_request K parsed lang (s, srv_world \<sigma>) = ((r, s', w'), lang')" by (metis surj_pair)
  have "out = r" using assms(1,2) run by (cases r) (simp_all add: handle_completes_def)
  moreover have "resp_id (fst (handle_times_out random16' life i parsed \<sigma>)) = ident"
    using assms(1,3) by (simp add: handle_times_out_def timeout_response_def rpc_err_def)
  ultimately show ?thesis using run handle_request_id [of K parsed lang "(s, srv_world \<sigma>)"] assms(3) by auto
qed

definition named_request :: "string + rpc_request" where
  "named_request =
    Inr \<lparr>req_method = ''GetProtocolVersion'', req_params = [], req_id = Some (String ''a7''), req_api_version = None\<rparr>"

theorem answers_carry_request_id_witness:
  "\<exists>r \<sigma>'. handle_completes example_context [] 600 0 named_request example_run = (Ret r, \<sigma>') \<and> resp_id r = Some (String ''a7'')"
proof -
  obtain s where s: "srv_conns example_run ! 0 = (s, EN)" using example_holds by auto
  have "restricted_rejection ''GetProtocolVersion'' b x = None" for b x
    by (simp add: restricted_rejection_def is_restricted_def RESTRICTED_METHODS_def)
  then have "fst (fst (handle_request example_context named_request EN (s, srv_world example_run))) \<noteq> Panic"
    by (simp add: named_request_def handle_request_def version_rejection_def dispatch_def method_table_def
        session_methods_def GetProtocolVersion_branch_def reply_def Let_def)
  moreover obtain out \<sigma>' where run: "handle_completes example_context [] 600 0 named_request example_run = (out, \<sigma>')"
    by (metis surj_pair)
  ultimately show ?thesis
    using answers_carry_request_id [OF s run refl] by (cases out) (simp_all add: named_request_def)
qed

text \<open>C8: An SM2 key that was generated verifies signatures: the text that \<open>GenECCKeyPair\<close> answers, given back to
  \<open>ECCVerify\<close> with some data and a signature of 128 bytes, reaches the library as the blob of the key
  the provider generated, beside the data and the two halves of the signature, and the library's
  verdict is the answer.\<close>

theorem ecc_key_verifies:
  assumes "codec_contract (sk_codec K)"
    and "GenECCKeyPair_handle (sk_codec K) ctx q lang' st = (Ret a, st')"
    and "resp_result a = Object [(''bitLen'', bits), (''publicKeyBase64'', String b64)]"
    and "str_param p 1 = Some dev" and "str_param p 2 = Some b64"
    and "str_param p 3 = Some (b64_encode (sk_codec K) dat)"
    and "str_param p 4 = Some (b64_encode (sk_codec K) (x @ y))" and "length x = 64" and "length y = 64"
    and "get_api K (named_alias K p) w = (Inr L, w1)" and "cstring dev = Some c"
    and "api_connect_dev L c 0 w1 = ((SAR_OK, h), w2)"
  shows "\<exists>key. ecc_key_result (sk_codec K) ctx q key (resp_result a)
    \<and> (\<forall>ret w3. api_ecc_verify L h (ecc_blob key) dat (of_nat (length dat)) \<lparr>sig_r = x, sig_s = y\<rparr> w2 = (ret, w3) \<longrightarrow>
        (\<exists>msg. ECCVerify_branch K p lang (s, w) =
          (Ret (if ret = SAR_OK then rpc_ok (Boolean True) (params_id p) else rpc_err ret msg (params_id p)),
           s, snd (api_dis_connect_dev L h w3))))"
proof -
  note decoded = codec_contract.decode_encode [OF assms(1)]
  obtain key where key: "ecc_key_result (sk_codec K) ctx q key (resp_result a)"
    using results_GenECC assms(2,3) unfolding results_def by fastforce
  then have key_text: "b64 = b64_encode (sk_codec K) (struct_bytes_ecc (ecc_blob key))"
    using assms(3) by (simp add: ecc_key_result_def)
  have "read_signature (x @ y) = \<lparr>sig_r = x, sig_s = y\<rparr>" using assms(8,9) by (simp add: read_signature_def)
  then have "\<exists>msg. ECCVerify_branch K p lang (s, w) =
      (Ret (if ret = SAR_OK then rpc_ok (Boolean True) (params_id p) else rpc_err ret msg (params_id p)),
       s, snd (api_dis_connect_dev L h w3))"
    if "api_ecc_verify L h (ecc_blob key) dat (of_nat (length dat)) \<lparr>sig_r = x, sig_s = y\<rparr> w2 = (ret, w3)" for ret w3
    using assms(4-12) that
    by (simp add: ECCVerify_branch_def Let_def let_some_def let_ok_def b64_param_def decoded key_text struct_bytes_lengths
        with_api_def call_def connect_or_lose_def let_ret_def unwrap_cstring_def read_key_blobs done_or_def reply_def
        split: prod.split) blast
  with key show ?thesis by blast
qed

theorem ecc_key_verifies_witness:
  "\<exists>a st' b64 msg.
    GenECCKeyPair_handle std_codec (fake_context ''FAKE'') key_params EN (granted_session, new_fake ''FAKE'') = (Ret a, st')
    \<and> resp_result a = Object [(''bitLen'', json_u32 256), (''publicKeyBase64'', String b64)]
    \<and> ECCVerify_branch token_context
        (new_params [String ''GM'', String ''dev'', String b64, String (b64_encode std_codec [1, 2]),
          String (b64_encode std_codec (replicate 64 3 @ replicate 64 4))] None)
        EN (new_session [] 600, {#}) = (Ret (rpc_err SAR_FAIL msg None), new_session [] 600, {#})"
proof -
  obtain a st' b64 where a: "GenECCKeyPair_handle std_codec (fake_context ''FAKE'') key_params EN
      (granted_session, new_fake ''FAKE'') = (Ret a, st')"
    and a_key: "resp_result a = Object [(''bitLen'', json_u32 256), (''publicKeyBase64'', String b64)]"
    using fake_keys(1) by blast
  let ?p = "new_params [String ''GM'', String ''dev'', String b64, String (b64_encode std_codec [1, 2]),
      String (b64_encode std_codec (replicate 64 3 @ replicate 64 4))] None"
  have K: "sk_codec token_context = std_codec" by (simp add: token_context_def)
  have p: "str_param ?p 1 = Some ''dev''" "str_param ?p 2 = Some b64" "named_alias token_context ?p = ''GM''"
    "str_param ?p 3 = Some (b64_encode (sk_codec token_context) [1, 2])"
    "str_param ?p 4 = Some (b64_encode (sk_codec token_context) (replicate 64 3 @ replicate 64 4))" "params_id ?p = None"
    by (simp_all add: K str_param_def raw_def new_params_def named_alias_def)
  have call: "api_connect_dev token_library ''dev'' 0 {#} = ((SAR_OK, 1), {#RawDevice 1#})"
    "\<And>k d n g w. api_ecc_verify token_library 1 k d n g w = (SAR_FAIL, w)"
    by (simp, simp add: api_defs ffi_def token_library_def refusing_library_def)
  have c: "cstring ''dev'' = Some ''dev''" by (simp add: cstring_def)
  have "codec_contract (sk_codec token_context)" using K std_engine.codec_contract_axioms by simp
  moreover have "get_api token_context (named_alias token_context ?p) {#} = (Inr token_library, {#})"
    by (simp only: p(3) token_api)
  moreover have "length (replicate 64 3 :: bytes) = 64" "length (replicate 64 4 :: bytes) = 64" by simp_all
  ultimately have "\<exists>key. ecc_key_result (sk_codec token_context) (fake_context ''FAKE'') key_params key (resp_result a)
    \<and> (\<forall>ret w3. api_ecc_verify token_library 1 (ecc_blob key) [1, 2] (of_nat (length [1 :: u8, 2]))
          \<lparr>sig_r = replicate 64 3, sig_s = replicate 64 4\<rparr> {#RawDevice 1#} = (ret, w3) \<longrightarrow>
        (\<exists>msg. ECCVerify_branch token_context ?p EN (new_session [] 600, {#}) =
          (Ret (if ret = SAR_OK then rpc_ok (Boolean True) (params_id ?p) else rpc_err ret msg (params_id ?p)),
           new_session [] 600, snd (api_dis_connect_dev token_library 1 w3))))"
    using a [folded K] a_key p(1,2,4,5) c call(1) by (intro ecc_key_verifies)
  then have "\<exists>msg. ECCVerify_branch token_context ?p EN (new_session [] 600, {#}) =
      (Ret (rpc_err SAR_FAIL msg None), new_session [] 600, {#})"
    unfolding call(2) p(6) by (auto simp: SAR_FAIL_def SAR_OK_def)
  then show ?thesis using a a_key by blast
qed

text \<open>C22: The same of an RSA key: what \<open>GenRSAKeyPair\<close> answers reaches the verification of the library that
  \<open>RSAVerify\<close> loads for the request, with the data and the signature of any length, and that library is
  unloaded again.\<close>

theorem rsa_key_verifies:
  assumes "codec_contract (sk_codec K)"
    and "GenRSAKeyPair_handle (sk_codec K) ctx q lang' st = (Ret a, st')"
    and "resp_result a = Object [(''bitLen'', bits), (''publicKeyBase64'', String b64)]"
    and "str_param p 0 = Some prov" and "str_param p 1 = Some dev" and "str_param p 2 = Some b64"
    and "str_param p 3 = Some (b64_encode (sk_codec K) dat)" and "str_param p 4 = Some (b64_encode (sk_codec K) sig)"
    and "get_lib_path K prov = Inr path" and "sk_dlopen K path w = (None, w1)" and "cstring dev = Some c"
    and "api_connect_dev (sk_library K path) c 0 w1 = ((SAR_OK, h), w2)"
  shows "\<exists>key. rsa_key_result (sk_codec K) ctx q key (resp_result a)
    \<and> (\<forall>ret w3. api_rsa_verify (sk_library K path) h (rsa_blob key) dat (of_nat (length dat)) sig (of_nat (length sig)) w2
          = (ret, w3) \<longrightarrow>
        (\<exists>msg. RSAVerify_branch K p lang (s, w) =
          (Ret (if ret = SAR_OK then rpc_ok (Boolean True) (params_id p) else rpc_err ret msg (params_id p)),
           s, sk_dlclose K path (snd (api_dis_connect_dev (sk_library K path) h w3)))))"
proof -
  note decoded = codec_contract.decode_encode [OF assms(1)]
  obtain key where key: "rsa_key_result (sk_codec K) ctx q key (resp_result a)"
    using results_GenRSA assms(2,3) unfolding results_def by fastforce
  then have key_text: "b64 = b64_encode (sk_codec K) (struct_bytes_rsa (rsa_blob key))"
    using assms(3) by (simp add: rsa_key_result_def)
  have "\<exists>msg. RSAVerify_branch K p lang (s, w) =
      (Ret (if ret = SAR_OK then rpc_ok (Boolean True) (params_id p) else rpc_err ret msg (params_id p)),
       s, sk_dlclose K path (snd (api_dis_connect_dev (sk_library K path) h w3)))"
    if "api_rsa_verify (sk_library K path) h (rsa_blob key) dat (of_nat (length dat)) sig (of_nat (length sig)) w2 = (ret, w3)"
    for ret w3
    using assms(4-12) that
    by (simp add: RSAVerify_branch_def Let_def let_some_def let_ok_def b64_param_def decoded key_text struct_bytes_lengths
        with_fresh_library_def call_def connect_or_lose_def let_ret_def unwrap_cstring_def read_key_blobs done_or_def
        reply_def split: prod.split) blast
  with key show ?thesis by blast
qed

theorem rsa_key_verifies_witness:
  "\<exists>a st' b64 msg.
    GenRSAKeyPair_handle std_codec (fake_context ''FAKE'') key_params EN (granted_session, new_fake ''FAKE'') = (Ret a, st')
    \<and> resp_result a = Object [(''bitLen'', json_u32 2048), (''publicKeyBase64'', String b64)]
    \<and> RSAVerify_branch token_context
        (new_params [String ''GM'', String ''dev'', String b64, String (b64_encode std_codec [1, 2]),
          String (b64_encode std_codec [3])] None)
        EN (new_session [] 600, {#}) = (Ret (rpc_err SAR_FAIL msg None), new_session [] 600, {#})"
proof -
  obtain a st' b64 where a: "GenRSAKeyPair_handle std_codec (fake_context ''FAKE'') key_params EN
      (granted_session, new_fake ''FAKE'') = (Ret a, st')"
    and a_key: "resp_result a = Object [(''bitLen'', json_u32 2048), (''publicKeyBase64'', String b64)]"
    using fake_keys(2) by blast
  let ?p = "new_params [String ''GM'', String ''dev'', String b64, String (b64_encode std_codec [1, 2]),
      String (b64_encode std_codec [3])] None"
  have K: "sk_codec token_context = std_codec" "sk_library token_context ''libgm.so'' = token_library"
    "sk_dlopen token_context ''libgm.so'' {#} = (None, {#})" "sk_dlclose token_context ''libgm.so'' w = w" for w
    by (simp_all add: token_context_def)
  have path: "get_lib_path token_context ''GM'' = Inr ''libgm.so''"
    by (simp add: get_lib_path_def resolve_lib_path_def os_lookup_def token_context_def)
  have p: "str_param ?p 0 = Some ''GM''" "str_param ?p 1 = Some ''dev''" "str_param ?p 2 = Some b64"
    "str_param ?p 3 = Some (b64_encode (sk_codec token_context) [1, 2])"
    "str_param ?p 4 = Some (b64_encode (sk_codec token_context) [3])" "params_id ?p = None"
    by (simp_all add: K str_param_def raw_def new_params_def)
  have call: "api_connect_dev token_library ''dev'' 0 {#} = ((SAR_OK, 1), {#RawDevice 1#})"
    "\<And>k d n g m w. api_rsa_verify token_library 1 k d n g m w = (SAR_FAIL, w)"
    by (simp, simp add: api_defs ffi_def token_library_def refusing_library_def)
  have c: "cstring ''dev'' = Some ''dev''" by (simp add: cstring_def)
  have "codec_contract (sk_codec token_context)" using K(1) std_engine.codec_contract_axioms by simp
  then have "\<exists>key. rsa_key_result (sk_codec token_context) (fake_context ''FAKE'') key_params key (resp_result a)
    \<and> (\<forall>ret w3. api_rsa_verify (sk_library token_context ''libgm.so'') 1 (rsa_blob key) [1, 2] (of_nat (length [1 :: u8, 2]))
          [3] (of_nat (length [3 :: u8])) {#RawDevice 1#} = (ret, w3) \<longrightarrow>
        (\<exists>msg. RSAVerify_branch token_context ?p EN (new_session [] 600, {#}) =
          (Ret (if ret = SAR_OK then rpc_ok (Boolean True) (params_id ?p) else rpc_err ret msg (params_id ?p)),
           new_session [] 600, sk_dlclose token_context ''libgm.so''
             (snd (api_dis_connect_dev (sk_library token_context ''libgm.so'') 1 w3)))))"
    using a [folded K(1)] a_key p(1-5) path K(3) c call(1) [folded K(2)] by (intro rsa_key_verifies)
  then have "\<exists>msg. RSAVerify_branch token_context ?p EN (new_session [] 600, {#}) =
      (Ret (rpc_err SAR_FAIL msg None), new_session [] 600, {#})"
    unfolding K call(2) p(6) by (auto simp: SAR_FAIL_def SAR_OK_def)
  then show ?thesis using a a_key by blast
qed

end
