(* ===== verification/Native.thy ===== *)
theory Native
  imports Dispatcher
begin

text \<open>
  The provider around the vendor library (\<open>src/provider/native.rs\<close>). A guard is a reference-counted
  object that remembers the handle the library gave out and shares its parent: a container its
  application, an application and a digest their device. The last reference to go runs \<open>Drop\<close>, which
  closes the handle and then lets go of the parent.

  The state is that of the library and a heap: the allocated objects with their strong counts, the
  references that the service holds as trait objects, the two counters for exposed numbers, and the
  gate. The gate is a mutex that a thread must not take while it holds it; doing so is recorded.
  One counter serves every provider: the exposed numbers are read by no other code.
\<close>

section \<open>State\<close>

record native_device =
  nd_addr :: nat
  nd_raw :: u64
  nd_name :: string
  nd_exposed :: u64

record native_application =
  na_addr :: nat
  na_device :: native_device
  na_raw :: u64
  na_exposed :: u64

record native_container =
  nc_addr :: nat
  nc_application :: native_application
  nc_raw :: u64
  nc_exposed :: u64

record native_digest =
  nh_addr :: nat
  nh_device :: native_device
  nh_raw :: u64
  nh_exposed :: u64

type_synonym native_object =
  "(native_device, native_application, native_container, native_digest) resource"

primrec addr_of :: "native_object \<Rightarrow> nat" where
  "addr_of (ResDevice d) = nd_addr d"
| "addr_of (ResApplication a) = na_addr a"
| "addr_of (ResContainer c) = nc_addr c"
| "addr_of (ResDigest h) = nh_addr h"

record native_heap =
  next_handle :: u64
  next_nested :: u64
  next_addr :: nat
  strong :: "nat \<Rightarrow> nat"
  objects :: "native_object list"
  held_boxes :: "native_object multiset"
  gate_held :: bool
  gate_stuck :: bool

record 't native_world =
  vendor_state :: 't
  heap :: native_heap

abbreviation on_heap :: "(native_heap \<Rightarrow> native_heap) \<Rightarrow> 't native_world \<Rightarrow> 't native_world" where
  "on_heap f w \<equiv> w\<lparr>heap := f (heap w)\<rparr>"

text \<open>\<open>NativeSkfProvider::new\<close> starts its counter at one, the static counter starts at a million.\<close>

definition native_start :: "'t \<Rightarrow> 't native_world" where
  "native_start t =
    \<lparr>vendor_state = t,
     heap = \<lparr>next_handle = 1, next_nested = 1000000, next_addr = 0, strong = \<lambda>_. 0, objects = [],
       held_boxes = {#}, gate_held = False, gate_stuck = False\<rparr>\<rparr>"

definition DEV_NAME_BUF_LEN :: nat where
  "DEV_NAME_BUF_LEN = 256"

definition HASH_BUF_LEN :: nat where
  "HASH_BUF_LEN = 64"

definition CERT_BUF_LEN :: nat where
  "CERT_BUF_LEN = 16 * 1024"

definition RSA_SIG_BUF_LEN :: nat where
  "RSA_SIG_BUF_LEN = 512"

definition SYM_BUF_LEN :: nat where
  "SYM_BUF_LEN = 64 * 1024"

section \<open>The gate\<close>

definition gate_lock :: "'t native_world \<Rightarrow> 't native_world" where
  "gate_lock = on_heap (\<lambda>h. h\<lparr>gate_stuck := gate_stuck h \<or> gate_held h, gate_held := True\<rparr>)"

definition gate_unlock :: "'t native_world \<Rightarrow> 't native_world" where
  "gate_unlock = on_heap (\<lambda>h. h\<lparr>gate_held := False\<rparr>)"

definition gated :: "('t native_world \<Rightarrow> 'r \<times> 't native_world) \<Rightarrow> 't native_world \<Rightarrow> 'r \<times> 't native_world" where
  "gated f w = (case f (gate_lock w) of (r, w') \<Rightarrow> (r, gate_unlock w'))"

section \<open>Reference counts\<close>

definition next_device_handle :: "'t native_world \<Rightarrow> u64 \<times> 't native_world" where
  "next_device_handle w = (next_handle (heap w), on_heap (\<lambda>h. h\<lparr>next_handle := next_handle h + 1\<rparr>) w)"

definition next_child_handle :: "'t native_world \<Rightarrow> u64 \<times> 't native_world" where
  "next_child_handle w = (next_nested (heap w), on_heap (\<lambda>h. h\<lparr>next_nested := next_nested h + 1\<rparr>) w)"

text \<open>\<open>Box::new(Arc::new(x))\<close>: a new object with one reference, held as a trait object.\<close>

definition arc_new :: "native_object \<Rightarrow> 't native_world \<Rightarrow> 't native_world" where
  "arc_new x = on_heap (\<lambda>h. h\<lparr>next_addr := Suc (next_addr h), strong := (strong h)(addr_of x := 1),
     objects := x # objects h, held_boxes := add_mset x (held_boxes h)\<rparr>)"

definition arc_clone :: "nat \<Rightarrow> 't native_world \<Rightarrow> 't native_world" where
  "arc_clone n = on_heap (\<lambda>h. h\<lparr>strong := (strong h)(n := strong h n + 1)\<rparr>)"

text \<open>A reference goes; with the last one the object is dropped.\<close>

definition arc_release ::
  "native_object \<Rightarrow> ('t native_world \<Rightarrow> 't native_world) \<Rightarrow> 't native_world \<Rightarrow> 't native_world" where
  "arc_release x dropped w =
    (let w' = on_heap (\<lambda>h. h\<lparr>strong := (strong h)(addr_of x := strong h (addr_of x) - 1)\<rparr>) w
     in if strong (heap w') (addr_of x) = 0
        then dropped (on_heap (\<lambda>h. h\<lparr>objects := remove1 x (objects h)\<rparr>) w')
        else w')"

text \<open>The four \<open>Drop\<close> implementations, each followed by the fields. The gate is free again before the
  parent is released.\<close>

definition close_raw ::
  "u64 \<Rightarrow> (u64 \<Rightarrow> 't native_world \<Rightarrow> u32 \<times> 't native_world) \<Rightarrow> 't native_world \<Rightarrow> 't native_world" where
  "close_raw hnd close w =
    snd (gated (\<lambda>w. if hnd \<noteq> 0 then ((), snd (close hnd w)) else ((), w)) w)"

definition drop_NativeDevice :: "'t native_world skf_lib \<Rightarrow> native_device \<Rightarrow> 't native_world \<Rightarrow> 't native_world" where
  "drop_NativeDevice L d = close_raw (nd_raw d) (api_dis_connect_dev L)"

definition release_device :: "'t native_world skf_lib \<Rightarrow> native_device \<Rightarrow> 't native_world \<Rightarrow> 't native_world" where
  "release_device L d = arc_release (ResDevice d) (drop_NativeDevice L d)"

definition drop_NativeApplication ::
  "'t native_world skf_lib \<Rightarrow> native_application \<Rightarrow> 't native_world \<Rightarrow> 't native_world" where
  "drop_NativeApplication L a w =
    release_device L (na_device a) (close_raw (na_raw a) (api_close_application L) w)"

definition release_application ::
  "'t native_world skf_lib \<Rightarrow> native_application \<Rightarrow> 't native_world \<Rightarrow> 't native_world" where
  "release_application L a = arc_release (ResApplication a) (drop_NativeApplication L a)"

definition drop_NativeContainer ::
  "'t native_world skf_lib \<Rightarrow> native_container \<Rightarrow> 't native_world \<Rightarrow> 't native_world" where
  "drop_NativeContainer L c w =
    release_application L (nc_application c) (close_raw (nc_raw c) (api_close_container L) w)"

definition release_container ::
  "'t native_world skf_lib \<Rightarrow> native_container \<Rightarrow> 't native_world \<Rightarrow> 't native_world" where
  "release_container L c = arc_release (ResContainer c) (drop_NativeContainer L c)"

definition drop_NativeDigest ::
  "'t native_world skf_lib \<Rightarrow> native_digest \<Rightarrow> 't native_world \<Rightarrow> 't native_world" where
  "drop_NativeDigest L g w =
    release_device L (nh_device g) (close_raw (nh_raw g) (api_close_hash L) w)"

definition release_digest ::
  "'t native_world skf_lib \<Rightarrow> native_digest \<Rightarrow> 't native_world \<Rightarrow> 't native_world" where
  "release_digest L g = arc_release (ResDigest g) (drop_NativeDigest L g)"

text \<open>Dropping the trait object is releasing the reference in it.\<close>

definition unbox :: "native_object \<Rightarrow> 't native_world \<Rightarrow> 't native_world" where
  "unbox x = on_heap (\<lambda>h. h\<lparr>held_boxes := held_boxes h - {#x#}\<rparr>)"

section \<open>Results\<close>

definition native_result :: "string \<Rightarrow> u32 \<Rightarrow> 'r \<Rightarrow> provider_error + 'r" where
  "native_result ctxt ret x = (if ret = SAR_OK then Inr x else Inl (from_native ret ctxt))"

definition native_status :: "string \<Rightarrow> ('w \<Rightarrow> u32 \<times> 'w) \<Rightarrow> ('w, unit) operation_fn" where
  "native_status ctxt f w = (case f w of (ret, w') \<Rightarrow> (native_result ctxt ret (), w'))"

definition native_value ::
  "string \<Rightarrow> ('x \<Rightarrow> 'r) \<Rightarrow> ('w \<Rightarrow> (u32 \<times> 'x) \<times> 'w) \<Rightarrow> ('w, 'r) operation_fn" where
  "native_value ctxt g f w = (case f w of ((ret, x), w') \<Rightarrow> (native_result ctxt ret (g x), w'))"

definition with_cstring ::
  "string \<Rightarrow> string \<Rightarrow> (string \<Rightarrow> ('w, 'r) operation_fn) \<Rightarrow> ('w, 'r) operation_fn" where
  "with_cstring s ctxt f w =
    (case cstring s of None \<Rightarrow> (Inl (InvalidArgument ctxt), w) | Some c \<Rightarrow> f c w)"

text \<open>\<open>Vec::truncate\<close> with the length that the library wrote.\<close>

definition truncated :: "bytes \<times> u32 \<Rightarrow> bytes" where
  "truncated = (\<lambda>(buf, len). take (unat len) buf)"

definition parse_cstr_list :: "bytes \<Rightarrow> nat \<Rightarrow> string list" where
  "parse_cstr_list buf sz = split_names (take (min sz (length buf)) buf)"

definition read_name_list ::
  "u32 \<Rightarrow> (bytes option \<Rightarrow> u32 \<Rightarrow> 'w \<Rightarrow> (u32 \<times> bytes option \<times> u32) \<times> 'w) \<Rightarrow> ('w, string list) operation_fn" where
  "read_name_list len fetch w =
    (if len = 0 then (Inr [], w)
     else
       (case fetch (Some (zero_buf len)) len w of
         ((ret, buf, sz), w') \<Rightarrow>
           if ret \<noteq> SAR_OK then (Inl (from_native ret ''enumerate list''), w')
           else (Inr (parse_cstr_list (case buf of None \<Rightarrow> [] | Some b \<Rightarrow> b) (unat sz)), w')))"

text \<open>The two-phase enumeration: ask for the size, then for the list.\<close>

definition native_list ::
  "string \<Rightarrow> (bytes option \<Rightarrow> u32 \<Rightarrow> 'w \<Rightarrow> (u32 \<times> bytes option \<times> u32) \<times> 'w) \<Rightarrow> ('w, string list) operation_fn" where
  "native_list ctxt enum w =
    (case enum None 0 w of
      ((ret, _, sz), w') \<Rightarrow>
        if ret \<noteq> SAR_OK then (Inl (from_native ret ctxt), w')
        else if sz = 0 then (Inr [], w')
        else read_name_list sz enum w')"

text \<open>The end of the calls that hand out a guard: on success a new object takes the handle and an
  exposed number, and shares the object it was opened through.\<close>

definition native_open ::
  "string \<Rightarrow> (nat \<Rightarrow> u64 \<Rightarrow> u64 \<Rightarrow> 'g) \<Rightarrow> ('g \<Rightarrow> native_object) \<Rightarrow> nat option
    \<Rightarrow> ('t native_world \<Rightarrow> u64 \<times> 't native_world) \<Rightarrow> ('t native_world \<Rightarrow> (u32 \<times> u64) \<times> 't native_world)
    \<Rightarrow> ('t native_world, 'g) operation_fn" where
  "native_open ctxt mk res parent number f w =
    (case f w of
      ((ret, hnd), w) \<Rightarrow>
        if ret \<noteq> SAR_OK then (Inl (from_native ret ctxt), w)
        else
          (case number w of
            (exposed, w) \<Rightarrow>
              (let g = mk (next_addr (heap w)) hnd exposed
               in (Inr g, arc_new (res g) (case parent of None \<Rightarrow> w | Some n \<Rightarrow> arc_clone n w)))))"

section \<open>The device guard\<close>

definition native_dev_state :: "'t native_world skf_lib \<Rightarrow> native_device \<Rightarrow> ('t native_world, u32) operation_fn" where
  "native_dev_state L d =
    gated (with_cstring (nd_name d) ''GetDevState'' (\<lambda>c.
      native_value ''GetDevState'' (\<lambda>x. x) (api_get_dev_state L c 0)))"

text \<open>\<open>timeout.as_millis() as ULONG\<close> wraps.\<close>

definition native_lock ::
  "'t native_world skf_lib \<Rightarrow> native_device \<Rightarrow> duration \<Rightarrow> ('t native_world, unit) operation_fn" where
  "native_lock L d timeout =
    gated (native_status ''LockDev'' (api_lock_dev L (nd_raw d) (of_nat (timeout div 1000000))))"

definition native_unlock :: "'t native_world skf_lib \<Rightarrow> native_device \<Rightarrow> ('t native_world, unit) operation_fn" where
  "native_unlock L d = gated (native_status ''UnlockDev'' (api_unlock_dev L (nd_raw d)))"

definition native_transmit ::
  "'t native_world skf_lib \<Rightarrow> native_device \<Rightarrow> bytes \<Rightarrow> ('t native_world, bytes) operation_fn" where
  "native_transmit L d command =
    gated (native_value ''Transmit'' truncated
      (api_transmit L (nd_raw d) command (of_nat (length command))
        (replicate SYM_BUF_LEN 0) (of_nat SYM_BUF_LEN)))"

definition native_random ::
  "'t native_world skf_lib \<Rightarrow> native_device \<Rightarrow> nat \<Rightarrow> ('t native_world, bytes) operation_fn" where
  "native_random L d len =
    gated (native_value ''GenRandom'' (\<lambda>buf. buf) (api_gen_random L (nd_raw d) (replicate len 0) (of_nat len)))"

definition native_device_info :: "devinfo \<Rightarrow> device_info" where
  "native_device_info i =
    \<lparr>manufacturer = fixed_cstr (Manufacturer i), issuer = fixed_cstr (Issuer i), label = fixed_cstr (Label i),
     serial_number = fixed_cstr (SerialNumber i), total_space = TotalSpace i, free_space = FreeSpace i,
     max_ecc_buffer_size = MaxECCBufferSize i, max_buffer_size = MaxBufferSize i\<rparr>"

definition native_info ::
  "'t native_world skf_lib \<Rightarrow> native_device \<Rightarrow> ('t native_world, device_info) operation_fn" where
  "native_info L d =
    gated (native_value ''GetDevInfo'' native_device_info (api_get_dev_info L (nd_raw d) zeroed_devinfo))"

definition native_set_label ::
  "'t native_world skf_lib \<Rightarrow> native_device \<Rightarrow> string \<Rightarrow> ('t native_world, unit) operation_fn" where
  "native_set_label L d lbl =
    gated (with_cstring lbl ''SetLabel'' (\<lambda>c. native_status ''SetLabel'' (api_set_label L (nd_raw d) c)))"

definition native_open_application ::
  "'t native_world skf_lib \<Rightarrow> native_device \<Rightarrow> string \<Rightarrow> ('t native_world, native_application) operation_fn" where
  "native_open_application L d nm =
    gated (with_cstring nm ''OpenApplication'' (\<lambda>c.
      native_open ''OpenApplication''
        (\<lambda>addr hnd exposed. \<lparr>na_addr = addr, na_device = d, na_raw = hnd, na_exposed = exposed\<rparr>)
        ResApplication (Some (nd_addr d)) next_child_handle (api_open_application L (nd_raw d) c 0)))"

definition begin_digest_impl ::
  "'t native_world skf_lib \<Rightarrow> native_device \<Rightarrow> u32 \<Rightarrow> bytes \<Rightarrow> ecc_public_key_blob option
    \<Rightarrow> ('t native_world, native_digest) operation_fn" where
  "begin_digest_impl L d alg_id ident key =
    gated (native_open ''DigestInit''
      (\<lambda>addr hnd exposed. \<lparr>nh_addr = addr, nh_device = d, nh_raw = hnd, nh_exposed = exposed\<rparr>)
      ResDigest (Some (nd_addr d)) next_child_handle
      (api_digest_init L (nd_raw d) alg_id key (Some ident) (of_nat (length ident)) 0))"

definition native_ecc_blob :: "ecc_public_key \<Rightarrow> ecc_public_key_blob" where
  "native_ecc_blob key =
    \<lparr>BitLen = ecc_bit_len key, XCoordinate = copy_into 64 (ecc_x key), YCoordinate = copy_into 64 (ecc_y key)\<rparr>"

lemma native_ecc_blob_eq: "native_ecc_blob = ecc_blob"
  by (simp add: fun_eq_iff native_ecc_blob_def ecc_blob_def)

definition native_rsa_blob :: "u32 \<Rightarrow> u32 \<Rightarrow> bytes \<Rightarrow> bytes \<Rightarrow> rsa_public_key_blob" where
  "native_rsa_blob alg_id bit_len modulus exponent =
    \<lparr>AlgID = alg_id, RBitLen = bit_len, Modulus = copy_into 256 modulus, PublicExponent = copy_into 4 exponent\<rparr>"

section \<open>The application guard\<close>

definition native_enum_containers ::
  "'t native_world skf_lib \<Rightarrow> native_application \<Rightarrow> ('t native_world, string list) operation_fn" where
  "native_enum_containers L a = gated (native_list ''EnumContainer'' (api_enum_container L (na_raw a)))"

text \<open>A rejected PIN is an outcome, not an error.\<close>

definition native_verify_pin ::
  "'t native_world skf_lib \<Rightarrow> native_application \<Rightarrow> string \<Rightarrow> ('t native_world, pin_outcome) operation_fn" where
  "native_verify_pin L a pin =
    gated (with_cstring pin ''VerifyPIN'' (\<lambda>c w.
      case api_verify_pin L (na_raw a) 1 c 0 w of
        ((ret, retry), w) \<Rightarrow>
          (Inr \<lparr>pin_success = (ret = SAR_OK), retry_count = retry, pin_code = ret\<rparr>, w)))"

abbreviation new_container :: "native_application \<Rightarrow> nat \<Rightarrow> u64 \<Rightarrow> u64 \<Rightarrow> native_container" where
  "new_container a addr hnd exposed \<equiv> \<lparr>nc_addr = addr, nc_application = a, nc_raw = hnd, nc_exposed = exposed\<rparr>"

definition native_open_container ::
  "'t native_world skf_lib \<Rightarrow> native_application \<Rightarrow> string \<Rightarrow> ('t native_world, native_container) operation_fn" where
  "native_open_container L a nm =
    gated (with_cstring nm ''OpenContainer'' (\<lambda>c.
      native_open ''OpenContainer'' (new_container a) ResContainer (Some (na_addr a)) next_child_handle
        (api_open_container L (na_raw a) c 0)))"

definition native_delete_container ::
  "'t native_world skf_lib \<Rightarrow> native_application \<Rightarrow> string \<Rightarrow> ('t native_world, unit) operation_fn" where
  "native_delete_container L a nm =
    gated (with_cstring nm ''DeleteContainer'' (\<lambda>c.
      native_status ''DeleteContainer'' (api_delete_container L (na_raw a) c)))"

definition native_create_container ::
  "'t native_world skf_lib \<Rightarrow> native_application \<Rightarrow> string \<Rightarrow> ('t native_world, native_container) operation_fn" where
  "native_create_container L a nm =
    gated (with_cstring nm ''CreateContainer'' (\<lambda>c.
      native_open ''CreateContainer'' (new_container a) ResContainer (Some (na_addr a)) next_child_handle
        (api_create_container L (na_raw a) c 0)))"

section \<open>The container guard\<close>

definition bool_flag :: "bool \<Rightarrow> u8" where
  "bool_flag b = (if b then 1 else 0)"

definition native_container_type ::
  "'t native_world skf_lib \<Rightarrow> native_container \<Rightarrow> ('t native_world, u32) operation_fn" where
  "native_container_type L c =
    gated (native_value ''GetContainerType'' (\<lambda>x. x) (api_get_container_type L (nc_raw c) 0))"

definition native_export_certificate ::
  "'t native_world skf_lib \<Rightarrow> native_container \<Rightarrow> bool \<Rightarrow> ('t native_world, bytes) operation_fn" where
  "native_export_certificate L c sign_flag =
    gated (native_value ''ExportCertificate'' (\<lambda>(buf, sz). case buf of None \<Rightarrow> [] | Some b \<Rightarrow> truncated (b, sz))
      (api_export_certificate L (nc_raw c) (bool_flag sign_flag)
        (Some (replicate CERT_BUF_LEN 0)) (of_nat CERT_BUF_LEN)))"

definition native_import_certificate ::
  "'t native_world skf_lib \<Rightarrow> native_container \<Rightarrow> bool \<Rightarrow> bytes \<Rightarrow> ('t native_world, unit) operation_fn" where
  "native_import_certificate L c sign_flag crt =
    gated (native_status ''ImportCertificate''
      (api_import_certificate L (nc_raw c) (bool_flag sign_flag) crt (of_nat (length crt))))"

text \<open>The signature is handed out as the two halves one after the other.\<close>

definition native_sign_ecc ::
  "'t native_world skf_lib \<Rightarrow> native_container \<Rightarrow> bytes \<Rightarrow> ('t native_world, bytes) operation_fn" where
  "native_sign_ecc L c digest =
    gated (native_value ''ECCSignData'' (\<lambda>sig. sig_r sig @ sig_s sig)
      (api_ecc_sign_data L (nc_raw c) digest (of_nat (length digest))
        \<lparr>sig_r = replicate 64 0, sig_s = replicate 64 0\<rparr>))"

definition native_gen_ecc_key_pair ::
  "'t native_world skf_lib \<Rightarrow> native_container \<Rightarrow> u32 \<Rightarrow> ('t native_world, ecc_public_key) operation_fn" where
  "native_gen_ecc_key_pair L c alg_id =
    gated (native_value ''GenECCKeyPair''
      (\<lambda>blob. \<lparr>ecc_bit_len = BitLen blob, ecc_x = XCoordinate blob, ecc_y = YCoordinate blob\<rparr>)
      (api_gen_ecc_key_pair L (nc_raw c) alg_id
        \<lparr>BitLen = 256, XCoordinate = replicate 64 0, YCoordinate = replicate 64 0\<rparr>))"

definition native_gen_rsa_key_pair ::
  "'t native_world skf_lib \<Rightarrow> native_container \<Rightarrow> u32 \<Rightarrow> ('t native_world, rsa_public_key) operation_fn" where
  "native_gen_rsa_key_pair L c bits =
    gated (native_value ''GenRSAKeyPair''
      (\<lambda>blob. \<lparr>rsa_alg_id = AlgID blob, rsa_bit_len = RBitLen blob, rsa_modulus = Modulus blob,
        rsa_exponent = PublicExponent blob\<rparr>)
      (api_gen_rsa_key_pair L (nc_raw c) bits
        \<lparr>AlgID = 0, RBitLen = 0, Modulus = replicate 256 0, PublicExponent = replicate 4 0\<rparr>))"

definition native_sign_rsa ::
  "'t native_world skf_lib \<Rightarrow> native_container \<Rightarrow> bytes \<Rightarrow> ('t native_world, bytes) operation_fn" where
  "native_sign_rsa L c dat =
    gated (native_value ''RSASignData'' truncated
      (api_rsa_sign_data L (nc_raw c) dat (of_nat (length dat))
        (replicate RSA_SIG_BUF_LEN 0) (of_nat RSA_SIG_BUF_LEN)))"

definition native_set_symm_key ::
  "'t native_world skf_lib \<Rightarrow> native_container \<Rightarrow> u32 \<Rightarrow> bytes \<Rightarrow> ('t native_world, unit) operation_fn" where
  "native_set_symm_key L c alg_id key =
    gated (native_status ''SetSymmKey'' (api_set_symm_key L (nc_raw c) alg_id key (of_nat (length key))))"

text \<open>At most 32 bytes of the IV are copied, and the declared length is that of the whole IV.\<close>

definition block_cipher_param :: "bytes \<Rightarrow> u32 \<Rightarrow> blockcipherparam" where
  "block_cipher_param iv padding =
    \<lparr>IV = copy_into 32 iv, IVLen = of_nat (length iv), PaddingType = padding, FeedBitLen = 0\<rparr>"

definition native_encrypt ::
  "'t native_world skf_lib \<Rightarrow> native_container \<Rightarrow> u32 \<Rightarrow> bytes \<Rightarrow> u32 \<Rightarrow> bytes \<Rightarrow> ('t native_world, bytes) operation_fn" where
  "native_encrypt L c alg_id iv padding dat =
    gated (native_value ''EncryptData'' truncated
      (api_encrypt_data L (nc_raw c) alg_id dat (of_nat (length dat)) (block_cipher_param iv padding)
        (replicate SYM_BUF_LEN 0) (of_nat SYM_BUF_LEN)))"

definition native_decrypt ::
  "'t native_world skf_lib \<Rightarrow> native_container \<Rightarrow> u32 \<Rightarrow> bytes \<Rightarrow> u32 \<Rightarrow> bytes \<Rightarrow> ('t native_world, bytes) operation_fn" where
  "native_decrypt L c alg_id iv padding dat =
    gated (native_value ''DecryptData'' truncated
      (api_decrypt_data L (nc_raw c) alg_id dat (of_nat (length dat)) (block_cipher_param iv padding)
        (replicate SYM_BUF_LEN 0) (of_nat SYM_BUF_LEN)))"

section \<open>The digest guard\<close>

definition native_update ::
  "'t native_world skf_lib \<Rightarrow> native_digest \<Rightarrow> bytes \<Rightarrow> ('t native_world, unit) operation_fn" where
  "native_update L g dat =
    gated (native_status ''DigestUpdate'' (api_digest_update L (nh_raw g) dat (of_nat (length dat))))"

definition native_finalize ::
  "'t native_world skf_lib \<Rightarrow> native_digest \<Rightarrow> ('t native_world, bytes) operation_fn" where
  "native_finalize L g =
    gated (native_value ''DigestFinal'' truncated
      (api_digest_final L (nh_raw g) (replicate HASH_BUF_LEN 0) (of_nat HASH_BUF_LEN)))"

section \<open>The provider\<close>

definition native_enum_devices ::
  "'t native_world skf_lib \<Rightarrow> bool \<Rightarrow> ('t native_world, string list) operation_fn" where
  "native_enum_devices L present_only = gated (native_list ''EnumDev'' (api_enum_dev L (bool_flag present_only)))"

definition native_device_state :: "'t native_world skf_lib \<Rightarrow> string \<Rightarrow> ('t native_world, u32) operation_fn" where
  "native_device_state L nm =
    gated (with_cstring nm ''GetDevState'' (\<lambda>c.
      native_value ''GetDevState'' (\<lambda>x. x) (api_get_dev_state L c 0)))"

text \<open>Waiting and cancelling do not take the gate.\<close>

definition native_wait_for_event ::
  "'t native_world skf_lib \<Rightarrow> nat \<Rightarrow> ('t native_world, string \<times> u32) operation_fn" where
  "native_wait_for_event L buf_len =
    (let len = (if buf_len = 0 then DEV_NAME_BUF_LEN else buf_len)
     in native_value ''WaitForDevEvent''
          (\<lambda>(buf, name_len, event). (trim_end_nul (from_utf8_lossy (take (min (unat name_len) len) buf)), event))
          (api_wait_for_dev_event L (replicate len 0) (of_nat len) 0))"

definition native_cancel_wait_for_event :: "'t native_world skf_lib \<Rightarrow> ('t native_world, unit) operation_fn" where
  "native_cancel_wait_for_event L = native_status ''CancelWaitForDevEvent'' (api_cancel_wait_for_dev_event L)"

definition native_open_device ::
  "'t native_world skf_lib \<Rightarrow> string \<Rightarrow> ('t native_world, native_device) operation_fn" where
  "native_open_device L nm =
    gated (with_cstring nm ''ConnectDev'' (\<lambda>c.
      native_open ''ConnectDev''
        (\<lambda>addr hnd exposed. \<lparr>nd_addr = addr, nd_raw = hnd, nd_name = nm, nd_exposed = exposed\<rparr>)
        ResDevice None next_device_handle (api_connect_dev L c 0)))"

definition native_provider ::
  "string \<Rightarrow> 't native_world skf_lib
    \<Rightarrow> ('t native_world, native_device, native_application, native_container, native_digest) provider" where
  "native_provider alias L =
    \<lparr>provider_alias = alias,
     enum_devices = native_enum_devices L, device_state = native_device_state L,
     wait_for_event = native_wait_for_event L, cancel_wait_for_event = native_cancel_wait_for_event L,
     open_device = native_open_device L,
     dev_handle = nd_exposed, dev_state = native_dev_state L, dev_lock = native_lock L,
     dev_unlock = native_unlock L, dev_transmit = native_transmit L, dev_random = native_random L,
     dev_info = native_info L, dev_set_label = native_set_label L,
     open_application = native_open_application L,
     begin_digest = \<lambda>d alg_id ident. begin_digest_impl L d alg_id ident None,
     begin_digest_with_key = \<lambda>d alg_id ident key. begin_digest_impl L d alg_id ident (Some (native_ecc_blob key)),
     app_handle = na_exposed, enum_containers = native_enum_containers L, verify_pin = native_verify_pin L,
     open_container = native_open_container L, delete_container = native_delete_container L,
     create_container = native_create_container L,
     cnt_handle = nc_exposed, container_type = native_container_type L,
     export_certificate = native_export_certificate L, import_certificate = native_import_certificate L,
     sign_ecc = native_sign_ecc L, sign_rsa = native_sign_rsa L,
     gen_ecc_key_pair = native_gen_ecc_key_pair L, gen_rsa_key_pair = native_gen_rsa_key_pair L,
     set_symm_key = native_set_symm_key L, encrypt = native_encrypt L, decrypt = native_decrypt L,
     dig_handle = nh_exposed, dig_update = native_update L, dig_finalize = native_finalize L,
     drop_device = \<lambda>d w. release_device L d (unbox (ResDevice d) w),
     drop_application = \<lambda>a w. release_application L a (unbox (ResApplication a) w),
     drop_container = \<lambda>c w. release_container L c (unbox (ResContainer c) w),
     drop_digest = \<lambda>g w. release_digest L g (unbox (ResDigest g) w)\<rparr>"

text \<open>\<open>NativeSkfProvider::new\<close> loads the library; \<open>from_config\<close> finds its path first. A factory that cannot
  prepare the provider falls back to one that reports the failure to every request.\<close>

type_synonym 't native_skf_provider =
  "('t native_world, native_device, native_application, native_container, native_digest) provider"

definition native_new ::
  "string \<Rightarrow> (string \<Rightarrow> 't native_world \<Rightarrow> string option \<times> 't native_world) \<Rightarrow> (string \<Rightarrow> 't native_world skf_lib)
    \<Rightarrow> string \<Rightarrow> string \<Rightarrow> ('t native_world, 't native_skf_provider) operation_fn" where
  "native_new arch dlopen library alias lib_path w =
    (case dlopen lib_path w of
      (Some detail, w') \<Rightarrow> (Inl (LibraryLoadFailed lib_path arch detail), w')
    | (None, w') \<Rightarrow> (Inr (native_provider alias (library lib_path)), w'))"

definition native_from_config ::
  "runtime \<Rightarrow> string \<Rightarrow> string \<Rightarrow> (string \<Rightarrow> 't native_world \<Rightarrow> string option \<times> 't native_world)
    \<Rightarrow> (string \<Rightarrow> 't native_world skf_lib) \<Rightarrow> skf_config \<Rightarrow> string
    \<Rightarrow> ('t native_world, 't native_skf_provider) operation_fn" where
  "native_from_config R arch os dlopen library config alias w =
    (case resolve_lib_path R (libs config) alias os of
      Inl _ \<Rightarrow> (Inl (ProviderNotConfigured alias os), w)
    | Inr path \<Rightarrow> native_new arch dlopen library alias path w)"

definition build_provider ::
  "runtime \<Rightarrow> string \<Rightarrow> string \<Rightarrow> (string \<Rightarrow> 't native_world \<Rightarrow> string option \<times> 't native_world)
    \<Rightarrow> (string \<Rightarrow> 't native_world skf_lib) \<Rightarrow> skf_config
    \<Rightarrow> 't native_world \<Rightarrow> 't native_skf_provider \<times> 't native_world" where
  "build_provider R arch os dlopen library config w =
    (case native_from_config R arch os dlopen library config (cfg_default config) w of
      (Inr P, w') \<Rightarrow> (P, w')
    | (Inl e, w') \<Rightarrow> (unavailable_provider arch (cfg_default config) (error_to_string e), w'))"

section \<open>The contract of the trait\<close>

text \<open>A library does not reach into the heap of the service, and its clock does not run backwards.\<close>

abbreviation vendor_clock :: "('t \<Rightarrow> instant) \<Rightarrow> 't native_world \<Rightarrow> instant" where
  "vendor_clock now w \<equiv> now (vendor_state w)"

abbreviation boxes_of :: "'t native_world \<Rightarrow> native_object multiset" where
  "boxes_of w \<equiv> held_boxes (heap w)"

definition framed :: "('t \<Rightarrow> instant) \<Rightarrow> 't native_world \<Rightarrow> 't native_world \<Rightarrow> bool" where
  "framed now w w' \<longleftrightarrow> heap w' = heap w \<and> vendor_clock now w \<le> vendor_clock now w'"

lemmas gate_defs = gated_def gate_lock_def gate_unlock_def

lemma kept_framed: "framed now w w' \<Longrightarrow> kept boxes_of (vendor_clock now) w w'"
  by (simp add: framed_def kept_def)

lemma gate_simps [simp]:
  "vendor_state (gate_lock w) = vendor_state w" "vendor_state (gate_unlock w) = vendor_state w"
  "boxes_of (gate_lock w) = boxes_of w" "boxes_of (gate_unlock w) = boxes_of w"
  by (simp_all add: gate_defs)

lemma gated_eq: "gated f w = (fst (f (gate_lock w)), gate_unlock (snd (f (gate_lock w))))"
  by (simp add: gated_def split_beta)

lemma keeps_gated: "keeps boxes_of (vendor_clock now) f \<Longrightarrow> keeps boxes_of (vendor_clock now) (gated f)"
  unfolding keeps_def gated_eq by (metis gate_simps snd_conv)

lemma opens_gated:
  assumes "opens boxes_of (vendor_clock now) res f"
  shows "opens boxes_of (vendor_clock now) res (gated f)"
  unfolding opens_def gated_eq
proof
  fix w
  show "vendor_clock now w \<le> vendor_clock now (snd (fst (f (gate_lock w)), gate_unlock (snd (f (gate_lock w)))))
    \<and> boxes_of (snd (fst (f (gate_lock w)), gate_unlock (snd (f (gate_lock w))))) =
       (case fst (fst (f (gate_lock w)), gate_unlock (snd (f (gate_lock w)))) of Inl x \<Rightarrow> boxes_of w
        | Inr g \<Rightarrow> add_mset (res g) (boxes_of w))"
    using assms [unfolded opens_def, rule_format, of "gate_lock w"] by (cases "fst (f (gate_lock w))") simp_all
qed

lemma keeps_with_cstring:
  "(\<And>c. keeps live now (f c)) \<Longrightarrow> keeps live now (with_cstring s ctxt f)"
  by (simp add: keeps_def with_cstring_def split: option.split)

lemma opens_with_cstring:
  "(\<And>c. opens live now res (f c)) \<Longrightarrow> opens live now res (with_cstring s ctxt f)"
  by (simp add: opens_def with_cstring_def split: option.split)

lemma keeps_native_status: "keeps live now f \<Longrightarrow> keeps live now (native_status ctxt f)"
  by (simp add: keeps_def native_status_def split_beta)

lemma keeps_native_value: "keeps live now f \<Longrightarrow> keeps live now (native_value ctxt g f)"
  by (simp add: keeps_def native_value_def split_beta)

lemma keeps_native_list:
  assumes "\<And>b n. keeps live now (enum b n)"
  shows "keeps live now (native_list ctxt enum)"
  using assms unfolding keeps_def native_list_def read_name_list_def
  by (auto simp: split_beta intro: order_trans)

lemmas native_keeps_intros =
  keeps_gated keeps_with_cstring keeps_native_status keeps_native_value keeps_native_list


text \<open>The calls that hand out a guard.\<close>

lemma opens_native_open:
  assumes "keeps boxes_of (vendor_clock now) f" "number = next_device_handle \<or> number = next_child_handle"
  shows "opens boxes_of (vendor_clock now) res (native_open ctxt mk res parent number f)"
  using assms
  by (auto simp: opens_def keeps_def native_open_def split_beta Let_def next_device_handle_def
      next_child_handle_def arc_new_def arc_clone_def split: option.split)

text \<open>Releasing a reference does not touch the boxes of others.\<close>

lemma kept_trans: "kept live now u v \<Longrightarrow> kept live now v w \<Longrightarrow> kept live now u w"
  using kept_order(2) by (rule transpD)

lemma kept_close_raw:
  assumes "\<And>h. keeps boxes_of (vendor_clock now) (close h)"
  shows "kept boxes_of (vendor_clock now) w (close_raw hnd close w)"
proof -
  have "keeps boxes_of (vendor_clock now)
      (gated (\<lambda>w. if hnd \<noteq> 0 then ((), snd (close hnd w)) else ((), w)))"
    by (rule keeps_gated) (use assms in \<open>simp add: keeps_def\<close>)
  then show ?thesis unfolding close_raw_def keeps_def kept_def by blast
qed

lemma kept_arc_release:
  assumes "\<And>w. kept boxes_of (vendor_clock now) w (dropped w)"
  shows "kept boxes_of (vendor_clock now) w (arc_release x dropped w)"
proof -
  define u where "u = on_heap (\<lambda>h. h\<lparr>strong := (strong h)(addr_of x := strong h (addr_of x) - 1)\<rparr>) w"
  define v where "v = on_heap (\<lambda>h. h\<lparr>objects := remove1 x (objects h)\<rparr>) u"
  have "kept boxes_of (vendor_clock now) w u" "kept boxes_of (vendor_clock now) w v"
    by (simp_all add: u_def v_def kept_def)
  then show ?thesis
    using kept_trans [OF _ assms, of w v] unfolding arc_release_def Let_def u_def [symmetric] v_def [symmetric] by simp
qed

text \<open>What a guard needs of the library it was opened in.\<close>

locale native_library =
  fixes L :: "'t native_world skf_lib" and now :: "'t \<Rightarrow> instant"
  assumes frame: "library_respects (framed now) L"
begin

lemma quiet: "library_quiet boxes_of (vendor_clock now) L"
  unfolding library_quiet_def by (rule library_respects_mono [OF frame kept_framed])

lemmas api_keeps = library_respectsD [OF quiet [unfolded library_quiet_def], folded keeps_runs]

lemma kept_release_device: "kept boxes_of (vendor_clock now) w (release_device L d w)"
  unfolding release_device_def drop_NativeDevice_def by (intro kept_arc_release kept_close_raw api_keeps)

lemma kept_release_application: "kept boxes_of (vendor_clock now) w (release_application L a w)"
  unfolding release_application_def drop_NativeApplication_def
  by (intro kept_arc_release kept_trans [OF kept_close_raw kept_release_device] api_keeps)

lemma kept_release_container: "kept boxes_of (vendor_clock now) w (release_container L c w)"
  unfolding release_container_def drop_NativeContainer_def
  by (intro kept_arc_release kept_trans [OF kept_close_raw kept_release_application] api_keeps)

lemma kept_release_digest: "kept boxes_of (vendor_clock now) w (release_digest L g w)"
  unfolding release_digest_def drop_NativeDigest_def
  by (intro kept_arc_release kept_trans [OF kept_close_raw kept_release_device] api_keeps)

lemma closes_release:
  assumes "\<And>g w. kept boxes_of (vendor_clock now) w (release g w)"
  shows "closes boxes_of (vendor_clock now) res (\<lambda>g w. release g (unbox (res g) w))"
  unfolding closes_def
proof (intro allI)
  fix g w
  show "boxes_of (release g (unbox (res g) w)) = boxes_of w - {#res g#}
    \<and> vendor_clock now w \<le> vendor_clock now (release g (unbox (res g) w))"
    using assms [of "unbox (res g) w" g] by (simp add: kept_def unbox_def)
qed

lemmas native_op_defs =
  native_dev_state_def native_lock_def native_unlock_def native_transmit_def native_random_def
  native_info_def native_set_label_def native_enum_containers_def native_delete_container_def
  native_container_type_def native_export_certificate_def native_import_certificate_def
  native_sign_ecc_def native_gen_ecc_key_pair_def native_gen_rsa_key_pair_def native_sign_rsa_def
  native_set_symm_key_def native_encrypt_def native_decrypt_def native_update_def native_finalize_def
  native_enum_devices_def native_device_state_def native_wait_for_event_def
  native_cancel_wait_for_event_def

lemma native_verify_pin_keeps: "keeps boxes_of (vendor_clock now) (native_verify_pin L a pin)"
proof -
  have k: "keeps boxes_of (vendor_clock now) (\<lambda>w. case api_verify_pin L (na_raw a) 1 c 0 w of
      ((ret, retry), w) \<Rightarrow> (Inr \<lparr>pin_success = (ret = SAR_OK), retry_count = retry, pin_code = ret\<rparr>, w))" for c
    using api_keeps(14) by (simp add: keeps_def split_beta)
  show ?thesis unfolding native_verify_pin_def by (intro keeps_gated keeps_with_cstring k)
qed

lemma native_keeps:
  "keeps boxes_of (vendor_clock now) (native_dev_state L d)"
  "keeps boxes_of (vendor_clock now) (native_lock L d du)"
  "keeps boxes_of (vendor_clock now) (native_unlock L d)"
  "keeps boxes_of (vendor_clock now) (native_transmit L d bs)"
  "keeps boxes_of (vendor_clock now) (native_random L d n)"
  "keeps boxes_of (vendor_clock now) (native_info L d)"
  "keeps boxes_of (vendor_clock now) (native_set_label L d s)"
  "keeps boxes_of (vendor_clock now) (native_enum_containers L a)"
  "keeps boxes_of (vendor_clock now) (native_delete_container L a s)"
  "keeps boxes_of (vendor_clock now) (native_container_type L c)"
  "keeps boxes_of (vendor_clock now) (native_export_certificate L c b)"
  "keeps boxes_of (vendor_clock now) (native_import_certificate L c b bs)"
  "keeps boxes_of (vendor_clock now) (native_sign_ecc L c bs)"
  "keeps boxes_of (vendor_clock now) (native_gen_ecc_key_pair L c n32)"
  "keeps boxes_of (vendor_clock now) (native_gen_rsa_key_pair L c n32)"
  "keeps boxes_of (vendor_clock now) (native_sign_rsa L c bs)"
  "keeps boxes_of (vendor_clock now) (native_set_symm_key L c n32 bs)"
  "keeps boxes_of (vendor_clock now) (native_encrypt L c n32 iv pd bs)"
  "keeps boxes_of (vendor_clock now) (native_decrypt L c n32 iv pd bs)"
  "keeps boxes_of (vendor_clock now) (native_update L g bs)"
  "keeps boxes_of (vendor_clock now) (native_finalize L g)"
  "keeps boxes_of (vendor_clock now) (native_enum_devices L b)"
  "keeps boxes_of (vendor_clock now) (native_device_state L s)"
  "keeps boxes_of (vendor_clock now) (native_wait_for_event L n)"
  "keeps boxes_of (vendor_clock now) (native_cancel_wait_for_event L)"
  unfolding native_op_defs Let_def by (intro native_keeps_intros api_keeps)+

lemma native_opens:
  "opens boxes_of (vendor_clock now) ResDevice (native_open_device L s)"
  "opens boxes_of (vendor_clock now) ResApplication (native_open_application L d s)"
  "opens boxes_of (vendor_clock now) ResContainer (native_open_container L a s)"
  "opens boxes_of (vendor_clock now) ResContainer (native_create_container L a s)"
  "opens boxes_of (vendor_clock now) ResDigest (begin_digest_impl L d n32 bs key)"
  unfolding native_open_device_def native_open_application_def native_open_container_def
    native_create_container_def begin_digest_impl_def
  by (intro opens_gated opens_with_cstring opens_native_open api_keeps; simp)+

lemmas native_closes =
  closes_release [of "release_device L" ResDevice, OF kept_release_device]
  closes_release [of "release_application L" ResApplication, OF kept_release_application]
  closes_release [of "release_container L" ResContainer, OF kept_release_container]
  closes_release [of "release_digest L" ResDigest, OF kept_release_digest]

lemma native_contract: "provider_contract (native_provider nm L) boxes_of (vendor_clock now)"
  by unfold_locales
    (simp_all add: native_provider_def native_keeps native_verify_pin_keeps native_opens native_closes)

end

section \<open>A library under the heap\<close>

text \<open>The functions of a library, taken to work on their own state and to leave the heap alone.\<close>

definition at_vendor :: "('t \<Rightarrow> 'r \<times> 't) \<Rightarrow> 't native_world \<Rightarrow> 'r \<times> 't native_world" where
  "at_vendor f w = (case f (vendor_state w) of (r, t) \<Rightarrow> (r, w\<lparr>vendor_state := t\<rparr>))"

definition lift_library :: "'t skf_lib \<Rightarrow> 't native_world skf_lib" where
  "lift_library M =
    \<lparr>exports = exports M,
     SKF_WaitForDevEvent = \<lambda>x1 x2 x3. at_vendor (SKF_WaitForDevEvent M x1 x2 x3),
     SKF_CancelWaitForDevEvent = at_vendor (SKF_CancelWaitForDevEvent M),
     SKF_EnumDev = \<lambda>x1 x2 x3. at_vendor (SKF_EnumDev M x1 x2 x3),
     SKF_ConnectDev = \<lambda>x1 x2. at_vendor (SKF_ConnectDev M x1 x2),
     SKF_DisConnectDev = \<lambda>x1. at_vendor (SKF_DisConnectDev M x1),
     SKF_GenRandom = \<lambda>x1 x2 x3. at_vendor (SKF_GenRandom M x1 x2 x3),
     SKF_EnumApplication = \<lambda>x1 x2 x3. at_vendor (SKF_EnumApplication M x1 x2 x3),
     SKF_OpenApplication = \<lambda>x1 x2 x3. at_vendor (SKF_OpenApplication M x1 x2 x3),
     SKF_CloseApplication = \<lambda>x1. at_vendor (SKF_CloseApplication M x1),
     SKF_EnumContainer = \<lambda>x1 x2 x3. at_vendor (SKF_EnumContainer M x1 x2 x3),
     SKF_OpenContainer = \<lambda>x1 x2 x3. at_vendor (SKF_OpenContainer M x1 x2 x3),
     SKF_CloseContainer = \<lambda>x1. at_vendor (SKF_CloseContainer M x1),
     SKF_ExportCertificate = \<lambda>x1 x2 x3 x4. at_vendor (SKF_ExportCertificate M x1 x2 x3 x4),
     SKF_VerifyPIN = \<lambda>x1 x2 x3 x4. at_vendor (SKF_VerifyPIN M x1 x2 x3 x4),
     SKF_ECCSignData = \<lambda>x1 x2 x3 x4. at_vendor (SKF_ECCSignData M x1 x2 x3 x4),
     SKF_GetContainerType = \<lambda>x1 x2. at_vendor (SKF_GetContainerType M x1 x2),
     SKF_RSASignData = \<lambda>x1 x2 x3 x4 x5. at_vendor (SKF_RSASignData M x1 x2 x3 x4 x5),
     SKF_DigestInit = \<lambda>x1 x2 x3 x4 x5 x6. at_vendor (SKF_DigestInit M x1 x2 x3 x4 x5 x6),
     SKF_Digest = \<lambda>x1 x2 x3 x4 x5. at_vendor (SKF_Digest M x1 x2 x3 x4 x5),
     SKF_CreateContainer = \<lambda>x1 x2 x3. at_vendor (SKF_CreateContainer M x1 x2 x3),
     SKF_GenECCKeyPair = \<lambda>x1 x2 x3. at_vendor (SKF_GenECCKeyPair M x1 x2 x3),
     SKF_GenRSAKeyPair = \<lambda>x1 x2 x3. at_vendor (SKF_GenRSAKeyPair M x1 x2 x3),
     SKF_DeleteContainer = \<lambda>x1 x2. at_vendor (SKF_DeleteContainer M x1 x2),
     SKF_ImportCertificate = \<lambda>x1 x2 x3 x4. at_vendor (SKF_ImportCertificate M x1 x2 x3 x4),
     SKF_ImportECCKeyPair = \<lambda>x1 x2. at_vendor (SKF_ImportECCKeyPair M x1 x2),
     SKF_ImportRSAKeyPair = \<lambda>x1 x2 x3 x4 x5 x6. at_vendor (SKF_ImportRSAKeyPair M x1 x2 x3 x4 x5 x6),
     SKF_EncryptData = \<lambda>x1 x2 x3 x4 x5 x6 x7. at_vendor (SKF_EncryptData M x1 x2 x3 x4 x5 x6 x7),
     SKF_DecryptData = \<lambda>x1 x2 x3 x4 x5 x6 x7. at_vendor (SKF_DecryptData M x1 x2 x3 x4 x5 x6 x7),
     SKF_DigestUpdate = \<lambda>x1 x2 x3. at_vendor (SKF_DigestUpdate M x1 x2 x3),
     SKF_DigestFinal = \<lambda>x1 x2 x3. at_vendor (SKF_DigestFinal M x1 x2 x3),
     SKF_RSAVerify = \<lambda>x1 x2 x3 x4 x5 x6. at_vendor (SKF_RSAVerify M x1 x2 x3 x4 x5 x6),
     SKF_SetSymmKey = \<lambda>x1 x2 x3 x4. at_vendor (SKF_SetSymmKey M x1 x2 x3 x4),
     SKF_GetDevInfo = \<lambda>x1 x2. at_vendor (SKF_GetDevInfo M x1 x2),
     SKF_GetDevState = \<lambda>x1 x2. at_vendor (SKF_GetDevState M x1 x2),
     SKF_SetLabel = \<lambda>x1 x2. at_vendor (SKF_SetLabel M x1 x2),
     SKF_ECCVerify = \<lambda>x1 x2 x3 x4 x5. at_vendor (SKF_ECCVerify M x1 x2 x3 x4 x5),
     SKF_LockDev = \<lambda>x1 x2. at_vendor (SKF_LockDev M x1 x2),
     SKF_UnlockDev = \<lambda>x1. at_vendor (SKF_UnlockDev M x1),
     SKF_Transmit = \<lambda>x1 x2 x3 x4 x5. at_vendor (SKF_Transmit M x1 x2 x3 x4 x5),
     SKF_CloseHash = \<lambda>x1. at_vendor (SKF_CloseHash M x1)\<rparr>"

lemma lift_library_calls [simp]:
  "api_wait_for_dev_event (lift_library M) x0_0 x0_1 x0_2 = at_vendor (api_wait_for_dev_event M x0_0 x0_1 x0_2)"
  "api_cancel_wait_for_dev_event (lift_library M) = at_vendor (api_cancel_wait_for_dev_event M)"
  "api_enum_dev (lift_library M) x2_0 x2_1 x2_2 = at_vendor (api_enum_dev M x2_0 x2_1 x2_2)"
  "api_connect_dev (lift_library M) x3_0 x3_1 = at_vendor (api_connect_dev M x3_0 x3_1)"
  "api_dis_connect_dev (lift_library M) x4_0 = at_vendor (api_dis_connect_dev M x4_0)"
  "api_gen_random (lift_library M) x5_0 x5_1 x5_2 = at_vendor (api_gen_random M x5_0 x5_1 x5_2)"
  "api_enum_application (lift_library M) x6_0 x6_1 x6_2 = at_vendor (api_enum_application M x6_0 x6_1 x6_2)"
  "api_open_application (lift_library M) x7_0 x7_1 x7_2 = at_vendor (api_open_application M x7_0 x7_1 x7_2)"
  "api_close_application (lift_library M) x8_0 = at_vendor (api_close_application M x8_0)"
  "api_enum_container (lift_library M) x9_0 x9_1 x9_2 = at_vendor (api_enum_container M x9_0 x9_1 x9_2)"
  "api_open_container (lift_library M) x10_0 x10_1 x10_2 = at_vendor (api_open_container M x10_0 x10_1 x10_2)"
  "api_close_container (lift_library M) x11_0 = at_vendor (api_close_container M x11_0)"
  "api_export_certificate (lift_library M) x12_0 x12_1 x12_2 x12_3 = at_vendor (api_export_certificate M x12_0 x12_1 x12_2 x12_3)"
  "api_verify_pin (lift_library M) x13_0 x13_1 x13_2 x13_3 = at_vendor (api_verify_pin M x13_0 x13_1 x13_2 x13_3)"
  "api_ecc_sign_data (lift_library M) x14_0 x14_1 x14_2 x14_3 = at_vendor (api_ecc_sign_data M x14_0 x14_1 x14_2 x14_3)"
  "api_get_container_type (lift_library M) x15_0 x15_1 = at_vendor (api_get_container_type M x15_0 x15_1)"
  "api_rsa_sign_data (lift_library M) x16_0 x16_1 x16_2 x16_3 x16_4 = at_vendor (api_rsa_sign_data M x16_0 x16_1 x16_2 x16_3 x16_4)"
  "api_digest_init (lift_library M) x17_0 x17_1 x17_2 x17_3 x17_4 x17_5 = at_vendor (api_digest_init M x17_0 x17_1 x17_2 x17_3 x17_4 x17_5)"
  "api_digest (lift_library M) x18_0 x18_1 x18_2 x18_3 x18_4 = at_vendor (api_digest M x18_0 x18_1 x18_2 x18_3 x18_4)"
  "api_create_container (lift_library M) x19_0 x19_1 x19_2 = at_vendor (api_create_container M x19_0 x19_1 x19_2)"
  "api_gen_ecc_key_pair (lift_library M) x20_0 x20_1 x20_2 = at_vendor (api_gen_ecc_key_pair M x20_0 x20_1 x20_2)"
  "api_gen_rsa_key_pair (lift_library M) x21_0 x21_1 x21_2 = at_vendor (api_gen_rsa_key_pair M x21_0 x21_1 x21_2)"
  "api_delete_container (lift_library M) x22_0 x22_1 = at_vendor (api_delete_container M x22_0 x22_1)"
  "api_import_certificate (lift_library M) x23_0 x23_1 x23_2 x23_3 = at_vendor (api_import_certificate M x23_0 x23_1 x23_2 x23_3)"
  "api_import_ecc_key_pair (lift_library M) x24_0 x24_1 = at_vendor (api_import_ecc_key_pair M x24_0 x24_1)"
  "api_import_rsa_key_pair (lift_library M) x25_0 x25_1 x25_2 x25_3 x25_4 x25_5 = at_vendor (api_import_rsa_key_pair M x25_0 x25_1 x25_2 x25_3 x25_4 x25_5)"
  "api_encrypt_data (lift_library M) x26_0 x26_1 x26_2 x26_3 x26_4 x26_5 x26_6 = at_vendor (api_encrypt_data M x26_0 x26_1 x26_2 x26_3 x26_4 x26_5 x26_6)"
  "api_decrypt_data (lift_library M) x27_0 x27_1 x27_2 x27_3 x27_4 x27_5 x27_6 = at_vendor (api_decrypt_data M x27_0 x27_1 x27_2 x27_3 x27_4 x27_5 x27_6)"
  "api_digest_update (lift_library M) x28_0 x28_1 x28_2 = at_vendor (api_digest_update M x28_0 x28_1 x28_2)"
  "api_digest_final (lift_library M) x29_0 x29_1 x29_2 = at_vendor (api_digest_final M x29_0 x29_1 x29_2)"
  "api_rsa_verify (lift_library M) x30_0 x30_1 x30_2 x30_3 x30_4 x30_5 = at_vendor (api_rsa_verify M x30_0 x30_1 x30_2 x30_3 x30_4 x30_5)"
  "api_set_symm_key (lift_library M) x31_0 x31_1 x31_2 x31_3 = at_vendor (api_set_symm_key M x31_0 x31_1 x31_2 x31_3)"
  "api_get_dev_info (lift_library M) x32_0 x32_1 = at_vendor (api_get_dev_info M x32_0 x32_1)"
  "api_get_dev_state (lift_library M) x33_0 x33_1 = at_vendor (api_get_dev_state M x33_0 x33_1)"
  "api_set_label (lift_library M) x34_0 x34_1 = at_vendor (api_set_label M x34_0 x34_1)"
  "api_ecc_verify (lift_library M) x35_0 x35_1 x35_2 x35_3 x35_4 = at_vendor (api_ecc_verify M x35_0 x35_1 x35_2 x35_3 x35_4)"
  "api_lock_dev (lift_library M) x36_0 x36_1 = at_vendor (api_lock_dev M x36_0 x36_1)"
  "api_unlock_dev (lift_library M) x37_0 = at_vendor (api_unlock_dev M x37_0)"
  "api_transmit (lift_library M) x38_0 x38_1 x38_2 x38_3 x38_4 = at_vendor (api_transmit M x38_0 x38_1 x38_2 x38_3 x38_4)"
  "api_close_hash (lift_library M) x39_0 = at_vendor (api_close_hash M x39_0)"
  by (simp_all add: api_defs lift_library_def fun_eq_iff ffi_def at_vendor_def)

lemma runs_at_vendor:
  "runs any_result R f \<Longrightarrow> runs any_result (\<lambda>w w'. heap w' = heap w \<and> R (vendor_state w) (vendor_state w')) (at_vendor f)"
  by (auto simp: runs_def at_vendor_def split: prod.splits)

lemma lift_library_respects:
  assumes "library_respects R M"
  shows "library_respects (\<lambda>w w'. heap w' = heap w \<and> R (vendor_state w) (vendor_state w')) (lift_library M)"
  unfolding library_respects_def lift_library_calls
  by (intro conjI allI runs_at_vendor library_respectsD [OF assms])

text \<open>Every library whose clock does not run backwards can stand under the provider.\<close>

lemma lift_native_library:
  assumes "library_respects (\<lambda>t t'. now t \<le> now t') M"
  shows "native_library (lift_library M) now"
  by unfold_locales (rule library_respects_mono [OF lift_library_respects [OF assms]], simp add: framed_def)

interpretation native_token: native_library "lift_library token_library" "\<lambda>_. 0"
  by (rule lift_native_library) (simp add: library_respects_def runs_def)

interpretation native_token_contract:
  provider_contract "native_provider nm (lift_library token_library)" boxes_of "\<lambda>w. 0" for nm
  by (rule native_token.native_contract)

text \<open>The service around such libraries: the default provider owns the library of one path, every other
  alias is served through the library of its own.\<close>

definition native_context ::
  "(string \<Rightarrow> 't skf_lib) \<Rightarrow> ('t \<Rightarrow> instant) \<Rightarrow> skf_config \<Rightarrow> string
    \<Rightarrow> ('t native_world, native_device, native_application, native_container, native_digest) skf_context" where
  "native_context M now config path =
    \<lparr>sk_runtime = plain_runtime\<lparr>rt_codec := std_codec\<rparr>, sk_config = config,
     sk_provider = native_provider (cfg_default config) (lift_library (M path)),
     sk_os = ''linux'', sk_arch = ''x86_64'', sk_cached = \<lambda>_ _. None, sk_cache_insert = \<lambda>_ _ w. w,
     sk_dlopen = \<lambda>_ w. (None, w), sk_dlclose = \<lambda>_ w. w, sk_library = \<lambda>path. lift_library (M path),
     sk_from_api = native_provider, sk_clock = vendor_clock now, sk_micros = \<lambda>w. Some (vendor_clock now w div 1000),
     sk_write_csr = \<lambda>_ w. w, sk_x509 = \<lambda>_. None, sk_issuer = readonly_issuer\<rparr>"

lemma native_dispatcher:
  assumes "\<And>path. native_library (lift_library (M path)) now"
  shows "dispatcher_contract (native_context M now config path) boxes_of"
proof -
  let ?K = "native_context M now config path"
  note quiet = native_library.quiet [OF assms] and native = native_library.native_contract [OF assms]
  show ?thesis
  proof (intro dispatcher_contract.intro direct_contract.intro dispatcher_contract_axioms.intro)
    show "issuer_respects (\<lambda>_. kept boxes_of (sk_clock ?K)) (sk_issuer ?K)"
      by (simp add: native_context_def readonly_respects kept_def)
  qed (simp_all add: native_context_def keeps_def quiet native)
qed

interpretation native_token_dispatcher:
  dispatcher_contract "native_context (\<lambda>_. token_library) (\<lambda>_. 0) config path" boxes_of for config path
  by (rule native_dispatcher) (rule native_token.native_library_axioms)

end
