(* ===== verification/NativeGuards.thy ===== *)
theory NativeGuards
  imports Native
begin

text \<open>
  What the reference counts of the native guards achieve. As long as the service uses a guard only
  while it holds it, which the Rust types enforce, the handles open in the library are those of the
  allocated objects: every object keeps its parents allocated, so a handle is closed before the one
  it was opened through, and each handle once. No method takes the gate while it holds it.
\<close>

section \<open>Objects and what they share\<close>

primrec raw_of :: "native_object \<Rightarrow> raw_resource" where
  "raw_of (ResDevice d) = RawDevice (nd_raw d)"
| "raw_of (ResApplication a) = RawApplication (na_raw a)"
| "raw_of (ResContainer c) = RawContainer (nc_raw c)"
| "raw_of (ResDigest g) = RawHash (nh_raw g)"

primrec raw_value :: "native_object \<Rightarrow> u64" where
  "raw_value (ResDevice d) = nd_raw d"
| "raw_value (ResApplication a) = na_raw a"
| "raw_value (ResContainer c) = nc_raw c"
| "raw_value (ResDigest g) = nh_raw g"

primrec parent_of :: "native_object \<Rightarrow> native_object option" where
  "parent_of (ResDevice d) = None"
| "parent_of (ResApplication a) = Some (ResDevice (na_device a))"
| "parent_of (ResContainer c) = Some (ResApplication (nc_application c))"
| "parent_of (ResDigest g) = Some (ResDevice (nh_device g))"

text \<open>An object with everything it was opened through.\<close>

primrec chain_of :: "native_object \<Rightarrow> native_object list" where
  "chain_of (ResDevice d) = [ResDevice d]"
| "chain_of (ResApplication a) = [ResApplication a, ResDevice (na_device a)]"
| "chain_of (ResContainer c) =
    [ResContainer c, ResApplication (nc_application c), ResDevice (na_device (nc_application c))]"
| "chain_of (ResDigest g) = [ResDigest g, ResDevice (nh_device g)]"

definition sharers :: "native_object \<Rightarrow> native_object list \<Rightarrow> nat" where
  "sharers x os = length (filter (\<lambda>y. parent_of y = Some x) os)"

abbreviation parents :: "native_object \<Rightarrow> native_object multiset" where
  "parents x \<equiv> (case parent_of x of None \<Rightarrow> {#} | Some p \<Rightarrow> {#p#})"

lemma parent_neq [simp]: "parent_of x \<noteq> Some x"
  by (cases x) auto

lemma sharers_simps [simp]:
  "sharers x [] = 0"
  "sharers x (y # os) = (if parent_of y = Some x then Suc (sharers x os) else sharers x os)"
  "sharers x (os @ os') = sharers x os + sharers x os'"
  by (simp_all add: sharers_def)

lemma sharers_0_iff: "sharers x os = 0 \<longleftrightarrow> (\<forall>y \<in> set os. parent_of y \<noteq> Some x)"
  by (auto simp: sharers_def filter_empty_conv)

section \<open>The heap\<close>

text \<open>Every object has as many references as there are references outside the heap and objects that
  share it, and at least one; what an object shares is allocated.\<close>

definition counted :: "native_object multiset \<Rightarrow> native_heap \<Rightarrow> native_object \<Rightarrow> bool" where
  "counted R h x \<longleftrightarrow> strong h (addr_of x) = count R x + sharers x (objects h) \<and> 0 < strong h (addr_of x)"

definition sound_heap :: "native_object multiset \<Rightarrow> native_heap \<Rightarrow> bool" where
  "sound_heap R h \<longleftrightarrow>
    distinct (map addr_of (objects h)) \<and> set_mset R \<subseteq> set (objects h)
    \<and> (\<forall>x \<in> set (objects h).
        addr_of x < next_addr h \<and> raw_value x \<noteq> 0 \<and> (\<forall>p. parent_of x = Some p \<longrightarrow> p \<in> set (objects h))
        \<and> counted R h x)"

lemma sound_heapD:
  assumes "sound_heap R h"
  shows "distinct (map addr_of (objects h))" "x \<in># R \<Longrightarrow> x \<in> set (objects h)"
    "x \<in> set (objects h) \<Longrightarrow> addr_of x < next_addr h" "x \<in> set (objects h) \<Longrightarrow> raw_value x \<noteq> 0"
    "x \<in> set (objects h) \<Longrightarrow> parent_of x = Some p \<Longrightarrow> p \<in> set (objects h)"
    "x \<in> set (objects h) \<Longrightarrow> strong h (addr_of x) = count R x + sharers x (objects h)"
    "x \<in> set (objects h) \<Longrightarrow> 0 < strong h (addr_of x)"
  using assms unfolding sound_heap_def counted_def by auto

lemma same_addr:
  assumes "sound_heap R h" "x \<in> set (objects h)" "y \<in> set (objects h)" "addr_of x = addr_of y"
  shows "x = y"
  using sound_heapD(1) [OF assms(1)] assms(2-) by (simp add: distinct_map inj_on_def)

lemma sound_heap_cong:
  assumes "sound_heap R h" "objects h' = objects h" "strong h' = strong h" "next_addr h' = next_addr h"
  shows "sound_heap R h'"
  using assms(1) unfolding sound_heap_def counted_def assms(2-) .

lemma sound_heapI:
  assumes "distinct (map addr_of (objects h))" "set_mset R \<subseteq> set (objects h)"
    and "\<And>x. x \<in> set (objects h) \<Longrightarrow> addr_of x < next_addr h" "\<And>x. x \<in> set (objects h) \<Longrightarrow> raw_value x \<noteq> 0"
    and "\<And>x p. x \<in> set (objects h) \<Longrightarrow> parent_of x = Some p \<Longrightarrow> p \<in> set (objects h)"
    and "\<And>x. x \<in> set (objects h) \<Longrightarrow> counted R h x"
  shows "sound_heap R h"
  unfolding sound_heap_def using assms by blast

text \<open>A new object, sharing one of those allocated.\<close>

lemma sound_heap_new:
  assumes sound: "sound_heap R h" and fresh: "addr_of x = next_addr h" and nz: "raw_value x \<noteq> 0"
    and p: "\<And>p. parent_of x = Some p \<Longrightarrow> p \<in> set (objects h)"
    and h': "objects h' = x # objects h" "next_addr h' = Suc (next_addr h)"
      "strong h' = (case parent_of x of None \<Rightarrow> strong h
         | Some p \<Rightarrow> (strong h)(addr_of p := strong h (addr_of p) + 1))(addr_of x := 1)"
  shows "sound_heap (add_mset x R) h'"
proof -
  note D = sound_heapD [OF sound]
  have new: "x \<notin> set (objects h)" "x \<notin># R" using D(2,3) fresh by (metis less_irrefl)+
  have x: "sharers x (objects h') = 0" using D(5) new(1) by (auto simp: sharers_0_iff h')
  have old: "counted (add_mset x R) h' y"
    if y: "y \<in> set (objects h)" for y
  proof (cases "parent_of x")
    case None
    then show ?thesis using D(3,6,7) [OF y] fresh new y by (auto simp: h' not_in_iff counted_def)
  next
    case (Some q)
    have "addr_of y = addr_of q \<longleftrightarrow> y = q" using same_addr [OF sound y p [OF Some]] by blast
    then show ?thesis using D(3,6,7) [OF y] D(3) [OF p [OF Some]] Some fresh new y by (auto simp: h' counted_def)
  qed
  have newest: "counted (add_mset x R) h' x"
    using new(2) x by (simp add: h'(3) not_in_iff counted_def)
  show ?thesis
  proof (rule sound_heapI)
    show "distinct (map addr_of (objects h'))" using D(1,3) fresh by (force simp: h')
    show "counted (add_mset x R) h' y" if "y \<in> set (objects h')" for y
      using that newest old by (cases "y = x") (simp_all add: h'(1))
  qed (use D fresh nz p in \<open>auto simp: h'(1,2) less_Suc_eq\<close>)
qed

text \<open>The last reference goes: the object with it, and the reference it had to its parent is free.\<close>

lemma sound_heap_last:
  assumes sound: "sound_heap (add_mset x R) h" and last: "strong h (addr_of x) = 1"
    and h': "objects h' = remove1 x (objects h)" "next_addr h' = next_addr h" "strong h' = (strong h)(addr_of x := 0)"
  shows "sound_heap (R + parents x) h'" "x \<in> set (objects h)"
proof -
  note D = sound_heapD [OF sound]
  show x: "x \<in> set (objects h)" using D(2) by simp
  have none: "count R x = 0" "sharers x (objects h) = 0" using D(6) [OF x] last by simp_all
  obtain xs ys where os: "objects h = xs @ x # ys" "x \<notin> set xs" using split_list_first [OF x] by blast
  then have os': "objects h' = xs @ ys" by (simp add: h'(1) remove1_append)
  have gone: "x \<notin> set (objects h')" using D(1) by (auto simp: os os')
  have rest: "counted (R + parents x) h' y"
    if y: "y \<in> set (objects h')" for y
  proof -
    have in_h: "y \<in> set (objects h)" and "y \<noteq> x" using y gone by (auto simp: os os')
    moreover have "addr_of y \<noteq> addr_of x" using same_addr [OF sound in_h x] \<open>y \<noteq> x\<close> by blast
    ultimately show ?thesis
      using D(6,7) [OF in_h] by (auto simp: counted_def h'(3) os os' split: option.splits)
  qed
  have "p \<in> set (objects h')" if "parent_of x = Some p \<or> (\<exists>y \<in> set (objects h'). parent_of y = Some p)" for p
  proof -
    have "p \<in> set (objects h)" using that D(5) [OF x] D(5) by (auto simp: os os')
    moreover have "p \<noteq> x" using that none(2) by (auto simp: sharers_0_iff os os')
    ultimately show ?thesis by (auto simp: os os')
  qed
  moreover have "set_mset R \<subseteq> set (objects h')"
    using D(2) none(1) by (auto simp: os os' count_eq_zero_iff)
  moreover have "set (objects h') \<subseteq> set (objects h)" "distinct (map addr_of (objects h'))"
    using D(1) by (auto simp: os os')
  ultimately show "sound_heap (R + parents x) h'"
    using D(3,4) rest by (intro sound_heapI) (auto simp: h'(2) split: option.splits)
qed

text \<open>Another reference goes.\<close>

lemma sound_heap_shared:
  assumes sound: "sound_heap (add_mset x R) h" and more: "strong h (addr_of x) \<noteq> 1"
    and h': "objects h' = objects h" "next_addr h' = next_addr h"
      "strong h' = (strong h)(addr_of x := strong h (addr_of x) - 1)"
  shows "sound_heap R h'"
proof -
  note D = sound_heapD [OF sound]
  have x: "x \<in> set (objects h)" using D(2) by simp
  have "counted R h' y" if y: "y \<in> set (objects h)" for y
    using D(6,7) [OF y] D(7) [OF x] more same_addr [OF sound y x] by (cases "y = x") (auto simp: counted_def h')
  then show ?thesis using D(1-5) by (intro sound_heapI) (auto simp: h'(1,2))
qed

section \<open>The library behind the heap\<close>

text \<open>Beside what was open before, the library has the handles of the allocated objects open; the gate
  is free and was never taken twice.\<close>

definition guarded ::
  "('t \<Rightarrow> raw_resource multiset) \<Rightarrow> raw_resource multiset \<Rightarrow> native_object multiset \<Rightarrow> 't native_world \<Rightarrow> bool" where
  "guarded opened base R w \<longleftrightarrow>
    sound_heap R (heap w) \<and> opened (vendor_state w) = base + mset (map raw_of (objects (heap w)))
    \<and> \<not> gate_held (heap w) \<and> \<not> gate_stuck (heap w)"

lemma guarded_start: "guarded opened (opened t) {#} (native_start t)"
  by (simp add: guarded_def native_start_def sound_heap_def)

text \<open>A call under the gate: the heap comes back as the body left it.\<close>

lemma gate_heap: "heap (gate_lock w) = (heap w)\<lparr>gate_stuck := gate_stuck (heap w) \<or> gate_held (heap w), gate_held := True\<rparr>"
  "heap (gate_unlock w) = (heap w)\<lparr>gate_held := False\<rparr>"
  by (simp_all add: gate_lock_def gate_unlock_def)

definition steady :: "('t \<Rightarrow> raw_resource multiset) \<Rightarrow> ('t native_world \<Rightarrow> 'r \<times> 't native_world) \<Rightarrow> bool" where
  "steady opened f \<longleftrightarrow>
    (\<forall>w. heap (snd (f w)) = heap w \<and> opened (vendor_state (snd (f w))) = opened (vendor_state w))"

lemma steady_intros:
  "(\<And>c. steady opened (f c)) \<Longrightarrow> steady opened (with_cstring s ctxt f)"
  "steady opened g \<Longrightarrow> steady opened (native_status ctxt g)"
  "steady opened k \<Longrightarrow> steady opened (native_value ctxt v k)"
  "(\<And>b n. steady opened (enum b n)) \<Longrightarrow> steady opened (native_list ctxt enum)"
  by (simp_all add: steady_def with_cstring_def native_status_def native_value_def native_list_def
      read_name_list_def split_beta split: option.split)

lemma guarded_steady: "steady opened f \<Longrightarrow> guarded opened base R w \<Longrightarrow> guarded opened base R (snd (f w))"
  by (simp add: steady_def guarded_def)

lemma guarded_gated_steady:
  "steady opened f \<Longrightarrow> guarded opened base R w \<Longrightarrow> guarded opened base R (snd (gated f w))"
  by (auto simp: steady_def guarded_def gated_eq gate_heap intro: sound_heap_cong)

text \<open>Closing a handle that no object has any more.\<close>

lemma guarded_close_raw:
  assumes "guarded opened (add_mset (res hnd) base) R w" "hnd \<noteq> 0"
    and "raw_closes (\<lambda>w. opened (vendor_state w)) res close"
    and "\<And>h w. heap (snd (close h w)) = heap w"
  shows "guarded opened base R (close_raw hnd close w)"
  using assms
  by (auto simp: guarded_def close_raw_def gated_eq gate_heap raw_closes_def intro: sound_heap_cong)

lemma guarded_release:
  assumes inv: "guarded opened base (add_mset x R) w"
    and dropped: "\<And>w. guarded opened (add_mset (raw_of x) base) (R + parents x) w \<Longrightarrow> raw_value x \<noteq> 0
      \<Longrightarrow> guarded opened base R (dropped w)"
  shows "guarded opened base R (arc_release x dropped w)"
proof (cases "strong (heap w) (addr_of x) = 1")
  case True
  define v where "v = on_heap (\<lambda>h. h\<lparr>objects := remove1 x (objects h)\<rparr>)
    (on_heap (\<lambda>h. h\<lparr>strong := (strong h)(addr_of x := strong h (addr_of x) - 1)\<rparr>) w)"
  have sound: "sound_heap (add_mset x R) (heap w)" using inv by (simp add: guarded_def)
  have "sound_heap (R + parents x) (heap v)" and x: "x \<in> set (objects (heap w))"
    using sound_heap_last [OF sound True, of "heap v"] True by (simp_all add: v_def)
  moreover have "mset (map raw_of (objects (heap w))) = add_mset (raw_of x) (mset (map raw_of (objects (heap v))))"
    using x by (simp add: v_def image_mset_Diff [symmetric])
      (metis image_mset_add_mset insert_DiffM set_mset_mset)
  ultimately have "guarded opened (add_mset (raw_of x) base) (R + parents x) v"
    using inv by (simp add: guarded_def v_def)
  then show ?thesis
    using dropped sound_heapD(4) [OF sound x] True by (simp add: arc_release_def Let_def v_def)
next
  case False
  have "sound_heap (add_mset x R) (heap w)" using inv by (simp add: guarded_def)
  note sound_heap_shared [OF this False] and sound_heapD(7) [OF this, of x] and sound_heapD(2) [OF this, of x]
  then show ?thesis using inv False by (simp add: guarded_def arc_release_def Let_def)
qed

text \<open>A new object over a handle the library just opened.\<close>

lemma guarded_new:
  assumes inv: "sound_heap R (heap w)" "opened t = add_mset (raw_of x) (base + mset (map raw_of (objects (heap w))))"
    and x: "addr_of x = next_addr (heap w)" "raw_value x \<noteq> 0" "\<And>p. parent_of x = Some p \<Longrightarrow> p \<in># R"
    and w': "vendor_state w' = t" "objects (heap w') = x # objects (heap w)" "next_addr (heap w') = Suc (next_addr (heap w))"
      "strong (heap w') = (case parent_of x of None \<Rightarrow> strong (heap w)
         | Some p \<Rightarrow> (strong (heap w))(addr_of p := strong (heap w) (addr_of p) + 1))(addr_of x := 1)"
      "\<not> gate_held (heap w')" "\<not> gate_stuck (heap w')"
  shows "guarded opened base (add_mset x R) w'"
proof -
  have "sound_heap (add_mset x R) (heap w')"
    by (rule sound_heap_new [OF inv(1) x(1,2) _ w'(2-4)]) (use x(3) sound_heapD(2) [OF inv(1)] in blast)
  then show ?thesis using inv(2) w' by (simp add: guarded_def)
qed

section \<open>A client of the trait\<close>

text \<open>One call of a service that owns its guards: it may call what it holds, and drops what it holds once.\<close>

inductive client_step ::
  "('w, 'd, 'a, 'c, 'h) provider \<Rightarrow> ('w \<Rightarrow> ('d, 'a, 'c, 'h) resource multiset) \<Rightarrow> 'w \<Rightarrow> 'w \<Rightarrow> bool"
  for P live where
  EnumDevices: "client_step P live w (snd (enum_devices P b w))"
| DeviceState: "client_step P live w (snd (device_state P s w))"
| WaitForEvent: "client_step P live w (snd (wait_for_event P n w))"
| Cancel: "client_step P live w (snd (cancel_wait_for_event P w))"
| OpenDevice: "client_step P live w (snd (open_device P s w))"
| DevState: "ResDevice d \<in># live w \<Longrightarrow> client_step P live w (snd (dev_state P d w))"
| Lock: "ResDevice d \<in># live w \<Longrightarrow> client_step P live w (snd (dev_lock P d du w))"
| Unlock: "ResDevice d \<in># live w \<Longrightarrow> client_step P live w (snd (dev_unlock P d w))"
| Transmit: "ResDevice d \<in># live w \<Longrightarrow> client_step P live w (snd (dev_transmit P d bs w))"
| Random: "ResDevice d \<in># live w \<Longrightarrow> client_step P live w (snd (dev_random P d n w))"
| Info: "ResDevice d \<in># live w \<Longrightarrow> client_step P live w (snd (dev_info P d w))"
| SetLabel: "ResDevice d \<in># live w \<Longrightarrow> client_step P live w (snd (dev_set_label P d s w))"
| EnumContainers: "ResApplication a \<in># live w \<Longrightarrow> client_step P live w (snd (enum_containers P a w))"
| VerifyPin: "ResApplication a \<in># live w \<Longrightarrow> client_step P live w (snd (verify_pin P a s w))"
| DeleteContainer: "ResApplication a \<in># live w \<Longrightarrow> client_step P live w (snd (delete_container P a s w))"
| ContainerType: "ResContainer c \<in># live w \<Longrightarrow> client_step P live w (snd (container_type P c w))"
| ExportCertificate: "ResContainer c \<in># live w \<Longrightarrow> client_step P live w (snd (export_certificate P c b w))"
| ImportCertificate: "ResContainer c \<in># live w \<Longrightarrow> client_step P live w (snd (import_certificate P c b bs w))"
| SignEcc: "ResContainer c \<in># live w \<Longrightarrow> client_step P live w (snd (sign_ecc P c bs w))"
| SignRsa: "ResContainer c \<in># live w \<Longrightarrow> client_step P live w (snd (sign_rsa P c bs w))"
| GenEcc: "ResContainer c \<in># live w \<Longrightarrow> client_step P live w (snd (gen_ecc_key_pair P c n32 w))"
| GenRsa: "ResContainer c \<in># live w \<Longrightarrow> client_step P live w (snd (gen_rsa_key_pair P c n32 w))"
| SetSymmKey: "ResContainer c \<in># live w \<Longrightarrow> client_step P live w (snd (set_symm_key P c n32 bs w))"
| Encrypt: "ResContainer c \<in># live w \<Longrightarrow> client_step P live w (snd (encrypt P c n32 iv pd bs w))"
| Decrypt: "ResContainer c \<in># live w \<Longrightarrow> client_step P live w (snd (decrypt P c n32 iv pd bs w))"
| Update: "ResDigest g \<in># live w \<Longrightarrow> client_step P live w (snd (dig_update P g bs w))"
| Finalize: "ResDigest g \<in># live w \<Longrightarrow> client_step P live w (snd (dig_finalize P g w))"
| OpenApplication: "ResDevice d \<in># live w \<Longrightarrow> client_step P live w (snd (open_application P d s w))"
| BeginDigest: "ResDevice d \<in># live w \<Longrightarrow> client_step P live w (snd (begin_digest P d n32 bs w))"
| BeginDigestKey: "ResDevice d \<in># live w \<Longrightarrow> client_step P live w (snd (begin_digest_with_key P d n32 bs k w))"
| OpenContainer: "ResApplication a \<in># live w \<Longrightarrow> client_step P live w (snd (open_container P a s w))"
| CreateContainer: "ResApplication a \<in># live w \<Longrightarrow> client_step P live w (snd (create_container P a s w))"
| DropDevice: "ResDevice d \<in># live w \<Longrightarrow> client_step P live w (drop_device P d w)"
| DropApplication: "ResApplication a \<in># live w \<Longrightarrow> client_step P live w (drop_application P a w)"
| DropContainer: "ResContainer c \<in># live w \<Longrightarrow> client_step P live w (drop_container P c w)"
| DropDigest: "ResDigest g \<in># live w \<Longrightarrow> client_step P live w (drop_digest P g w)"

section \<open>The guards over a library that keeps its promises\<close>

text \<open>Beside the ledger of the interface: a handle that a successful call returns is not null.\<close>

locale native_ledger = native_library L now
  for L :: "'t native_world skf_lib" and now :: "'t \<Rightarrow> instant" +
  fixes opened :: "'t \<Rightarrow> raw_resource multiset"
  assumes ledger: "library_ledger (\<lambda>w. opened (vendor_state w)) L"
    and nonnull:
      "fst (api_connect_dev L s 0 w) \<noteq> (SAR_OK, 0)" "fst (api_open_application L hdev s 0 w) \<noteq> (SAR_OK, 0)"
      "fst (api_open_container L happ s 0 w) \<noteq> (SAR_OK, 0)" "fst (api_create_container L happ s 0 w) \<noteq> (SAR_OK, 0)"
      "fst (api_digest_init L hdev alg key ident n 0 w) \<noteq> (SAR_OK, 0)"
begin

lemma steadyI:
  assumes "raw_keeps (\<lambda>w. opened (vendor_state w)) f" "runs any_result (framed now) f"
  shows "steady opened f"
  using assms unfolding steady_def raw_keeps_def runs_def framed_def by (metis prod.collapse)

lemma steady_calls:
  "steady opened (api_wait_for_dev_event L b n e)"
  "steady opened (api_cancel_wait_for_dev_event L)"
  "steady opened (api_enum_dev L f ob n)"
  "steady opened (api_gen_random L h b n)"
  "steady opened (api_enum_container L h ob n)"
  "steady opened (api_export_certificate L h f ob n)"
  "steady opened (api_verify_pin L h n s m)"
  "steady opened (api_ecc_sign_data L h b n sg)"
  "steady opened (api_get_container_type L h n)"
  "steady opened (api_rsa_sign_data L h b n b' m)"
  "steady opened (api_gen_ecc_key_pair L h n ek)"
  "steady opened (api_gen_rsa_key_pair L h n rk)"
  "steady opened (api_delete_container L h s)"
  "steady opened (api_import_certificate L h f b n)"
  "steady opened (api_encrypt_data L h a b n cp b' m)"
  "steady opened (api_decrypt_data L h a b n cp b' m)"
  "steady opened (api_digest_update L h b n)"
  "steady opened (api_digest_final L h b n)"
  "steady opened (api_set_symm_key L h a b n)"
  "steady opened (api_get_dev_info L h i)"
  "steady opened (api_get_dev_state L s n)"
  "steady opened (api_set_label L h s)"
  "steady opened (api_lock_dev L h n)"
  "steady opened (api_unlock_dev L h)"
  "steady opened (api_transmit L h b n b' m)"
  by (intro steadyI library_ledger_keeps [OF ledger] library_respectsD [OF frame])+

lemma heap_frame: "runs any_result (framed now) f \<Longrightarrow> heap (snd (f w)) = heap w"
  unfolding runs_def framed_def by (metis prod.collapse)

lemmas heap_calls = heap_frame [OF library_respectsD(4) [OF frame]] heap_frame [OF library_respectsD(5) [OF frame]]
  heap_frame [OF library_respectsD(8) [OF frame]] heap_frame [OF library_respectsD(9) [OF frame]]
  heap_frame [OF library_respectsD(11) [OF frame]] heap_frame [OF library_respectsD(12) [OF frame]]
  heap_frame [OF library_respectsD(18) [OF frame]] heap_frame [OF library_respectsD(20) [OF frame]]
  heap_frame [OF library_respectsD(40) [OF frame]]

lemma guarded_queries:
  assumes "guarded opened base R w"
  shows "guarded opened base R (snd (native_dev_state L d w))"
    "guarded opened base R (snd (native_lock L d du w))"
    "guarded opened base R (snd (native_unlock L d w))"
    "guarded opened base R (snd (native_transmit L d bs w))"
    "guarded opened base R (snd (native_random L d n w))"
    "guarded opened base R (snd (native_info L d w))"
    "guarded opened base R (snd (native_set_label L d s w))"
    "guarded opened base R (snd (native_enum_containers L a w))"
    "guarded opened base R (snd (native_delete_container L a s w))"
    "guarded opened base R (snd (native_container_type L c w))"
    "guarded opened base R (snd (native_export_certificate L c b w))"
    "guarded opened base R (snd (native_import_certificate L c b bs w))"
    "guarded opened base R (snd (native_sign_ecc L c bs w))"
    "guarded opened base R (snd (native_gen_ecc_key_pair L c n32 w))"
    "guarded opened base R (snd (native_gen_rsa_key_pair L c n32 w))"
    "guarded opened base R (snd (native_sign_rsa L c bs w))"
    "guarded opened base R (snd (native_set_symm_key L c n32 bs w))"
    "guarded opened base R (snd (native_encrypt L c n32 iv pd bs w))"
    "guarded opened base R (snd (native_decrypt L c n32 iv pd bs w))"
    "guarded opened base R (snd (native_update L g bs w))"
    "guarded opened base R (snd (native_finalize L g w))"
    "guarded opened base R (snd (native_enum_devices L b w))"
    "guarded opened base R (snd (native_device_state L s w))"
    "guarded opened base R (snd (native_wait_for_event L n w))"
    "guarded opened base R (snd (native_cancel_wait_for_event L w))"
  unfolding native_op_defs Let_def
  by (rule guarded_gated_steady guarded_steady, (intro steady_intros steady_calls)[1], rule assms)+

lemma guarded_verify_pin:
  assumes "guarded opened base R w"
  shows "guarded opened base R (snd (native_verify_pin L a pin w))"
proof -
  have k: "steady opened (\<lambda>w. case api_verify_pin L (na_raw a) 1 c 0 w of
      ((ret, retry), w) \<Rightarrow> (Inr \<lparr>pin_success = (ret = SAR_OK), retry_count = retry, pin_code = ret\<rparr>, w))" for c
    using steady_calls(7) by (simp add: steady_def split_beta)
  show ?thesis
    unfolding native_verify_pin_def by (rule guarded_gated_steady [OF steady_intros(1) assms], rule k)
qed

text \<open>Releasing a reference.\<close>

lemma guarded_release_device:
  "guarded opened base (add_mset (ResDevice d) R) w \<Longrightarrow> guarded opened base R (release_device L d w)"
  unfolding release_device_def drop_NativeDevice_def
  by (erule guarded_release) (auto intro!: guarded_close_raw [where res = RawDevice] library_ledgerD [OF ledger] heap_calls)

lemma guarded_release_application:
  "guarded opened base (add_mset (ResApplication a) R) w \<Longrightarrow> guarded opened base R (release_application L a w)"
  unfolding release_application_def drop_NativeApplication_def
  by (erule guarded_release)
    (auto intro!: guarded_release_device guarded_close_raw [where res = RawApplication] library_ledgerD [OF ledger] heap_calls)

lemma guarded_release_container:
  "guarded opened base (add_mset (ResContainer c) R) w \<Longrightarrow> guarded opened base R (release_container L c w)"
  unfolding release_container_def drop_NativeContainer_def
  by (erule guarded_release)
    (auto intro!: guarded_release_application guarded_close_raw [where res = RawContainer] library_ledgerD [OF ledger] heap_calls)

lemma guarded_release_digest:
  "guarded opened base (add_mset (ResDigest g) R) w \<Longrightarrow> guarded opened base R (release_digest L g w)"
  unfolding release_digest_def drop_NativeDigest_def
  by (erule guarded_release)
    (auto intro!: guarded_release_device guarded_close_raw [where res = RawHash] library_ledgerD [OF ledger] heap_calls)

text \<open>Opening: the new guard joins the references that the service holds.\<close>

lemma opened_by:
  assumes "raw_opens (\<lambda>w. opened (vendor_state w)) res f" "heap (snd (f (gate_lock w))) = heap (gate_lock w)"
    and "f (gate_lock w) = ((ret, hnd), w')" "guarded opened base R w"
  shows "heap w' = (heap w)\<lparr>gate_held := True\<rparr>"
    "opened (vendor_state w') = (if ret = SAR_OK then add_mset (res hnd) (opened (vendor_state w)) else opened (vendor_state w))"
  using assms by (auto simp: raw_opens_def gate_heap guarded_def)

lemma guarded_native_open:
  assumes inv: "guarded opened base R w"
    and f: "raw_opens (\<lambda>w. opened (vendor_state w)) raw_res f" "heap (snd (f (gate_lock w))) = heap (gate_lock w)"
      "fst (f (gate_lock w)) \<noteq> (SAR_OK, 0)"
    and number: "number = next_device_handle \<or> number = next_child_handle"
    and mk: "\<And>n hnd e. addr_of (res (mk n hnd e)) = n" "\<And>n hnd e. raw_of (res (mk n hnd e)) = raw_res hnd"
      "\<And>n hnd e. raw_value (res (mk n hnd e)) = hnd"
    and parent: "\<And>n hnd e. map_option addr_of (parent_of (res (mk n hnd e))) = parent"
      "\<And>n hnd e p. parent_of (res (mk n hnd e)) = Some p \<Longrightarrow> p \<in># R"
  shows "guarded opened base
    (case fst (gated (native_open ctxt mk res parent number f) w) of Inl _ \<Rightarrow> R | Inr g \<Rightarrow> add_mset (res g) R)
    (snd (gated (native_open ctxt mk res parent number f) w))"
proof -
  obtain ret hnd w' where call: "f (gate_lock w) = ((ret, hnd), w')" by (metis surj_pair)
  note after = opened_by [OF f(1,2) call inv]
  show ?thesis
  proof (cases "ret = SAR_OK")
    case False
    then show ?thesis
      using after inv call
      by (auto simp: gated_eq native_open_def guarded_def gate_heap intro: sound_heap_cong)
  next
    case True
    obtain e where e: "fst (number w') = e" by blast
    define x where "x = res (mk (next_addr (heap w)) hnd e)"
    define v where "v = snd (gated (native_open ctxt mk res parent number f) w)"
    have run: "gated (native_open ctxt mk res parent number f) w = (Inr (mk (next_addr (heap w)) hnd e), v)"
      using call True number after(1) e
      by (auto simp: v_def gated_eq native_open_def Let_def split_beta next_device_handle_def next_child_handle_def)
    have "guarded opened base (add_mset x R) v"
    proof (rule guarded_new [of R w opened "vendor_state w'" x base v])
      show "strong (heap v) = (case parent_of x of None \<Rightarrow> strong (heap w)
         | Some p \<Rightarrow> (strong (heap w))(addr_of p := strong (heap w) (addr_of p) + 1))(addr_of x := 1)"
        using call True number after(1) e parent(1) [of "next_addr (heap w)" hnd e]
        by (auto simp: v_def x_def gated_eq native_open_def Let_def split_beta next_device_handle_def
            next_child_handle_def arc_new_def arc_clone_def gate_heap mk split: option.splits)
    qed (use call True number after e f(3) inv mk parent(2) in
      \<open>auto simp: v_def x_def gated_eq native_open_def Let_def split_beta next_device_handle_def
          next_child_handle_def arc_new_def arc_clone_def gate_heap guarded_def split: option.split\<close>)
    then show ?thesis using run by (simp add: x_def)
  qed
qed

lemma guarded_with_cstring:
  assumes "guarded opened base R w"
    and "\<And>c. guarded opened base (case fst (gated (f c) w) of Inl _ \<Rightarrow> R | Inr g \<Rightarrow> add_mset (res g) R) (snd (gated (f c) w))"
  shows "guarded opened base (case fst (gated (with_cstring s ctxt f) w) of Inl _ \<Rightarrow> R | Inr g \<Rightarrow> add_mset (res g) R)
    (snd (gated (with_cstring s ctxt f) w))"
proof (cases "cstring s")
  case None
  then show ?thesis
    using assms(1) by (auto simp: gated_eq with_cstring_def guarded_def gate_heap intro: sound_heap_cong)
next
  case (Some c)
  then have "gated (with_cstring s ctxt f) w = gated (f c) w" by (simp add: gated_eq with_cstring_def)
  then show ?thesis using assms(2) [of c] by simp
qed

lemma guarded_opens:
  assumes inv: "guarded opened base R w"
  shows "guarded opened base (case fst (native_open_device L s w) of Inl _ \<Rightarrow> R | Inr d \<Rightarrow> add_mset (ResDevice d) R)
      (snd (native_open_device L s w))"
    "ResDevice d \<in># R \<Longrightarrow> guarded opened base
      (case fst (native_open_application L d s w) of Inl _ \<Rightarrow> R | Inr a \<Rightarrow> add_mset (ResApplication a) R)
      (snd (native_open_application L d s w))"
    "ResApplication a \<in># R \<Longrightarrow> guarded opened base
      (case fst (native_open_container L a s w) of Inl _ \<Rightarrow> R | Inr c \<Rightarrow> add_mset (ResContainer c) R)
      (snd (native_open_container L a s w))"
    "ResApplication a \<in># R \<Longrightarrow> guarded opened base
      (case fst (native_create_container L a s w) of Inl _ \<Rightarrow> R | Inr c \<Rightarrow> add_mset (ResContainer c) R)
      (snd (native_create_container L a s w))"
    "ResDevice d \<in># R \<Longrightarrow> guarded opened base
      (case fst (begin_digest_impl L d alg bs key w) of Inl _ \<Rightarrow> R | Inr g \<Rightarrow> add_mset (ResDigest g) R)
      (snd (begin_digest_impl L d alg bs key w))"
  unfolding native_open_device_def native_open_application_def native_open_container_def
    native_create_container_def begin_digest_impl_def
  by ((rule guarded_with_cstring [OF inv])?, rule guarded_native_open [OF inv _ _ _ _ _ _ _ _ _],
      (rule library_ledgerD [OF ledger] heap_calls nonnull | simp)+)+

text \<open>Every call of the service keeps the books.\<close>

lemma guarded_drops:
  assumes "guarded opened base (boxes_of w) w"
  shows "ResDevice d \<in># boxes_of w \<Longrightarrow>
      guarded opened base (boxes_of w - {#ResDevice d#}) (release_device L d (unbox (ResDevice d) w))"
    "ResApplication a \<in># boxes_of w \<Longrightarrow>
      guarded opened base (boxes_of w - {#ResApplication a#}) (release_application L a (unbox (ResApplication a) w))"
    "ResContainer c \<in># boxes_of w \<Longrightarrow>
      guarded opened base (boxes_of w - {#ResContainer c#}) (release_container L c (unbox (ResContainer c) w))"
    "ResDigest g \<in># boxes_of w \<Longrightarrow>
      guarded opened base (boxes_of w - {#ResDigest g#}) (release_digest L g (unbox (ResDigest g) w))"
proof -
  have "guarded opened base (add_mset x (boxes_of w - {#x#})) (unbox x w)" if "x \<in># boxes_of w" for x
    using assms that by (auto simp: guarded_def unbox_def intro: sound_heap_cong)
  note this [THEN guarded_release_device] this [THEN guarded_release_application]
    this [THEN guarded_release_container] this [THEN guarded_release_digest]
  then show "ResDevice d \<in># boxes_of w \<Longrightarrow>
      guarded opened base (boxes_of w - {#ResDevice d#}) (release_device L d (unbox (ResDevice d) w))"
    "ResApplication a \<in># boxes_of w \<Longrightarrow>
      guarded opened base (boxes_of w - {#ResApplication a#}) (release_application L a (unbox (ResApplication a) w))"
    "ResContainer c \<in># boxes_of w \<Longrightarrow>
      guarded opened base (boxes_of w - {#ResContainer c#}) (release_container L c (unbox (ResContainer c) w))"
    "ResDigest g \<in># boxes_of w \<Longrightarrow>
      guarded opened base (boxes_of w - {#ResDigest g#}) (release_digest L g (unbox (ResDigest g) w))"
    by blast+
qed

lemma step_guarded:
  assumes "client_step (native_provider nm L) boxes_of w w'" "guarded opened base (boxes_of w) w"
  shows "guarded opened base (boxes_of w') w'"
proof -
  note keep = native_keeps [unfolded keeps_def, rule_format, THEN conjunct1]
    native_verify_pin_keeps [unfolded keeps_def, rule_format, THEN conjunct1]
  note open_ = native_opens [unfolded opens_def, rule_format, THEN conjunct2]
  note drop_ = native_closes [unfolded closes_def, rule_format, THEN conjunct1]
  show ?thesis
    using assms
    by (cases rule: client_step.cases)
      (simp_all add: native_provider_def keep open_ drop_ guarded_queries guarded_verify_pin guarded_opens guarded_drops)
qed

lemma run_guarded:
  assumes "(client_step (native_provider nm L) boxes_of)\<^sup>*\<^sup>* w w'" "guarded opened base (boxes_of w) w"
  shows "guarded opened base (boxes_of w') w'"
  using assms by (induction rule: rtranclp_induct) (simp_all add: step_guarded)

end

text \<open>Consequences for what is held.\<close>

lemma distinct_mset_subset:
  assumes "distinct xs" "set xs \<subseteq> set ys"
  shows "mset xs \<subseteq># mset ys"
proof (rule mset_subset_eqI)
  fix a
  show "count (mset xs) a \<le> count (mset ys) a"
    using assms by (cases "a \<in> set xs") (auto simp: distinct_count_atmost_1 Suc_le_eq count_greater_zero_iff not_in_iff)
qed

lemma chain_open:
  assumes "guarded opened base R w" "x \<in># R"
  shows "mset (map raw_of (chain_of x)) \<subseteq># opened (vendor_state w)"
proof -
  have sound: "sound_heap R (heap w)" using assms(1) by (simp add: guarded_def)
  note in_x = sound_heapD(2) [OF sound assms(2)] and up = sound_heapD(5) [OF sound]
  have in_heap: "set (chain_of x) \<subseteq> set (objects (heap w))"
  proof (cases x)
    case (ResContainer c)
    then have "ResApplication (nc_application c) \<in> set (objects (heap w))" using up [OF in_x] by simp
    then show ?thesis using up [of "ResApplication (nc_application c)"] in_x ResContainer by simp
  qed (use up [OF in_x] in_x in simp_all)
  have "distinct (chain_of x)" by (cases x) auto
  then have "mset (chain_of x) \<subseteq># mset (objects (heap w))"
    using in_heap by (rule distinct_mset_subset)
  then have "mset (map raw_of (chain_of x)) \<subseteq># mset (map raw_of (objects (heap w)))"
    by (simp add: image_mset_subseteq_mono)
  then show ?thesis using assms(1) by (simp add: guarded_def subset_mset.add_increasing)
qed

lemma none_held:
  assumes "guarded opened base {#} w"
  shows "objects (heap w) = []"
proof (rule ccontr)
  assume ne: "objects (heap w) \<noteq> []"
  have sound: "sound_heap {#} (heap w)" using assms by (simp add: guarded_def)
  define rank where "rank = (\<lambda>x::native_object. length (chain_of x))"
  obtain x where x: "x \<in> set (objects (heap w))" and top: "\<And>y. y \<in> set (objects (heap w)) \<Longrightarrow> rank y \<le> rank x"
    using ne Max_in [of "rank ` set (objects (heap w))"] Max_ge [of "rank ` set (objects (heap w))"] by fastforce
  have "0 < sharers x (objects (heap w))" using sound_heapD(6,7) [OF sound x] by simp
  then obtain y where "y \<in> set (objects (heap w))" "parent_of y = Some x"
    using sharers_0_iff [of x "objects (heap w)"] by auto
  moreover from this(2) have "rank y = Suc (rank x)" by (cases y) (auto simp: rank_def)
  ultimately show False using top by fastforce
qed

section \<open>Under the token\<close>

lemma lift_opens: "raw_opens opened res f \<Longrightarrow> raw_opens (\<lambda>w. opened (vendor_state w)) res (at_vendor f)"
  by (auto simp: raw_opens_def at_vendor_def split: prod.splits)

lemma lift_closes: "raw_closes opened res f \<Longrightarrow> raw_closes (\<lambda>w. opened (vendor_state w)) res (\<lambda>h. at_vendor (f h))"
  by (simp add: raw_closes_def at_vendor_def split_beta)

lemma lift_keeps: "raw_keeps opened f \<Longrightarrow> raw_keeps (\<lambda>w. opened (vendor_state w)) (at_vendor f)"
  by (auto simp: raw_keeps_def runs_def at_vendor_def split: prod.splits)

lemma lift_ledger:
  assumes "library_ledger opened M"
  shows "library_ledger (\<lambda>w. opened (vendor_state w)) (lift_library M)"
proof -
  have eta: "api_dis_connect_dev (lift_library M) = (\<lambda>h. at_vendor (api_dis_connect_dev M h))"
    "api_close_application (lift_library M) = (\<lambda>h. at_vendor (api_close_application M h))"
    "api_close_container (lift_library M) = (\<lambda>h. at_vendor (api_close_container M h))"
    "api_close_hash (lift_library M) = (\<lambda>h. at_vendor (api_close_hash M h))"
    by (simp_all add: fun_eq_iff)
  show ?thesis
    unfolding library_ledger_def eta lift_library_calls
    by (intro conjI allI lift_opens lift_closes lift_keeps library_ledgerD [OF assms] library_ledger_keeps [OF assms])
qed

lemma token_more_calls [simp]:
  "api_open_container token_library a s h w = ((SAR_OK, 1), add_mset (RawContainer 1) w)"
  "api_create_container token_library a s h w = ((SAR_OK, 1), add_mset (RawContainer 1) w)"
  "api_digest_init token_library d alg key ident n h w = ((SAR_OK, 1), add_mset (RawHash 1) w)"
  by (simp_all add: api_defs ffi_def token_library_def refusing_library_def)

interpretation native_token_ledger: native_ledger "lift_library token_library" "\<lambda>_. 0" "\<lambda>t. t"
proof unfold_locales
  show "library_ledger vendor_state (lift_library token_library)"
    using lift_ledger [OF token_library_ledger] .
qed (simp_all add: at_vendor_def)

text \<open>A device, an application on it, and the device dropped first.\<close>

abbreviation token_provider :: "raw_resource multiset native_skf_provider" where
  "token_provider \<equiv> native_provider ''GM'' (lift_library token_library)"

definition dropped_early :: "raw_resource multiset native_world" where
  "dropped_early =
    (case open_device token_provider ''dev'' (native_start {#}) of
      (Inr d, w) \<Rightarrow> drop_device token_provider d (snd (open_application token_provider d ''app'' w))
    | (_, w) \<Rightarrow> w)"

section \<open>Properties\<close>

text \<open>C5: What the service holds of the token is open: while a guard is held, its handle and every handle it
  was opened through are open in the library, in whatever order guards were dropped; beside those
  of the objects still referenced nothing is open that was not open before, and when no guard is
  held the library is back where it started.\<close>

theorem native_guards_own_handles:
  assumes "native_ledger L now opened"
    and "(client_step (native_provider nm L) boxes_of)\<^sup>*\<^sup>* (native_start t) w"
  shows "opened (vendor_state w) = opened t + mset (map raw_of (objects (heap w)))
    \<and> (\<forall>x \<in># boxes_of w. mset (map raw_of (chain_of x)) \<subseteq># opened (vendor_state w))
    \<and> (boxes_of w = {#} \<longrightarrow> opened (vendor_state w) = opened t)"
proof -
  have "guarded opened (opened t) (boxes_of (native_start t)) (native_start t)"
    using guarded_start [of opened t] by (simp add: native_start_def)
  note inv = native_ledger.run_guarded [OF assms this]
  have "boxes_of w = {#} \<Longrightarrow> objects (heap w) = []" using none_held inv by metis
  then show ?thesis using inv chain_open [OF inv] by (auto simp: guarded_def)
qed

theorem native_guards_own_handles_witness:
  "(\<exists>a. boxes_of dropped_early = {#ResApplication a#})
    \<and> {#RawApplication 1, RawDevice 1#} \<subseteq># vendor_state dropped_early"
proof -
  define d where "d = \<lparr>nd_addr = 0, nd_raw = 1, nd_name = ''dev'', nd_exposed = 1\<rparr>"
  define a where "a = \<lparr>na_addr = 1, na_device = d, na_raw = 1, na_exposed = 1000000\<rparr>"
  define w1 where "w1 = snd (open_device token_provider ''dev'' (native_start {#}))"
  define w2 where "w2 = snd (open_application token_provider d ''app'' w1)"
  note eval = native_provider_def native_open_device_def native_open_application_def native_open_def
    gated_eq with_cstring_def cstring_def next_device_handle_def next_child_handle_def arc_new_def arc_clone_def
    gate_lock_def gate_unlock_def native_start_def at_vendor_def Let_def
  have 1: "open_device token_provider ''dev'' (native_start {#}) = (Inr d, w1)"
    by (simp add: w1_def d_def eval)
  have 2: "boxes_of w1 = {#ResDevice d#}" "next_addr (heap w1) = 1" "next_nested (heap w1) = 1000000"
    "strong (heap w1) 0 = 1" "objects (heap w1) = [ResDevice d]"
    by (simp_all add: w1_def d_def eval)
  have 3: "open_application token_provider d ''app'' w1 = (Inr a, w2)"
    by (simp add: w2_def a_def eval 2)
  have 4: "boxes_of w2 = {#ResApplication a, ResDevice d#}" "strong (heap w2) 0 = 2"
    by (simp_all add: w2_def a_def eval 2) (simp add: d_def 2)
  have 5: "boxes_of (drop_device token_provider d w2) = {#ResApplication a#}"
    using native_token_contract.guard_closes(1) 4 by (simp add: closes_def)
  have run: "(client_step token_provider boxes_of)\<^sup>*\<^sup>* (native_start {#}) (drop_device token_provider d w2)"
    using client_step.OpenDevice [of token_provider boxes_of "native_start {#}" "''dev''"]
      client_step.OpenApplication [of d boxes_of w1 token_provider "''app''"]
      client_step.DropDevice [of d boxes_of w2 token_provider] 2 4
    unfolding 1 3 snd_conv by (auto intro: rtranclp.intros)
  have "dropped_early = drop_device token_provider d w2" by (simp add: dropped_early_def 1 w2_def)
  with native_guards_own_handles [OF native_token_ledger.native_ledger_axioms run] 5 show ?thesis
    by (auto simp: a_def d_def)
qed

text \<open>C16: No method of the provider or of its guards takes the gate while it holds it, so none of them waits for
  itself: neither inside a call nor when the last reference closes a handle and releases what it
  was opened through.\<close>

theorem native_gate_not_reentered:
  assumes "native_ledger L now opened"
    and "(client_step (native_provider nm L) boxes_of)\<^sup>*\<^sup>* (native_start t) w"
  shows "\<not> gate_stuck (heap w) \<and> \<not> gate_held (heap w)"
proof -
  have "guarded opened (opened t) (boxes_of (native_start t)) (native_start t)"
    using guarded_start [of opened t] by (simp add: native_start_def)
  from native_ledger.run_guarded [OF assms this] show ?thesis by (simp add: guarded_def)
qed

theorem native_gate_not_reentered_witness:
  "\<not> gate_stuck (heap (snd (open_device token_provider ''dev'' (native_start {#}))))"
proof -
  have "(client_step token_provider boxes_of)\<^sup>*\<^sup>* (native_start {#})
      (snd (open_device token_provider ''dev'' (native_start {#})))"
    by (rule r_into_rtranclp) (rule client_step.OpenDevice)
  from native_gate_not_reentered [OF native_token_ledger.native_ledger_axioms this] show ?thesis by simp
qed

end
