(* ===== verification/Books.thy ===== *)
theory Books
  imports NativeGuards Server
begin

text \<open>
  An invariant of the state behind the provider, carried through every request: a handler uses a guard
  only while it holds it, so whatever single calls on held guards keep is kept by the whole service.
  The rules are those of a program logic whose assertions are the guards at hand: an open scope adds
  its guard to them, and each call needs its own among them.
\<close>

section \<open>Handlers that use what they hold\<close>

definition minds ::
  "('w \<Rightarrow> ('d, 'a, 'c, 'h) resource multiset) \<Rightarrow> ('w \<Rightarrow> bool) \<Rightarrow> ('d, 'a, 'c, 'h) resource multiset
    \<Rightarrow> ('w \<Rightarrow> 'r \<times> 'w) \<Rightarrow> bool" where
  "minds live good A f \<longleftrightarrow>
    (\<forall>w. good w \<longrightarrow> A \<subseteq># live w \<longrightarrow> good (snd (f w)) \<and> live (snd (f w)) = live w)"

definition minds_open ::
  "('w \<Rightarrow> ('d, 'a, 'c, 'h) resource multiset) \<Rightarrow> ('w \<Rightarrow> bool) \<Rightarrow> ('d, 'a, 'c, 'h) resource multiset
    \<Rightarrow> ('g \<Rightarrow> ('d, 'a, 'c, 'h) resource) \<Rightarrow> ('w \<Rightarrow> ('e + 'g) \<times> 'w) \<Rightarrow> bool" where
  "minds_open live good A res f \<longleftrightarrow>
    (\<forall>w. good w \<longrightarrow> A \<subseteq># live w \<longrightarrow> good (snd (f w))
      \<and> live (snd (f w)) = (case fst (f w) of Inl _ \<Rightarrow> live w | Inr g \<Rightarrow> add_mset (res g) (live w)))"

definition minds_close ::
  "('w \<Rightarrow> ('d, 'a, 'c, 'h) resource multiset) \<Rightarrow> ('w \<Rightarrow> bool)
    \<Rightarrow> ('g \<Rightarrow> ('d, 'a, 'c, 'h) resource) \<Rightarrow> ('g \<Rightarrow> 'w \<Rightarrow> 'w) \<Rightarrow> bool" where
  "minds_close live good res f \<longleftrightarrow>
    (\<forall>g w. good w \<longrightarrow> res g \<in># live w \<longrightarrow> good (f g w) \<and> live (f g w) = live w - {#res g#})"

text \<open>A handler is careful with the guards at hand when it keeps the invariant and gives back what it took.\<close>

definition careful ::
  "('w \<Rightarrow> ('d, 'a, 'c, 'h) resource multiset) \<Rightarrow> ('w \<Rightarrow> bool) \<Rightarrow> ('d, 'a, 'c, 'h) resource multiset
    \<Rightarrow> ('w, 'd, 'a, 'c, 'h) handler \<Rightarrow> bool" where
  "careful live good A f \<longleftrightarrow>
    (\<forall>s w r s' w'. f (s, w) = (r, s', w') \<longrightarrow> good w \<longrightarrow> A \<subseteq># live w \<longrightarrow> good w' \<and> live w' = live w)"

named_theorems careful_intros \<open>handlers that use what they hold\<close>

lemma carefulI:
  "(\<And>s w r s' w'. f (s, w) = (r, s', w') \<Longrightarrow> good w \<Longrightarrow> A \<subseteq># live w \<Longrightarrow> good w' \<and> live w' = live w)
    \<Longrightarrow> careful live good A f"
  unfolding careful_def by blast

lemma carefulD:
  assumes "careful live good A f" "f (s, w) = (r, s', w')" "good w" "A \<subseteq># live w"
  shows "good w'" "live w' = live w"
  using assms unfolding careful_def by blast+

lemma careful_reply [careful_intros]: "careful live good A (reply r)"
  by (simp add: careful_def reply_def)

lemma careful_answer [careful_intros]: "careful live good A (answer ok err r)"
  by (simp add: answer_def careful_reply)

lemma careful_let_ok [careful_intros]:
  "(\<And>v. x = Inr v \<Longrightarrow> careful live good A (body v)) \<Longrightarrow> careful live good A (let_ok x body)"
  by (cases x) (simp_all add: let_ok_def careful_reply)

lemma careful_let_some [careful_intros]:
  "(\<And>v. x = Some v \<Longrightarrow> careful live good A (body v)) \<Longrightarrow> careful live good A (let_some x e body)"
  by (cases x) (simp_all add: let_some_def careful_reply)

lemma careful_let_ret [careful_intros]:
  "(\<And>v. x = Ret v \<Longrightarrow> careful live good A (body v)) \<Longrightarrow> careful live good A (let_ret x body)"
  by (cases x) (auto simp: let_ret_def careful_def)

lemma careful_if [careful_intros]:
  "(b \<Longrightarrow> careful live good A f) \<Longrightarrow> (\<not> b \<Longrightarrow> careful live good A g) \<Longrightarrow> careful live good A (if b then f else g)"
  by simp

lemma careful_call [careful_intros]:
  assumes "minds live good A f" "\<And>r. careful live good A (k r)"
  shows "careful live good A (call f k)"
proof (rule carefulI)
  fix s w r s' w'
  assume run: "call f k (s, w) = (r, s', w')" and pre: "good w" "A \<subseteq># live w"
  obtain x u where x: "f w = (x, u)" by (cases "f w")
  have u: "good u" "live u = live w" using assms(1) pre x unfolding minds_def by (metis snd_conv)+
  have "k x (s, u) = (r, s', w')" using run x by (simp add: call_def)
  from carefulD [OF assms(2) this u(1)] show "good w' \<and> live w' = live w" using u(2) pre(2) by simp
qed

lemma careful_let_call [careful_intros]:
  "minds live good A f \<Longrightarrow> (\<And>v. careful live good A (body v)) \<Longrightarrow> careful live good A (let_call f err body)"
  unfolding let_call_def by (rule careful_call) (auto simp: careful_reply split: sum.split)

lemma careful_with_guard:
  assumes o: "minds_open live good A res open_g" and c: "minds_close live good res drop_g"
    and err: "\<And>e. careful live good A (on_err e)" and body: "\<And>g. careful live good (add_mset (res g) A) (body g)"
  shows "careful live good A (with_guard open_g drop_g on_err body)"
proof (rule carefulI)
  fix s w r s' w'
  assume run: "with_guard open_g drop_g on_err body (s, w) = (r, s', w')" and pre: "good w" "A \<subseteq># live w"
  obtain x u where x: "open_g w = (x, u)" by (cases "open_g w")
  have u: "good u" "live u = (case x of Inl _ \<Rightarrow> live w | Inr g \<Rightarrow> add_mset (res g) (live w))"
    using o pre x unfolding minds_open_def by (metis fst_conv snd_conv)+
  show "good w' \<and> live w' = live w"
  proof (cases x)
    case (Inl e)
    then have "on_err e (s, u) = (r, s', w')" using run x by (simp add: with_guard_def)
    from carefulD [OF err this u(1)] show ?thesis using u(2) Inl pre(2) by simp
  next
    case (Inr g)
    obtain v where b: "body g (s, u) = (r, s', v)" and w': "w' = drop_g g v"
      using run x Inr by (auto simp: with_guard_def split: prod.splits)
    have held: "add_mset (res g) A \<subseteq># live u" using u(2) Inr pre(2) by simp
    note v = carefulD [OF body b u(1) held]
    then have "res g \<in># live v" using u(2) Inr by simp
    with c v(1) have "good w' \<and> live w' = live v - {#res g#}" unfolding minds_close_def w' by blast
    then show ?thesis using v(2) u(2) Inr by simp
  qed
qed

lemma careful_lost_device [careful_intros]: "careful live good A (lost_device prov dev err e)"
  by (simp add: careful_def lost_device_def)

lemma careful_require_auth [careful_intros]:
  "careful live good A body \<Longrightarrow> careful live good A (require_auth ctx prov dev app ident body)"
  by (fastforce simp: careful_def require_auth_def reply_def split: prod.splits sum.splits)

lemma careful_grant_and_reply [careful_intros]: "careful live good A (grant_and_reply R ctx key r)"
  by (auto simp: careful_def grant_and_reply_def split: outcome.splits)

section \<open>Providers whose calls keep the books\<close>

locale careful_provider = provider_contract P live now
  for P :: "('w, 'd, 'a, 'c, 'h) provider"
    and live :: "'w \<Rightarrow> ('d, 'a, 'c, 'h) resource multiset"
    and now :: "'w \<Rightarrow> instant" +
  fixes good :: "'w \<Rightarrow> bool"
  assumes books: "client_step P live w w' \<Longrightarrow> good w \<Longrightarrow> good w'"
begin

lemma mindsI:
  assumes "keeps live now f" "\<And>w. A \<subseteq># live w \<Longrightarrow> client_step P live w (snd (f w))"
  shows "minds live good A f"
  using assms books unfolding minds_def keeps_def by blast

lemma held_step: "x \<in># A \<Longrightarrow> A \<subseteq># live w \<Longrightarrow> x \<in># live w"
  by (rule mset_subset_eqD)

lemma minds_calls:
  "minds live good A (enum_devices P b)" "minds live good A (device_state P s)"
  "minds live good A (wait_for_event P n)" "minds live good A (cancel_wait_for_event P)"
  by (rule mindsI, rule provider_keeps, rule client_step.intros)+

lemma minds_device:
  assumes "ResDevice d \<in># A"
  shows "minds live good A (dev_state P d)" "minds live good A (dev_lock P d du)" "minds live good A (dev_unlock P d)"
    "minds live good A (dev_transmit P d bs)" "minds live good A (dev_random P d n)" "minds live good A (dev_info P d)"
    "minds live good A (dev_set_label P d s)"
  by (rule mindsI, rule device_keeps, rule client_step.intros, erule held_step [OF assms])+

lemma minds_application:
  assumes "ResApplication a \<in># A"
  shows "minds live good A (enum_containers P a)" "minds live good A (verify_pin P a s)"
    "minds live good A (delete_container P a s)"
  by (rule mindsI, rule application_keeps, rule client_step.intros, erule held_step [OF assms])+

lemma minds_container:
  assumes "ResContainer c \<in># A"
  shows "minds live good A (container_type P c)" "minds live good A (export_certificate P c b)"
    "minds live good A (import_certificate P c b bs)" "minds live good A (sign_ecc P c bs)"
    "minds live good A (sign_rsa P c bs)" "minds live good A (gen_ecc_key_pair P c n32)"
    "minds live good A (gen_rsa_key_pair P c n32)" "minds live good A (set_symm_key P c n32 bs)"
    "minds live good A (encrypt P c n32 iv pd bs)" "minds live good A (decrypt P c n32 iv pd bs)"
  by (rule mindsI, rule container_keeps, rule client_step.intros, erule held_step [OF assms])+

lemma minds_digest:
  assumes "ResDigest h \<in># A"
  shows "minds live good A (dig_update P h bs)" "minds live good A (dig_finalize P h)"
  by (rule mindsI, rule digest_keeps, rule client_step.intros, erule held_step [OF assms])+

lemma minds_openI:
  assumes "opens live now res f" "\<And>w. A \<subseteq># live w \<Longrightarrow> client_step P live w (snd (f w))"
  shows "minds_open live good A res f"
  using assms books unfolding minds_open_def opens_def by blast

lemma minds_opens:
  "minds_open live good A ResDevice (open_device P s)"
  "ResDevice d \<in># A \<Longrightarrow> minds_open live good A ResApplication (open_application P d s)"
  "ResApplication a \<in># A \<Longrightarrow> minds_open live good A ResContainer (open_container P a s)"
  "ResApplication a \<in># A \<Longrightarrow> minds_open live good A ResContainer (create_container P a s)"
  "ResDevice d \<in># A \<Longrightarrow> minds_open live good A ResDigest (begin_digest P d n32 bs)"
  "ResDevice d \<in># A \<Longrightarrow> minds_open live good A ResDigest (begin_digest_with_key P d n32 bs k)"
  by (rule minds_openI, rule guard_opens, rule client_step.intros, (erule (1) held_step)?)+

lemma minds_closes:
  "minds_close live good ResDevice (drop_device P)" "minds_close live good ResApplication (drop_application P)"
  "minds_close live good ResContainer (drop_container P)" "minds_close live good ResDigest (drop_digest P)"
  using guard_closes books unfolding minds_close_def closes_def by (blast intro: client_step.intros)+

text \<open>The scopes of the handlers.\<close>

lemma careful_with_device:
  "(\<And>d. careful live good (add_mset (ResDevice d) A) (body d)) \<Longrightarrow>
    careful live good A (with_device P prov dev ident body)"
  unfolding with_device_def by (rule careful_with_guard [OF minds_opens(1) minds_closes(1) careful_lost_device])

lemma careful_with_application:
  "ResDevice d \<in># A \<Longrightarrow> (\<And>a. careful live good (add_mset (ResApplication a) A) (body a)) \<Longrightarrow>
    careful live good A (with_application P d prov dev app text ident body)"
  unfolding with_application_def by (rule careful_with_guard [OF minds_opens(2) minds_closes(2) careful_lost_device])

lemma careful_with_container:
  "ResApplication a \<in># A \<Longrightarrow> (\<And>c. careful live good (add_mset (ResContainer c) A) (body c)) \<Longrightarrow>
    careful live good A (with_container P a cont ident body)"
  unfolding with_container_def by (rule careful_with_guard [OF minds_opens(3) minds_closes(3) careful_reply])

lemmas careful_create_container = careful_with_guard [OF minds_opens(4) minds_closes(3)]

lemmas careful_plain_application = careful_with_guard [OF minds_opens(2) minds_closes(2)]

lemma careful_with_symm_key:
  "ResContainer c \<in># A \<Longrightarrow> careful live good A body \<Longrightarrow> careful live good A (with_symm_key P c lang ident key body)"
  unfolding with_symm_key_def by (auto intro: careful_intros minds_container split: option.split)

lemma careful_with_key_pair:
  "ResContainer c \<in># A \<Longrightarrow> (\<And>s t u v. careful live good A (k s t u v)) \<Longrightarrow>
    careful live good A (with_key_pair P c is_ecc n ident k)"
  unfolding with_key_pair_def by (intro careful_intros minds_container)

lemma careful_with_csr_signature:
  "ResContainer c \<in># A \<Longrightarrow> (\<And>b. careful live good A (k b)) \<Longrightarrow>
    careful live good A (with_csr_signature P c is_ecc hash ident k)"
  unfolding with_csr_signature_def by (intro careful_intros minds_container)

lemma careful_with_container_name:
  assumes d: "ResDevice d \<in># A" and k: "\<And>n. careful live good A (k n)"
  shows "careful live good A (with_container_name ctx P d supplied k)"
proof -
  have micros: "minds live good A (\<lambda>w. (unix_micros ctx w, w))" by (simp add: minds_def)
  show ?thesis
    unfolding with_container_name_def
    using k micros by (auto intro!: careful_intros minds_device(5) [OF d] split: sum.split)
qed

lemma minds_create_or_open:
  assumes a: "ResApplication a \<in># A"
  shows "minds_open live good A ResContainer (create_or_open P a name supplied)"
  unfolding minds_open_def
proof (intro allI impI)
  fix w
  assume pre: "good w" "A \<subseteq># live w"
  obtain x u where x: "create_container P a name w = (x, u)" by (cases "create_container P a name w")
  obtain y v where y: "open_container P a name u = (y, v)" by (cases "open_container P a name u")
  have u: "good u" "live u = (case x of Inl _ \<Rightarrow> live w | Inr g \<Rightarrow> add_mset (ResContainer g) (live w))"
    using minds_opens(4) [OF a] pre x unfolding minds_open_def by (metis fst_conv snd_conv)+
  show "good (snd (create_or_open P a name supplied w))
    \<and> live (snd (create_or_open P a name supplied w)) =
        (case fst (create_or_open P a name supplied w) of Inl _ \<Rightarrow> live w | Inr g \<Rightarrow> add_mset (ResContainer g) (live w))"
  proof (cases x)
    case (Inl e)
    then have "A \<subseteq># live u" using u pre(2) by simp
    then have "good v" "live v = (case y of Inl _ \<Rightarrow> live u | Inr g \<Rightarrow> add_mset (ResContainer g) (live u))"
      using minds_opens(3) [OF a] u(1) y unfolding minds_open_def by (metis fst_conv snd_conv)+
    then show ?thesis using Inl x y u by (cases y) (simp_all add: create_or_open_def)
  next
    case (Inr c)
    then show ?thesis using x u by (simp add: create_or_open_def)
  qed
qed

lemma minds_begin_csr_digest:
  "ResDevice d \<in># A \<Longrightarrow> minds_open live good A ResDigest (begin_csr_digest P d alg key)"
  by (cases key) (simp_all add: begin_csr_digest_def minds_opens)

lemmas careful_csr_container = careful_with_guard [OF minds_create_or_open minds_closes(3)]

lemmas careful_csr_digest = careful_with_guard [OF minds_begin_csr_digest minds_closes(4)]

end

lemmas careful_provider_rules [careful_intros] =
  careful_provider.careful_with_device careful_provider.careful_with_application
  careful_provider.careful_with_container careful_provider.careful_create_container
  careful_provider.careful_plain_application careful_provider.careful_with_symm_key
  careful_provider.careful_with_key_pair careful_provider.careful_with_csr_signature
  careful_provider.careful_with_container_name careful_provider.careful_csr_container
  careful_provider.careful_csr_digest careful_provider.minds_calls careful_provider.minds_device
  careful_provider.minds_application careful_provider.minds_container careful_provider.minds_digest

section \<open>The handlers of the domain\<close>

locale careful_server = server_contract ctx live
  for ctx :: "('w, 'd, 'a, 'c, 'h) server_context"
    and live :: "'w \<Rightarrow> ('d, 'a, 'c, 'h) resource multiset" +
  fixes good :: "'w \<Rightarrow> bool"
  assumes good_csr: "good w \<Longrightarrow> good (write_last_csr ctx pem w)"
    and good_resolve: "good w \<Longrightarrow> good (snd (resolve ctx nm w))"
    and careful_resolved: "fst (resolve ctx nm w) = Inr P \<Longrightarrow> careful_provider P live (clock ctx) good"
begin

lemma careful_with_provider:
  assumes "\<And>P. careful_provider P live (clock ctx) good \<Longrightarrow> careful live good A (body P)"
  shows "careful live good A (with_provider ctx nm on_err body)"
proof (rule carefulI)
  fix s w r s' w'
  assume run: "with_provider ctx nm on_err body (s, w) = (r, s', w')" and pre: "good w" "A \<subseteq># live w"
  obtain x u where x: "resolve ctx nm w = (x, u)" by (cases "resolve ctx nm w")
  have u: "good u" "live u = live w" using good_resolve pre(1) x keepsD(1) [OF resolve_keeps x] by (metis snd_conv, simp)
  define k where "k = (case x of Inl m \<Rightarrow> reply (on_err m) | Inr P \<Rightarrow> body P)"
  have k: "careful live good A k"
    using assms careful_resolved [of nm w] x by (auto simp: k_def careful_reply split: sum.splits)
  have "k (s, u) = (r, s', w')" using run x by (simp add: with_provider_def call_def k_def)
  from carefulD [OF k this u(1)] show "good w' \<and> live w' = live w" using u(2) pre(2) by simp
qed

lemma minds_csr: "minds live good A (\<lambda>w. ((), write_last_csr ctx pem w))"
  using csr_keeps good_csr by (simp add: minds_def keeps_def)

lemma careful_domain:
  assumes "(m, f) \<in> set (domain_methods R ctx p lang)"
  shows "careful live good {#} f"
proof -
  note rules = careful_with_provider careful_intros minds_csr
  have "careful live good {#} (CreateContainer_handle ctx p lang)" "careful live good {#} (DeleteContainer_handle ctx p lang)"
    "careful live good {#} (GetContainerType_handle ctx p lang)"
    "careful live good {#} (ImportCertificate_handle (rt_codec R) ctx p lang)"
    unfolding container_handler_defs Let_def by (intro rules; (assumption | simp)?)+
  moreover have "careful live good {#} (GenECCKeyPair_handle (rt_codec R) ctx p lang)"
    "careful live good {#} (GenRSAKeyPair_handle (rt_codec R) ctx p lang)"
    unfolding key_handler_defs Let_def by (intro rules; (assumption | simp)?)+
  moreover have "careful live good {#} (CheckPIN_handle R ctx p lang)"
    unfolding CheckPIN_handle_def Let_def by (intro rules; (assumption | simp)?)
  moreover have "careful live good {#} (SignData_handle (rt_codec R) ctx p lang)"
    "careful live good {#} (RSASignData_handle (rt_codec R) ctx p lang)"
    "careful live good {#} (EncryptData_handle (rt_codec R) ctx p lang)"
    "careful live good {#} (DecryptData_handle (rt_codec R) ctx p lang)"
    "careful live good {#} (CreatePKCS10_handle R ctx p lang)"
    unfolding signing_handler_defs Let_def by (intro rules; (assumption | simp)?)+
  ultimately show ?thesis using assms by (auto simp: domain_methods_def)
qed

end

section \<open>The methods of the dispatcher\<close>

text \<open>A method that answers keeps the books of a session whose guards exist. Nothing is said of one that
  panics: the branches that call the library themselves may then leave handles open.\<close>

definition answers_good ::
  "('w \<Rightarrow> ('d, 'a, 'c, 'h) resource multiset) \<Rightarrow> ('w \<Rightarrow> bool) \<Rightarrow> ('w, 'd, 'a, 'c, 'h) handler \<Rightarrow> bool" where
  "answers_good live good f \<longleftrightarrow>
    (\<forall>s w r s' w'. f (s, w) = (Ret r, s', w') \<longrightarrow> good w \<longrightarrow> guards_of (handles s) \<subseteq># live w \<longrightarrow> good w')"

lemma answers_careful: "careful live good {#} f \<Longrightarrow> answers_good live good f"
  unfolding careful_def answers_good_def by fastforce

lemma answers_goodI:
  "(\<And>s w r s' w'. f (s, w) = (Ret r, s', w') \<Longrightarrow> good w \<Longrightarrow> guards_of (handles s) \<subseteq># live w \<Longrightarrow> good w')
    \<Longrightarrow> answers_good live good f"
  unfolding answers_good_def by blast

lemma answers_goodD:
  "answers_good live good f \<Longrightarrow> f (s, w) = (Ret r, s', w') \<Longrightarrow> good w \<Longrightarrow> guards_of (handles s) \<subseteq># live w \<Longrightarrow> good w'"
  unfolding answers_good_def by blast

lemma answers_reply: "answers_good live good (reply r)"
  by (simp add: answers_good_def reply_def)

lemma answers_let_some:
  "(\<And>v. answers_good live good (f v)) \<Longrightarrow> answers_good live good (let_some x e f)"
  by (cases x) (simp_all add: let_some_def answers_reply)

lemma answers_let_ok:
  "(\<And>v. answers_good live good (f v)) \<Longrightarrow> answers_good live good (let_ok x f)"
  by (cases x) (simp_all add: let_ok_def answers_reply)

lemma answers_if:
  "(b \<Longrightarrow> answers_good live good f) \<Longrightarrow> (\<not> b \<Longrightarrow> answers_good live good g) \<Longrightarrow> answers_good live good (if b then f else g)"
  by simp

text \<open>A guard in the table exists.\<close>

lemma table_guards:
  "map_of (devices t) h = Some g \<Longrightarrow> ResDevice g \<in># guards_of t"
  "map_of (digests t) h = Some x \<Longrightarrow> ResDigest x \<in># guards_of t"
  by (auto simp: guards_of_def dest!: map_of_SomeD intro!: image_eqI)

lemma looked_up:
  "get_device h t = Inr g \<Longrightarrow> ResDevice g \<in># guards_of t"
  "get_digest h t = Inr x \<Longrightarrow> ResDigest x \<in># guards_of t"
  "remove_device h t = (Inr g, t') \<Longrightarrow> ResDevice g \<in># guards_of t"
  "remove_digest h t = (Inr x, t') \<Longrightarrow> ResDigest x \<in># guards_of t"
  by (auto simp: get_device_def get_digest_def remove_device_def remove_digest_def intro: table_guards
      split: sum.splits option.splits)

text \<open>Looking a guard up and calling it.\<close>

lemma answers_lookup:
  assumes member: "\<And>s g. look s = Inr g \<Longrightarrow> res g \<in># guards_of (handles s)"
    and minds: "\<And>g. minds live good {#res g#} (f g)"
  shows "answers_good live good (\<lambda>(s, w). case look s of Inl e \<Rightarrow> reply (bad e) (s, w)
      | Inr g \<Rightarrow> call (f g) (answer (ok g) (err g)) (s, w))"
proof (rule answers_goodI)
  fix s w r s' w'
  assume run: "(case (s, w) of (s, w) \<Rightarrow> case look s of Inl e \<Rightarrow> reply (bad e) (s, w)
    | Inr g \<Rightarrow> call (f g) (answer (ok g) (err g)) (s, w)) = (Ret r, s', w')"
    and good: "good w" and held: "guards_of (handles s) \<subseteq># live w"
  show "good w'"
  proof (cases "look s")
    case (Inl e)
    then show ?thesis using run good by (simp add: reply_def)
  next
    case (Inr g)
    then have "{#res g#} \<subseteq># live w" using member held by (meson mset_subset_eqD single_subset_iff)
    moreover have "careful live good {#res g#} (call (f g) (answer (ok g) (err g)))"
      by (intro careful_intros minds)
    ultimately show ?thesis using carefulD(1) run Inr good by fastforce
  qed
qed

text \<open>Taking a guard out of the table and ending with it.\<close>

lemma minds_closeD:
  assumes "minds_close live good res dr" "res g \<in># A" "A \<subseteq># live w" "good w"
  shows "good (dr g w)"
  using assms unfolding minds_close_def by (meson mset_subset_eqD)

lemma mindsD:
  assumes "minds live good {#x#} f" "x \<in># A" "A \<subseteq># live w" "good w" "f w = (r, u)"
  shows "good u" "live u = live w"
proof -
  have "{#x#} \<subseteq># live w" using assms(2,3) by (meson mset_subset_eqD single_subset_iff)
  then show "good u" "live u = live w" using assms(1,4,5) unfolding minds_def by (metis snd_conv)+
qed

lemma answers_remove_device:
  assumes "minds_close live good ResDevice dr"
  shows "answers_good live good (\<lambda>(s, w). case remove_device h (handles s) of
      (Inr g, t) \<Rightarrow> (Ret ok, s\<lparr>handles := t\<rparr>, dr g w)
    | (Inl _, t) \<Rightarrow> (Ret bad, s\<lparr>handles := t\<rparr>, w))"
  by (intro answers_goodI) (auto dest: looked_up(3) intro: minds_closeD [OF assms] split: prod.splits sum.splits)

lemma answers_remove_digest:
  assumes "minds_close live good ResDigest dr"
  shows "answers_good live good (\<lambda>(s, w). case remove_digest h (handles s) of
      (Inr g, t) \<Rightarrow> (Ret ok, s\<lparr>handles := t\<rparr>, dr g w)
    | (Inl _, t) \<Rightarrow> (Ret bad, s\<lparr>handles := t\<rparr>, w))"
  by (intro answers_goodI) (auto dest: looked_up(4) intro: minds_closeD [OF assms] split: prod.splits sum.splits)

lemma answers_finalize:
  assumes f: "\<And>g. minds live good {#ResDigest g#} (fin g)" and c: "minds_close live good ResDigest dr"
  shows "answers_good live good (\<lambda>(s, w). case remove_digest h (handles s) of
      (Inl _, t) \<Rightarrow> (Ret bad, s\<lparr>handles := t\<rparr>, w)
    | (Inr g, t) \<Rightarrow> (case fin g w of (r, w') \<Rightarrow> (Ret (ok r), s\<lparr>handles := t\<rparr>, dr g w')))"
proof (rule answers_goodI)
  fix s w r s' w'
  assume run: "(case (s, w) of (s, w) \<Rightarrow> case remove_digest h (handles s) of
      (Inl _, t) \<Rightarrow> (Ret bad, s\<lparr>handles := t\<rparr>, w)
    | (Inr g, t) \<Rightarrow> (case fin g w of (r, w') \<Rightarrow> (Ret (ok r), s\<lparr>handles := t\<rparr>, dr g w'))) = (Ret r, s', w')"
    and good: "good w" and held: "guards_of (handles s) \<subseteq># live w"
  obtain x t where x: "remove_digest h (handles s) = (x, t)" by (cases "remove_digest h (handles s)")
  show "good w'"
  proof (cases x)
    case (Inl e)
    then show ?thesis using run x good by simp
  next
    case (Inr g)
    obtain y u where y: "fin g w = (y, u)" by (cases "fin g w")
    have g: "ResDigest g \<in># guards_of (handles s)" using looked_up(4) [of h "handles s" g t] x Inr by simp
    note u = mindsD [OF f g held good y]
    have "guards_of (handles s) \<subseteq># live u" using u(2) held by simp
    from minds_closeD [OF c g this u(1)] show ?thesis using run x Inr y by simp
  qed
qed

lemma answers_open_issue:
  assumes "minds_open live good {#} ResDevice f"
  shows "answers_good live good (let_call f err (\<lambda>g (s, w). case issue_device g (handles s) of
      (h, t) \<Rightarrow> (Ret (ok h), s\<lparr>handles := t\<rparr>, w)))"
proof (rule answers_goodI)
  fix s w r s' w'
  assume run: "let_call f err (\<lambda>g (s, w). case issue_device g (handles s) of
      (h, t) \<Rightarrow> (Ret (ok h), s\<lparr>handles := t\<rparr>, w)) (s, w) = (Ret r, s', w')" and good: "good w"
  have "good (snd (f w))" using assms good unfolding minds_open_def by simp
  then show "good w'" using run by (auto simp: let_call_def call_def reply_def split: prod.splits sum.splits)
qed

lemma answers_begin_digest:
  assumes f: "minds_open live good {#} ResDevice f"
    and b: "\<And>d. minds_open live good {#ResDevice d#} ResDigest (begin d)" and c: "minds_close live good ResDevice dr"
  shows "answers_good live good (let_call f err (\<lambda>d. call (begin d) (\<lambda>r (s, w).
      case r of
        Inr g \<Rightarrow> (case issue_digest g (handles s) of
          (h, t) \<Rightarrow> (Ret (ok h), s\<lparr>handles := snd (issue_device d t)\<rparr>, w))
      | Inl e \<Rightarrow> (Ret (bad e), s, dr d w))))"
proof (rule answers_goodI)
  fix s w r s' w'
  assume run: "let_call f err (\<lambda>d. call (begin d) (\<lambda>r (s, w).
      case r of
        Inr g \<Rightarrow> (case issue_digest g (handles s) of
          (h, t) \<Rightarrow> (Ret (ok h), s\<lparr>handles := snd (issue_device d t)\<rparr>, w))
      | Inl e \<Rightarrow> (Ret (bad e), s, dr d w))) (s, w) = (Ret r, s', w')" and good: "good w"
  obtain x u where x: "f w = (x, u)" by (cases "f w")
  have u: "good u" "live u = (case x of Inl _ \<Rightarrow> live w | Inr g \<Rightarrow> add_mset (ResDevice g) (live w))"
    using f good x unfolding minds_open_def by (metis empty_le fst_conv snd_conv)+
  show "good w'"
  proof (cases x)
    case (Inl e)
    then show ?thesis using run x u by (simp add: let_call_def call_def reply_def)
  next
    case (Inr d)
    obtain y v where y: "begin d u = (y, v)" by (cases "begin d u")
    have "{#ResDevice d#} \<subseteq># live u" using u(2) Inr by simp
    then have v: "good v" "live v = (case y of Inl _ \<Rightarrow> live u | Inr g \<Rightarrow> add_mset (ResDigest g) (live u))"
      using b [of d] u(1) y unfolding minds_open_def by (metis fst_conv snd_conv)+
    show ?thesis
    proof (cases y)
      case (Inl e)
      then have "good (dr d v)" using c v u(2) Inr unfolding minds_close_def by simp
      then show ?thesis using run x y Inl \<open>x = Inr d\<close> by (simp add: let_call_def call_def)
    next
      case (Inr g)
      then show ?thesis using run x y v \<open>x = Inr d\<close> by (auto simp: let_call_def call_def split: prod.splits)
    qed
  qed
qed

locale careful_dispatcher = dispatcher_contract K live
  for K :: "('w, 'd, 'a, 'c, 'h) skf_context"
    and live :: "'w \<Rightarrow> ('d, 'a, 'c, 'h) resource multiset" +
  fixes good :: "'w \<Rightarrow> bool"
  assumes good_csr_copy: "good w \<Longrightarrow> good (sk_write_csr K pem w)"
    and good_api: "good w \<Longrightarrow> good (snd (get_api K nm w))"
    and default_careful: "careful_provider (sk_provider K) live (sk_clock K) good"
    and alias_careful: "careful_provider (sk_from_api K nm (sk_library K path)) live (sk_clock K) good"
    and good_direct: "(m, f) \<in> set (direct_methods K p lang) \<Longrightarrow> m \<notin> {''ImportKeyPair'', ''Digest''}
      \<Longrightarrow> answers_good live good f"
    and good_direct_alias: "answers_good live good (WaitForDevEvent_direct K prov p lang)"
      "answers_good live good (EnumDevice_direct K prov p lang)"
      "answers_good live good (GetDevState_direct K prov dev p lang)"
      "answers_good live good (DigestInit_direct K prov dev p lang)"
    and good_issuer: "issuer_respects (\<lambda>_ w w'. good w \<longrightarrow> good w') (sk_issuer K)"

sublocale careful_dispatcher \<subseteq> careful_server "server_context_of K" live good
proof (rule careful_server.intro [OF server_contract_axioms], rule careful_server_axioms.intro)
  fix pem nm w and P :: "('w, 'd, 'a, 'c, 'h) provider"
  assume good: "good w"
  show "good (write_last_csr (server_context_of K) pem w)"
    using good_csr_copy [OF good] by (simp add: server_context_of_def)
  show "good (snd (resolve (server_context_of K) nm w))"
    using good_api [OF good] good by (simp add: server_context_of_def skf_resolve_state)
next
  fix nm w and P :: "('w, 'd, 'a, 'c, 'h) provider"
  assume "fst (resolve (server_context_of K) nm w) = Inr P"
  then show "careful_provider P live (clock (server_context_of K)) good"
    using default_careful alias_careful get_api_library [of nm w]
    by (auto simp: server_context_of_def skf_resolve_def split: if_splits prod.splits sum.splits)
qed

context careful_dispatcher
begin

lemma answers_passive:
  "answers_good live good (GetProtocolVersion_branch p)" "answers_good live good (SetLanguage_branch p)"
  "answers_good live good (WaitForDevEvent_branch K p lang)" "answers_good live good (EnumProvider_branch K p lang)"
  "answers_good live good (EnumDevice_branch K p lang)" "answers_good live good (GetDevState_branch K p lang)"
  "answers_good live good (CancelWaitForDevEvent_branch K p lang)"
  by (auto simp: GetProtocolVersion_branch_def SetLanguage_branch_def WaitForDevEvent_branch_def
      EnumProvider_branch_def EnumDevice_branch_def GetDevState_branch_def CancelWaitForDevEvent_branch_def Let_def
      split: option.split list.split
      intro!: answers_reply answers_let_some good_direct_alias answers_careful [OF careful_call]
        careful_provider.minds_calls [OF default_careful] careful_answer)

lemma answers_readers:
  "answers_good live good (GenerateRandom_branch K p lang)" "answers_good live good (DigestUpdate_branch K p lang)"
proof -
  show "answers_good live good (GenerateRandom_branch K p lang)"
    unfolding GenerateRandom_branch_def
    by (intro answers_let_some answers_lookup [where res = ResDevice] careful_provider.minds_device(5) [OF default_careful])
      (auto intro: looked_up)
  show "answers_good live good (DigestUpdate_branch K p lang)"
    unfolding DigestUpdate_branch_def
    by (intro answers_let_some answers_let_ok answers_lookup [where res = ResDigest] careful_provider.minds_digest(1) [OF default_careful])
      (auto intro: looked_up)
qed

lemmas default_closes = careful_provider.minds_closes [OF default_careful]

lemmas default_opens = careful_provider.minds_opens [OF default_careful]

lemma answers_handle_branches:
  "answers_good live good (ConnectDev_branch K p lang)" "answers_good live good (DisConnectDev_branch K p)"
  "answers_good live good (CloseHash_branch K p)" "answers_good live good (DigestFinal_branch K p lang)"
  "answers_good live good (DigestInit_branch K p lang)"
  unfolding ConnectDev_branch_def DisConnectDev_branch_def CloseHash_branch_def DigestFinal_branch_def
    DigestInit_branch_def Let_def
  by (intro answers_let_some answers_if answers_open_issue answers_remove_device answers_remove_digest
      answers_finalize answers_begin_digest default_opens default_closes good_direct_alias
      careful_provider.minds_digest(2) [OF default_careful]; simp)+

lemma answers_session:
  "(m, f) \<in> set (session_methods K p lang) \<Longrightarrow> answers_good live good f"
  by (auto simp: session_methods_def answers_passive answers_readers answers_handle_branches)

lemma good_issue:
  assumes "IssueCertificate_branch (sk_issuer K) C p (s, w) = (r, s', w')" "good w"
  shows "good w'"
proof -
  have "issuer_contract (sk_issuer K) (\<lambda>_ w w'. good w \<longrightarrow> good w')"
    using good_issuer by unfold_locales auto
  from issuer_contract.issue_certificate_changes [OF this] show ?thesis
    using assms by (auto simp: IssueCertificate_branch_def split: prod.splits) (metis snd_conv)
qed

end

text \<open>What a request must be for the books to be kept: neither of the two methods that miscount, and
  answered, unless it is one the handlers of the domain take, whose scopes close when they panic.\<close>

definition domain_names :: "string list" where
  "domain_names =
    [''DeleteContainer'', ''ImportCertificate'', ''SignData'', ''CheckPIN'', ''CreatePKCS10'', ''EncryptData'',
     ''DecryptData'', ''CreateContainer'', ''GetContainerType'', ''RSASignData'', ''GenECCKeyPair'', ''GenRSAKeyPair'']"

lemma domain_method_names: "map fst (domain_methods R ctx p lang) = domain_names"
  by (simp add: domain_methods_def domain_names_def)

definition counted_request :: "string + rpc_request \<Rightarrow> rpc_response outcome \<Rightarrow> bool" where
  "counted_request parsed r \<longleftrightarrow>
    (case parsed of
      Inl _ \<Rightarrow> True
    | Inr req \<Rightarrow> req_method req \<notin> {''ImportKeyPair'', ''Digest''} \<and> (r = Panic \<longrightarrow> req_method req \<in> set domain_names))"

context careful_dispatcher
begin

lemma good_dispatch:
  assumes run: "dispatch K m p lang (s, w) = (r, s', w')" and good: "good w" "guards_of (handles s) \<subseteq># live w"
    and m: "m \<notin> {''ImportKeyPair'', ''Digest''}" "r = Panic \<Longrightarrow> m \<in> set domain_names"
  shows "good w'"
proof (cases "map_of (method_table K p lang) m")
  case None
  then show ?thesis using run good(1) by (simp add: dispatch_def reply_def)
next
  case (Some f)
  then have f: "f (s, w) = (r, s', w')" using run by (simp add: dispatch_def)
  have "(m, f) \<in> set (method_table K p lang)" using Some by (rule map_of_SomeD)
  then consider "(m, f) \<in> set (session_methods K p lang)"
    | "(m, f) \<in> set (domain_methods (sk_runtime K) (server_context_of K) p lang)"
    | "(m, f) \<in> set (direct_methods K p lang)"
    | "f = IssueCertificate_branch (sk_issuer K) (sk_codec K) p"
    by (auto simp: method_table_def)
  then show ?thesis
  proof cases
    case 2
    then show ?thesis using carefulD(1) [OF careful_domain [OF 2] f good(1)] by simp
  next
    case 4
    then show ?thesis using good_issue f good(1) by blast
  next
    case 1
    then have "m \<notin> set domain_names" by (auto simp: session_methods_def domain_names_def)
    then obtain a where "r = Ret a" using m(2) by (cases r) auto
    then show ?thesis using answers_goodD [OF answers_session [OF 1]] f good by blast
  next
    case 3
    then have "m \<notin> set domain_names" by (auto simp: direct_methods_def domain_names_def)
    then obtain a where "r = Ret a" using m(2) by (cases r) auto
    then show ?thesis using answers_goodD [OF good_direct [OF 3 m(1)]] f good by blast
  qed
qed

lemma good_request:
  assumes run: "handle_request K parsed lang (s, w) = ((r, s', w'), lang')"
    and good: "good w" "guards_of (handles s) \<subseteq># live w" and c: "counted_request parsed r"
  shows "good w'"
proof -
  have "w' = w \<or> (\<exists>req. parsed = Inr req
      \<and> dispatch K (req_method req) (new_params (req_params req) (req_id req)) lang (s, w) = (r, s', w'))"
    using run by (auto simp: handle_request_def reply_def Let_def split: sum.splits option.splits)
  then show ?thesis using good_dispatch good c by (auto simp: counted_request_def)
qed

text \<open>The end of a session: each guard of its table is dropped once.\<close>

lemma good_drops:
  assumes c: "minds_close live good res dr" and held: "image_mset res (mset gs) + B \<subseteq># live w" and good: "good w"
  shows "good (fold dr gs w)" "B \<subseteq># live (fold dr gs w)"
proof -
  have "good (fold dr gs w) \<and> B \<subseteq># live (fold dr gs w)"
    using held good
  proof (induction gs arbitrary: w)
    case (Cons g gs)
    have "res g \<in># live w" using Cons.prems(1) by (auto dest: mset_subset_eqD)
    then have "good (dr g w)" "live (dr g w) = live w - {#res g#}"
      using c Cons.prems(2) unfolding minds_close_def by blast+
    moreover have "image_mset res (mset gs) + B \<subseteq># live w - {#res g#}"
      using Cons.prems(1) by (simp add: insert_subset_eq_iff)
    ultimately show ?case using Cons.IH [of "dr g w"] by simp
  qed simp
  then show "good (fold dr gs w)" "B \<subseteq># live (fold dr gs w)" by blast+
qed

lemma good_drop_session:
  assumes "good w" "guards_of (handles s) \<subseteq># live w"
  shows "good (drop_session (sk_provider K) s w)"
proof -
  let ?P = "sk_provider K" and ?t = "handles s"
  let ?w1 = "fold (drop_device ?P) (map snd (devices ?t)) w"
  let ?w2 = "fold (drop_application ?P) (map snd (applications ?t)) ?w1"
  let ?w3 = "fold (drop_container ?P) (map snd (containers ?t)) ?w2"
  have "image_mset ResDevice (mset (map snd (devices ?t))) + (image_mset ResApplication (mset (map snd (applications ?t)))
      + (image_mset ResContainer (mset (map snd (containers ?t))) + (image_mset ResDigest (mset (map snd (digests ?t))) + {#})))
      \<subseteq># live w"
    using assms(2) by (simp add: guards_of_def ac_simps)
  note 1 = good_drops [OF default_closes(1) this assms(1)]
  note 2 = good_drops [OF default_closes(2) 1(2,1)]
  note 3 = good_drops [OF default_closes(3) 2(2,1)]
  note 4 = good_drops [OF default_closes(4) 3(2,1)]
  show ?thesis using 4(1) by (simp add: drop_session_def drop_handles_def)
qed

end

section \<open>The life of the server\<close>

text \<open>The steps of the server whose requests are counted. A step that leaves the state behind the provider
  alone is any of admission, handshakes, timeouts and the stop.\<close>

inductive counted_step ::
  "('w, 'd, 'a, 'c, 'h) skf_context \<Rightarrow> duration
    \<Rightarrow> ('w, 'd, 'a, 'c, 'h) server \<Rightarrow> ('w, 'd, 'a, 'c, 'h) server \<Rightarrow> bool"
  for K life where
  Unserved: "server_step K life \<sigma> \<sigma>' \<Longrightarrow> srv_world \<sigma>' = srv_world \<sigma> \<Longrightarrow> counted_step K life \<sigma> \<sigma>'"
| Served: "i < length (srv_conns \<sigma>) \<Longrightarrow> srv_conns \<sigma> ! i = (s, lang)
    \<Longrightarrow> counted_request parsed (fst (fst (handle_request K parsed lang (s, srv_world \<sigma>))))
    \<Longrightarrow> counted_step K life \<sigma> (snd (handle_completes K random16 life i parsed \<sigma>))"
| Outlived: "j < length (srv_running \<sigma>) \<Longrightarrow> srv_running \<sigma> ! j = (s, parsed, lang)
    \<Longrightarrow> counted_request parsed (fst (fst (handle_request K parsed lang (s, srv_world \<sigma>))))
    \<Longrightarrow> counted_step K life \<sigma> (late_finish K j \<sigma>)"
| Closed: "i < length (srv_conns \<sigma>) \<Longrightarrow> counted_step K life \<sigma> (close_connection K i \<sigma>)"

inductive counted_reach ::
  "('w, 'd, 'a, 'c, 'h) skf_context \<Rightarrow> duration \<Rightarrow> 'w \<Rightarrow> nat \<Rightarrow> ('w, 'd, 'a, 'c, 'h) server \<Rightarrow> bool"
  for K life w0 where
  CountedStart: "counted_reach K life w0 0 (serve_start w0)"
| CountedStep: "counted_reach K life w0 n \<sigma> \<Longrightarrow> counted_step K life \<sigma> \<sigma>' \<Longrightarrow> counted_reach K life w0 (Suc n) \<sigma>'"

lemma counted_step_server: "counted_step K life \<sigma> \<sigma>' \<Longrightarrow> server_step K life \<sigma> \<sigma>'"
  by (cases rule: counted_step.cases) (auto intro: server_step.intros)

lemma counted_reach_server: "counted_reach K life w0 n \<sigma> \<Longrightarrow> server_reach K life w0 n \<sigma>"
  by (induction rule: counted_reach.induct) (auto intro: server_reach.intros counted_step_server)

context careful_dispatcher
begin

lemma held_part:
  assumes "accounted live w0 n \<sigma>" "s \<in> set (sessions_of \<sigma>)"
  obtains base where "live (srv_world \<sigma>) = base + guards_of (handles s)" "sound_session n s"
proof -
  obtain xs ys where "sessions_of \<sigma> = xs @ s # ys" using assms(2) by (meson split_list)
  then have "live (srv_world \<sigma>) = (live w0 + held xs + held ys) + guards_of (handles s)"
    using assms(1) by (simp add: accounted_def ac_simps)
  then show thesis using that assms unfolding accounted_def by blast
qed

lemma good_served:
  assumes acc: "accounted live w0 n \<sigma>" "s \<in> set (sessions_of \<sigma>)" "2 * n + 2 < 2 ^ 64" and good: "good (srv_world \<sigma>)"
    and run: "handle_request K parsed lang (s, srv_world \<sigma>) = ((r, s', w'), lang')" and c: "counted_request parsed r"
  shows "good w'" "good (drop_session (sk_provider K) s' w')"
proof -
  obtain base where base: "live (srv_world \<sigma>) = base + guards_of (handles s)" "sound_session n s"
    by (rule held_part [OF acc(1,2)])
  show w': "good w'" by (rule good_request [OF run good _ c]) (simp add: base)
  have "owns live base s' w'" by (rule request_on [OF run base(2) acc(3) base(1)])
  then show "good (drop_session (sk_provider K) s' w')"
    by (intro good_drop_session [OF w']) (simp add: owns_def)
qed

lemma good_step:
  assumes step: "counted_step K life \<sigma> \<sigma>'" and acc: "accounted live w0 n \<sigma>" "2 * n + 2 < 2 ^ 64"
    and good: "good (srv_world \<sigma>)"
  shows "good (srv_world \<sigma>')"
  using step
proof (cases rule: counted_step.cases)
  case Unserved
  then show ?thesis using good by simp
next
  case (Served i s lang parsed random16)
  obtain r s' w' lang' where run: "handle_request K parsed lang (s, srv_world \<sigma>) = ((r, s', w'), lang')" by (metis surj_pair)
  have "s \<in> set (sessions_of \<sigma>)" using Served(2,3) by (force simp: sessions_of_def in_set_conv_nth)
  note after = good_served [OF acc(1) this acc(2) good run]
  show ?thesis using after Served run by (cases r) (simp_all add: handle_completes_def)
next
  case (Outlived j s parsed lang)
  obtain r s' w' lang' where run: "handle_request K parsed lang (s, srv_world \<sigma>) = ((r, s', w'), lang')" by (metis surj_pair)
  have "s \<in> set (sessions_of \<sigma>)" using Outlived(2,3) by (force simp: sessions_of_def in_set_conv_nth)
  note after = good_served [OF acc(1) this acc(2) good run]
  show ?thesis using after Outlived run by (simp add: late_finish_def)
next
  case (Closed i)
  have "fst (srv_conns \<sigma> ! i) \<in> set (sessions_of \<sigma>)" using Closed(2) by (simp add: sessions_of_def)
  from held_part [OF acc(1) this] obtain base where
    "live (srv_world \<sigma>) = base + guards_of (handles (fst (srv_conns \<sigma> ! i)))" by blast
  then show ?thesis using Closed good_drop_session [OF good] by (simp add: close_connection_def)
qed

lemma good_reach:
  "counted_reach K life w0 n \<sigma> \<Longrightarrow> 2 * n < 2 ^ 64 \<Longrightarrow> good w0 \<Longrightarrow> good (srv_world \<sigma>)"
proof (induction rule: counted_reach.induct)
  case CountedStart
  then show ?case by (simp add: serve_start_def)
next
  case (CountedStep n \<sigma> \<sigma>')
  have "accounted live w0 n \<sigma>"
    using accounted_reach [OF counted_reach_server [OF CountedStep(1)]] CountedStep.prems by simp
  then show ?case using good_step [OF CountedStep(2)] CountedStep by simp
qed

end

end
