(* ===== verification/NativeServer.thy ===== *)
theory NativeServer
  imports Books
begin

text \<open>
  The whole service over vendor libraries that keep their promises: admission, sessions, handlers and
  reference counts together leave open in the library exactly what the open connections still use.
\<close>

section \<open>The heap under the branches that call the library\<close>

text \<open>The branches that call a library themselves know nothing of the guards of the provider. The ledger
  that only tells one heap from all others shows it: it is a ledger like any other, so these branches
  keep it, whatever heap it singles out.\<close>

definition heap_mark :: "native_heap \<Rightarrow> 't native_world \<Rightarrow> native_object multiset" where
  "heap_mark h w = (if heap w = h then {#} else {#ResDevice \<lparr>nd_addr = 0, nd_raw = 0, nd_name = [], nd_exposed = 0\<rparr>#})"

lemma heap_mark_same: "heap_mark (heap w) w' = heap_mark (heap w) w \<Longrightarrow> heap w' = heap w"
  by (simp add: heap_mark_def split: if_splits)

lemma native_heap_contract:
  assumes "\<And>path. native_library (lift_library (M path)) now"
  shows "direct_contract (native_context M now config path) (heap_mark h)"
proof -
  have "framed now w w' \<Longrightarrow> kept (heap_mark h) (vendor_clock now) w w'" for w w' :: "'a native_world"
    by (simp add: framed_def kept_def heap_mark_def)
  then have "library_quiet (heap_mark h) (vendor_clock now) (lift_library (M path))" for path
    using native_library.frame [OF assms] unfolding library_quiet_def by (rule library_respects_mono [rotated])
  then show ?thesis by unfold_locales (simp_all add: native_context_def keeps_def)
qed

lemma heap_frames:
  assumes "clean (heap_mark (heap w)) now A f" "f (s, w) = (r, s', w')"
  shows "heap w' = heap w"
  using cleanD(1) [OF assms] by (rule heap_mark_same)

section \<open>The books of the service\<close>

lemma native_raw:
  assumes "\<And>path. native_ledger (lift_library (M path)) now opened"
  shows "raw_contract (native_context M now config path) (\<lambda>w. opened (vendor_state w))"
  using native_ledger.ledger [OF assms] by unfold_locales (simp_all add: native_context_def raw_keeps_def runs_def)

lemma guarded_same:
  assumes "guarded opened base R w" "heap w' = heap w" "opened (vendor_state w') = opened (vendor_state w)"
  shows "guarded opened base R w'"
  using assms by (simp add: guarded_def)

lemma native_careful_provider:
  assumes "native_ledger L now opened"
  shows "careful_provider (native_provider nm L) boxes_of (vendor_clock now) (\<lambda>w. guarded opened base (boxes_of w) w)"
proof (rule careful_provider.intro)
  show "provider_contract (native_provider nm L) boxes_of (vendor_clock now)"
    by (rule native_library.native_contract [OF native_ledger.axioms(1) [OF assms]])
  show "careful_provider_axioms (native_provider nm L) boxes_of (\<lambda>w. guarded opened base (boxes_of w) w)"
    by (rule careful_provider_axioms.intro) (rule native_ledger.step_guarded [OF assms])
qed

lemma native_careful:
  assumes ledgers: "\<And>path. native_ledger (lift_library (M path)) now opened"
  shows "careful_dispatcher (native_context M now config path) boxes_of (\<lambda>w. guarded opened base (boxes_of w) w)"
proof -
  let ?K = "native_context M now config path" and ?good = "\<lambda>w. guarded opened base (boxes_of w) w"
  note lib = native_ledger.axioms(1) [OF ledgers]
  note raw = native_raw [OF ledgers, where config = config and path = path]
  note framed = native_heap_contract [OF lib, where config = config and path = path]
  have answered: "answers_good boxes_of ?good f"
    if settled: "settles (\<lambda>w. opened (vendor_state w)) balanced [] f"
      and frame: "\<And>h. clean (heap_mark h) (sk_clock ?K) {} f" for f
  proof (rule answers_goodI)
    fix s w r s' w'
    assume run: "f (s, w) = (Ret r, s', w')" and good: "?good w"
    note h = heap_frames [OF frame run]
    have "opened (vendor_state w') = opened (vendor_state w)" using settlesD [OF settled run] by simp
    from guarded_same [OF good h this] show "?good w'" by (simp add: h)
  qed
  have api: "get_api ?K nm w = (x, w') \<Longrightarrow> w' = w" for nm w x w'
    by (auto simp: get_api_def native_context_def Let_def split: sum.splits option.splits)
  show ?thesis
  proof (intro careful_dispatcher.intro careful_dispatcher_axioms.intro native_dispatcher lib)
    show "?good (snd (get_api ?K nm w))" if "?good w" for nm w
      using that api by (metis prod.collapse)
    show "issuer_respects (\<lambda>_ w w'. ?good w \<longrightarrow> ?good w') (sk_issuer ?K)"
      by (simp add: native_context_def readonly_respects)
    show "answers_good boxes_of ?good f" if "(m, f) \<in> set (direct_methods ?K p lang)" "m \<notin> {''ImportKeyPair'', ''Digest''}"
      for m f p lang
      using that raw_contract.settles_direct [OF raw that(1)] direct_contract.clean_direct [OF framed that(1)]
      by (intro answered) auto
    show "careful_provider (sk_provider ?K) boxes_of (sk_clock ?K) ?good"
      "careful_provider (sk_from_api ?K nm (sk_library ?K pth)) boxes_of (sk_clock ?K) ?good" for nm pth
      by (simp_all add: native_context_def native_careful_provider [OF ledgers])
    show "?good (sk_write_csr ?K pem w)" if "?good w" for pem w
      using that by (simp add: native_context_def)
  qed (intro answered raw_contract.settles_branches [OF raw] direct_contract.clean_direct_alias [OF framed])+
qed

text \<open>The test vendor keeps these promises, so the service over it is careful with what it holds.\<close>

interpretation token_provider_careful:
  careful_provider "native_provider nm (lift_library token_library)" boxes_of "vendor_clock (\<lambda>_. 0)"
    "\<lambda>w. guarded (\<lambda>t. t) base (boxes_of w) w" for nm base
  by (rule native_careful_provider [OF native_token_ledger.native_ledger_axioms])

interpretation token_service_careful:
  careful_dispatcher "native_context (\<lambda>_. token_library) (\<lambda>_. 0) config path" boxes_of
    "\<lambda>w. guarded (\<lambda>t. t) base (boxes_of w) w" for config path base
  by (rule native_careful) (rule native_token_ledger.native_ledger_axioms)

interpretation token_domain_careful:
  careful_server "server_context_of (native_context (\<lambda>_. token_library) (\<lambda>_. 0) config path)" boxes_of
    "\<lambda>w. guarded (\<lambda>t. t) base (boxes_of w) w" for config path base
  by (rule token_service_careful.careful_server_axioms)

section \<open>A client that opens a device\<close>

abbreviation token_service :: "(raw_resource multiset native_world, native_device, native_application,
    native_container, native_digest) skf_context" where
  "token_service \<equiv> native_context (\<lambda>_. token_library) (\<lambda>_. 0)
    \<lparr>cfg_default = ''GM'', vendor = [], allow_remote = None, libs = []\<rparr> ''libgm.so''"

definition token_run ::
  "(raw_resource multiset native_world, native_device, native_application, native_container, native_digest) server" where
  "token_run =
    snd (handle_completes token_service [] 600 0 connect_request
      (create_session [] 600 (admit (serve_start (native_start {#})))))"

lemma token_opens_device:
  "\<exists>w. open_device (native_provider nm (lift_library token_library)) ''dev-a'' (native_start {#})
    = (Inr \<lparr>nd_addr = 0, nd_raw = 1, nd_name = ''dev-a'', nd_exposed = 1\<rparr>, w)"
  by (simp add: native_provider_def native_open_device_def native_open_def gated_eq with_cstring_def cstring_def
      next_device_handle_def arc_new_def gate_lock_def gate_unlock_def native_start_def at_vendor_def Let_def)

lemma token_connects:
  "\<exists>r s w. handle_request token_service connect_request EN (new_session [] 600, native_start {#})
      = ((Ret r, s, w), EN)
    \<and> guards_of (handles s) = {#ResDevice \<lparr>nd_addr = 0, nd_raw = 1, nd_name = ''dev-a'', nd_exposed = 1\<rparr>#}"
proof -
  have p: "str_param (new_params [String ''dev-a''] None) 0 = Some ''dev-a''"
    by (simp add: str_param_def raw_def new_params_def)
  obtain w where w: "open_device (native_provider ''GM'' (lift_library token_library)) ''dev-a'' (native_start {#})
      = (Inr \<lparr>nd_addr = 0, nd_raw = 1, nd_name = ''dev-a'', nd_exposed = 1\<rparr>, w)"
    using token_opens_device by blast
  have "restricted_rejection ''ConnectDev'' b None = None" for b
    by (simp add: restricted_rejection_def is_restricted_def RESTRICTED_METHODS_def)
  then show ?thesis
    by (simp add: w connect_request_def handle_request_def version_rejection_def dispatch_ConnectDev
        ConnectDev_branch_def p let_some_def let_call_def call_def native_context_def
        new_session_def issue_device_def mint_eq new_handle_table_def language_after_def guards_of_def)
qed

lemma token_reach:
  shows "counted_reach token_service 600 (native_start {#}) 3 token_run"
    and "\<exists>s. srv_conns token_run = [(s, EN)] \<and> srv_running token_run = []
      \<and> held [s] = {#ResDevice \<lparr>nd_addr = 0, nd_raw = 1, nd_name = ''dev-a'', nd_exposed = 1\<rparr>#}"
proof -
  let ?start = "serve_start (native_start ({#} :: raw_resource multiset))"
  let ?ready = "create_session [] 600 (admit ?start)"
  obtain r s w where run: "handle_request token_service connect_request EN (new_session [] 600, native_start {#})
      = ((Ret r, s, w), EN)"
    and s: "guards_of (handles s) = {#ResDevice \<lparr>nd_addr = 0, nd_raw = 1, nd_name = ''dev-a'', nd_exposed = 1\<rparr>#}"
    using token_connects by blast
  have ready: "srv_conns ?ready = [(new_session [] 600, EN)]" "srv_world ?ready = native_start {#}"
    "srv_running ?ready = []"
    by (simp_all add: create_session_def admit_def serve_start_def MAX_CONNECTIONS_def)
  have 1: "counted_reach token_service 600 (native_start {#}) 1 (admit ?start)"
    using counted_reach.CountedStep [OF counted_reach.CountedStart counted_step.Unserved [OF server_step.Accept],
      where ?w0.0 = "native_start {#}" and K = token_service and life = 600]
    by (simp add: serve_start_def admit_def)
  have 2: "counted_reach token_service 600 (native_start {#}) 2 ?ready"
    using counted_reach.CountedStep [OF 1 counted_step.Unserved [OF server_step.Upgraded [where ?random16.0 = "[]"]]]
    by (simp add: admit_def create_session_def serve_start_def MAX_CONNECTIONS_def numeral_2_eq_2)
  have "counted_request connect_request (fst (fst (handle_request token_service connect_request EN
      (new_session [] 600, srv_world ?ready))))"
    by (simp add: ready run) (simp add: counted_request_def connect_request_def)
  from counted_step.Served [OF _ _ this, where i = 0 and ?random16.0 = "[]"] have "counted_step token_service 600 ?ready token_run"
    by (simp add: ready token_run_def)
  from counted_reach.CountedStep [OF 2 this] show "counted_reach token_service 600 (native_start {#}) 3 token_run"
    by (simp add: eval_nat_numeral)
  show "\<exists>s. srv_conns token_run = [(s, EN)] \<and> srv_running token_run = []
      \<and> held [s] = {#ResDevice \<lparr>nd_addr = 0, nd_raw = 1, nd_name = ''dev-a'', nd_exposed = 1\<rparr>#}"
    using s by (simp add: token_run_def handle_completes_def ready run held_def)
qed

section \<open>Properties\<close>

text \<open>C2: In every run without a request for \<open>ImportKeyPair\<close> or \<open>Digest\<close>, which miscount, and without a panic
  outside the handlers of the domain, the service as a whole leaks no handle of the token and uses none
  after its close: whatever requests complete, panic in those handlers or outlive their caller and
  whichever clients leave, the library has open, beside what was open at the start, exactly one
  handle for each object that is still referenced; the handles that a session or a late request
  holds are open with everything they were opened through; and when the last client is gone the
  library is back where it started.\<close>

theorem service_balances_handles:
  assumes "\<And>path. native_ledger (lift_library (M path)) now opened"
    and "counted_reach (native_context M now config path) life (native_start t) n \<sigma>" and "2 * n < 2 ^ 64"
  shows "opened (vendor_state (srv_world \<sigma>)) = opened t + mset (map raw_of (objects (heap (srv_world \<sigma>))))
    \<and> (\<forall>x \<in># held (map fst (srv_conns \<sigma>)) + held (map fst (srv_running \<sigma>)).
        mset (map raw_of (chain_of x)) \<subseteq># opened (vendor_state (srv_world \<sigma>)))
    \<and> (srv_conns \<sigma> = [] \<and> srv_running \<sigma> = [] \<longrightarrow> opened (vendor_state (srv_world \<sigma>)) = opened t)"
proof -
  note C = native_careful [OF assms(1), where config = config and path = path and base = "opened t"]
  have "guarded opened (opened t) (boxes_of (native_start t)) (native_start t)"
    using guarded_start [of opened t] by (simp add: native_start_def)
  note inv = careful_dispatcher.good_reach [OF C assms(2,3) this]
  have "boxes_of (srv_world \<sigma>) = held (map fst (srv_conns \<sigma>)) + held (map fst (srv_running \<sigma>))"
    using dispatcher_contract.accounted_reach [OF careful_dispatcher.axioms(1) [OF C] counted_reach_server [OF assms(2)] assms(3)]
    by (simp add: accounted_def sessions_of_def native_start_def)
  moreover have "boxes_of (srv_world \<sigma>) = {#} \<Longrightarrow> objects (heap (srv_world \<sigma>)) = []"
    using none_held inv by metis
  ultimately show ?thesis using inv chain_open [OF inv] by (auto simp: guarded_def)
qed

theorem service_balances_handles_witness:
  "{#RawDevice 1#} \<subseteq># vendor_state (srv_world token_run)
    \<and> vendor_state (srv_world (close_connection token_service 0 token_run)) = {#}"
proof -
  obtain s where s: "srv_conns token_run = [(s, EN)]" "srv_running token_run = []"
    "held [s] = {#ResDevice \<lparr>nd_addr = 0, nd_raw = 1, nd_name = ''dev-a'', nd_exposed = 1\<rparr>#}"
    using token_reach(2) by blast
  note balanced = service_balances_handles [OF native_token_ledger.native_ledger_axioms]
  have 4: "counted_reach token_service 600 (native_start {#}) (Suc 3) (close_connection token_service 0 token_run)"
    using counted_reach.CountedStep [OF token_reach(1) counted_step.Closed, of 0] s(1) by simp
  have "vendor_state (srv_world (close_connection token_service 0 token_run)) = {#}"
    using conjunct2 [OF conjunct2 [OF balanced [OF 4]]] s by (simp add: close_connection_def)
  moreover have "{#RawDevice 1#} \<subseteq># vendor_state (srv_world token_run)"
    using conjunct1 [OF conjunct2 [OF balanced [OF token_reach(1)]]] s by (simp add: held_def)
  ultimately show ?thesis by blast
qed

end
