(* ===== verification/ServiceState.thy ===== *)
theory ServiceState
  imports Protocol
begin

text \<open>
  The status file of the service (\<open>src/service_state.rs\<close>): the phases of startup with their exit codes,
  the record that is kept, its JSON form, and the replacement of the file on disk. A file system is
  a map from paths to contents; a call may fail, and what it does then is an argument. The printer
  and the parser of JSON text are arguments.
\<close>

section \<open>Phases and exit codes\<close>

datatype startup_stage = StageConfig | StageProvider | StageBind | StageServe

definition EXIT_CONFIG :: u32 where
  "EXIT_CONFIG = 1"

definition EXIT_PROVIDER :: u32 where
  "EXIT_PROVIDER = 2"

definition EXIT_BIND :: u32 where
  "EXIT_BIND = 3"

definition EXIT_SERVE :: u32 where
  "EXIT_SERVE = 4"

primrec stage_as_str :: "startup_stage \<Rightarrow> string" where
  "stage_as_str StageConfig = ''config''"
| "stage_as_str StageProvider = ''provider''"
| "stage_as_str StageBind = ''bind''"
| "stage_as_str StageServe = ''serve''"

primrec stage_exit_code :: "startup_stage \<Rightarrow> u32" where
  "stage_exit_code StageConfig = EXIT_CONFIG"
| "stage_exit_code StageProvider = EXIT_PROVIDER"
| "stage_exit_code StageBind = EXIT_BIND"
| "stage_exit_code StageServe = EXIT_SERVE"

lemma exit_code_inj: "stage_exit_code s = stage_exit_code s' \<longleftrightarrow> s = s'"
  by (cases s; cases s') (simp_all add: EXIT_CONFIG_def EXIT_PROVIDER_def EXIT_BIND_def EXIT_SERVE_def)

lemma exit_code_nonzero: "stage_exit_code s \<noteq> 0"
  by (cases s) (simp_all add: EXIT_CONFIG_def EXIT_PROVIDER_def EXIT_BIND_def EXIT_SERVE_def)

section \<open>The record\<close>

datatype service_state = StartPending | Running | Failed | Stopped

record status_file =
  sf_state :: service_state
  sf_stage :: startup_stage
  sf_code :: "u32 option"
  sf_reason :: "string option"
  sf_pid :: "u32 option"
  sf_address :: "string option"
  sf_updated :: "string option"
  sf_started_at :: "string option"

definition status_pending :: "startup_stage \<Rightarrow> u32 option \<Rightarrow> string \<Rightarrow> string option \<Rightarrow> status_file" where
  "status_pending stage pid updated started_at =
    \<lparr>sf_state = StartPending, sf_stage = stage, sf_code = None, sf_reason = None, sf_pid = pid,
     sf_address = None, sf_updated = Some updated, sf_started_at = started_at\<rparr>"

definition status_running :: "string \<Rightarrow> u32 option \<Rightarrow> string \<Rightarrow> string option \<Rightarrow> status_file" where
  "status_running address pid updated started_at =
    \<lparr>sf_state = Running, sf_stage = StageServe, sf_code = None, sf_reason = None, sf_pid = pid,
     sf_address = Some address, sf_updated = Some updated, sf_started_at = started_at\<rparr>"

definition status_failed ::
  "startup_stage \<Rightarrow> u32 \<Rightarrow> string \<Rightarrow> u32 option \<Rightarrow> string \<Rightarrow> string option \<Rightarrow> status_file" where
  "status_failed stage code reason pid updated started_at =
    \<lparr>sf_state = Failed, sf_stage = stage, sf_code = Some code, sf_reason = Some reason, sf_pid = pid,
     sf_address = None, sf_updated = Some updated, sf_started_at = started_at\<rparr>"

definition status_stopped :: "string \<Rightarrow> string option \<Rightarrow> status_file" where
  "status_stopped updated started_at =
    \<lparr>sf_state = Stopped, sf_stage = StageServe, sf_code = None, sf_reason = None, sf_pid = None,
     sf_address = None, sf_updated = Some updated, sf_started_at = started_at\<rparr>"

section \<open>JSON\<close>

primrec state_name :: "service_state \<Rightarrow> string" where
  "state_name StartPending = ''start_pending''"
| "state_name Running = ''running''"
| "state_name Failed = ''failed''"
| "state_name Stopped = ''stopped''"

text \<open>\<open>Serialize\<close>: a field that is \<open>None\<close> is left out.\<close>

definition optional_field :: "string \<Rightarrow> ('a \<Rightarrow> json) \<Rightarrow> 'a option \<Rightarrow> (string \<times> json) list" where
  "optional_field key enc v = (case v of None \<Rightarrow> [] | Some x \<Rightarrow> [(key, enc x)])"

definition status_to_json :: "status_file \<Rightarrow> json" where
  "status_to_json s =
    Object
      ([(''state'', String (state_name (sf_state s))), (''stage'', String (stage_as_str (sf_stage s)))]
       @ optional_field ''code'' json_u32 (sf_code s) @ optional_field ''reason'' String (sf_reason s)
       @ optional_field ''pid'' json_u32 (sf_pid s) @ optional_field ''address'' String (sf_address s)
       @ optional_field ''updated'' String (sf_updated s)
       @ optional_field ''started_at'' String (sf_started_at s))"

text \<open>\<open>Deserialize\<close>: a variant is its name, or an object with the name and null. An optional field is
  absent, null or a value of its type. A field of the record occurs at most once, other fields are
  skipped; a sequence of the eight values in order is accepted as well.\<close>

fun variant :: "json \<Rightarrow> string option" where
  "variant (String s) = Some s"
| "variant (Object [(s, Null)]) = Some s"
| "variant _ = None"

definition state_of_json :: "json \<Rightarrow> service_state option" where
  "state_of_json j =
    Option.bind (variant j) (\<lambda>s. find (\<lambda>x. state_name x = s) [StartPending, Running, Failed, Stopped])"

definition stage_of_json :: "json \<Rightarrow> startup_stage option" where
  "stage_of_json j =
    Option.bind (variant j)
      (\<lambda>s. find (\<lambda>x. stage_as_str x = s) [StageConfig, StageProvider, StageBind, StageServe])"

fun u32_of_json :: "json \<Rightarrow> u32 option" where
  "u32_of_json (Number (PosInt n)) = (if n < 0x100000000 then Some (ucast n) else None)"
| "u32_of_json _ = None"

fun nullable :: "(json \<Rightarrow> 'a option) \<Rightarrow> json \<Rightarrow> 'a option option" where
  "nullable dec Null = Some None"
| "nullable dec j = map_option Some (dec j)"

definition field_values :: "string \<Rightarrow> (string \<times> json) list \<Rightarrow> json list" where
  "field_values key kvs = map snd (filter (\<lambda>(k, _). k = key) kvs)"

definition required_field :: "string \<Rightarrow> (json \<Rightarrow> 'a option) \<Rightarrow> (string \<times> json) list \<Rightarrow> 'a option" where
  "required_field key dec kvs = (case field_values key kvs of [v] \<Rightarrow> dec v | _ \<Rightarrow> None)"

definition nullable_field :: "string \<Rightarrow> (json \<Rightarrow> 'a option) \<Rightarrow> (string \<times> json) list \<Rightarrow> 'a option option" where
  "nullable_field key dec kvs =
    (case field_values key kvs of [] \<Rightarrow> Some None | [v] \<Rightarrow> nullable dec v | _ \<Rightarrow> None)"

definition status_of_fields :: "(string \<times> json) list \<Rightarrow> status_file option" where
  "status_of_fields kvs =
    (case (required_field ''state'' state_of_json kvs, required_field ''stage'' stage_of_json kvs,
           nullable_field ''code'' u32_of_json kvs, nullable_field ''reason'' as_str kvs,
           nullable_field ''pid'' u32_of_json kvs, nullable_field ''address'' as_str kvs,
           nullable_field ''updated'' as_str kvs, nullable_field ''started_at'' as_str kvs) of
      (Some state, Some stage, Some code, Some reason, Some pid, Some address, Some updated, Some started_at) \<Rightarrow>
        Some \<lparr>sf_state = state, sf_stage = stage, sf_code = code, sf_reason = reason, sf_pid = pid,
          sf_address = address, sf_updated = updated, sf_started_at = started_at\<rparr>
    | _ \<Rightarrow> None)"

definition status_keys :: "string list" where
  "status_keys =
    [''state'', ''stage'', ''code'', ''reason'', ''pid'', ''address'', ''updated'', ''started_at'']"

fun status_of_json :: "json \<Rightarrow> status_file option" where
  "status_of_json (Object kvs) = status_of_fields kvs"
| "status_of_json (Array vs) =
    (if length vs = length status_keys then status_of_fields (zip status_keys vs) else None)"
| "status_of_json _ = None"

lemma field_values_simps [simp]:
  "field_values key [] = []"
  "field_values key ((k, v) # kvs) = (if k = key then v # field_values key kvs else field_values key kvs)"
  "field_values key (kvs @ kvs') = field_values key kvs @ field_values key kvs'"
  "field_values key (optional_field k enc x) = (if k = key then (case x of None \<Rightarrow> [] | Some y \<Rightarrow> [enc y]) else [])"
  by (simp_all add: field_values_def optional_field_def split: option.split)

lemma names_read_back [simp]:
  "state_of_json (String (state_name x)) = Some x" "stage_of_json (String (stage_as_str y)) = Some y"
  by (cases x; simp add: state_of_json_def) (cases y; simp add: stage_of_json_def)

lemma ucast_u32_bound: "(ucast (n :: u32) :: u64) < 0x100000000"
proof -
  have "unat n < 4294967296" using unsigned_less [of n] by simp
  then show ?thesis by (simp add: word_less_nat_alt unsigned_ucast_eq take_bit_nat_eq_self)
qed

lemma ucast_u32_back: "ucast (ucast (n :: u32) :: u64) = n"
  by (rule bit_word_eqI) (auto simp: bit_ucast_iff)

lemma nullable_reads_back [simp]:
  "nullable u32_of_json (json_u32 n) = Some (Some n)" "nullable as_str (String s) = Some (Some s)"
  using ucast_u32_bound [of n] by (simp_all add: json_u32_def ucast_u32_back)

lemma status_json_roundtrip: "status_of_json (status_to_json s) = Some s"
  by (cases s)
    (simp add: status_to_json_def status_of_fields_def required_field_def nullable_field_def split: option.split)

section \<open>Files\<close>

type_synonym files = "string \<Rightarrow> string option"

text \<open>\<open>Path::with_extension\<close> of a path that ends in a file name: what follows the last dot of the name
  is replaced, unless the name starts with that dot or has none.\<close>

definition path_name :: "string \<Rightarrow> string" where
  "path_name p = rev (takeWhile (\<lambda>c. c \<noteq> CHR ''/'') (rev p))"

definition path_dir :: "string \<Rightarrow> string" where
  "path_dir p = rev (dropWhile (\<lambda>c. c \<noteq> CHR ''/'') (rev p))"

definition file_stem :: "string \<Rightarrow> string" where
  "file_stem nm =
    (case dropWhile (\<lambda>c. c \<noteq> CHR ''.'') (rev nm) of [] \<Rightarrow> nm | [_] \<Rightarrow> nm | _ # stem \<Rightarrow> rev stem)"

definition with_extension :: "string \<Rightarrow> string \<Rightarrow> string" where
  "with_extension p ext = path_dir p @ file_stem (path_name p) @ ''.'' @ ext"

text \<open>The calls of \<open>std::fs\<close>. A write that fails may have created the file and written a part.\<close>

datatype write_fate = Written | Partly nat | NotOpened

primrec fs_write :: "write_fate \<Rightarrow> string \<Rightarrow> string \<Rightarrow> files \<Rightarrow> bool \<times> files" where
  "fs_write Written p body fs = (True, fs(p \<mapsto> body))"
| "fs_write (Partly n) p body fs = (False, fs(p \<mapsto> take n body))"
| "fs_write NotOpened p body fs = (False, fs)"

definition fs_rename :: "bool \<Rightarrow> string \<Rightarrow> string \<Rightarrow> files \<Rightarrow> bool \<times> files" where
  "fs_rename ok p q fs = (if ok \<and> fs p \<noteq> None then (True, fs(q := fs p, p := None)) else (False, fs))"

definition fs_remove :: "bool \<Rightarrow> string \<Rightarrow> files \<Rightarrow> bool \<times> files" where
  "fs_remove ok p fs = (if ok \<and> fs p \<noteq> None then (True, fs(p := None)) else (False, fs))"

record io_fate =
  write_fate :: write_fate
  rename_ok :: bool
  remove_ok :: bool
  retry_ok :: bool

text \<open>\<open>write_atomic\<close>, with every state the file system goes through on the way: the contents of the
  temporary file grow, then each call takes effect at once.\<close>

definition write_atomic ::
  "io_fate \<Rightarrow> (json \<Rightarrow> string) \<Rightarrow> string \<Rightarrow> status_file \<Rightarrow> files \<Rightarrow> bool \<times> files list" where
  "write_atomic fate pretty path val fs =
    (let body = pretty (status_to_json val);
         tmp = with_extension path ''json.tmp'';
         growing = (if write_fate fate = NotOpened then [] else map (\<lambda>n. fs(tmp \<mapsto> take n body)) [0..<length body])
     in case fs_write (write_fate fate) tmp body fs of
          (False, fs1) \<Rightarrow> (False, growing @ [fs1])
        | (True, fs1) \<Rightarrow>
            (case fs_rename (rename_ok fate) tmp path fs1 of
              (True, fs2) \<Rightarrow> (True, growing @ [fs1, fs2])
            | (False, fs2) \<Rightarrow>
                (case fs_remove (remove_ok fate) path fs2 of
                  (_, fs3) \<Rightarrow>
                    (case fs_rename (retry_ok fate) tmp path fs3 of
                      (ok, fs4) \<Rightarrow> (ok, growing @ [fs1, fs2, fs3, fs4])))))"

definition read_status :: "(string \<Rightarrow> json option) \<Rightarrow> string \<Rightarrow> files \<Rightarrow> status_file option" where
  "read_status parse path fs = Option.bind (Option.bind (fs path) parse) status_of_json"

text \<open>The temporary file is another file.\<close>

lemma dots_split: "dropWhile (\<lambda>c. c \<noteq> CHR ''.'') (rev nm) = d # stem \<Longrightarrow>
    \<exists>ext. nm = rev stem @ ''.'' @ ext \<and> CHR ''.'' \<notin> set ext"
proof -
  assume d: "dropWhile (\<lambda>c. c \<noteq> CHR ''.'') (rev nm) = d # stem"
  define ext where "ext = takeWhile (\<lambda>c. c \<noteq> CHR ''.'') (rev nm)"
  have "d = CHR ''.''" using hd_dropWhile [of "\<lambda>c. c \<noteq> CHR ''.''" "rev nm"] d by simp
  moreover have "rev nm = ext @ d # stem" using takeWhile_dropWhile_id [of _ "rev nm"] d by (metis ext_def)
  then have "nm = rev (ext @ d # stem)" by (metis rev_rev_ident)
  moreover have "CHR ''.'' \<notin> set (rev ext)" by (auto simp: ext_def dest: set_takeWhileD)
  ultimately show ?thesis by auto
qed

lemma tmp_differs: "with_extension p ''json.tmp'' \<noteq> p"
proof
  assume same: "with_extension p ''json.tmp'' = p"
  have "path_dir p @ path_name p = p"
    by (simp add: path_dir_def path_name_def flip: rev_append)
  with same have "path_dir p @ file_stem (path_name p) @ ''.json.tmp'' = path_dir p @ path_name p"
    by (simp add: with_extension_def)
  then have eq: "path_name p = file_stem (path_name p) @ ''.json.tmp''" by (metis same_append_eq)
  then show False
  proof (cases "dropWhile (\<lambda>c. c \<noteq> CHR ''.'') (rev (path_name p))")
    case Nil
    then have "file_stem (path_name p) = path_name p" by (simp only: file_stem_def list.case)
    then show ?thesis using eq by simp
  next
    case (Cons d stem)
    then obtain ext where ext: "path_name p = rev stem @ ''.'' @ ext" "CHR ''.'' \<notin> set ext" using dots_split by blast
    then have "stem \<noteq> [] \<Longrightarrow> file_stem (path_name p) = rev stem" using Cons by (cases stem) (auto simp: file_stem_def)
    then have "stem \<noteq> [] \<Longrightarrow> ext = ''json.tmp''" using eq ext(1) by simp
    moreover have "stem = [] \<Longrightarrow> file_stem (path_name p) = path_name p" using Cons by (simp add: file_stem_def)
    ultimately show ?thesis using ext(2) eq by (cases stem) auto
  qed
qed

section \<open>Properties\<close>

text \<open>C23: Replacing the status file never shows a reader half of it: in every state on the way, whichever call
  fails and however far a write gets, the file has its old contents or the whole of the new ones,
  or, only after the system refused to rename over it, is missing. No file but it and the temporary
  one is touched, and a reader after a reported success finds the value that was written.\<close>

theorem status_file_never_torn:
  assumes "write_atomic fate pretty path val fs = (ok, states)"
  shows "(\<forall>g \<in> set states. g path = fs path \<or> g path = Some (pretty (status_to_json val))
        \<or> \<not> rename_ok fate \<and> g path = None)
    \<and> (\<forall>g \<in> set states. \<forall>p. p \<noteq> path \<and> p \<noteq> with_extension path ''json.tmp'' \<longrightarrow> g p = fs p)
    \<and> (ok \<and> parse (pretty (status_to_json val)) = Some (status_to_json val) \<longrightarrow>
        read_status parse path (last states) = Some val)"
proof -
  define tmp where "tmp = with_extension path ''json.tmp''"
  have tmp: "tmp \<noteq> path" using tmp_differs by (simp add: tmp_def)
  note defs = write_atomic_def fs_rename_def fs_remove_def Let_def tmp_def [symmetric]
  show ?thesis
    using assms tmp
    by (cases "write_fate fate")
      (auto simp: defs read_status_def status_json_roundtrip split: if_splits)
qed

theorem status_file_never_torn_witness:
  "let val = status_stopped ''20'' (Some ''10'');
       states = snd (write_atomic \<lparr>write_fate = Written, rename_ok = False, remove_ok = True, retry_ok = True\<rparr>
         (\<lambda>_. ''{new}'') ''svc/service-state.json'' val [''svc/service-state.json'' \<mapsto> ''{old}''])
   in (\<forall>g \<in> set states. g ''svc/service-state.json'' \<in> {Some ''{old}'', Some ''{new}'', None})
      \<and> read_status (\<lambda>_. Some (status_to_json val)) ''svc/service-state.json'' (last states) = Some val"
proof -
  define fate where "fate = \<lparr>write_fate = Written, rename_ok = False, remove_ok = True, retry_ok = True\<rparr>"
  define val where "val = status_stopped ''20'' (Some ''10'')"
  define run where "run = write_atomic fate (\<lambda>_. ''{new}'') ''svc/service-state.json'' val
    [''svc/service-state.json'' \<mapsto> ''{old}'']"
  have run: "write_atomic fate (\<lambda>_. ''{new}'') ''svc/service-state.json'' val
      [''svc/service-state.json'' \<mapsto> ''{old}''] = (fst run, snd run)"
    by (simp add: run_def)
  have "fst run"
    by (simp add: run_def write_atomic_def fs_rename_def fs_remove_def Let_def fate_def with_extension_def
        path_dir_def path_name_def file_stem_def)
  with status_file_never_torn [OF run, of "\<lambda>_. Some (status_to_json val)"]
  have "(\<forall>g \<in> set (snd run). g ''svc/service-state.json'' \<in> {Some ''{old}'', Some ''{new}'', None})
    \<and> read_status (\<lambda>_. Some (status_to_json val)) ''svc/service-state.json'' (last (snd run)) = Some val"
    by auto
  then show ?thesis by (simp add: Let_def run_def fate_def val_def)
qed

end
