(* ===== verification/Logging.thy ===== *)
theory Logging
  imports Ffi ServiceState "HOL-Library.Sublist"
begin

text \<open>
  The log of the service (\<open>src/logging.rs\<close>): the cleaning of values that are placed in a line, the level
  that the environment asks for, and the file that is rotated by size with a bounded number of older
  files. Lines are texts; the JSON printer that builds them escapes line breaks and is an argument.
  Files are those of the status file's theory; whether a call of the system succeeds is an argument.
\<close>

section \<open>Characters of a string\<close>

text \<open>\<open>str::chars\<close>, each character as its bytes.\<close>

abbreviation byte_of :: "char \<Rightarrow> u8" where
  "byte_of c \<equiv> of_nat (of_char c)"

function chars :: "string \<Rightarrow> string list" where
  "chars [] = []"
| "chars (c # s) =
    (case utf8_chunk (byte_of c) (as_bytes s) of (n, _) \<Rightarrow> take n (c # s) # chars (drop n (c # s)))"
  by pat_completeness auto
termination
proof (relation "measure length")
  fix c s n x
  assume "(n, x) = utf8_chunk (byte_of c) (as_bytes s)"
  then have "0 < n" using utf8_chunk_pos [of "byte_of c" "as_bytes s"] by (metis fst_conv)
  then show "(drop n (c # s), c # s) \<in> measure length" by simp
qed simp

definition wf_char :: "string \<Rightarrow> bool" where
  "wf_char ch \<longleftrightarrow> ch \<noteq> [] \<and> utf8_chunk (byte_of (hd ch)) (as_bytes (tl ch)) = (length ch, True)"

text \<open>The invariant of Rust's strings.\<close>

definition valid_utf8 :: "string \<Rightarrow> bool" where
  "valid_utf8 s \<longleftrightarrow> list_all wf_char (chars s)"

text \<open>\<open>char::is_control\<close>: the code points below a space, DEL, and those from 0x80 to 0x9F.\<close>

fun is_control :: "string \<Rightarrow> bool" where
  "is_control [c] \<longleftrightarrow> byte_of c < 0x20 \<or> byte_of c = 0x7F"
| "is_control [c, d] \<longleftrightarrow> byte_of c = 0xC2 \<and> byte_of d \<le> 0x9F"
| "is_control _ \<longleftrightarrow> False"

section \<open>Cleaning a value\<close>

definition SANITIZE_MAX_CHARS :: nat where
  "SANITIZE_MAX_CHARS = 512"

definition ellipsis :: string where
  "ellipsis = utf8 [0xE2, 0x80, 0xA6]"

definition sanitize :: "string \<Rightarrow> string" where
  "sanitize v =
    (let cleaned = concat (take SANITIZE_MAX_CHARS (filter (\<lambda>c. \<not> is_control c) (chars v)))
     in if SANITIZE_MAX_CHARS < length (chars v) then cleaned @ ellipsis else cleaned)"

section \<open>The level\<close>

datatype level_filter = LevelError | LevelWarn | LevelInfo | LevelDebug | LevelTrace

definition level_from_env :: "runtime \<Rightarrow> level_filter" where
  "level_from_env R =
    (case env_var R ''RUST_LOG'' of
      None \<Rightarrow> LevelInfo
    | Some v \<Rightarrow>
        (let lower = to_ascii_lowercase v
         in if contains ''trace'' lower then LevelTrace
            else if contains ''debug'' lower then LevelDebug
            else if contains ''warn'' lower then LevelWarn
            else if contains ''error'' lower then LevelError
            else LevelInfo))"

section \<open>The rotating file\<close>

definition MAX_LOG_BYTES :: nat where
  "MAX_LOG_BYTES = 10 * 1024 * 1024"

definition KEEP_LOG_FILES :: nat where
  "KEEP_LOG_FILES = 7"

definition LOG_FILE_NAME :: string where
  "LOG_FILE_NAME = ''skf-service.log''"

record log_inner =
  log_open :: bool
  log_path :: string
  log_written :: nat
  log_keep :: nat

text \<open>Opening for appending creates the file when it is missing.\<close>

definition fs_append :: "bool \<Rightarrow> string \<Rightarrow> files \<Rightarrow> bool \<times> files" where
  "fs_append ok p fs =
    (if ok then (True, fs(p := Some (case fs p of None \<Rightarrow> [] | Some s \<Rightarrow> s))) else (False, fs))"

definition file_size :: "files \<Rightarrow> string \<Rightarrow> nat" where
  "file_size fs p = (case fs p of None \<Rightarrow> 0 | Some s \<Rightarrow> length s)"

definition new_logger :: "bool \<Rightarrow> string \<Rightarrow> nat \<Rightarrow> files \<Rightarrow> log_inner option \<times> files" where
  "new_logger ok path keep fs =
    (case fs_append ok path fs of
      (False, fs) \<Rightarrow> (None, fs)
    | (True, fs) \<Rightarrow>
        (Some \<lparr>log_open = True, log_path = path, log_written = file_size fs path, log_keep = keep\<rparr>, fs))"

definition numbered :: "string \<Rightarrow> nat \<Rightarrow> string" where
  "numbered path i = path @ ''.'' @ show_nat i"

record rotate_fate =
  rf_remove :: bool
  rf_shift :: "nat \<Rightarrow> bool"
  rf_base :: bool
  rf_open :: bool

text \<open>The loop from the oldest file down: \<open>.i\<close> becomes \<open>.i+1\<close>.\<close>

fun shift_files :: "(nat \<Rightarrow> bool) \<Rightarrow> string \<Rightarrow> nat \<Rightarrow> files \<Rightarrow> files" where
  "shift_files oks path 0 fs = fs"
| "shift_files oks path (Suc i) fs =
    shift_files oks path i
      (if fs (numbered path (Suc i)) \<noteq> None
       then snd (fs_rename (oks (Suc i)) (numbered path (Suc i)) (numbered path (Suc (Suc i))) fs)
       else fs)"

definition rotate_log :: "rotate_fate \<Rightarrow> log_inner \<Rightarrow> files \<Rightarrow> log_inner \<times> files" where
  "rotate_log fate inner fs =
    (let path = log_path inner;
         fs = snd (fs_remove (rf_remove fate) (numbered path (log_keep inner)) fs);
         fs = shift_files (rf_shift fate) path (log_keep inner - 1) fs;
         fs = (if fs path \<noteq> None then snd (fs_rename (rf_base fate) path (numbered path 1) fs) else fs)
     in case fs_append (rf_open fate) path fs of
          (True, fs) \<Rightarrow> (inner\<lparr>log_open := True, log_written := 0\<rparr>, fs)
        | (False, fs) \<Rightarrow> (inner\<lparr>log_open := False\<rparr>, fs))"

text \<open>The line of a record: the seconds, the level, the target and the message as one JSON object, printed by
  the JSON library.\<close>

record log_record =
  lr_level :: string
  lr_target :: string
  lr_message :: string

definition record_line :: "(json \<Rightarrow> string) \<Rightarrow> u64 \<Rightarrow> log_record \<Rightarrow> string" where
  "record_line print_json ts r =
    print_json (Object
      [(''level'', String (lr_level r)), (''message'', String (lr_message r)),
       (''target'', String (lr_target r)), (''ts'', Number (PosInt ts))])"

text \<open>\<open>init_service_file\<close>: the log in the directory \<open>logs\<close>, once that could be created.\<close>

definition service_log_path :: "string \<Rightarrow> string" where
  "service_log_path dir = dir @ ''/logs/'' @ LOG_FILE_NAME"

definition init_service_file :: "bool \<Rightarrow> bool \<Rightarrow> string \<Rightarrow> files \<Rightarrow> log_inner option \<times> files" where
  "init_service_file dir_ok open_ok dir fs =
    (if dir_ok then new_logger open_ok (service_log_path dir) KEEP_LOG_FILES fs else (None, fs))"

text \<open>One record. The file that is open is the one at the path.\<close>

definition log_line :: "nat \<Rightarrow> rotate_fate \<Rightarrow> string \<Rightarrow> log_inner \<times> files \<Rightarrow> log_inner \<times> files" where
  "log_line max_bytes fate line =
    (\<lambda>(inner, fs).
      (case (if max_bytes < log_written inner + length line + 1 then rotate_log fate inner fs else (inner, fs)) of
        (inner, fs) \<Rightarrow>
          if log_open inner
          then (inner\<lparr>log_written := log_written inner + length line + 1\<rparr>,
                fs(log_path inner := Some ((case fs (log_path inner) of None \<Rightarrow> [] | Some s \<Rightarrow> s) @ line @ [CHR 0x0A])))
          else (inner, fs)))"

section \<open>Facts about characters\<close>

lemma utf8_chunk_cong:
  assumes chunk: "utf8_chunk b r = (n, True)"
    and same: "\<And>i. Suc i < n \<Longrightarrow> (if i < length r' then r' ! i else 0) = (if i < length r then r ! i else 0)"
  shows "utf8_chunk b r' = (n, True)"
proof -
  define at where "at = (\<lambda>i. if i < length r then r ! i else 0)"
  define at' where "at' = (\<lambda>i. if i < length r' then r' ! i else 0)"
  have "at' i = at i" if "Suc i < n" for i using same [OF that] by (simp add: at_def at'_def)
  from this [of 0] this [of 1] this [of 2] chunk show ?thesis
    unfolding utf8_chunk_def at_def [symmetric] at'_def [symmetric] Let_def by (auto split: if_splits)
qed

lemma utf8_chunk_inside:
  assumes "utf8_chunk b r = (n, True)"
  shows "0 < n" "n \<le> Suc (length r)" "utf8_chunk b (take (n - 1) r @ x) = (n, True)"
proof -
  show pos: "0 < n" using utf8_chunk_pos [of b r] assms by simp
  have zero: "\<not> utf8_cont 0" "\<not> utf8_second b 0" by (simp_all add: utf8_cont_def utf8_second_def)
  show len: "n \<le> Suc (length r)"
    using assms zero by (auto simp: utf8_chunk_def Let_def Suc_le_eq split: if_splits)
  show "utf8_chunk b (take (n - 1) r @ x) = (n, True)"
    by (rule utf8_chunk_cong [OF assms]) (use len in \<open>auto simp: nth_append\<close>)
qed

lemma chars_append:
  assumes "wf_char ch"
  shows "chars (ch @ s) = ch # chars s"
proof -
  obtain c t where ch: "ch = c # t" using assms by (auto simp: wf_char_def neq_Nil_conv)
  have "utf8_chunk (byte_of c) (as_bytes t) = (Suc (length t), True)" using assms by (simp add: wf_char_def ch)
  from utf8_chunk_inside(3) [OF this, of "as_bytes s"]
  have "utf8_chunk (byte_of c) (as_bytes (t @ s)) = (Suc (length t), True)" by (simp add: as_bytes_def)
  then show ?thesis by (simp add: ch)
qed

lemma chars_concat: "list_all wf_char cs \<Longrightarrow> chars (concat cs) = cs"
  by (induction cs) (simp_all add: chars_append)

lemma concat_chars: "concat (chars s) = s"
  by (induction s rule: chars.induct) (simp_all split: prod.split)

lemma wf_ellipsis: "wf_char ellipsis" "\<not> is_control ellipsis"
  by code_simp+

lemma chars_wf:
  assumes "valid_utf8 v" "c \<in> set (chars v)"
  shows "wf_char c"
  using assms by (simp add: valid_utf8_def list_all_iff)

lemma sanitize_chars:
  assumes "valid_utf8 v"
  shows "chars (sanitize v) =
    take SANITIZE_MAX_CHARS (filter (\<lambda>c. \<not> is_control c) (chars v))
      @ (if SANITIZE_MAX_CHARS < length (chars v) then [ellipsis] else [])"
proof -
  define kept where "kept = take SANITIZE_MAX_CHARS (filter (\<lambda>c. \<not> is_control c) (chars v))"
  have "set kept \<subseteq> set (chars v)" by (auto simp: kept_def dest: in_set_takeD)
  then have "list_all wf_char kept" using chars_wf [OF assms] by (auto simp: list_all_iff)
  then have "chars (concat kept) = kept" "chars (concat (kept @ [ellipsis])) = kept @ [ellipsis]"
    using wf_ellipsis(1) by (simp_all only: chars_concat list_all_append list.pred_inject)
  then show ?thesis by (simp add: sanitize_def Let_def kept_def [symmetric])
qed

section \<open>Facts about the rotation\<close>

lemma numbered_inj: "numbered path i = numbered path j \<longleftrightarrow> i = j"
  by (simp add: numbered_def show_nat_inj)

lemma numbered_neq [simp]: "numbered path i \<noteq> path" "path \<noteq> numbered path i"
  by (simp_all add: numbered_def)

lemma shift_other:
  "p \<notin> numbered path ` {1..Suc n} \<Longrightarrow> shift_files oks path n fs p = fs p"
proof (induction n arbitrary: fs)
  case (Suc n)
  have "p \<notin> numbered path ` {1..Suc n}" using Suc.prems by auto
  moreover have "p \<noteq> numbered path (Suc n)" "p \<noteq> numbered path (Suc (Suc n))" using Suc.prems by auto
  ultimately show ?case using Suc.IH by (auto simp: fs_rename_def)
qed simp

text \<open>With every call succeeding and the last place free, each older file moves up by one.\<close>

lemma shift_moves:
  assumes "fs (numbered path (Suc n)) = None"
  shows "1 \<le> i \<Longrightarrow> i \<le> n \<Longrightarrow> shift_files (\<lambda>_. True) path n fs (numbered path (Suc i)) = fs (numbered path i)"
    "shift_files (\<lambda>_. True) path n fs (numbered path 1) = None"
proof -
  have "(1 \<le> i \<and> i \<le> n \<longrightarrow> shift_files (\<lambda>_. True) path n fs (numbered path (Suc i)) = fs (numbered path i))
    \<and> shift_files (\<lambda>_. True) path n fs (numbered path 1) = None"
    using assms
  proof (induction n arbitrary: fs)
    case (Suc n)
    define fs' where "fs' = fs(numbered path (Suc (Suc n)) := fs (numbered path (Suc n)), numbered path (Suc n) := None)"
    have step: "shift_files (\<lambda>_. True) path (Suc n) fs = shift_files (\<lambda>_. True) path n fs'"
      using Suc.prems by (auto simp: fs'_def fs_rename_def fun_upd_idem fun_eq_iff)
    have free: "fs' (numbered path (Suc n)) = None" by (simp add: fs'_def)
    have "shift_files (\<lambda>_. True) path n fs' (numbered path (Suc (Suc n))) = fs (numbered path (Suc n))"
      by (subst shift_other) (auto simp: numbered_inj fs'_def)
    moreover have "fs' (numbered path i) = fs (numbered path i)" if "i \<le> n"
      using that by (simp add: fs'_def numbered_inj)
    ultimately show ?case
      unfolding step using Suc.IH [of fs', OF free] by (cases "i = Suc n") (auto simp: le_Suc_eq)
  qed auto
  then show "1 \<le> i \<Longrightarrow> i \<le> n \<Longrightarrow> shift_files (\<lambda>_. True) path n fs (numbered path (Suc i)) = fs (numbered path i)"
    "shift_files (\<lambda>_. True) path n fs (numbered path 1) = None" by blast+
qed

text \<open>A system that does what it is asked.\<close>

definition smooth :: rotate_fate where
  "smooth = \<lparr>rf_remove = True, rf_shift = \<lambda>_. True, rf_base = True, rf_open = True\<rparr>"

lemma rotate_reopen:
  assumes "0 < log_keep inner" "rotate_log (smooth\<lparr>rf_open := ok\<rparr>) inner fs = (inner', fs')"
  shows "inner' = (if ok then inner\<lparr>log_open := True, log_written := 0\<rparr> else inner\<lparr>log_open := False\<rparr>)"
    "fs' (log_path inner) = (if ok then Some [] else None)"
    "fs' (numbered (log_path inner) 1) = fs (log_path inner)"
    "\<And>i. 1 \<le> i \<Longrightarrow> i < log_keep inner \<Longrightarrow> fs' (numbered (log_path inner) (Suc i)) = fs (numbered (log_path inner) i)"
    "\<And>p. p \<noteq> log_path inner \<Longrightarrow> p \<notin> numbered (log_path inner) ` {1..log_keep inner} \<Longrightarrow> fs' p = fs p"
proof -
  define path where "path = log_path inner"
  obtain k where k: "log_keep inner = Suc k" using assms(1) by (cases "log_keep inner") auto
  define fs1 where "fs1 = fs(numbered path (Suc k) := None)"
  define fs2 where "fs2 = shift_files (\<lambda>_. True) path k fs1"
  have free: "fs1 (numbered path (Suc k)) = None" by (simp add: fs1_def)
  have base: "fs2 path = fs path" unfolding fs2_def by (subst shift_other) (auto simp: fs1_def)
  have removed: "snd (fs_remove True (numbered path (Suc k)) fs) = fs1"
    by (auto simp: fs_remove_def fs1_def fun_eq_iff)
  define fs3 where "fs3 = (if fs2 path \<noteq> None then snd (fs_rename True path (numbered path 1) fs2) else fs2)"
  have first: "fs2 (numbered path 1) = None" using shift_moves(2) [of fs1 path k, OF free] by (simp only: fs2_def)
  have fs3: "fs3 = fs2(numbered path 1 := fs path, path := None)"
    using first base by (auto simp: fs3_def fs_rename_def fun_eq_iff)
  have "rotate_log (smooth\<lparr>rf_open := ok\<rparr>) inner fs =
      (if ok then (inner\<lparr>log_open := True, log_written := 0\<rparr>, fs3(path := Some [])) else (inner\<lparr>log_open := False\<rparr>, fs3))"
    unfolding rotate_log_def Let_def smooth_def rotate_fate.simps path_def [symmetric] k removed diff_Suc_1
      fs2_def [symmetric] fs3_def [symmetric]
    by (simp add: fs_append_def fs3)
  then have run: "inner' = (if ok then inner\<lparr>log_open := True, log_written := 0\<rparr> else inner\<lparr>log_open := False\<rparr>)"
    "fs' = fs2(numbered path 1 := fs path, path := (if ok then Some [] else None))"
    using assms(2) fs3 by (auto simp: fun_eq_iff)
  show "inner' = (if ok then inner\<lparr>log_open := True, log_written := 0\<rparr> else inner\<lparr>log_open := False\<rparr>)"
    "fs' (log_path inner) = (if ok then Some [] else None)"
    "fs' (numbered (log_path inner) 1) = fs (log_path inner)"
    using run by (simp_all add: path_def [symmetric])
  show "fs' (numbered (log_path inner) (Suc i)) = fs (numbered (log_path inner) i)" if "1 \<le> i" "i < log_keep inner" for i
    using shift_moves(1) [of fs1 path k i, OF free] that run by (simp add: path_def [symmetric] k fs2_def numbered_inj) (simp add: fs1_def numbered_inj)
  show "fs' p = fs p" if "p \<noteq> log_path inner" "p \<notin> numbered (log_path inner) ` {1..log_keep inner}" for p
  proof -
    have p: "p \<noteq> path" "p \<notin> numbered path ` {1..Suc k}" using that by (simp_all add: path_def k)
    then have "fs2 p = fs1 p" by (simp only: fs2_def shift_other not_False_eq_True)
    moreover have "p \<noteq> numbered path 1" "p \<noteq> numbered path (Suc k)" using p(2) by auto
    ultimately show ?thesis using p(1) run(2) by (simp add: fs1_def)
  qed
qed

lemma rotate_smooth:
  assumes "0 < log_keep inner" "rotate_log smooth inner fs = (inner', fs')"
  shows "inner' = inner\<lparr>log_open := True, log_written := 0\<rparr>" "fs' (log_path inner) = Some []"
    "fs' (numbered (log_path inner) 1) = fs (log_path inner)"
    "\<And>i. 1 \<le> i \<Longrightarrow> i < log_keep inner \<Longrightarrow> fs' (numbered (log_path inner) (Suc i)) = fs (numbered (log_path inner) i)"
    "\<And>p. p \<noteq> log_path inner \<Longrightarrow> p \<notin> numbered (log_path inner) ` {1..log_keep inner} \<Longrightarrow> fs' p = fs p"
proof -
  have "rotate_log (smooth\<lparr>rf_open := True\<rparr>) inner fs = (inner', fs')" using assms(2) by (simp add: smooth_def)
  note R = rotate_reopen [OF assms(1) this]
  show "inner' = inner\<lparr>log_open := True, log_written := 0\<rparr>" "fs' (log_path inner) = Some []"
    "fs' (numbered (log_path inner) 1) = fs (log_path inner)"
    "\<And>i. 1 \<le> i \<Longrightarrow> i < log_keep inner \<Longrightarrow> fs' (numbered (log_path inner) (Suc i)) = fs (numbered (log_path inner) i)"
    "\<And>p. p \<noteq> log_path inner \<Longrightarrow> p \<notin> numbered (log_path inner) ` {1..log_keep inner} \<Longrightarrow> fs' p = fs p"
    using R by simp_all
qed

section \<open>The log as a whole\<close>

text \<open>The log that is kept, oldest line first, and the files it is in.\<close>

definition content :: "files \<Rightarrow> string \<Rightarrow> string" where
  "content fs p = (case fs p of None \<Rightarrow> [] | Some s \<Rightarrow> s)"

definition log_files :: "string \<Rightarrow> nat \<Rightarrow> string list" where
  "log_files path keep = map (numbered path) (rev [1..<Suc keep]) @ [path]"

definition kept_log :: "string \<Rightarrow> nat \<Rightarrow> files \<Rightarrow> string" where
  "kept_log path keep fs = concat (map (content fs) (log_files path keep))"

definition log_lines :: "nat \<Rightarrow> string list \<Rightarrow> log_inner \<times> files \<Rightarrow> log_inner \<times> files" where
  "log_lines max_bytes lines st = foldl (\<lambda>st line. log_line max_bytes smooth line st) st lines"

lemma kept_rotate:
  assumes "0 < log_keep inner" "rotate_log smooth inner fs = (inner', fs')"
  shows "kept_log (log_path inner) (log_keep inner) fs =
    content fs (numbered (log_path inner) (log_keep inner)) @ kept_log (log_path inner) (log_keep inner) fs'"
proof -
  note R = rotate_smooth [OF assms]
  obtain k where k: "log_keep inner = Suc k" using assms(1) by (cases "log_keep inner") auto
  have up: "[1..<Suc (Suc k)] = 1 # map Suc [1..<Suc k]" by (simp add: upt_conv_Cons map_Suc_upt del: upt_Suc)
  have "map (\<lambda>i. content fs' (numbered (log_path inner) (Suc i))) (rev [1..<Suc k]) =
      map (\<lambda>i. content fs (numbered (log_path inner) i)) (rev [1..<Suc k])"
    using R(4) by (intro map_cong [OF refl]) (auto simp: content_def k)
  moreover have "content fs' (log_path inner) = []" "content fs' (numbered (log_path inner) 1) = content fs (log_path inner)"
    using R(2,3) by (simp_all add: content_def)
  ultimately have "kept_log (log_path inner) (Suc k) fs' =
      concat (map (\<lambda>i. content fs (numbered (log_path inner) i)) (rev [1..<Suc k])) @ content fs (log_path inner)"
    unfolding kept_log_def log_files_def up by (simp add: rev_map comp_def del: upt_Suc map_eq_conv)
  moreover have "kept_log (log_path inner) (Suc k) fs =
      content fs (numbered (log_path inner) (Suc k))
        @ concat (map (\<lambda>i. content fs (numbered (log_path inner) i)) (rev [1..<Suc k])) @ content fs (log_path inner)"
    by (simp add: kept_log_def log_files_def comp_def)
  ultimately show ?thesis by (simp add: k)
qed

lemma content_upd [simp]: "content (fs(p := Some s)) q = (if q = p then s else content fs q)"
  by (simp add: content_def)

lemma kept_append:
  "kept_log path keep (fs(path := Some (content fs path @ s))) = kept_log path keep fs @ s"
  by (simp add: kept_log_def log_files_def comp_def)

text \<open>The books of a logger: the count is the size of the active file, no file exceeds the bound.\<close>

definition log_books :: "string \<Rightarrow> nat \<Rightarrow> nat \<Rightarrow> log_inner \<times> files \<Rightarrow> bool" where
  "log_books path keep bound = (\<lambda>(inner, fs).
    log_open inner \<and> log_path inner = path \<and> log_keep inner = keep \<and> log_written inner = length (content fs path)
    \<and> (\<forall>p \<in> set (log_files path keep). length (content fs p) \<le> bound))"

lemma log_files_set: "set (log_files path keep) = insert path (numbered path ` {1..keep})"
  by (auto simp: log_files_def)

lemma log_line_books:
  assumes books: "log_books path keep bound (inner, fs)" and keep: "0 < keep"
    and max: "max_bytes \<le> bound" "length line + 1 \<le> max_bytes"
    and run: "log_line max_bytes smooth line (inner, fs) = (inner', fs')"
  shows "log_books path keep bound (inner', fs')"
    "suffix (kept_log path keep fs') (kept_log path keep fs @ line @ [CHR 0x0A])"
    "p \<notin> set (log_files path keep) \<Longrightarrow> fs' p = fs p"
proof -
  note B = books [unfolded log_books_def, simplified]
  have "log_books path keep bound (inner', fs')
    \<and> suffix (kept_log path keep fs') (kept_log path keep fs @ line @ [CHR 0x0A])
    \<and> (p \<notin> set (log_files path keep) \<longrightarrow> fs' p = fs p)"
  proof (cases "max_bytes < log_written inner + length line + 1")
    case False
    then have run': "inner' = inner\<lparr>log_written := log_written inner + length line + 1\<rparr>"
      "fs' = fs(path := Some (content fs path @ line @ [CHR 0x0A]))"
      using run B by (simp_all add: log_line_def content_def)
    show ?thesis
      using B False max(1) by (auto simp: run' kept_append log_books_def log_files_set)
  next
    case True
    obtain inner2 fs2 where rot: "rotate_log smooth inner fs = (inner2, fs2)" by (metis surj_pair)
    have "0 < log_keep inner" using B keep by simp
    note R = rotate_smooth [OF this rot] and K = kept_rotate [OF this rot]
    have empty: "content fs2 path = []" using R(2) B by (simp add: content_def)
    have run': "inner' = inner2\<lparr>log_written := length line + 1\<rparr>" "fs' = fs2(path := Some (content fs2 path @ line @ [CHR 0x0A]))"
      using run True rot R(1) B by (simp_all add: log_line_def content_def)
    have moved: "length (content fs2 (numbered path i)) \<le> bound" if i: "i \<in> {1..keep}" for i
    proof (cases "i = 1")
      case True
      then show ?thesis using R(3) B by (simp add: content_def log_files_set)
    next
      case False
      then obtain j where "i = Suc j" "1 \<le> j" "j < keep" using i by (cases i) auto
      then show ?thesis using R(4) [of j] B by (simp add: content_def log_files_set)
    qed
    have "kept_log path keep fs' = kept_log path keep fs2 @ line @ [CHR 0x0A]" unfolding run'(2) by (rule kept_append)
    then have "suffix (kept_log path keep fs') (kept_log path keep fs @ line @ [CHR 0x0A])"
      using K B by (simp add: suffix_def)
    moreover have "p \<notin> set (log_files path keep) \<longrightarrow> fs' p = fs p"
      using R(5) [of p] B by (auto simp: run' log_files_set)
    moreover have "length (content fs' q) \<le> bound" if "q \<in> set (log_files path keep)" for q
      using that moved empty max by (auto simp: run' log_files_set)
    moreover have "log_open inner' \<and> log_path inner' = path \<and> log_keep inner' = keep
      \<and> log_written inner' = length (content fs' path)"
      using R(1) B empty by (simp add: run')
    ultimately show ?thesis unfolding log_books_def prod.case by blast
  qed
  then show "log_books path keep bound (inner', fs')"
    "suffix (kept_log path keep fs') (kept_log path keep fs @ line @ [CHR 0x0A])"
    "p \<notin> set (log_files path keep) \<Longrightarrow> fs' p = fs p" by blast+
qed

text \<open>What a run has written is in the newest files: \<open>n\<close> of them have been filled and moved up since it
  began, and unless they are all the older files there are, nothing of the run is lost.\<close>

definition newest :: "string \<Rightarrow> nat \<Rightarrow> files \<Rightarrow> string" where
  "newest path n fs = concat (map (\<lambda>i. content fs (numbered path i)) (rev [1..<Suc n])) @ content fs path"

lemma newest_all: "newest path keep fs = kept_log path keep fs"
  by (simp add: newest_def kept_log_def log_files_def comp_def)

lemma newest_append: "newest path n (fs(path := Some (content fs path @ s))) = newest path n fs @ s"
  by (simp add: newest_def)

lemma newest_rotate:
  assumes "content fs' path = []" "content fs' (numbered path 1) = content fs path"
    and "\<And>i. 1 \<le> i \<Longrightarrow> i \<le> n \<Longrightarrow> content fs' (numbered path (Suc i)) = content fs (numbered path i)"
  shows "newest path (Suc n) fs' = newest path n fs"
proof -
  have up: "[1..<Suc (Suc n)] = 1 # map Suc [1..<Suc n]" by (simp add: upt_conv_Cons map_Suc_upt del: upt_Suc)
  have "map (\<lambda>i. content fs' (numbered path (Suc i))) (rev [1..<Suc n]) =
      map (\<lambda>i. content fs (numbered path i)) (rev [1..<Suc n])"
    using assms(3) by (intro map_cong [OF refl]) auto
  then show ?thesis
    unfolding newest_def up using assms(1,2) by (simp add: rev_map comp_def del: upt_Suc map_eq_conv)
qed

definition filled :: "string \<Rightarrow> nat \<Rightarrow> nat \<Rightarrow> string \<Rightarrow> files \<Rightarrow> bool" where
  "filled path keep least written fs \<longleftrightarrow>
    (\<exists>n \<le> keep. (\<forall>i \<in> {1..n}. least < length (content fs (numbered path i)))
      \<and> (n = keep \<or> suffix written (newest path n fs)))"

lemma filled_kept:
  assumes "filled path keep least written fs"
  shows "suffix written (kept_log path keep fs) \<or> (\<forall>i \<in> {1..keep}. least < length (content fs (numbered path i)))"
proof -
  obtain n where n: "n \<le> keep" "\<forall>i \<in> {1..n}. least < length (content fs (numbered path i))"
    and new: "n = keep \<or> suffix written (newest path n fs)"
    using assms unfolding filled_def by blast
  have "[1..<Suc keep] = [1..<Suc n] @ [Suc n..<Suc keep]" using n(1) upt_add_eq_append [of 1 "Suc n" "keep - n"] by simp
  then have "suffix (newest path n fs) (newest path keep fs)" by (simp add: newest_def suffix_def)
  then show ?thesis using n(2) new suffix_order.trans unfolding newest_all by blast
qed

lemma log_line_fills:
  assumes books: "log_books path keep bound (inner, fs)" and keep: "0 < keep"
    and fits: "length line + 1 \<le> longest" "longest \<le> max_bytes"
    and filled: "filled path keep (max_bytes - longest) written fs"
    and run: "log_line max_bytes smooth line (inner, fs) = (inner', fs')"
  shows "filled path keep (max_bytes - longest) (written @ line @ [CHR 0x0A]) fs'"
proof -
  note B = books [unfolded log_books_def, simplified]
  let ?least = "max_bytes - longest"
  obtain n where n: "n \<le> keep" "\<forall>i \<in> {1..n}. ?least < length (content fs (numbered path i))"
    and new: "n = keep \<or> suffix written (newest path n fs)"
    using filled unfolding filled_def by blast
  have longer: "suffix w (newest path m f) \<Longrightarrow>
      suffix (w @ x) (newest path m (f(path := Some (content f path @ x))))" for w m f x
    by (simp add: newest_append suffix_def)
  show ?thesis
  proof (cases "max_bytes < log_written inner + length line + 1")
    case False
    then have run': "fs' = fs(path := Some (content fs path @ line @ [CHR 0x0A]))"
      using run B by (simp add: log_line_def content_def)
    show ?thesis
      unfolding filled_def run' using n new longer by (intro exI [of _ n]) auto
  next
    case True
    obtain inner2 fs2 where rot: "rotate_log smooth inner fs = (inner2, fs2)" by (metis surj_pair)
    have "0 < log_keep inner" using B keep by simp
    note R = rotate_smooth [OF this rot]
    have run': "fs' = fs2(path := Some (content fs2 path @ line @ [CHR 0x0A]))"
      using run True rot R(1) B by (simp add: log_line_def content_def)
    have moved: "content fs2 path = []" "content fs2 (numbered path 1) = content fs path"
      "\<And>i. 1 \<le> i \<Longrightarrow> i < keep \<Longrightarrow> content fs2 (numbered path (Suc i)) = content fs (numbered path i)"
      using R(2-4) B by (simp_all add: content_def)
    have full: "?least < length (content fs path)" using True fits B by linarith
    define m where "m = min (Suc n) keep"
    have "?least < length (content fs2 (numbered path i))" if i: "i \<in> {1..m}" for i
    proof (cases "i = 1")
      case False
      then obtain j where "i = Suc j" "1 \<le> j" "j < keep" "j \<le> n" using i by (cases i) (auto simp: m_def)
      then show ?thesis using moved(3) n(2) by simp
    qed (use moved(2) full in simp)
    moreover have "m = keep \<or> suffix written (newest path m fs2)"
    proof (cases "n < keep")
      case True
      then have "newest path (Suc n) fs2 = newest path n fs" by (intro newest_rotate moved) auto
      then show ?thesis using new True by (simp add: m_def min_def)
    qed (use n(1) in \<open>simp add: m_def\<close>)
    ultimately show ?thesis
      unfolding filled_def run' using longer by (intro exI [of _ m]) (auto simp: m_def)
  qed
qed

text \<open>When the active file cannot be opened again the count stays, so every further record of that
  length rotates once more, and after \<open>keep\<close> of them the history is gone.\<close>

definition stuck_lines :: "nat \<Rightarrow> string list \<Rightarrow> log_inner \<times> files \<Rightarrow> log_inner \<times> files" where
  "stuck_lines max_bytes lines st = foldl (\<lambda>st line. log_line max_bytes (smooth\<lparr>rf_open := False\<rparr>) line st) st lines"

lemma stuck_history:
  assumes "0 < log_keep inner" "\<forall>line \<in> set lines. max_bytes < log_written inner + length line + 1" "lines \<noteq> []"
    and "stuck_lines max_bytes lines (inner, fs) = (inner', fs')"
  shows "inner' = inner\<lparr>log_open := False\<rparr> \<and> fs' (log_path inner) = None
    \<and> (\<forall>i. 1 \<le> i \<and> i < length lines \<and> i \<le> log_keep inner \<longrightarrow> fs' (numbered (log_path inner) i) = None)"
  using assms(2-)
proof (induction lines arbitrary: inner' fs' rule: rev_induct)
  case (snoc line lines)
  obtain inner2 fs2 where mid: "stuck_lines max_bytes lines (inner, fs) = (inner2, fs2)" by (metis surj_pair)
  obtain inner3 fs3 where rot: "rotate_log (smooth\<lparr>rf_open := False\<rparr>) inner2 fs2 = (inner3, fs3)" by (metis surj_pair)
  have IH: "lines \<noteq> [] \<Longrightarrow> inner2 = inner\<lparr>log_open := False\<rparr> \<and> fs2 (log_path inner) = None
      \<and> (\<forall>i. 1 \<le> i \<and> i < length lines \<and> i \<le> log_keep inner \<longrightarrow> fs2 (numbered (log_path inner) i) = None)"
    using snoc.IH [OF _ _ mid] snoc.prems(1) by simp
  have same: "log_path inner2 = log_path inner" "log_keep inner2 = log_keep inner" "log_written inner2 = log_written inner"
    "inner2\<lparr>log_open := False\<rparr> = inner\<lparr>log_open := False\<rparr>"
    using IH mid by (cases "lines = []"; simp add: stuck_lines_def)+
  note R = rotate_reopen [of inner2 False fs2 inner3 fs3, unfolded same, OF assms(1) rot]
  have "(inner', fs') = (inner3, fs3)"
    using snoc.prems(1,3) mid rot same R(1) by (simp add: stuck_lines_def log_line_def)
  moreover have "fs3 (numbered (log_path inner) i) = None" if i: "1 \<le> i" "i < Suc (length lines)" "i \<le> log_keep inner" for i
  proof (cases "i = 1")
    case True
    then have "lines \<noteq> []" using i by auto
    then show ?thesis using True R(3) IH by simp
  next
    case False
    then obtain j where "i = Suc j" "1 \<le> j" "j < length lines" "j < log_keep inner" using i by (cases i) auto
    moreover from this have "lines \<noteq> []" by auto
    ultimately show ?thesis using R(4) [of j] IH by simp
  qed
  ultimately show ?case using R(1,2) by simp
qed simp

section \<open>Properties\<close>

text \<open>C25: A value that was cleaned is valid UTF-8 and fits on one line: it has no control character and at
  most 513 characters, cleaning it again changes nothing, and a value with at most 512 characters
  and no control character is left as it is.\<close>

theorem sanitize_safe:
  assumes "valid_utf8 v"
  shows "valid_utf8 (sanitize v)
    \<and> list_all (\<lambda>c. \<not> is_control c) (chars (sanitize v)) \<and> length (chars (sanitize v)) \<le> 513
    \<and> sanitize (sanitize v) = sanitize v
    \<and> (list_all (\<lambda>c. \<not> is_control c) (chars v) \<and> length (chars v) \<le> 512 \<longrightarrow> sanitize v = v)"
proof -
  note cs = sanitize_chars [OF assms]
  have clean: "list_all (\<lambda>c. \<not> is_control c) (chars (sanitize v))"
    using wf_ellipsis(2) by (auto simp: cs list_all_iff dest: in_set_takeD)
  have len: "length (chars (sanitize v)) \<le> 513" by (auto simp: cs SANITIZE_MAX_CHARS_def min_def)
  have all: "filter (\<lambda>c. \<not> is_control c) (chars u) = chars u" if "list_all (\<lambda>c. \<not> is_control c) (chars u)" for u
    using that by (simp add: filter_id_conv list_all_iff)
  have "sanitize (sanitize v) = sanitize v"
  proof (cases "length (chars (sanitize v)) = 513")
    case True
    then have "512 < length (chars v)" "length (take 512 (filter (\<lambda>c. \<not> is_control c) (chars v))) = 512"
      by (auto simp: cs SANITIZE_MAX_CHARS_def split: if_splits)
    then have "take 512 (chars (sanitize v)) @ [ellipsis] = chars (sanitize v)"
      by (simp add: cs SANITIZE_MAX_CHARS_def)
    then have "concat (take 512 (chars (sanitize v))) @ ellipsis = sanitize v"
      by (metis concat_append concat.simps append_Nil2 concat_chars)
    then show ?thesis
      using True by (simp add: sanitize_def [of "sanitize v"] Let_def all [OF clean] SANITIZE_MAX_CHARS_def)
  next
    case False
    then show ?thesis
      using len by (simp add: sanitize_def [of "sanitize v"] Let_def all [OF clean] SANITIZE_MAX_CHARS_def concat_chars)
  qed
  moreover have "sanitize v = v" if "list_all (\<lambda>c. \<not> is_control c) (chars v)" "length (chars v) \<le> 512"
    using that by (simp add: sanitize_def Let_def all SANITIZE_MAX_CHARS_def concat_chars)
  moreover have "valid_utf8 (sanitize v)"
    using assms wf_ellipsis(1) by (auto simp: valid_utf8_def cs list_all_iff dest: in_set_takeD)
  ultimately show ?thesis using clean len by blast
qed

theorem sanitize_safe_witness:
  "sanitize ''PIN'' = ''PIN'' \<and> valid_utf8 (sanitize [CHR ''a'', CHR 0x0A, CHR ''b''])
    \<and> list_all (\<lambda>c. \<not> is_control c) (chars (sanitize [CHR ''a'', CHR 0x0A, CHR ''b'']))"
proof -
  have "valid_utf8 ''PIN''" "list_all (\<lambda>c. \<not> is_control c) (chars ''PIN'')" "length (chars ''PIN'') \<le> 512"
    "valid_utf8 [CHR ''a'', CHR 0x0A, CHR ''b'']" by code_simp+
  then show ?thesis using sanitize_safe [of "''PIN''"] sanitize_safe [of "[CHR ''a'', CHR 0x0A, CHR ''b'']"] by blast
qed

text \<open>C24: On a system whose file calls all succeed the log stays within its space and gives up only its
  oldest part: as long as every line fits the limit, no file of the log exceeds the larger of the limit and
  what it held before, so all of them together at most \<open>keep + 1\<close> times that; what is kept is the end
  of what was kept followed by the new lines; every new line is still there unless the older files
  are all full, each of them short of the limit by less than the longest line; and no file but those of the
  log changes.\<close>

theorem log_space_bounded:
  assumes "new_logger True path keep fs0 = (Some inner, fs)" and "0 < keep"
    and "\<forall>p \<in> set (log_files path keep). length (content fs0 p) \<le> bound" and "max_bytes \<le> bound"
    and "\<forall>line \<in> set lines. length line + 1 \<le> longest" and "longest \<le> max_bytes"
    and "log_lines max_bytes lines (inner, fs) = (inner', fs')"
  shows "(\<forall>p \<in> set (log_files path keep). length (content fs' p) \<le> bound)
    \<and> length (kept_log path keep fs') \<le> (keep + 1) * bound
    \<and> suffix (kept_log path keep fs') (kept_log path keep fs0 @ concat (map (\<lambda>line. line @ [CHR 0x0A]) lines))
    \<and> (suffix (concat (map (\<lambda>line. line @ [CHR 0x0A]) lines)) (kept_log path keep fs')
       \<or> (\<forall>i \<in> {1..keep}. max_bytes < length (content fs' (numbered path i)) + longest))
    \<and> (\<forall>p. p \<notin> set (log_files path keep) \<longrightarrow> fs' p = fs0 p)"
proof -
  have fs: "fs = fs0(path := Some (content fs0 path))"
    and inner: "inner = \<lparr>log_open = True, log_path = path, log_written = file_size fs path, log_keep = keep\<rparr>"
    using assms(1) by (auto simp: new_logger_def fs_append_def content_def)
  have same: "content fs = content fs0" "\<And>p. p \<noteq> path \<Longrightarrow> fs p = fs0 p"
    by (auto simp: fs fun_eq_iff)
  have start: "inner = \<lparr>log_open = True, log_path = path, log_written = length (content fs path), log_keep = keep\<rparr>"
    by (simp add: inner file_size_def content_def split: option.split)
  have "log_books path keep bound (inner', fs')
    \<and> suffix (kept_log path keep fs') (kept_log path keep fs @ concat (map (\<lambda>line. line @ [CHR 0x0A]) lines))
    \<and> filled path keep (max_bytes - longest) (concat (map (\<lambda>line. line @ [CHR 0x0A]) lines)) fs'
    \<and> (\<forall>p. p \<notin> set (log_files path keep) \<longrightarrow> fs' p = fs p)"
    using assms(5,7)
  proof (induction lines arbitrary: inner' fs' rule: rev_induct)
    case Nil
    then have "inner' = inner" "fs' = fs" by (simp_all add: log_lines_def)
    then show ?case using assms(3) same(1) by (auto simp: log_books_def start filled_def)
  next
    case (snoc line lines)
    obtain inner2 fs2 where mid: "log_lines max_bytes lines (inner, fs) = (inner2, fs2)" by (metis surj_pair)
    then have last: "log_line max_bytes smooth line (inner2, fs2) = (inner', fs')" using snoc.prems(2) by (simp add: log_lines_def)
    have books: "log_books path keep bound (inner2, fs2)"
      and old: "suffix (kept_log path keep fs2) (kept_log path keep fs @ concat (map (\<lambda>line. line @ [CHR 0x0A]) lines))"
      and part: "filled path keep (max_bytes - longest) (concat (map (\<lambda>line. line @ [CHR 0x0A]) lines)) fs2"
      and other: "\<forall>p. p \<notin> set (log_files path keep) \<longrightarrow> fs2 p = fs p"
      using snoc.IH [OF _ mid] snoc.prems(1) by auto
    note step = log_line_books [OF books assms(2,4) _ last]
    have fits: "length line + 1 \<le> longest" using snoc.prems(1) by simp
    then have max: "length line + 1 \<le> max_bytes" using assms(6) by simp
    have "suffix (kept_log path keep fs2 @ line @ [CHR 0x0A])
        (kept_log path keep fs @ concat (map (\<lambda>line. line @ [CHR 0x0A]) (lines @ [line])))"
      using old by (auto simp: suffix_def)
    then have "suffix (kept_log path keep fs') (kept_log path keep fs @ concat (map (\<lambda>line. line @ [CHR 0x0A]) (lines @ [line])))"
      using step(2) [OF max] suffix_order.trans by blast
    then show ?case using step(1,3) [OF max] log_line_fills [OF books assms(2) fits assms(6) part last] other by simp
  qed
  then have books: "log_books path keep bound (inner', fs')"
    and kept: "suffix (kept_log path keep fs') (kept_log path keep fs @ concat (map (\<lambda>line. line @ [CHR 0x0A]) lines))"
    and part: "filled path keep (max_bytes - longest) (concat (map (\<lambda>line. line @ [CHR 0x0A]) lines)) fs'"
    and other: "\<And>p. p \<notin> set (log_files path keep) \<Longrightarrow> fs' p = fs p" by blast+
  have lost: "suffix (concat (map (\<lambda>line. line @ [CHR 0x0A]) lines)) (kept_log path keep fs')
    \<or> (\<forall>i \<in> {1..keep}. max_bytes < length (content fs' (numbered path i)) + longest)"
    using filled_kept [OF part] by auto
  have sizes: "\<forall>p \<in> set (log_files path keep). length (content fs' p) \<le> bound" using books by (simp add: log_books_def)
  have "sum_list (map (length \<circ> content fs') ps) \<le> length ps * bound" if "\<forall>p \<in> set ps. length (content fs' p) \<le> bound" for ps
    using that by (induction ps) auto
  moreover have "length (log_files path keep) = keep + 1" by (simp add: log_files_def del: upt_Suc)
  moreover have "length (kept_log path keep fs') = sum_list (map (length \<circ> content fs') (log_files path keep))"
    by (simp add: kept_log_def length_concat comp_def)
  ultimately have "length (kept_log path keep fs') \<le> (keep + 1) * bound" using sizes by metis
  moreover have "kept_log path keep fs = kept_log path keep fs0" by (simp add: kept_log_def same(1))
  moreover have "p \<notin> set (log_files path keep) \<Longrightarrow> fs' p = fs0 p" for p
    using other same(2) by (auto simp: log_files_set)
  ultimately show ?thesis using sizes kept lost by simp
qed

theorem log_space_bounded_witness:
  "\<exists>inner fs inner' fs'. new_logger True ''l'' 1 Map.empty = (Some inner, fs)
    \<and> log_lines 8 [''abc'', ''def'', ''ghi''] (inner, fs) = (inner', fs')
    \<and> length (kept_log ''l'' 1 fs') \<le> 16
    \<and> (suffix [CHR ''a'', CHR ''b'', CHR ''c'', CHR 0x0A, CHR ''d'', CHR ''e'', CHR ''f'', CHR 0x0A,
         CHR ''g'', CHR ''h'', CHR ''i'', CHR 0x0A] (kept_log ''l'' 1 fs')
       \<or> 4 < length (content fs' (numbered ''l'' 1)))"
proof -
  obtain inner fs where new: "new_logger True ''l'' 1 Map.empty = (Some inner, fs)"
    by (simp add: new_logger_def fs_append_def)
  obtain inner' fs' where run: "log_lines 8 [''abc'', ''def'', ''ghi''] (inner, fs) = (inner', fs')"
    by (metis surj_pair)
  have "kept_log ''l'' 1 Map.empty = []" by (simp add: kept_log_def log_files_def content_def)
  with log_space_bounded [OF new _ _ _ _ _ run, of 8 4] new run show ?thesis by (auto simp: content_def)
qed

end
