(* ===== verification/Startup.thy ===== *)
theory Startup
  imports Config Logging
begin

text \<open>
  Bringing the service up (\<open>src/server/mod.rs\<close>) and running it under the Windows service manager
  (\<open>src/win_service.rs\<close>). The configuration is loaded, the provider resolved and built, and the
  listener bound; each phase is reported, and a failure carries the phase it belongs to. The file
  system, the YAML parser, the resolver of names and the sockets are a record of functions. What a
  run does to its surroundings is the list of its events.
\<close>

section \<open>Options\<close>

datatype run_mode = Console | Service

record server_options =
  config_path :: string
  opt_ws_addr :: string
  opt_http_addr :: "string option"
  opt_mode :: run_mode

definition env_or :: "runtime \<Rightarrow> string \<Rightarrow> string \<Rightarrow> string" where
  "env_or R key fallback = (case env_var R key of Some v \<Rightarrow> v | None \<Rightarrow> fallback)"

definition options_from_env :: "runtime \<Rightarrow> run_mode \<Rightarrow> server_options" where
  "options_from_env R mode =
    \<lparr>config_path = env_or R ''SKF_CONFIG'' ''config/skf.yaml'',
     opt_ws_addr = env_or R ''SKF_WS_ADDR'' ''127.0.0.1:9001'',
     opt_http_addr = Some (env_or R ''SKF_HTTP_ADDR''
       (case mode of Console \<Rightarrow> ''0.0.0.0:8000'' | Service \<Rightarrow> ''127.0.0.1:8000'')),
     opt_mode = mode\<rparr>"

definition options_for_test :: "string \<Rightarrow> server_options" where
  "options_for_test path =
    \<lparr>config_path = path, opt_ws_addr = ''127.0.0.1:0'', opt_http_addr = None, opt_mode = Console\<rparr>"

section \<open>Addresses\<close>

datatype ip_addr = V4 u8 u8 u8 u8 | V6 "128 word"

record sock_addr =
  sock_ip :: ip_addr
  sock_port :: "16 word"

fun is_loopback :: "ip_addr \<Rightarrow> bool" where
  "is_loopback (V4 a b c d) \<longleftrightarrow> a = 127"
| "is_loopback (V6 x) \<longleftrightarrow> x = 1"

text \<open>Binding answers with the address of the listener, which may be refused in turn.\<close>

record 'p host =
  host_read :: "string \<Rightarrow> string + string"
  host_yaml :: "string \<Rightarrow> string + skf_config"
  host_os :: string
  host_build :: "skf_config \<Rightarrow> 'p"
  host_parse :: "string \<Rightarrow> string + sock_addr"
  host_resolve :: "string \<Rightarrow> string + sock_addr list"
  host_bind :: "sock_addr \<Rightarrow> string + (string + sock_addr)"
  host_show :: "sock_addr \<Rightarrow> string"

definition load_config :: "('p, 'm) host_scheme \<Rightarrow> string \<Rightarrow> string + skf_config" where
  "load_config H path =
    (case host_read H path of
      Inl e \<Rightarrow> Inl (''failed to read config '' @ quoted path @ '': '' @ e)
    | Inr txt \<Rightarrow> host_yaml H txt)"

definition resolve_bind_addr :: "'p host \<Rightarrow> string \<Rightarrow> string + sock_addr" where
  "resolve_bind_addr H addr =
    (case host_resolve H addr of
      Inl e \<Rightarrow> Inl (''invalid WS address '' @ quoted addr @ '': '' @ e)
    | Inr [] \<Rightarrow> Inl (''WS address '' @ quoted addr @ '' resolved to no address'')
    | Inr (a # _) \<Rightarrow> Inr a)"

section \<open>Binding\<close>

datatype startup_error = StartupConfig string | StartupProvider string | StartupBind string

primrec error_stage :: "startup_error \<Rightarrow> startup_stage" where
  "error_stage (StartupConfig _) = StageConfig"
| "error_stage (StartupProvider _) = StageProvider"
| "error_stage (StartupBind _) = StageBind"

definition error_exit_code :: "startup_error \<Rightarrow> u32" where
  "error_exit_code e = stage_exit_code (error_stage e)"

primrec startup_error_text :: "startup_error \<Rightarrow> string" where
  "startup_error_text (StartupConfig d) = ''configuration error: '' @ d"
| "startup_error_text (StartupProvider d) = ''provider resolution error: '' @ d"
| "startup_error_text (StartupBind d) = ''bind error: '' @ d"

record bound_server =
  bound_ws :: sock_addr
  bound_http :: "sock_addr option"

datatype startup_event = OnStage startup_stage | BindSocket sock_addr | ServeFiles string sock_addr

definition http_address :: "'p host \<Rightarrow> server_options \<Rightarrow> startup_error + sock_addr option" where
  "http_address H opts =
    (case opt_http_addr opts of
      None \<Rightarrow> Inr None
    | Some addr \<Rightarrow>
        (case host_parse H addr of
          Inl e \<Rightarrow> Inl (StartupConfig (''invalid HTTP address '' @ quoted addr @ '': '' @ e))
        | Inr a \<Rightarrow> Inr (Some a)))"

definition bind_listener ::
  "runtime \<Rightarrow> 'p host \<Rightarrow> server_options \<Rightarrow> skf_config \<Rightarrow> startup_event list \<times> (startup_error + sock_addr)" where
  "bind_listener R H opts config =
    (case resolve_bind_addr H (opt_ws_addr opts) of
      Inl e \<Rightarrow> ([], Inl (StartupBind e))
    | Inr ws \<Rightarrow>
        if \<not> is_loopback (sock_ip ws) \<and> \<not> allows_remote R config then
          ([], Inl (StartupBind (''refusing to bind WebSocket listener to non-loopback address '' @ host_show H ws
            @ '' without explicit opt-in; set allow_remote: true in the config or SKF_ALLOW_REMOTE=1'')))
        else
          ([BindSocket ws],
           (case host_bind H ws of
             Inl e \<Rightarrow> Inl (StartupBind (''failed to bind WebSocket listener on '' @ host_show H ws @ '': '' @ e))
           | Inr (Inl e) \<Rightarrow> Inl (StartupBind (''failed to read bound WebSocket address: '' @ e))
           | Inr (Inr a) \<Rightarrow> Inr a)))"

definition bind_with_progress ::
  "runtime \<Rightarrow> 'p host \<Rightarrow> server_options
    \<Rightarrow> startup_event list \<times> (startup_error + bound_server \<times> skf_config \<times> 'p)" where
  "bind_with_progress R H opts =
    (case load_config H (config_path opts) of
      Inl e \<Rightarrow> ([OnStage StageConfig], Inl (StartupConfig e))
    | Inr config \<Rightarrow>
        (case resolve_lib_path R (libs config) (cfg_default config) (host_os H) of
          Inl e \<Rightarrow> ([OnStage StageConfig, OnStage StageProvider], Inl (StartupProvider e))
        | Inr _ \<Rightarrow>
            (let provider = host_build H config
             in case http_address H opts of
                  Inl e \<Rightarrow> ([OnStage StageConfig, OnStage StageProvider], Inl e)
                | Inr http \<Rightarrow>
                    (case bind_listener R H opts config of
                      (events, Inl e) \<Rightarrow>
                        ([OnStage StageConfig, OnStage StageProvider, OnStage StageBind] @ events, Inl e)
                    | (events, Inr ws) \<Rightarrow>
                        ([OnStage StageConfig, OnStage StageProvider, OnStage StageBind] @ events,
                         Inr (\<lparr>bound_ws = ws, bound_http = http\<rparr>, config, provider))))))"

section \<open>The console\<close>

text \<open>The working directory becomes that of the executable when the configuration is not where the process
  was started.\<close>

definition prepare_working_directory :: "(string \<Rightarrow> bool) \<Rightarrow> string option \<Rightarrow> string \<Rightarrow> string \<Rightarrow> string" where
  "prepare_working_directory exists exe_dir path cwd =
    (if exists path then cwd else case exe_dir of Some dir \<Rightarrow> dir | None \<Rightarrow> cwd)"

text \<open>\<open>bind\<close>: the phases are not reported, and a failure is its text.\<close>

definition bind_server ::
  "runtime \<Rightarrow> 'p host \<Rightarrow> server_options
    \<Rightarrow> startup_event list \<times> (string + bound_server \<times> skf_config \<times> 'p)" where
  "bind_server R H opts =
    (case bind_with_progress R H opts of
      (events, r) \<Rightarrow>
        (filter (\<lambda>e. case e of OnStage _ \<Rightarrow> False | _ \<Rightarrow> True) events,
         (case r of Inl e \<Rightarrow> Inl (startup_error_text e) | Inr x \<Rightarrow> Inr x)))"

text \<open>The slot for the session builder is filled once per process: a later builder is dropped.\<close>

definition install_session_builder :: "'b option \<Rightarrow> 'b \<Rightarrow> 'b option" where
  "install_session_builder slot builder = (case slot of None \<Rightarrow> Some builder | Some b \<Rightarrow> Some b)"

definition installed_session_builder :: "'b option \<Rightarrow> 'b option" where
  "installed_session_builder slot = slot"

text \<open>What \<open>serve\<close> starts beside the loop: the demonstration files over HTTP, at the address of their own when
  there is one.\<close>

definition serve_files :: "runtime \<Rightarrow> bound_server \<Rightarrow> startup_event list" where
  "serve_files R bound =
    (case bound_http bound of Some a \<Rightarrow> [ServeFiles (env_or R ''SKF_API_DIR'' ''api'') a] | None \<Rightarrow> [])"

text \<open>\<open>run_server\<close>: the surroundings depend on the working directory; the address is reported before a missing
  session builder is, and the sessions are built from what was bound.\<close>

definition run_server ::
  "runtime \<Rightarrow> (string \<Rightarrow> 'p host) \<Rightarrow> (string \<Rightarrow> bool) \<Rightarrow> string option \<Rightarrow> string \<Rightarrow> server_options
    \<Rightarrow> (skf_config \<Rightarrow> 'p \<Rightarrow> 's) option \<Rightarrow> (bound_server \<Rightarrow> 'p \<Rightarrow> 's \<Rightarrow> string + unit)
    \<Rightarrow> startup_event list \<times> bound_server option \<times> (string + unit)" where
  "run_server R host_in exists exe_dir cwd opts slot serve =
    (case bind_server R (host_in (prepare_working_directory exists exe_dir (config_path opts) cwd)) opts of
      (events, Inl e) \<Rightarrow> (events, None, Inl e)
    | (events, Inr (bound, config, provider)) \<Rightarrow>
        (case installed_session_builder slot of
          Some builder \<Rightarrow>
            (events @ serve_files R bound, Some bound, serve bound provider (builder config provider))
        | None \<Rightarrow>
            (events, Some bound,
             Inl ''no session builder installed; call install_session_builder() during startup'')))"

section \<open>The Windows service\<close>

definition lines_head :: "string \<Rightarrow> string" where
  "lines_head s = takeWhile (\<lambda>c. c \<noteq> CHR 0x0A) s"

definition short_reason :: "string \<Rightarrow> string" where
  "short_reason message = concat (take 200 (chars (trim (lines_head message))))"

datatype scm_state = ScmStartPending | ScmRunning | ScmStopped

text \<open>A report to the service manager has a checkpoint and an exit code, and accepts controls only
  while running.\<close>

datatype service_event = Report scm_state nat u32 | WriteStatus status_file

definition accepts_stop :: "scm_state \<Rightarrow> bool" where
  "accepts_stop s \<longleftrightarrow> s = ScmRunning"

definition stages_of :: "startup_event list \<Rightarrow> startup_stage list" where
  "stages_of events = List.map_filter (\<lambda>e. case e of OnStage s \<Rightarrow> Some s | _ \<Rightarrow> None) events"

text \<open>The progress callback: each phase raises the checkpoint, writes the status and reports.\<close>

primrec progress ::
  "(nat \<Rightarrow> string) \<Rightarrow> u32 \<Rightarrow> string \<Rightarrow> nat \<Rightarrow> startup_stage list \<Rightarrow> service_event list" where
  "progress stamp pid started n [] = []"
| "progress stamp pid started n (stage # stages) =
    WriteStatus (status_pending stage (Some pid) (stamp (n + 2)) (Some started))
    # Report ScmStartPending (Suc n) 0 # progress stamp pid started (Suc n) stages"

text \<open>\<open>run_service\<close>. Whether the control handler can be registered, the successive readings of the clock,
  whether the runtime and a session builder are there and how serving ends are arguments. Without the
  handler nothing can be reported; a missing runtime or builder ends the run at once.\<close>

definition run_service ::
  "runtime \<Rightarrow> 'p host \<Rightarrow> (nat \<Rightarrow> string) \<Rightarrow> u32 \<Rightarrow> string + unit \<Rightarrow> bool \<Rightarrow> bool \<Rightarrow> string + unit
    \<Rightarrow> service_event list \<times> (string + unit)" where
  "run_service R H stamp pid registered runtime_ok builder served =
    (case registered of
      Inl e \<Rightarrow> ([], Inl (''unable to register service control handler: '' @ e))
    | Inr _ \<Rightarrow>
    (let started = stamp 0;
         begun = [Report ScmStartPending 0 0,
           WriteStatus (status_pending StageConfig (Some pid) (stamp 1) (Some started))]
     in if \<not> runtime_ok then (begun, Inl ''unable to create Tokio runtime'')
        else
          (case bind_with_progress R H (options_from_env R Service) of
            (events, bound) \<Rightarrow>
              (let stages = stages_of events; k = length stages + 2;
                   begun = begun @ progress stamp pid started 0 stages
               in case bound of
                    Inl e \<Rightarrow>
                      (begun @ [WriteStatus (status_failed (error_stage e) (error_exit_code e)
                           (short_reason (startup_error_text e)) (Some pid) (stamp k) (Some started)),
                         Report ScmStopped 0 (error_exit_code e)],
                       Inl (startup_error_text e))
                  | Inr (server, config, provider) \<Rightarrow>
                      (let up = begun @
                         [WriteStatus (status_running (host_show H (bound_ws server)) (Some pid) (stamp k) (Some started)),
                          Report ScmRunning 0 0]
                       in if \<not> builder then (up, Inl ''no session builder installed'')
                          else
                            (case served of
                              Inr _ \<Rightarrow>
                                (up @ [WriteStatus (status_stopped (stamp (Suc k)) (Some started)), Report ScmStopped 0 0],
                                 Inr ())
                            | Inl e \<Rightarrow>
                                (up @ [WriteStatus (status_failed StageServe EXIT_SERVE (short_reason e) (Some pid)
                                    (stamp (Suc k)) (Some started)),
                                   Report ScmStopped 0 EXIT_SERVE],
                                 Inl e)))))))"

section \<open>Facts\<close>

lemma bind_listener_events:
  assumes "bind_listener R H opts config = (events, r)"
  shows "events = [] \<or> (\<exists>ws. events = [BindSocket ws] \<and> (is_loopback (sock_ip ws) \<or> allows_remote R config)
      \<and> resolve_bind_addr H (opt_ws_addr opts) = Inr ws)"
    "r = Inr a \<Longrightarrow> events \<noteq> []" "r = Inl e \<Longrightarrow> error_stage e = StageBind"
  using assms by (auto simp: bind_listener_def split: sum.splits if_splits)

lemma stages_of_simps [simp]:
  "stages_of [] = []" "stages_of (OnStage s # es) = s # stages_of es" "stages_of (BindSocket a # es) = stages_of es"
  by (simp_all add: stages_of_def List.map_filter_def)

lemma bind_progress_cases:
  assumes "bind_with_progress R H opts = (events, r)"
  obtains e where "events = [OnStage StageConfig]" "r = Inl (StartupConfig e)" "load_config H (config_path opts) = Inl e"
  | config e where "events = [OnStage StageConfig, OnStage StageProvider]" "r = Inl e"
      "load_config H (config_path opts) = Inr config" "error_stage e = StageProvider \<or> http_address H opts = Inl e"
  | config es e where "events = [OnStage StageConfig, OnStage StageProvider, OnStage StageBind] @ es"
      "load_config H (config_path opts) = Inr config" "bind_listener R H opts config = (es, Inl e)" "r = Inl e"
  | config es ws server where "events = [OnStage StageConfig, OnStage StageProvider, OnStage StageBind] @ es"
      "load_config H (config_path opts) = Inr config" "bind_listener R H opts config = (es, Inr ws)"
      "r = Inr (server, config, host_build H config)" "bound_ws server = ws"
  using assms unfolding bind_with_progress_def Let_def
  by (auto split: sum.splits prod.splits)

lemma bind_server_cases:
  assumes "bind_server R H opts = (events, r)"
  obtains e where "r = Inl (startup_error_text e)"
  | config ws server path where "events = [BindSocket ws]" "is_loopback (sock_ip ws) \<or> allows_remote R config"
      "load_config H (config_path opts) = Inr config"
      "resolve_lib_path R (libs config) (cfg_default config) (host_os H) = Inr path"
      "r = Inr (server, config, host_build H config)"
proof -
  obtain es x where x: "bind_with_progress R H opts = (es, x)" by (cases "bind_with_progress R H opts")
  show thesis
  proof (cases x)
    case (Inl e)
    then have "r = Inl (startup_error_text e)" using assms x by (simp add: bind_server_def)
    then show thesis by (rule that(1))
  next
    case (Inr y)
    from x show thesis
    proof (cases rule: bind_progress_cases)
      case (4 config es' ws server)
      from bind_listener_events(1,2) [OF 4(3)] obtain a where
        a: "es' = [BindSocket a]" "is_loopback (sock_ip a) \<or> allows_remote R config" by auto
      obtain path where path: "resolve_lib_path R (libs config) (cfg_default config) (host_os H) = Inr path"
        using x 4 by (auto simp: bind_with_progress_def split: sum.splits)
      have "events = [BindSocket a]" "r = Inr (server, config, host_build H config)"
        using assms x 4 a by (simp_all add: bind_server_def)
      then show thesis using that(2) a(2) 4(2) path by blast
    qed (use Inr in auto)
  qed
qed

primrec checkpoint_of :: "service_event \<Rightarrow> nat option" where
  "checkpoint_of (Report s n _) = (if s = ScmStartPending then Some n else None)"
| "checkpoint_of (WriteStatus _) = None"

definition checkpoints :: "service_event list \<Rightarrow> nat list" where
  "checkpoints events = List.map_filter checkpoint_of events"

lemma checkpoints_simps [simp]:
  "checkpoints [] = []" "checkpoints (e # es) = (case checkpoint_of e of None \<Rightarrow> checkpoints es | Some n \<Rightarrow> n # checkpoints es)"
  "checkpoints (es @ es') = checkpoints es @ checkpoints es'"
  by (simp_all add: checkpoints_def map_filter_simps split: option.split) (induction es; simp add: map_filter_simps split: option.split)

lemma progress_checkpoints: "checkpoints (progress stamp pid started n stages) = [Suc n..<Suc n + length stages]"
  by (induction stages arbitrary: n) (simp_all add: upt_conv_Cons del: upt_Suc)

lemma progress_reports: "Report s n c \<in> set (progress stamp pid started m stages) \<Longrightarrow> s = ScmStartPending"
  by (induction stages arbitrary: m) auto

section \<open>Properties\<close>

text \<open>C27: Binding the WebSocket listener opens a socket only after the configuration was read, at most one, and
  only at the first address the configured name resolves to: one that is not a loopback address is
  never opened unless the configuration or the environment allows remote clients. The
  demonstration files have an address of their own, which this check does not cover.\<close>

theorem remote_bind_refused:
  assumes "bind_with_progress R H opts = (events, r)" and "BindSocket ws \<in> set events"
  shows "\<exists>config. load_config H (config_path opts) = Inr config
    \<and> (is_loopback (sock_ip ws) \<or> allows_remote R config) \<and> resolve_bind_addr H (opt_ws_addr opts) = Inr ws
    \<and> events = [OnStage StageConfig, OnStage StageProvider, OnStage StageBind, BindSocket ws]"
  using assms(1)
proof (cases rule: bind_progress_cases)
  case (3 config es e)
  then show ?thesis using bind_listener_events(1) [OF 3(3)] assms(2) by auto
next
  case (4 config es a server)
  then show ?thesis using bind_listener_events(1) [OF 4(3)] assms(2) by auto
qed (use assms(2) in auto)

definition example_host :: "nat host" where
  "example_host =
    \<lparr>host_read = \<lambda>_. Inr ''default: GM'',
     host_yaml = \<lambda>_. Inr \<lparr>cfg_default = ''GM'', vendor = [], allow_remote = None, libs = [(''GM'', [(''linux'', ''libgm.so'')])]\<rparr>,
     host_os = ''linux'', host_build = \<lambda>_. 0, host_parse = \<lambda>_. Inr \<lparr>sock_ip = V4 127 0 0 1, sock_port = 8000\<rparr>,
     host_resolve = \<lambda>_. Inr [\<lparr>sock_ip = V4 127 0 0 1, sock_port = 9001\<rparr>],
     host_bind = \<lambda>a. Inr (Inr a), host_show = \<lambda>_. ''127.0.0.1:9001''\<rparr>"

lemma example_binds:
  "bind_with_progress plain_runtime example_host (options_for_test ''skf.yaml'') =
    ([OnStage StageConfig, OnStage StageProvider, OnStage StageBind, BindSocket \<lparr>sock_ip = V4 127 0 0 1, sock_port = 9001\<rparr>],
     Inr (\<lparr>bound_ws = \<lparr>sock_ip = V4 127 0 0 1, sock_port = 9001\<rparr>, bound_http = None\<rparr>,
       \<lparr>cfg_default = ''GM'', vendor = [], allow_remote = None, libs = [(''GM'', [(''linux'', ''libgm.so'')])]\<rparr>, 0))"
  by (simp add: bind_with_progress_def load_config_def example_host_def options_for_test_def resolve_lib_path_def
      os_lookup_def http_address_def bind_listener_def resolve_bind_addr_def)

theorem remote_bind_refused_witness:
  "\<exists>config. load_config example_host (config_path (options_for_test ''skf.yaml'')) = Inr config
    \<and> (is_loopback (V4 127 0 0 1) \<or> allows_remote plain_runtime config)"
  using remote_bind_refused [OF example_binds, of "\<lparr>sock_ip = V4 127 0 0 1, sock_port = 9001\<rparr>"] by auto

text \<open>C28: A startup that fails names its phase: the phase of the error is the last one that was reported, so
  the four phases end with four different exit codes, none of them zero. The one exception is an
  invalid HTTP address, which is a configuration error found after the provider was resolved.\<close>

theorem startup_failure_phase:
  assumes "bind_with_progress R H opts = (events, Inl e)"
  shows "(error_stage e = last (stages_of events)
      \<or> error_stage e = StageConfig \<and> stages_of events = [StageConfig, StageProvider] \<and> http_address H opts = Inl e)
    \<and> error_exit_code e \<noteq> 0
    \<and> (\<forall>e'. error_exit_code e' = error_exit_code e \<longleftrightarrow> error_stage e' = error_stage e)"
proof -
  have http: "http_address H opts = Inl e \<Longrightarrow> error_stage e = StageConfig"
    by (auto simp: http_address_def split: option.splits sum.splits)
  have "error_stage e = last (stages_of events)
      \<or> error_stage e = StageConfig \<and> stages_of events = [StageConfig, StageProvider] \<and> http_address H opts = Inl e"
    using assms
  proof (cases rule: bind_progress_cases)
    case (3 config es e')
    then show ?thesis using bind_listener_events(1,3) [OF 3(3)] by auto
  qed (use http in auto)
  then show ?thesis using exit_code_nonzero exit_code_inj by (simp add: error_exit_code_def)
qed

theorem startup_failure_phase_witness:
  "\<exists>events e. bind_with_progress plain_runtime (example_host\<lparr>host_resolve := \<lambda>_. Inr []\<rparr>) (options_for_test ''skf.yaml'')
      = (events, Inl e) \<and> error_stage e = last (stages_of events) \<and> error_exit_code e \<noteq> 0"
proof -
  have run: "bind_with_progress plain_runtime (example_host\<lparr>host_resolve := \<lambda>_. Inr []\<rparr>) (options_for_test ''skf.yaml'')
    = ([OnStage StageConfig, OnStage StageProvider, OnStage StageBind],
       Inl (StartupBind (''WS address '' @ quoted ''127.0.0.1:0'' @ '' resolved to no address'')))"
    by (simp add: bind_with_progress_def load_config_def example_host_def options_for_test_def resolve_lib_path_def
        os_lookup_def http_address_def bind_listener_def resolve_bind_addr_def)
  from startup_failure_phase [OF run] run show ?thesis by auto
qed

text \<open>C29: What the service manager is told: without a control handler nothing. Otherwise the checkpoints count
  up one by one, running is reported exactly when the runtime could be created and the listener is
  bound, and the last report is that the service stopped exactly when the runtime could be created and
  binding failed or a session builder is installed; its exit code is zero exactly on success. In every
  other case the service fails without having reported that it stopped.\<close>

theorem service_reports:
  assumes "run_service R H stamp pid registered runtime_ok builder served = (events, res)"
    and "bind_with_progress R H (options_from_env R Service) = (phases, bound)"
  shows "(isl registered \<longrightarrow> events = [])
    \<and> checkpoints events = [0..<length (checkpoints events)]
    \<and> ((\<exists>c. Report ScmRunning 0 c \<in> set events) \<longleftrightarrow> \<not> isl registered \<and> runtime_ok \<and> \<not> isl bound)
    \<and> (\<not> isl registered \<and> runtime_ok \<and> (isl bound \<or> builder) \<longrightarrow>
        (\<exists>c. events \<noteq> [] \<and> last events = Report ScmStopped 0 c \<and> (c = 0 \<longleftrightarrow> res = Inr ())))
    \<and> (isl registered \<or> \<not> runtime_ok \<or> \<not> isl bound \<and> \<not> builder \<longrightarrow>
        isl res \<and> (\<forall>n c. Report ScmStopped n c \<notin> set events))"
proof -
  have up: "0 # [Suc 0..<Suc n] = [0..<Suc n]" "[0..<Suc 0] = [0]" for n by (simp_all add: upt_conv_Cons)
  show ?thesis
    using assms
    by (auto simp: run_service_def Let_def progress_checkpoints up error_exit_code_def exit_code_nonzero EXIT_SERVE_def
        simp del: upt_Suc dest: progress_reports split: if_splits sum.splits prod.splits)
qed

theorem service_reports_witness:
  "\<exists>events. run_service plain_runtime example_host (\<lambda>_. ''0'') 7 (Inr ()) True True (Inr ()) = (events, Inr ())
    \<and> last events = Report ScmStopped 0 0"
proof -
  have bound: "bind_with_progress plain_runtime example_host (options_from_env plain_runtime Service)
    = ([OnStage StageConfig, OnStage StageProvider, OnStage StageBind, BindSocket \<lparr>sock_ip = V4 127 0 0 1, sock_port = 9001\<rparr>],
       Inr (\<lparr>bound_ws = \<lparr>sock_ip = V4 127 0 0 1, sock_port = 9001\<rparr>,
          bound_http = Some \<lparr>sock_ip = V4 127 0 0 1, sock_port = 8000\<rparr>\<rparr>,
        \<lparr>cfg_default = ''GM'', vendor = [], allow_remote = None, libs = [(''GM'', [(''linux'', ''libgm.so'')])]\<rparr>, 0))"
    by (simp add: bind_with_progress_def load_config_def example_host_def options_from_env_def resolve_lib_path_def
        os_lookup_def http_address_def bind_listener_def resolve_bind_addr_def)
  obtain events where run: "run_service plain_runtime example_host (\<lambda>_. ''0'') 7 (Inr ()) True True (Inr ()) = (events, Inr ())"
    by (simp add: run_service_def bound Let_def)
  from service_reports [OF run bound] run show ?thesis by auto
qed

end
