(* ===== verification/Diagnostic.thy ===== *)
theory Diagnostic
  imports Startup
begin

text \<open>
  The \<open>diagnose\<close> command (\<open>src/diagnostic.rs\<close>): every startup phase is tried once and the outcome is
  put in a report of booleans, names and error classes. The host is that of the startup theory with
  the three further questions the command asks.
\<close>

section \<open>The report\<close>

record diagnostic_report =
  dr_config_loaded :: bool
  dr_config_error_class :: "string option"
  dr_provider_alias :: string
  dr_provider_resolved :: bool
  dr_provider_error_class :: "string option"
  dr_library_file_present :: bool
  dr_library_loaded :: bool
  dr_library_error_class :: "string option"
  dr_listener_bound :: bool
  dr_listener_bindable :: bool
  dr_ws_addr :: string
  dr_state :: "string option"
  dr_stage :: "string option"
  dr_code :: "u32 option"
  dr_address :: "string option"
  dr_uptime_seconds :: "u64 option"

record 'p diagnostic_host = "'p host" +
  host_exists :: "string \<Rightarrow> bool"
  host_loads :: "string \<Rightarrow> bool"
  host_seconds :: u64

definition config_error_class :: "string \<Rightarrow> string" where
  "config_error_class message = (if prefix ''failed to read config'' message then ''io'' else ''parse'')"

definition resolve_addr :: "('p, 'm) host_scheme \<Rightarrow> string \<Rightarrow> sock_addr option" where
  "resolve_addr H addr = (case host_resolve H addr of Inr (a # _) \<Rightarrow> Some a | _ \<Rightarrow> None)"

text \<open>Only a loopback address is tried. Binding is visible outside: the sockets that were opened come with
  the answer.\<close>

definition listener_bindable :: "('p, 'm) host_scheme \<Rightarrow> string \<Rightarrow> sock_addr list \<times> bool" where
  "listener_bindable H addr =
    (case resolve_addr H addr of
      Some a \<Rightarrow> if is_loopback (sock_ip a) then ([a], \<not> isl (host_bind H a)) else ([], False)
    | None \<Rightarrow> ([], False))"

definition fresh_report :: "string \<Rightarrow> bool \<Rightarrow> diagnostic_report" where
  "fresh_report ws_addr bindable =
    \<lparr>dr_config_loaded = False, dr_config_error_class = None, dr_provider_alias = [], dr_provider_resolved = False,
     dr_provider_error_class = None, dr_library_file_present = False, dr_library_loaded = False,
     dr_library_error_class = None, dr_listener_bound = False, dr_listener_bindable = bindable,
     dr_ws_addr = ws_addr, dr_state = None, dr_stage = None, dr_code = None, dr_address = None,
     dr_uptime_seconds = None\<rparr>"

text \<open>What the status file of a running service adds.\<close>

definition with_status :: "u64 \<Rightarrow> status_file option \<Rightarrow> diagnostic_report \<Rightarrow> diagnostic_report" where
  "with_status now status r =
    (case status of
      None \<Rightarrow> r
    | Some file \<Rightarrow>
        r\<lparr>dr_listener_bound := (sf_state file = Running), dr_state := Some (state_name (sf_state file)),
          dr_stage := Some (stage_as_str (sf_stage file)), dr_code := sf_code file, dr_address := sf_address file,
          dr_uptime_seconds :=
            (case Option.bind (sf_started_at file) parse_u64 of
              None \<Rightarrow> dr_uptime_seconds r
            | Some started \<Rightarrow> Some (if started \<le> now then now - started else 0))\<rparr>)"

text \<open>The whole run, with the sockets it opened.\<close>

definition diagnose ::
  "runtime \<Rightarrow> 'p diagnostic_host \<Rightarrow> string \<Rightarrow> string \<Rightarrow> status_file option \<Rightarrow> sock_addr list \<times> diagnostic_report" where
  "diagnose R H path ws_addr status =
    (case listener_bindable H ws_addr of
      (probed, bindable) \<Rightarrow>
        (probed,
         let report = fresh_report ws_addr bindable
         in case load_config H path of
              Inl e \<Rightarrow> report\<lparr>dr_config_error_class := Some (config_error_class e)\<rparr>
            | Inr config \<Rightarrow>
                (let report = report\<lparr>dr_config_loaded := True, dr_provider_alias := cfg_default config\<rparr>
                 in case resolve_lib_path R (libs config) (cfg_default config) (host_os H) of
                      Inl _ \<Rightarrow> report\<lparr>dr_provider_error_class := Some ''not_configured''\<rparr>
                    | Inr lib \<Rightarrow>
                        with_status (host_seconds H) status
                          (report\<lparr>dr_provider_resolved := True, dr_library_file_present := host_exists H lib,
                            dr_library_loaded := host_loads H lib,
                            dr_library_error_class := (if host_loads H lib then None else Some ''load_failed'')\<rparr>))))"

section \<open>The text\<close>

definition show_bool :: "bool \<Rightarrow> string" where
  "show_bool b = (if b then ''true'' else ''false'')"

definition text_line :: "string \<Rightarrow> string \<Rightarrow> string" where
  "text_line key v = key @ v @ [CHR 0x0A]"

definition text_option :: "string \<Rightarrow> ('a \<Rightarrow> string) \<Rightarrow> 'a option \<Rightarrow> string" where
  "text_option key show_it v = (case v of None \<Rightarrow> [] | Some x \<Rightarrow> text_line key (show_it x))"

definition render_text :: "diagnostic_report \<Rightarrow> string" where
  "render_text r =
    text_line ''config_loaded:      '' (show_bool (dr_config_loaded r))
    @ text_option ''config_error_class: '' (\<lambda>s. s) (dr_config_error_class r)
    @ text_line ''provider_alias:     '' (dr_provider_alias r)
    @ text_line ''provider_resolved:  '' (show_bool (dr_provider_resolved r))
    @ text_option ''provider_error:     '' (\<lambda>s. s) (dr_provider_error_class r)
    @ text_line ''library_file:       '' (show_bool (dr_library_file_present r))
    @ text_line ''library_loaded:     '' (show_bool (dr_library_loaded r))
    @ text_option ''library_error:      '' (\<lambda>s. s) (dr_library_error_class r)
    @ text_line ''listener_bound:     '' (show_bool (dr_listener_bound r))
    @ text_line ''listener_bindable:  '' (show_bool (dr_listener_bindable r))
    @ text_line ''ws_addr:            '' (dr_ws_addr r)
    @ text_option ''state:              '' (\<lambda>s. s) (dr_state r)
    @ text_option ''stage:              '' (\<lambda>s. s) (dr_stage r)
    @ text_option ''code:               '' (\<lambda>n. show_nat (unat n)) (dr_code r)
    @ text_option ''address:            '' (\<lambda>s. s) (dr_address r)
    @ text_option ''uptime_seconds:     '' (\<lambda>n. show_nat (unat n)) (dr_uptime_seconds r)"

text \<open>\<open>render_json\<close>, before the text printer: a missing value is null here.\<close>

definition nullable_json :: "('a \<Rightarrow> json) \<Rightarrow> 'a option \<Rightarrow> json" where
  "nullable_json enc v = (case v of None \<Rightarrow> Null | Some x \<Rightarrow> enc x)"

definition report_to_json :: "diagnostic_report \<Rightarrow> json" where
  "report_to_json r =
    Object
      [(''config_loaded'', Boolean (dr_config_loaded r)),
       (''config_error_class'', nullable_json String (dr_config_error_class r)),
       (''provider_alias'', String (dr_provider_alias r)), (''provider_resolved'', Boolean (dr_provider_resolved r)),
       (''provider_error_class'', nullable_json String (dr_provider_error_class r)),
       (''library_file_present'', Boolean (dr_library_file_present r)), (''library_loaded'', Boolean (dr_library_loaded r)),
       (''library_error_class'', nullable_json String (dr_library_error_class r)),
       (''listener_bound'', Boolean (dr_listener_bound r)), (''listener_bindable'', Boolean (dr_listener_bindable r)),
       (''ws_addr'', String (dr_ws_addr r)), (''state'', nullable_json String (dr_state r)),
       (''stage'', nullable_json String (dr_stage r)), (''code'', nullable_json json_u32 (dr_code r)),
       (''address'', nullable_json String (dr_address r)),
       (''uptime_seconds'', nullable_json (\<lambda>n. Number (PosInt n)) (dr_uptime_seconds r))]"

section \<open>Facts\<close>

lemma bindable_yaml: "listener_bindable (H\<lparr>host_yaml := y\<rparr>) ws = listener_bindable H ws"
proof -
  have "resolve_addr (H\<lparr>host_yaml := y\<rparr>) ws = resolve_addr H ws" by (cases H) (simp add: resolve_addr_def)
  then show ?thesis by (cases H) (simp add: listener_bindable_def split: option.split)
qed

section \<open>Properties\<close>

text \<open>C31: The report says nothing of the library but whether it is there and loads: two configurations with
  the same default provider give the same report and the same text, wherever their libraries are and
  whatever else they configure, as soon as both paths resolve and the answers to those two questions
  agree. Diagnosing opens at most one socket, and only at a loopback address: the first one that the
  configured name resolves to.\<close>

theorem diagnose_hides_library:
  assumes "cfg_default c = cfg_default c'"
    and "resolve_lib_path R (libs c) (cfg_default c) (host_os H) = Inr lib"
    and "resolve_lib_path R (libs c') (cfg_default c') (host_os H) = Inr lib'"
    and "host_exists H lib = host_exists H lib'" "host_loads H lib = host_loads H lib'"
  shows "diagnose R (H\<lparr>host_yaml := \<lambda>_. Inr c\<rparr>) path ws status = diagnose R (H\<lparr>host_yaml := \<lambda>_. Inr c'\<rparr>) path ws status
    \<and> render_text (snd (diagnose R (H\<lparr>host_yaml := \<lambda>_. Inr c\<rparr>) path ws status)) =
        render_text (snd (diagnose R (H\<lparr>host_yaml := \<lambda>_. Inr c'\<rparr>) path ws status))
    \<and> (fst (diagnose R H path ws status) = []
        \<or> (\<exists>a. fst (diagnose R H path ws status) = [a] \<and> is_loopback (sock_ip a) \<and> resolve_addr H ws = Some a))"
proof -
  have "diagnose R (H\<lparr>host_yaml := \<lambda>_. Inr c\<rparr>) path ws status = diagnose R (H\<lparr>host_yaml := \<lambda>_. Inr c'\<rparr>) path ws status"
    using assms by (simp add: diagnose_def bindable_yaml load_config_def Let_def split: sum.split prod.split)
  moreover have "fst (diagnose R H path ws status) = []
      \<or> (\<exists>a. fst (diagnose R H path ws status) = [a] \<and> is_loopback (sock_ip a) \<and> resolve_addr H ws = Some a)"
    by (simp add: diagnose_def listener_bindable_def split: option.split)
  ultimately show ?thesis by simp
qed

theorem diagnose_hides_library_witness:
  "diagnose plain_runtime
      \<lparr>host_read = \<lambda>_. Inr [], host_yaml = \<lambda>_. Inr \<lparr>cfg_default = ''GM'', vendor = [], allow_remote = None,
         libs = [(''GM'', [(''linux'', ''/opt/secret/libgm.so'')])]\<rparr>,
       host_os = ''linux'', host_build = \<lambda>_. (), host_parse = \<lambda>_. Inl [], host_resolve = \<lambda>_. Inr [],
       host_bind = \<lambda>_. Inl [], host_show = \<lambda>_. [], host_exists = \<lambda>_. True, host_loads = \<lambda>_. True, host_seconds = 0\<rparr>
      ''skf.yaml'' ''h:1'' None
    = diagnose plain_runtime
      \<lparr>host_read = \<lambda>_. Inr [], host_yaml = \<lambda>_. Inr \<lparr>cfg_default = ''GM'', vendor = [], allow_remote = None,
         libs = [(''GM'', [(''linux'', ''lib.so'')])]\<rparr>,
       host_os = ''linux'', host_build = \<lambda>_. (), host_parse = \<lambda>_. Inl [], host_resolve = \<lambda>_. Inr [],
       host_bind = \<lambda>_. Inl [], host_show = \<lambda>_. [], host_exists = \<lambda>_. True, host_loads = \<lambda>_. True, host_seconds = 0\<rparr>
      ''skf.yaml'' ''h:1'' None"
proof -
  define H :: "unit diagnostic_host" where
    "H = \<lparr>host_read = \<lambda>_. Inr [], host_yaml = \<lambda>_. Inl [], host_os = ''linux'', host_build = \<lambda>_. (),
       host_parse = \<lambda>_. Inl [], host_resolve = \<lambda>_. Inr [], host_bind = \<lambda>_. Inl [], host_show = \<lambda>_. [],
       host_exists = \<lambda>_. True, host_loads = \<lambda>_. True, host_seconds = 0\<rparr>"
  define c where "c = (\<lambda>lib. \<lparr>cfg_default = ''GM'', vendor = [], allow_remote = None, libs = [(''GM'', [(''linux'', lib)])]\<rparr>)"
  have res: "resolve_lib_path plain_runtime (libs (c lib)) (cfg_default (c lib)) (host_os H) = Inr (expand_env_vars plain_runtime lib)"
    for lib by (simp add: resolve_lib_path_def os_lookup_def c_def H_def)
  have "diagnose plain_runtime (H\<lparr>host_yaml := \<lambda>_. Inr (c ''/opt/secret/libgm.so'')\<rparr>) ''skf.yaml'' ''h:1'' None
    = diagnose plain_runtime (H\<lparr>host_yaml := \<lambda>_. Inr (c ''lib.so'')\<rparr>) ''skf.yaml'' ''h:1'' None"
    using diagnose_hides_library [OF _ res res, of "''/opt/secret/libgm.so''" "''lib.so''"]
    by (simp add: c_def H_def)
  then show ?thesis by (simp add: H_def c_def)
qed

end
