(* ===== verification/ServiceControl.thy ===== *)
theory ServiceControl
  imports Diagnostic
begin

text \<open>
  The commands that manage the Windows service (\<open>install\<close>, \<open>uninstall\<close>, \<open>start\<close>, \<open>stop\<close>, \<open>status\<close> of
  \<open>src/win_service.rs\<close>), the handler of its controls, the service process with the files beside its
  executable, and the command line of \<open>main\<close> (\<open>src/main.rs\<close>).

  The service manager is a record of its calls on an arbitrary state. Every call may fail with a
  text. A service that was deleted stays until it stopped and its last handle was closed, so the
  commands that delete one poll the manager; the loop ends when the clock passes the limit, and a
  run that would not end has no value.
\<close>

section \<open>The service manager\<close>

datatype scm_access =
    AccessConnect | AccessCreateService | AccessQueryStatus | AccessQueryConfig | AccessStart | AccessStop
  | AccessDelete | AccessChangeConfig

datatype scm_current =
    CurrentStopped | CurrentStartPending | CurrentStopPending | CurrentRunning | CurrentContinuePending
  | CurrentPausePending | CurrentPaused

record service_info =
  si_name :: string
  si_display_name :: string
  si_auto_start :: bool
  si_executable :: string
  si_arguments :: "string list"

record 'w scm =
  scm_connect :: "scm_access list \<Rightarrow> 'w \<Rightarrow> (string + unit) \<times> 'w"
  scm_open :: "string \<Rightarrow> scm_access list \<Rightarrow> 'w \<Rightarrow> (string + unit) \<times> 'w"
  scm_query :: "string \<Rightarrow> 'w \<Rightarrow> (string + scm_current \<times> u32 option) \<times> 'w"
  scm_query_config :: "string \<Rightarrow> 'w \<Rightarrow> (string + string) \<times> 'w"
  scm_start :: "string \<Rightarrow> 'w \<Rightarrow> (string + unit) \<times> 'w"
  scm_stop :: "string \<Rightarrow> 'w \<Rightarrow> (string + unit) \<times> 'w"
  scm_delete :: "string \<Rightarrow> 'w \<Rightarrow> (string + unit) \<times> 'w"
  scm_create :: "service_info \<Rightarrow> scm_access list \<Rightarrow> 'w \<Rightarrow> (string + unit) \<times> 'w"
  scm_describe :: "string \<Rightarrow> string \<Rightarrow> 'w \<Rightarrow> (string + unit) \<times> 'w"
  scm_close :: "string \<Rightarrow> 'w \<Rightarrow> 'w"
  scm_exe :: "'w \<Rightarrow> string option"
  scm_now :: "'w \<Rightarrow> duration"
  scm_sleep :: "duration \<Rightarrow> 'w \<Rightarrow> 'w"
  scm_print :: "string \<Rightarrow> 'w \<Rightarrow> 'w"
  scm_status_file :: "'w \<Rightarrow> status_file option"

definition SERVICE_NAME :: string where
  "SERVICE_NAME = ''LiuZXSKFService''"

definition SERVICE_DISPLAY_NAME :: string where
  "SERVICE_DISPLAY_NAME = ''LiuZX SKF Service''"

definition SERVICE_DESCRIPTION :: string where
  "SERVICE_DESCRIPTION =
    ''Unified SKF (USB Key / HSM) JSON-RPC gateway. WebSocket ws://127.0.0.1:9001, HTTP demo http://127.0.0.1:8000''"

text \<open>\<open>?\<close> after a call: its error, with the text of the place, ends the command.\<close>

definition scm_try ::
  "(string \<Rightarrow> string) \<Rightarrow> (string + 'a) \<times> 'w \<Rightarrow> ('a \<Rightarrow> 'w \<Rightarrow> ((string + unit) \<times> 'w) option)
    \<Rightarrow> ((string + unit) \<times> 'w) option" where
  "scm_try text r k = (case r of (Inl e, w) \<Rightarrow> Some (Inl (text e), w) | (Inr x, w) \<Rightarrow> k x w)"

definition manager_error :: "string \<Rightarrow> string" where
  "manager_error e = ''unable to connect to the Service Control Manager: '' @ e"

section \<open>Waiting for the removal\<close>

definition WAIT_DELETE_TIMEOUT :: duration where
  "WAIT_DELETE_TIMEOUT = 8000000000"

definition POLL_INTERVAL :: duration where
  "POLL_INTERVAL = 300000000"

text \<open>Ask for the service, closing the handle again; sleep while it is there. Both ends are success.\<close>

partial_function (option) wait_until_removed :: "'w scm \<Rightarrow> duration \<Rightarrow> duration \<Rightarrow> 'w \<Rightarrow> 'w option" where
  "wait_until_removed S started timeout w =
    (if scm_now S w - started < timeout then
       (case scm_open S SERVICE_NAME [AccessQueryStatus] w of
         (Inl _, w) \<Rightarrow> Some w
       | (Inr _, w) \<Rightarrow> wait_until_removed S started timeout (scm_sleep S POLL_INTERVAL (scm_close S SERVICE_NAME w)))
     else Some w)"

definition delete_if_present :: "'w scm \<Rightarrow> 'w \<Rightarrow> 'w option" where
  "delete_if_present S w =
    (case scm_open S SERVICE_NAME [AccessQueryStatus, AccessStop, AccessDelete] w of
      (Inl _, w) \<Rightarrow> Some w
    | (Inr _, w) \<Rightarrow>
        (case scm_query S SERVICE_NAME w of
          (st, w) \<Rightarrow>
            (let already_stopped = (case st of Inr (cur, _) \<Rightarrow> cur = CurrentStopped | Inl _ \<Rightarrow> False);
                 w = (if already_stopped then w else snd (scm_stop S SERVICE_NAME w));
                 w = scm_close S SERVICE_NAME (snd (scm_delete S SERVICE_NAME w))
             in wait_until_removed S (scm_now S w) WAIT_DELETE_TIMEOUT w)))"

section \<open>The commands\<close>

definition installed_service :: "string \<Rightarrow> service_info" where
  "installed_service exe =
    \<lparr>si_name = SERVICE_NAME, si_display_name = SERVICE_DISPLAY_NAME, si_auto_start = True, si_executable = exe,
     si_arguments = [''--service'']\<rparr>"

definition install :: "'w scm \<Rightarrow> 'w \<Rightarrow> ((string + unit) \<times> 'w) option" where
  "install S w =
    scm_try manager_error (scm_connect S [AccessConnect, AccessCreateService] w) (\<lambda>_ w.
    (case scm_exe S w of
      None \<Rightarrow> Some (Inl ''unable to locate skf-service.exe'', w)
    | Some exe \<Rightarrow>
        Option.bind (delete_if_present S w) (\<lambda>w.
        scm_try (\<lambda>e. ''failed to register service '' @ quoted SERVICE_NAME @ '': '' @ e)
          (scm_create S (installed_service exe) [AccessChangeConfig] w) (\<lambda>_ w.
        let w = scm_close S SERVICE_NAME (snd (scm_describe S SERVICE_NAME SERVICE_DESCRIPTION w)) in
        scm_try (\<lambda>e. ''service registered but could not be opened for start: '' @ e)
          (scm_open S SERVICE_NAME [AccessStart] w) (\<lambda>_ w.
        (case scm_start S SERVICE_NAME w of
          (Inl e, w) \<Rightarrow> Some (Inl (''service registered but failed to start: '' @ e), scm_close S SERVICE_NAME w)
        | (Inr _, w) \<Rightarrow>
            Some (Inr (), scm_close S SERVICE_NAME (scm_print S
              (''Service '' @ quoted SERVICE_NAME @ '' installed (AutoStart) and started. Manage with: sc query ''
                @ SERVICE_NAME) w))))))))"

definition not_installed :: string where
  "not_installed = ''service '' @ quoted SERVICE_NAME @ '' is not installed''"

definition uninstall :: "'w scm \<Rightarrow> 'w \<Rightarrow> ((string + unit) \<times> 'w) option" where
  "uninstall S w =
    scm_try manager_error (scm_connect S [AccessConnect] w) (\<lambda>_ w.
    scm_try (\<lambda>_. not_installed) (scm_open S SERVICE_NAME [AccessQueryStatus, AccessStop, AccessDelete] w) (\<lambda>_ w.
    (case scm_query S SERVICE_NAME w of
      (Inl e, w) \<Rightarrow> Some (Inl e, scm_close S SERVICE_NAME w)
    | (Inr (cur, _), w) \<Rightarrow>
        (let w = (if cur \<noteq> CurrentStopped then snd (scm_stop S SERVICE_NAME w) else w);
             w = scm_close S SERVICE_NAME (snd (scm_delete S SERVICE_NAME w))
         in Option.bind (wait_until_removed S (scm_now S w) WAIT_DELETE_TIMEOUT w) (\<lambda>w.
              Some (Inr (), scm_print S (''Service '' @ quoted SERVICE_NAME @ '' removed.'') w))))))"

definition start_service :: "'w scm \<Rightarrow> 'w \<Rightarrow> ((string + unit) \<times> 'w) option" where
  "start_service S w =
    scm_try manager_error (scm_connect S [AccessConnect] w) (\<lambda>_ w.
    scm_try (\<lambda>_. not_installed) (scm_open S SERVICE_NAME [AccessStart] w) (\<lambda>_ w.
    (case scm_start S SERVICE_NAME w of
      (Inl e, w) \<Rightarrow> Some (Inl (''failed to start '' @ quoted SERVICE_NAME @ '': '' @ e), scm_close S SERVICE_NAME w)
    | (Inr _, w) \<Rightarrow>
        Some (Inr (), scm_close S SERVICE_NAME (scm_print S (''Service '' @ quoted SERVICE_NAME @ '' started.'') w)))))"

definition stop_service :: "'w scm \<Rightarrow> 'w \<Rightarrow> ((string + unit) \<times> 'w) option" where
  "stop_service S w =
    scm_try manager_error (scm_connect S [AccessConnect] w) (\<lambda>_ w.
    scm_try (\<lambda>_. not_installed) (scm_open S SERVICE_NAME [AccessQueryStatus, AccessStop] w) (\<lambda>_ w.
    (case scm_query S SERVICE_NAME w of
      (Inl e, w) \<Rightarrow> Some (Inl e, scm_close S SERVICE_NAME w)
    | (Inr (cur, _), w) \<Rightarrow>
        if cur \<noteq> CurrentStopped then
          (case scm_stop S SERVICE_NAME w of
            (Inl e, w) \<Rightarrow> Some (Inl (''failed to stop '' @ quoted SERVICE_NAME @ '': '' @ e), scm_close S SERVICE_NAME w)
          | (Inr _, w) \<Rightarrow>
              Some (Inr (), scm_close S SERVICE_NAME (scm_print S (''Service '' @ quoted SERVICE_NAME @ '' stopped.'') w)))
        else
          Some (Inr (), scm_close S SERVICE_NAME
            (scm_print S (''Service '' @ quoted SERVICE_NAME @ '' is already stopped.'') w)))))"

section \<open>The state of the service\<close>

primrec current_name :: "scm_current \<Rightarrow> string" where
  "current_name CurrentStopped = ''Stopped''"
| "current_name CurrentStartPending = ''StartPending''"
| "current_name CurrentStopPending = ''StopPending''"
| "current_name CurrentRunning = ''Running''"
| "current_name CurrentContinuePending = ''ContinuePending''"
| "current_name CurrentPausePending = ''PausePending''"
| "current_name CurrentPaused = ''Paused''"

definition startup_line :: "status_file \<Rightarrow> string" where
  "startup_line file =
    (case sf_state file of
      Running \<Rightarrow> ''Startup: Running (stage='' @ stage_as_str (sf_stage file) @ '', address=''
        @ (case sf_address file of Some a \<Rightarrow> a | None \<Rightarrow> ''unknown'') @ '')''
    | Failed \<Rightarrow> ''Startup: Failed (stage='' @ stage_as_str (sf_stage file) @ '', code=''
        @ show_nat (unat (case sf_code file of Some c \<Rightarrow> c | None \<Rightarrow> 0)) @ '')''
    | StartPending \<Rightarrow> ''Startup: StartPending (stage='' @ stage_as_str (sf_stage file) @ '')''
    | Stopped \<Rightarrow> ''Startup: Stopped'')"

definition startup_lines :: "status_file option \<Rightarrow> string list" where
  "startup_lines status =
    (case status of
      None \<Rightarrow> []
    | Some file \<Rightarrow>
        startup_line file # (case sf_reason file of Some r \<Rightarrow> [''Reason: '' @ r] | None \<Rightarrow> []))"

definition print_lines :: "'w scm \<Rightarrow> string list \<Rightarrow> 'w \<Rightarrow> 'w" where
  "print_lines S texts w = foldl (\<lambda>w t. scm_print S t w) w texts"

definition service_status :: "'w scm \<Rightarrow> 'w \<Rightarrow> ((string + unit) \<times> 'w) option" where
  "service_status S w =
    scm_try manager_error (scm_connect S [AccessConnect] w) (\<lambda>_ w.
    (case scm_open S SERVICE_NAME [AccessQueryStatus, AccessQueryConfig] w of
      (Inl _, w) \<Rightarrow> Some (Inr (), scm_print S (''Service '' @ quoted SERVICE_NAME @ '' is not installed.'') w)
    | (Inr _, w) \<Rightarrow>
        (case scm_query S SERVICE_NAME w of
          (Inl _, w) \<Rightarrow> Some (Inl ''unable to query service status'', scm_close S SERVICE_NAME w)
        | (Inr (cur, pid), w) \<Rightarrow>
            (let w = print_lines S (startup_lines (scm_status_file S w)
                   @ [''Service '' @ quoted SERVICE_NAME @ '': '' @ current_name cur @ '' (pid=''
                      @ show_nat (unat (case pid of Some p \<Rightarrow> p | None \<Rightarrow> 0)) @ '')'']) w
             in case scm_query_config S SERVICE_NAME w of
                  (Inr exe, w) \<Rightarrow> Some (Inr (), scm_close S SERVICE_NAME (scm_print S (''Executable: '' @ exe) w))
                | (Inl _, w) \<Rightarrow> Some (Inr (), scm_close S SERVICE_NAME w)))))"

section \<open>Controls of a running service\<close>

datatype scm_control = ControlStop | ControlShutdown | ControlInterrogate | ControlOther

datatype control_result = ControlNoError | ControlNotImplemented

text \<open>The state is the watched flag that asks the server to stop.\<close>

fun control_event :: "scm_control \<Rightarrow> bool \<Rightarrow> control_result \<times> bool" where
  "control_event ControlStop stop = (ControlNoError, True)"
| "control_event ControlShutdown stop = (ControlNoError, True)"
| "control_event ControlInterrogate stop = (ControlNoError, stop)"
| "control_event ControlOther stop = (ControlNotImplemented, stop)"

section \<open>The service process\<close>

text \<open>Files beside the executable. The directory is the argument, when the system could name it; joining adds a
  backslash unless there is one.\<close>

definition join_windows :: "string \<Rightarrow> string \<Rightarrow> string" where
  "join_windows dir name =
    (if dir \<noteq> [] \<and> last dir = CHR 0x5C then dir @ name else dir @ [CHR 0x5C] @ name)"

definition exe_dir :: "string option \<Rightarrow> string" where
  "exe_dir parent = (case parent of Some dir \<Rightarrow> dir | None \<Rightarrow> ''.'')"

definition state_file_path :: "string option \<Rightarrow> string" where
  "state_file_path parent = join_windows (exe_dir parent) ''service-state.json''"

definition console_log_path :: "string option \<Rightarrow> string" where
  "console_log_path parent = join_windows (exe_dir parent) ''skf-service.console.log''"

text \<open>The seconds since the epoch, none when the clock stands before it.\<close>

definition now_seconds :: "nat option \<Rightarrow> string" where
  "now_seconds clock1 = (case clock1 of Some n \<Rightarrow> show_nat n | None \<Rightarrow> [])"

text \<open>The thread the dispatcher starts, with the working directory it serves from: its failure goes to the
  log.\<close>

definition service_main ::
  "runtime \<Rightarrow> (string \<Rightarrow> 'p host) \<Rightarrow> (string \<Rightarrow> bool) \<Rightarrow> string option \<Rightarrow> string \<Rightarrow> (nat \<Rightarrow> nat option) \<Rightarrow> u32
    \<Rightarrow> string + unit \<Rightarrow> bool \<Rightarrow> bool \<Rightarrow> string + unit \<Rightarrow> service_event list \<times> string list" where
  "service_main R host_in exists parent cwd clock1 pid registered runtime_ok builder served =
    (case run_service R
        (host_in (prepare_working_directory exists parent (config_path (options_from_env R Service)) cwd))
        (\<lambda>n. now_seconds (clock1 n)) pid registered runtime_ok builder served of
      (events, Inl e) \<Rightarrow> (events, [''service main error: '' @ e])
    | (events, Inr _) \<Rightarrow> (events, []))"

text \<open>\<open>run\<close>: what it prints to the console log, and its result. A log that cannot be set up does not stop it.\<close>

definition service_process :: "string + unit \<Rightarrow> string + unit \<Rightarrow> string list \<times> (string + unit)" where
  "service_process logger dispatcher =
    ((case logger of Inl e \<Rightarrow> [''[skf-service] structured logging unavailable: '' @ e] | Inr _ \<Rightarrow> []),
     (case dispatcher of
       Inr _ \<Rightarrow> Inr ()
     | Inl e \<Rightarrow> Inl (''cannot run as a Windows service: '' @ e
         @ ''. If you started this process manually, omit '' @ quoted ''--service'' @ '' to run in foreground mode.'')))"

text \<open>The status file and the console log are different files, wherever the executable is.\<close>

lemma service_files_differ: "state_file_path parent \<noteq> console_log_path parent"
  by (simp add: state_file_path_def console_log_path_def join_windows_def)

section \<open>The command line\<close>

datatype command =
    Diagnose string string bool
  | Install | Uninstall | StartCommand | StopCommand | StatusCommand | RunService | RunConsole

definition value_after :: "string \<Rightarrow> string list \<Rightarrow> string option" where
  "value_after flag args = (case dropWhile (\<lambda>a. a \<noteq> flag) args of _ # v # _ \<Rightarrow> Some v | _ \<Rightarrow> None)"

definition diagnose_command :: "runtime \<Rightarrow> string list \<Rightarrow> command" where
  "diagnose_command R args =
    Diagnose
      (case value_after ''--config'' args of Some v \<Rightarrow> v | None \<Rightarrow> env_or R ''SKF_CONFIG'' ''config/skf.yaml'')
      (env_or R ''SKF_WS_ADDR'' ''127.0.0.1:9001'') (''--json'' \<in> set args)"

definition windows_command :: "string \<Rightarrow> command option" where
  "windows_command arg =
    map_of [(''install'', Install), (''uninstall'', Uninstall), (''start'', StartCommand), (''stop'', StopCommand),
      (''status'', StatusCommand), (''--service'', RunService)] arg"

definition main_command :: "runtime \<Rightarrow> bool \<Rightarrow> string list \<Rightarrow> command" where
  "main_command R windows args =
    (case args of
      _ # arg # _ \<Rightarrow>
        (if arg = ''diagnose'' then diagnose_command R args
         else if windows then (case windows_command arg of Some c \<Rightarrow> c | None \<Rightarrow> RunConsole)
         else RunConsole)
    | _ \<Rightarrow> RunConsole)"

definition run_diagnose ::
  "runtime \<Rightarrow> 'p diagnostic_host \<Rightarrow> (json \<Rightarrow> string) \<Rightarrow> status_file option \<Rightarrow> string \<Rightarrow> string \<Rightarrow> bool \<Rightarrow> string" where
  "run_diagnose R H pretty status config ws json =
    (let report = snd (diagnose R H config ws status)
     in if json then pretty (report_to_json report) else render_text report)"

section \<open>Properties\<close>

text \<open>What the loop relies on of the clock: it never goes back, and a sleep lasts at least as long as it
  was asked to.\<close>

definition steady_clock :: "'w scm \<Rightarrow> bool" where
  "steady_clock S \<longleftrightarrow>
    (\<forall>w d. scm_now S w + d \<le> scm_now S (scm_sleep S d w)) \<and> (\<forall>w n. scm_now S w \<le> scm_now S (scm_close S n w))
    \<and> (\<forall>w n a. scm_now S w \<le> scm_now S (snd (scm_open S n a w)))"

text \<open>A question to the service manager: one more call of \<open>asks\<close>, which nothing else in the loop raises.\<close>

definition counts_questions :: "'w scm \<Rightarrow> ('w \<Rightarrow> nat) \<Rightarrow> bool" where
  "counts_questions S asks \<longleftrightarrow>
    (\<forall>w d. asks (scm_sleep S d w) = asks w) \<and> (\<forall>w n. asks (scm_close S n w) = asks w)
    \<and> (\<forall>w n a. asks (snd (scm_open S n a w)) = Suc (asks w))"

lemma wait_rounds:
  assumes "steady_clock S" "counts_questions S asks"
    and "started + WAIT_DELETE_TIMEOUT \<le> scm_now S w + n * POLL_INTERVAL"
  shows "\<exists>w'. wait_until_removed S started WAIT_DELETE_TIMEOUT w = Some w' \<and> asks w' \<le> asks w + n
    \<and> (WAIT_DELETE_TIMEOUT \<le> scm_now S w' - started
      \<or> (\<exists>u e. scm_open S SERVICE_NAME [AccessQueryStatus] u = (Inl e, w')))"
  using assms(3)
proof (induction n arbitrary: w)
  case 0
  then have "\<not> scm_now S w - started < WAIT_DELETE_TIMEOUT" by simp
  then show ?case by (simp add: wait_until_removed.simps)
next
  case (Suc n)
  obtain r u where u: "scm_open S SERVICE_NAME [AccessQueryStatus] w = (r, u)"
    by (cases "scm_open S SERVICE_NAME [AccessQueryStatus] w")
  define v where "v = scm_sleep S POLL_INTERVAL (scm_close S SERVICE_NAME u)"
  have "scm_now S w \<le> scm_now S u" "scm_now S u \<le> scm_now S (scm_close S SERVICE_NAME u)"
    "scm_now S (scm_close S SERVICE_NAME u) + POLL_INTERVAL \<le> scm_now S v"
    using assms(1) u unfolding steady_clock_def v_def by (metis snd_conv)+
  then have late: "scm_now S w + POLL_INTERVAL \<le> scm_now S v" by linarith
  have asks: "asks u = Suc (asks w)" "asks v = Suc (asks w)"
    using assms(2) u unfolding counts_questions_def v_def by (metis snd_conv)+
  show ?case
  proof (cases "scm_now S w - started < WAIT_DELETE_TIMEOUT \<and> \<not> isl r")
    case True
    have "started + WAIT_DELETE_TIMEOUT \<le> scm_now S v + n * POLL_INTERVAL" using late Suc.prems by simp
    from Suc.IH [OF this] asks(2) True u show ?thesis
      by (subst wait_until_removed.simps) (auto simp: v_def split: sum.splits)
  next
    case False
    then show ?thesis
      using u asks(1) by (subst wait_until_removed.simps) (auto simp: isl_def split: sum.splits)
  qed
qed

lemma scm_ends:
  "(\<And>x w. k x w \<noteq> None) \<Longrightarrow> scm_try text r k \<noteq> None"
  "m \<noteq> None \<Longrightarrow> (\<And>x. f x \<noteq> None) \<Longrightarrow> Option.bind m f \<noteq> None"
  "(\<And>x. v = Some x \<Longrightarrow> g x \<noteq> None) \<Longrightarrow> d \<noteq> None \<Longrightarrow> (case v of None \<Rightarrow> d | Some x \<Rightarrow> g x) \<noteq> None"
  "(\<And>e u. r' = (Inl e, u) \<Longrightarrow> a e u \<noteq> None) \<Longrightarrow> (\<And>x u. r' = (Inr x, u) \<Longrightarrow> b x u \<noteq> None)
    \<Longrightarrow> (case r' of (Inl e, u) \<Rightarrow> a e u | (Inr x, u) \<Rightarrow> b x u) \<noteq> None"
  "(\<And>x y. q = (x, y) \<Longrightarrow> c x y \<noteq> None) \<Longrightarrow> (case q of (x, y) \<Rightarrow> c x y) \<noteq> None" "Some z \<noteq> None"
  by (auto simp: scm_try_def split: sum.split prod.split option.split)

text \<open>C30: Waiting for the removed service ends, and so do the commands that wait: with a clock that never goes
  back the service manager is asked at most 27 times, and the wait ends because the service is gone or
  because eight seconds have passed.\<close>

theorem wait_until_removed_ends:
  assumes "steady_clock S" and "counts_questions S asks"
  shows "(\<exists>w'. wait_until_removed S (scm_now S w) WAIT_DELETE_TIMEOUT w = Some w' \<and> asks w' \<le> asks w + 27
      \<and> (WAIT_DELETE_TIMEOUT \<le> scm_now S w' - scm_now S w
        \<or> (\<exists>u e. scm_open S SERVICE_NAME [AccessQueryStatus] u = (Inl e, w'))))
    \<and> install S w \<noteq> None \<and> uninstall S w \<noteq> None"
proof -
  have wait: "\<exists>w'. wait_until_removed S (scm_now S w) WAIT_DELETE_TIMEOUT w = Some w' \<and> asks w' \<le> asks w + 27
      \<and> (WAIT_DELETE_TIMEOUT \<le> scm_now S w' - scm_now S w
        \<or> (\<exists>u e. scm_open S SERVICE_NAME [AccessQueryStatus] u = (Inl e, w')))" for w
    by (rule wait_rounds [OF assms]) (simp add: WAIT_DELETE_TIMEOUT_def POLL_INTERVAL_def)
  then have ends: "wait_until_removed S (scm_now S w) WAIT_DELETE_TIMEOUT w \<noteq> None" for w by (metis option.distinct(1))
  then have "delete_if_present S w \<noteq> None" for w
    by (auto simp: delete_if_present_def Let_def split: sum.split prod.split)
  then have "install S w \<noteq> None" "uninstall S w \<noteq> None"
    unfolding install_def uninstall_def Let_def
    by (intro scm_ends(1-4,6) scm_ends(5) ends | assumption)+
  with wait show ?thesis by blast
qed

text \<open>A manager on which a service is never gone: its state is the clock and the number of questions.\<close>

definition stuck_scm :: "(duration \<times> nat \<times> string list) scm" where
  "stuck_scm =
    \<lparr>scm_connect = \<lambda>_ w. (Inr (), w), scm_open = \<lambda>_ _ (t, n, out). (Inr (), t, Suc n, out),
     scm_query = \<lambda>_ w. (Inr (CurrentRunning, Some 4), w), scm_query_config = \<lambda>_ w. (Inr ''skf-service.exe'', w),
     scm_start = \<lambda>_ w. (Inl ''already running'', w), scm_stop = \<lambda>_ w. (Inl ''access denied'', w),
     scm_delete = \<lambda>_ w. (Inl ''access denied'', w), scm_create = \<lambda>_ _ w. (Inl ''exists'', w),
     scm_describe = \<lambda>_ _ w. (Inr (), w), scm_close = \<lambda>_ w. w, scm_exe = \<lambda>_. Some ''skf-service.exe'',
     scm_now = fst, scm_sleep = \<lambda>d (t, w). (t + d, w), scm_print = \<lambda>s (t, n, out). (t, n, out @ [s]),
     scm_status_file = \<lambda>_. None\<rparr>"

lemma stuck_steady: "steady_clock stuck_scm" "counts_questions stuck_scm (\<lambda>(t, n, out). n)"
  by (auto simp: steady_clock_def counts_questions_def stuck_scm_def)

theorem wait_until_removed_ends_witness:
  "install stuck_scm (0, 0, []) \<noteq> None"
  using wait_until_removed_ends [OF stuck_steady] by blast

text \<open>Removing answers success without having removed: as soon as the service can be opened and its state
  read, \<open>uninstall\<close> prints that the service was removed, whether or not stopping it, deleting it and
  waiting for it had any effect.\<close>

theorem uninstall_claims_removed:
  assumes "steady_clock S" and "counts_questions S asks" and "scm_connect S [AccessConnect] w = (Inr (), w1)"
    and "scm_open S SERVICE_NAME [AccessQueryStatus, AccessStop, AccessDelete] w1 = (Inr (), w2)"
    and "scm_query S SERVICE_NAME w2 = (Inr (cur, pid), w3)"
  shows "\<exists>u. uninstall S w = Some (Inr (), scm_print S (''Service '' @ quoted SERVICE_NAME @ '' removed.'') u)"
proof -
  define v where "v = scm_close S SERVICE_NAME (snd (scm_delete S SERVICE_NAME
    (if cur \<noteq> CurrentStopped then snd (scm_stop S SERVICE_NAME w3) else w3)))"
  obtain u where "wait_until_removed S (scm_now S v) WAIT_DELETE_TIMEOUT v = Some u"
    using wait_rounds [OF assms(1,2), of "scm_now S v" v 27]
    by (auto simp: WAIT_DELETE_TIMEOUT_def POLL_INTERVAL_def)
  then show ?thesis using assms(3,4,5) by (auto simp: uninstall_def scm_try_def Let_def v_def)
qed

theorem uninstall_claims_removed_witness:
  "\<exists>u. uninstall stuck_scm (0, 0, []) =
      Some (Inr (), scm_print stuck_scm (''Service '' @ quoted SERVICE_NAME @ '' removed.'') u)
    \<and> fst (scm_open stuck_scm SERVICE_NAME [] u) = Inr ()"
proof -
  have "fst (scm_open stuck_scm SERVICE_NAME [] u) = Inr ()" for u by (simp add: stuck_scm_def split: prod.split)
  then show ?thesis
    using uninstall_claims_removed [OF stuck_steady, of "(0, 0, [])" "(0, 0, [])" "(0, 1, [])" CurrentRunning "Some 4" "(0, 1, [])"]
    by (simp add: stuck_scm_def)
qed

end
