(* ===== verification/Process.thy ===== *)
theory Process
  imports NativeServer ServiceControl
begin

text \<open>
  From the command line to the first client (\<open>src/main.rs\<close>, \<open>src/server/mod.rs\<close>): the process installs its
  session builder, the server binds, and the builder makes the context every session answers from out
  of the configuration that was loaded and the provider that was built for it.
\<close>

section \<open>Sessions for the server\<close>

record ('w, 'd, 'a, 'c, 'h) session_factory =
  factory_ctx :: "('w, 'd, 'a, 'c, 'h) skf_context"
  factory_ttl :: duration

text \<open>\<open>build_sessions\<close>: what the context needs of the process (the loader, the clock, the environment) comes
  as a context whose configuration and provider are replaced.\<close>

definition build_sessions ::
  "('w, 'd, 'a, 'c, 'h) skf_context \<Rightarrow> skf_config \<Rightarrow> ('w, 'd, 'a, 'c, 'h) provider
    \<Rightarrow> ('w, 'd, 'a, 'c, 'h) session_factory" where
  "build_sessions env config provider =
    \<lparr>factory_ctx = env\<lparr>sk_config := config, sk_provider := provider\<rparr>,
     factory_ttl = ttl_from_env (sk_runtime env)\<rparr>"

text \<open>Each accepted client starts in English with a session of its own.\<close>

definition factory_create ::
  "('w, 'd, 'a, 'c, 'h) session_factory \<Rightarrow> bytes \<Rightarrow> ('d, 'a, 'c, 'h) session_state \<times> language" where
  "factory_create F random16 = (new_session random16 (factory_ttl F), EN)"

text \<open>The clients of the server come from the factory.\<close>

lemma create_session_from_factory:
  "srv_conns (create_session random16 (factory_ttl F) \<sigma>) = srv_conns \<sigma> @ [factory_create F random16]"
  by (simp add: create_session_def factory_create_def)

section \<open>The console\<close>

text \<open>The host whose provider is the native one of the configuration, with the state loading leaves behind.\<close>

definition native_host ::
  "runtime \<Rightarrow> ('t native_world, native_device, native_application, native_container, native_digest) skf_context
    \<Rightarrow> 't native_world \<Rightarrow> 'q host \<Rightarrow> ('t native_skf_provider \<times> 't native_world) host" where
  "native_host R env w H =
    \<lparr>host_read = host_read H, host_yaml = host_yaml H, host_os = sk_os env,
     host_build = \<lambda>config. build_provider R (sk_arch env) (sk_os env) (sk_dlopen env) (sk_library env) config w,
     host_parse = host_parse H, host_resolve = host_resolve H, host_bind = host_bind H, host_show = host_show H\<rparr>"

text \<open>\<open>main\<close> without a command: the builder is installed first, then the server runs with the options of
  the environment. How serving ends is an argument.\<close>

definition run_console ::
  "('t native_world, native_device, native_application, native_container, native_digest) skf_context
    \<Rightarrow> 't native_world \<Rightarrow> (string \<Rightarrow> 'q host) \<Rightarrow> (string \<Rightarrow> bool) \<Rightarrow> string option \<Rightarrow> string
    \<Rightarrow> (bound_server \<Rightarrow> 't native_world
         \<Rightarrow> ('t native_world, native_device, native_application, native_container, native_digest) session_factory
         \<Rightarrow> string + unit)
    \<Rightarrow> startup_event list \<times> bound_server option \<times> (string + unit)" where
  "run_console env w host_in exists parent cwd serve =
    (let R = sk_runtime env
     in run_server R (\<lambda>dir. native_host R env w (host_in dir)) exists parent cwd (options_from_env R Console)
          (install_session_builder None (\<lambda>config (provider, _). build_sessions env config provider))
          (\<lambda>bound (_, w') sessions. serve bound w' sessions))"

text \<open>What loading the library at a path leaves: a provider over it, or one that tells why there is none.\<close>

definition loaded_provider ::
  "('t native_world, native_device, native_application, native_container, native_digest) skf_context
    \<Rightarrow> skf_config \<Rightarrow> string \<Rightarrow> 't native_world \<Rightarrow> 't native_skf_provider \<Rightarrow> 't native_world \<Rightarrow> bool" where
  "loaded_provider env config path w P w' \<longleftrightarrow>
    (case sk_dlopen env path w of
      (None, u) \<Rightarrow> w' = u \<and> P = native_provider (cfg_default config) (sk_library env path)
    | (Some detail, u) \<Rightarrow> w' = u \<and> P = unavailable_provider (sk_arch env) (cfg_default config)
        (error_to_string (LibraryLoadFailed path (sk_arch env) detail)))"

text \<open>Over libraries that load, the context the console serves is the one whose handles are balanced.\<close>

lemma console_context:
  assumes "loaded_provider (native_context M now c p) config path (native_start t) P w'"
  shows "w' = native_start t"
    "(native_context M now c p)\<lparr>sk_config := config, sk_provider := P\<rparr> = native_context M now config path"
  using assms by (simp_all add: loaded_provider_def native_context_def)

section \<open>An example\<close>

lemma token_console:
  "run_console token_service (native_start {#}) (\<lambda>_. example_host) (\<lambda>_. True) None []
      (\<lambda>_ _ F. Inl (cfg_default (sk_config (factory_ctx F))))
    = ([BindSocket \<lparr>sock_ip = V4 127 0 0 1, sock_port = 9001\<rparr>,
        ServeFiles ''api'' \<lparr>sock_ip = V4 127 0 0 1, sock_port = 8000\<rparr>],
       Some \<lparr>bound_ws = \<lparr>sock_ip = V4 127 0 0 1, sock_port = 9001\<rparr>,
         bound_http = Some \<lparr>sock_ip = V4 127 0 0 1, sock_port = 8000\<rparr>\<rparr>, Inl ''GM'')"
  by (simp add: run_console_def run_server_def bind_server_def bind_with_progress_def load_config_def native_host_def
      example_host_def options_from_env_def resolve_lib_path_def os_lookup_def http_address_def bind_listener_def
      resolve_bind_addr_def native_context_def build_sessions_def install_session_builder_def
      installed_session_builder_def serve_files_def env_or_def plain_runtime_def Let_def split: prod.split)

section \<open>Properties\<close>

text \<open>C26: What the process serves: a console run either ends with the text of a startup error before it serves
  anyone, or serves exactly the configuration that was read, over the library at the path that
  configuration names for this system, or over the provider that reports why it could not be loaded;
  the WebSocket socket is a loopback one unless remote clients are allowed, the only other one is that of
  the demonstration files when they have an address, and sessions authorise for at least a second. It
  never ends for want of a session builder.\<close>

theorem console_serves_configuration:
  assumes "run_console env w host_in exists parent cwd serve = (events, bound, res)"
    and "opts = options_from_env (sk_runtime env) Console"
    and "dir = prepare_working_directory exists parent (config_path opts) cwd"
  shows "(bound = None \<longrightarrow> (\<exists>e. res = Inl (startup_error_text e)))
    \<and> (\<forall>server. bound = Some server \<longrightarrow>
        (\<exists>config path ws P w' F.
          load_config (host_in dir) (config_path opts) = Inr config
          \<and> events = BindSocket ws # serve_files (sk_runtime env) server
          \<and> (is_loopback (sock_ip ws) \<or> allows_remote (sk_runtime env) config)
          \<and> resolve_lib_path (sk_runtime env) (libs config) (cfg_default config) (sk_os env) = Inr path
          \<and> loaded_provider env config path w P w' \<and> res = serve server w' F
          \<and> factory_ctx F = env\<lparr>sk_config := config, sk_provider := P\<rparr> \<and> from_secs 1 \<le> factory_ttl F))"
proof -
  let ?R = "sk_runtime env" and ?H = "native_host (sk_runtime env) env w (host_in dir)"
  note start = assms(1) [unfolded run_console_def run_server_def Let_def, folded assms(2), folded assms(3)]
  obtain es r where run: "bind_server ?R ?H opts = (es, r)" by (cases "bind_server ?R ?H opts")
  from run show ?thesis
  proof (cases rule: bind_server_cases)
    case (1 e)
    then show ?thesis using start run by auto
  next
    case (2 config ws server path)
    obtain P w' where b: "host_build ?H config = (P, w')" by (cases "host_build ?H config")
    let ?F = "build_sessions env config P"
    have served: "bound = Some server" "res = serve server w' ?F" "events = es @ serve_files ?R server"
      using start run 2(1,5) b
      by (simp_all add: install_session_builder_def installed_session_builder_def)
    have "load_config (host_in dir) (config_path opts) = Inr config"
      using 2(3) by (simp add: load_config_def native_host_def split: sum.splits)
    moreover have path: "resolve_lib_path ?R (libs config) (cfg_default config) (sk_os env) = Inr path"
      using 2(4) by (simp add: native_host_def)
    moreover have "loaded_provider env config path w P w'"
    proof -
      obtain l u where l: "sk_dlopen env path w = (l, u)" by (cases "sk_dlopen env path w")
      show ?thesis
        using b path l by (cases l)
          (simp_all add: loaded_provider_def native_host_def build_provider_def native_from_config_def native_new_def
            del: error_to_string.simps)
    qed
    moreover have "factory_ctx ?F = env\<lparr>sk_config := config, sk_provider := P\<rparr>" "from_secs 1 \<le> factory_ttl ?F"
      using ttl_from_env_bounds [of ?R] by (simp_all add: build_sessions_def)
    ultimately show ?thesis using served 2(1,2) by simp blast
  qed
qed

theorem console_serves_configuration_witness:
  "\<exists>config path P w'. load_config example_host (config_path (options_from_env (sk_runtime token_service) Console)) = Inr config
    \<and> resolve_lib_path (sk_runtime token_service) (libs config) (cfg_default config) ''linux'' = Inr path
    \<and> loaded_provider token_service config path (native_start {#}) P w'"
proof -
  have os: "sk_os token_service = ''linux''" by (simp add: native_context_def)
  show ?thesis
    using mp [OF spec [OF conjunct2 [OF console_serves_configuration [OF token_console refl refl]]] refl]
    unfolding os by (elim exE conjE) (intro exI conjI)
qed

end
