(* ===== verification/Spec2Isabelle.thy ===== *)
theory Spec2Isabelle
  imports Client Grants Answers Process
begin

text \<open>
  A verification library for \<open>liuzx-skf\<close>, a service that gives browser pages access to USB
  cryptographic tokens (the SKF interface) through JSON-RPC over a local WebSocket.

  \<^bold>\<open>The program.\<close> A WebSocket client sends one text per request. The connection
  (\<open>src/main.rs\<close>, \<open>JsonRpcSession\<close>) takes its session state, runs \<open>handle_request\<close> on the blocking pool
  under a timeout and puts the state back. \<open>handle_request\<close> checks the request and dispatches on the
  method: some branches use the session's own handles, some call the vendor's C library directly,
  most call a handler of \<open>src/domain/\<close>. A handler resolves a provider (\<open>src/provider/\<close>), opens a device,
  an application and a container, asks the session (\<open>src/session/\<close>) whether the PIN was verified, and
  drops every guard when it ends. The native provider keeps parents alive by reference counts and
  serialises its calls by one gate. \<open>src/server/mod.rs\<close> loads the configuration, binds the listener and
  admits at most 64 connections; \<open>src/win_service.rs\<close> runs it as a Windows service that reports to the
  service manager and to a status file (\<open>src/service_state.rs\<close>), which the \<open>diagnose\<close> command
  (\<open>src/diagnostic.rs\<close>) reads back.

  \<^bold>\<open>Theories\<close>, each with what its lemmas show.
  \<^item> \<open>Prelude\<close>, \<open>RustStr\<close>: machine types, outcomes with panic, lists as hash maps; the methods of Rust
    strings (UTF-8 bytes as characters), numbers in text and their round trips.
  \<^item> \<open>Protocol\<close> (\<open>src/protocol/\<close>): requests, responses, parameter readers; \<open>Base64\<close>: the contract of the
    base64 engine, a concrete engine that meets it, and the exact payload limit.
  \<^item> \<open>Der\<close> (\<open>src/crypto/mod.rs\<close>): the DER writer, read back by a reference parser.
  \<^item> \<open>Config\<close> (\<open>src/config/mod.rs\<close>): expansion, resolution and validation of library paths.
  \<^item> \<open>Classification\<close> (\<open>src/domain/classification.rs\<close>): the classes of the methods.
  \<^item> \<open>Auth\<close> (\<open>src/session/auth.rs\<close>): the deadline table, refined by a specification on the history of
    grants and lost devices; \<open>Handles\<close> (\<open>src/session/handles.rs\<close>): the four typed tables, as instances of
    one locale; \<open>Session\<close> (\<open>src/session/mod.rs\<close>, \<open>registry.rs\<close>): the session and the count of sessions as a
    step relation with its invariant.
  \<^item> \<open>Provider\<close> (\<open>src/provider/mod.rs\<close>): the trait as a record of operations on a state, and its contract,
    the locale \<open>provider_contract\<close>: what each operation does to the multiset of guards that exist.
    \<open>Fake\<close> (\<open>src/provider/fake.rs\<close>), the unavailable provider of \<open>src/server/mod.rs\<close> and
    \<open>Native\<close> (\<open>src/provider/native.rs\<close>) are proved to meet it; \<open>NativeGuards\<close> adds that a native guard's
    handle and those of its parents stay open, and that the gate is never taken twice.
  \<^item> \<open>Issue\<close> (\<open>src/main.rs\<close>, \<open>IssueCertificate\<close>): demonstration certificates made with an external program on
    files of the temporary directory; no request leaves a file, and the envelope of a double certificate
    opens to the new key.
  \<^item> \<open>Ffi\<close> (\<open>src/skf/api.rs\<close>): the symbols of a vendor library and the wrappers that answer for a missing
    one; \<open>Direct\<close>: the branches that call it themselves, with a ledger of open native handles.
  \<^item> \<open>Domain\<close>, \<open>Keys\<close>, \<open>Pin\<close>, \<open>Containers\<close>, \<open>Signing\<close> (\<open>src/domain/\<close>): the handlers, composed from
    combinators; each gives back every guard and adds no grant, \<open>CheckPIN\<close> excepted.
  \<^item> \<open>Dispatcher\<close>, \<open>Requests\<close> (\<open>src/main.rs\<close>): the request checks and the table of methods; what a request
    does to a session, its identifier, and what a session without a grant can reach. \<open>Answers\<close>: what a
    client of a connection gets back, and that generated keys serve in later requests.
  \<^item> \<open>Server\<close> (\<open>src/server/mod.rs\<close>, \<open>JsonRpcSession\<close>): admission, connections, requests under a timeout and
    their late end as one step relation; guards and slots are accounted for in every reachable state.
    \<open>Client\<close>: the loop over the frames of one client. \<open>Grants\<close>: every grant an open connection holds is
    traced back to the \<open>CheckPIN\<close> request that earned it.
  \<^item> \<open>Books\<close>: an invariant of the state behind the provider, carried through every handler, request and
    step of the server by the rules of a small program logic whose assertions are the guards at hand.
    \<open>NativeServer\<close> puts it to use: over vendor libraries that keep their promises the service leaves open
    exactly what its connections still hold.
  \<^item> \<open>ServiceState\<close>, \<open>Logging\<close>, \<open>Startup\<close>, \<open>Diagnostic\<close>: the status file and its replacement on disk, the
    rotating log, startup with its phases and the service run, the diagnostic report.
  \<^item> \<open>ServiceControl\<close> (\<open>src/win_service.rs\<close>, \<open>main\<close>): the commands that manage the service over the calls of the
    service manager, the wait for a removed service, the service process, and the command line. \<open>Process\<close>:
    a console run from the installed session builder to the context its clients are served from.

  \<^bold>\<open>Arguments of the model\<close>: what the code calls and does not contain. The base64 engine, Unicode tables,
  environment variables and the limit of the clock are the record \<open>runtime\<close>. The vendor's library is a
  record of functions on an arbitrary state, with its documented effect on open handles as a
  hypothesis where one is used. Loading a library, the certificate parser, the JSON and YAML texts, the
  resolver, the sockets and the outcome of each call of the file system are functions. A concrete
  instance shows each of these hypotheses can hold.

  \<^bold>\<open>Abstractions.\<close> A request runs atomically between the steps of other connections; the interleaving
  of steps is arbitrary. The gate is one flag that cannot be taken twice; one counter gives the
  exposed handles of all native providers. Reading past the end of a buffer that the vendor filled
  stops at its end. Allocation failure and the overflow of the log's byte count are left out. The
  balance of the library's handles over the whole service leaves out the two methods that miscount
  them (each has a theorem that says by how much) and a panic in a branch that calls the library
  itself. The polling loop of the service removal is a partial function; its clock allows at most 27
  rounds. The service handle a command holds is closed when the command ends, the manager's own handle
  is not followed.

  \<^bold>\<open>Not modelled\<close>: the redirection of the standard handles and the installation of the loggers; how the
  HTTP demonstration serves its files (that it listens is an event), the WebSocket upgrade and the framing of its messages, which are library code; the shutdown
  of the asynchronous runtime.
\<close>

end
